(* ===== verification/Prelude.thy ===== *)
theory Prelude
  imports Main "HOL-Library.List_Lexorder" "HOL-Library.Char_ord"
begin

text \<open>
  Shared ground of the development: the named collections of facts, the result type of fallible
  operations, and the generic lemmas on lists, options and arrays that the component theories use.

  Slices that a Go function allocates with the length of its input and only indexes by positions of
  that input are modelled as total functions on \<open>nat\<close> (type \<open>'a array\<close>): an assignment is a
  function update, and the loops that fill them run over \<open>[0..<n]\<close>.
\<close>

named_theorems keep_mono \<open>decision passes that only add keepers\<close>
named_theorems ev_frame \<open>which fields of the working state an operation leaves alone\<close>

type_synonym 'a array = "nat \<Rightarrow> 'a"

section \<open>Lists\<close>

lemma filter_same_if_all [simp]: "(\<And>x. x \<in> set xs \<Longrightarrow> P x) \<Longrightarrow> filter P xs = xs"
  by (induction xs) auto

lemma filter_nonempty_iff: "filter P xs \<noteq> [] \<longleftrightarrow> (\<exists>x\<in>set xs. P x)"
  by (auto simp: filter_empty_conv)

lemma length_filter_neq_less:
  assumes "x \<in> set xs"
  shows "length (filter (\<lambda>y. y \<noteq> x) xs) < length xs"
proof -
  have "filter (\<lambda>y. y \<noteq> x) xs \<noteq> xs"
    using assms by (metis (mono_tags, lifting) filter_id_conv)
  then show ?thesis
    by (metis (mono_tags, lifting) length_filter_less assms)
qed

lemma hd_in_subset: "xs \<noteq> [] \<Longrightarrow> set xs \<subseteq> A \<Longrightarrow> hd xs \<in> A"
  by (cases xs) auto

lemma fold_invariant:
  assumes "P s" and "\<And>x s. x \<in> set xs \<Longrightarrow> P s \<Longrightarrow> P (f x s)"
  shows "P (fold f xs s)"
  using assms by (induction xs arbitrary: s) auto

text \<open>Appending a string unless it is already there: the de-duplicating loops of the code.\<close>

definition add_new :: "'a \<Rightarrow> 'a list \<Rightarrow> 'a list" where
  "add_new x xs = (if x \<in> set xs then xs else xs @ [x])"

lemma set_add_new [simp]: "set (add_new x xs) = insert x (set xs)"
  by (auto simp: add_new_def)

lemma distinct_add_new [simp]: "distinct (add_new x xs) = distinct xs"
  by (auto simp: add_new_def)

text \<open>\<open>dedup xs\<close> keeps the first occurrence of every element, in order.\<close>

definition dedup :: "'a list \<Rightarrow> 'a list" where
  "dedup xs = fold add_new xs []"

lemma set_fold_add_new: "set (fold add_new xs acc) = set xs \<union> set acc"
  by (induction xs arbitrary: acc) auto

lemma dedup_Nil [simp]: "dedup [] = []"
  by (simp add: dedup_def)

lemma set_dedup [simp]: "set (dedup xs) = set xs"
  by (simp add: dedup_def set_fold_add_new)

lemma distinct_fold_add_new: "distinct acc \<Longrightarrow> distinct (fold add_new xs acc)"
  by (induction xs arbitrary: acc) auto

lemma distinct_dedup [simp]: "distinct (dedup xs)"
  by (simp add: dedup_def distinct_fold_add_new)

lemma length_dedup_card: "length (dedup xs) = card (set xs)"
  by (metis distinct_card distinct_dedup set_dedup)

text \<open>A sorted list is determined by its set when it has no repetition.\<close>

lemma sort_dedup_cong:
  fixes xs ys :: "'a::linorder list"
  shows "set xs = set ys \<Longrightarrow> sort (dedup xs) = sort (dedup ys)"
  by (metis distinct_dedup set_dedup sorted_list_of_set_sort_remdups distinct_remdups_id)

section \<open>Arrays as functions\<close>

definition array_of :: "'a list \<Rightarrow> 'a \<Rightarrow> 'a array" where
  "array_of xs d = (\<lambda>i. if i < length xs then xs ! i else d)"

lemma array_of_nth [simp]: "i < length xs \<Longrightarrow> array_of xs d i = xs ! i"
  by (simp add: array_of_def)

text \<open>The array of the values of a function at the elements of a list.\<close>

definition vat :: "('v \<Rightarrow> 'a) \<Rightarrow> 'v list \<Rightarrow> 'a array" where
  "vat f vs i = f (vs ! i)"

lemma vat_nth [simp]: "vat f vs i = f (vs ! i)"
  by (simp add: vat_def)

section \<open>Association lists as Go maps\<close>

text \<open>\<open>push_key k v m\<close> is \<open>m[k] = append(m[k], v)\<close>; a new key goes to the end.\<close>

fun push_key :: "'k \<Rightarrow> 'v \<Rightarrow> ('k \<times> 'v list) list \<Rightarrow> ('k \<times> 'v list) list" where
  "push_key k v [] = [(k, [v])]"
| "push_key k v ((k', vs) # m) =
     (if k = k' then (k', vs @ [v]) # m else (k', vs) # push_key k v m)"

definition members_of :: "('k \<times> 'v list) list \<Rightarrow> 'k \<Rightarrow> 'v list" where
  "members_of m k = (case map_of m k of None \<Rightarrow> [] | Some vs \<Rightarrow> vs)"

lemma members_of_push [simp]:
  "members_of (push_key k v m) k' = (if k = k' then members_of m k @ [v] else members_of m k')"
  by (induction k v m rule: push_key.induct) (auto simp: members_of_def split: option.splits)

lemma keys_push [simp]: "fst ` set (push_key k v m) = insert k (fst ` set m)"
  by (induction k v m rule: push_key.induct) auto

lemma distinct_push: "distinct (map fst m) \<Longrightarrow> distinct (map fst (push_key k v m))"
proof (induction k v m rule: push_key.induct)
  case (2 k v k' vs m)
  then show ?case
    using keys_push[of k v m] by (auto simp: image_iff)
qed simp

text \<open>Grouping a list by a key: the value of every key is the list of its elements, in order.\<close>

definition push_by :: "('a \<Rightarrow> 'k) \<Rightarrow> 'a \<Rightarrow> ('k \<times> 'a list) list \<Rightarrow> ('k \<times> 'a list) list" where
  "push_by f x m = push_key (f x) x m"

definition group_by :: "('a \<Rightarrow> 'k) \<Rightarrow> 'a list \<Rightarrow> ('k \<times> 'a list) list" where
  "group_by f xs = fold (push_by f) xs []"

lemma members_fold_push:
  "members_of (fold (push_by f) xs m) k = members_of m k @ filter (\<lambda>x. f x = k) xs"
  by (induction xs arbitrary: m) (auto simp: push_by_def)

lemma members_group_by [simp]: "members_of (group_by f xs) k = filter (\<lambda>x. f x = k) xs"
  by (simp add: group_by_def members_fold_push) (simp add: members_of_def)

lemma keys_fold_push:
  "fst ` set (fold (push_by f) xs m) = f ` set xs \<union> fst ` set m"
  by (induction xs arbitrary: m) (auto simp: push_by_def)

lemma keys_group_by [simp]: "fst ` set (group_by f xs) = f ` set xs"
  by (simp add: group_by_def keys_fold_push)

lemma distinct_group_by: "distinct (map fst (group_by f xs))"
proof -
  have "distinct (map fst m) \<Longrightarrow> distinct (map fst (fold (push_by f) xs m))" for m
    by (induction xs arbitrary: m) (auto simp: distinct_push push_by_def)
  then show ?thesis by (simp add: group_by_def)
qed

lemma group_by_entry:
  assumes "(k, vs) \<in> set (group_by f xs)"
  shows "vs = filter (\<lambda>x. f x = k) xs"
proof -
  have "map_of (group_by f xs) k = Some vs"
    using assms distinct_group_by by (metis map_of_is_SomeI)
  then show ?thesis using members_group_by[of f xs k] by (simp add: members_of_def)
qed

section \<open>Sorting\<close>

text \<open>
  Stable insertion sort by a strict order: \<open>sort.SliceStable\<close>, and \<open>sort.Slice\<close> on lists without
  equivalent elements.
\<close>

fun insert_by :: "('a \<Rightarrow> 'a \<Rightarrow> bool) \<Rightarrow> 'a \<Rightarrow> 'a list \<Rightarrow> 'a list" where
  "insert_by lt x [] = [x]"
| "insert_by lt x (y # ys) = (if lt y x then y # insert_by lt x ys else x # y # ys)"

definition sort_by :: "('a \<Rightarrow> 'a \<Rightarrow> bool) \<Rightarrow> 'a list \<Rightarrow> 'a list" where
  "sort_by lt xs = foldr (insert_by lt) xs []"

lemma sort_by_simps [simp]:
  "sort_by lt [] = []" "sort_by lt (x # xs) = insert_by lt x (sort_by lt xs)"
  by (simp_all add: sort_by_def)

lemma set_insert_by [simp]: "set (insert_by lt x xs) = insert x (set xs)"
  by (induction xs) auto

lemma set_sort_by [simp]: "set (sort_by lt xs) = set xs"
  by (induction xs) auto

lemma length_insert_by [simp]: "length (insert_by lt x xs) = Suc (length xs)"
  by (induction xs) auto

lemma length_sort_by [simp]: "length (sort_by lt xs) = length xs"
  by (induction xs) auto

lemma distinct_map_insert_by [simp]:
  "distinct (map f (insert_by lt x xs)) \<longleftrightarrow> f x \<notin> f ` set xs \<and> distinct (map f xs)"
  by (induction xs) auto

lemma distinct_map_sort_by [simp]: "distinct (map f (sort_by lt xs)) = distinct (map f xs)"
  by (induction xs) auto

lemma distinct_sort_by [simp]: "distinct (sort_by lt xs) = distinct xs"
  using distinct_map_sort_by[of id] by simp

text \<open>Sorting by a strict order whose negation is transitive gives a sorted list.\<close>

lemma sorted_insert_by:
  assumes asym: "\<And>x y. lt x y \<Longrightarrow> \<not> lt y x"
    and trans: "\<And>x y z. \<not> lt y x \<Longrightarrow> \<not> lt z y \<Longrightarrow> \<not> lt z x"
    and "sorted_wrt (\<lambda>x y. \<not> lt y x) xs"
  shows "sorted_wrt (\<lambda>x y. \<not> lt y x) (insert_by lt x xs)"
  using assms(3)
proof (induction xs)
  case (Cons y ys)
  then have *: "sorted_wrt (\<lambda>x y. \<not> lt y x) (insert_by lt x ys)" "\<And>z. z \<in> set ys \<Longrightarrow> \<not> lt z y" by auto
  show ?case
  proof (cases "lt y x")
    case True
    then have "\<not> lt x y" by (rule asym)
    then show ?thesis using True * by auto
  next
    case False
    then have "\<not> lt z x" if "z \<in> set ys" for z by (rule trans[OF _ *(2)[OF that]])
    then show ?thesis using False Cons.prems by auto
  qed
qed simp

lemma sorted_sort_by:
  assumes "\<And>x y. lt x y \<Longrightarrow> \<not> lt y x"
    and "\<And>x y z. \<not> lt y x \<Longrightarrow> \<not> lt z y \<Longrightarrow> \<not> lt z x"
  shows "sorted_wrt (\<lambda>x y. \<not> lt y x) (sort_by lt xs)"
proof (induction xs)
  case (Cons x xs)
  show ?case unfolding sort_by_simps by (rule sorted_insert_by) (fact assms Cons)+
qed simp

end
