(* ===== verification/UnionFind.thy ===== *)
theory UnionFind
  imports Prelude
begin

text \<open>
  The union-find structure of \<open>internal/engine/helpers.go\<close> (\<open>unionFind\<close>: a parent array, \<open>find\<close> with
  path halving, \<open>union\<close> keeping the smaller root) and the loop that three places of the engine run
  over it (\<open>sameFileComponents\<close>, \<open>idComponents\<close>, \<open>languageParts\<close>): the first owner of every key is
  remembered, and a later owner is joined with it.

  The locale \<open>disjoint_sets\<close> states what the loop needs of the structure; its client lemma says that
  two elements end up in one set exactly when a chain of shared keys connects them.
\<close>

section \<open>The structure\<close>

type_synonym unionFind = "nat list"

definition newUnionFind :: "nat \<Rightarrow> unionFind" where
  "newUnionFind n = [0..<n]"

definition uf_invar :: "unionFind \<Rightarrow> bool" where
  "uf_invar p \<longleftrightarrow> (\<forall>i<length p. p ! i \<le> i)"

text \<open>
  The loop of \<open>find\<close>: \<open>for parent[i] != i { parent[i] = parent[parent[i]]; i = parent[i] }\<close>. Every
  parent array the structure builds satisfies \<open>uf_invar\<close> (\<open>uf_union_invar\<close>), under which the loop test
  below is the source's (\<open>uf_loop_test\<close>).
\<close>

function uf_find :: "unionFind \<Rightarrow> nat \<Rightarrow> unionFind \<times> nat" where
  "uf_find p i =
     (if i < length p \<and> p ! i < i
      then let q = p[i := p ! (p ! i)] in (if q ! i < i then uf_find q (q ! i) else (q, q ! i))
      else (p, i))"
  by pat_completeness auto
termination
  by (relation "measure snd") auto

definition uf_union :: "unionFind \<Rightarrow> nat \<Rightarrow> nat \<Rightarrow> unionFind" where
  "uf_union p i j =
     (case uf_find p i of (p1, ri) \<Rightarrow>
        (case uf_find p1 j of (p2, rj) \<Rightarrow>
           (if ri < rj then p2[rj := ri] else if rj < ri then p2[ri := rj] else p2)))"

declare uf_find.simps [simp del]

lemma uf_loop_test: "uf_invar p \<Longrightarrow> i < length p \<Longrightarrow> p ! i < i \<longleftrightarrow> p ! i \<noteq> i"
  by (auto simp: uf_invar_def order.strict_iff_order)

text \<open>The root of an element, without path halving.\<close>

function uf_root :: "unionFind \<Rightarrow> nat \<Rightarrow> nat" where
  "uf_root p i = (if i < length p \<and> p ! i < i then uf_root p (p ! i) else i)"
  by pat_completeness auto
termination
  by (relation "measure snd") auto

declare uf_root.simps [simp del]

section \<open>find and union\<close>

lemma uf_root_le: "uf_root p i \<le> i"
proof (induction p i rule: uf_root.induct)
  case (1 p i)
  then show ?case by (cases "i < length p \<and> p ! i < i") (auto simp: uf_root.simps[of p i])
qed

lemma uf_root_fix: "\<not> (uf_root p i < length p \<and> p ! uf_root p i < uf_root p i)"
proof (induction p i rule: uf_root.induct)
  case (1 p i)
  then show ?case by (cases "i < length p \<and> p ! i < i") (auto simp: uf_root.simps[of p i])
qed

lemma uf_root_idem [simp]: "uf_root p (uf_root p i) = uf_root p i"
  using uf_root_fix[of p i] by (subst uf_root.simps) auto

lemma uf_root_parent: "i < length p \<Longrightarrow> p ! i < i \<Longrightarrow> uf_root p (p ! i) = uf_root p i"
  by (simp add: uf_root.simps[of p i])

text \<open>Redirecting an element to a smaller element of its set changes no root.\<close>

lemma uf_root_update_above: "j < i \<Longrightarrow> uf_root (p[i := k]) j = uf_root p j"
proof (induction j rule: less_induct)
  case (less j)
  then show ?case by (subst (1 2) uf_root.simps) auto
qed

lemma uf_root_redirect:
  assumes "uf_root p k = uf_root p i" and "k < i"
  shows "uf_root (p[i := k]) j = uf_root p j"
proof (induction j rule: less_induct)
  case (less j)
  show ?case
  proof (cases "j = i")
    case True
    have "uf_root (p[i := k]) i = uf_root p i" if "i < length p"
      using that assms uf_root_update_above[OF assms(2)] by (subst uf_root.simps) simp
    then show ?thesis using True by (cases "i < length p") (simp_all add: list_update_beyond)
  next
    case False
    then show ?thesis using less by (subst (1 2) uf_root.simps) auto
  qed
qed

lemma newUnionFind_length: "length (newUnionFind n) = n"
  by (simp add: newUnionFind_def)

lemma uf_invar_new [simp]: "uf_invar (newUnionFind n)"
  by (simp add: uf_invar_def newUnionFind_def)

lemma uf_root_new [simp]: "uf_root (newUnionFind n) i = i"
  by (subst uf_root.simps) (auto simp: newUnionFind_def)

lemma uf_invar_update: "uf_invar p \<Longrightarrow> k \<le> i \<Longrightarrow> uf_invar (p[i := k])"
  unfolding uf_invar_def by (metis length_list_update nth_list_update_eq nth_list_update_neq)

text \<open>
  \<open>find\<close> returns the root, keeps the invariant and changes no root: one loop pass redirects an
  element to its grandparent.
\<close>

lemma uf_find_correct:
  assumes "uf_invar p" and "uf_find p i = (q, r)"
  shows "r = uf_root p i \<and> uf_invar q \<and> length q = length p \<and> (\<forall>j. uf_root q j = uf_root p j)"
  using assms
proof (induction p i arbitrary: q r rule: uf_find.induct)
  case (1 p i)
  show ?case
  proof (cases "i < length p \<and> p ! i < i")
    case True
    define g where "g = p ! (p ! i)"
    have le: "g \<le> p ! i" using True 1(2) by (auto simp: uf_invar_def g_def)
    then have gi: "g < i" using True by linarith
    have root: "uf_root p g = uf_root p i"
    proof (cases "g < p ! i")
      case True
      then show ?thesis
        using \<open>i < length p \<and> p ! i < i\<close> uf_root_parent[of "p ! i" p] uf_root_parent[of i p]
        by (simp add: g_def)
    next
      case False
      then show ?thesis using le True uf_root_parent[of i p] by (simp add: g_def)
    qed
    let ?p' = "p[i := g]"
    have inv': "uf_invar ?p'" using 1(2) gi by (simp add: uf_invar_update)
    have keep: "\<forall>j. uf_root ?p' j = uf_root p j" using uf_root_redirect[OF root gi] by simp
    have rec: "uf_find ?p' g = (q, r)"
      using 1(3) True gi by (simp add: uf_find.simps[of p i] g_def[symmetric] Let_def)
    have "r = uf_root ?p' g \<and> uf_invar q \<and> length q = length ?p' \<and>
        (\<forall>j. uf_root q j = uf_root ?p' j)"
      using 1(1)[OF True refl _ _ , of q r] rec inv' gi True by (simp add: g_def[symmetric])
    then show ?thesis using keep root by simp
  next
    case False
    then have "uf_find p i = (p, i)" by (subst uf_find.simps) auto
    then have "q = p" "r = i" using 1(3) by simp_all
    moreover have "uf_root p i = i" using False by (subst uf_root.simps) auto
    ultimately show ?thesis using 1(2) by simp
  qed
qed

lemma uf_root_lt: "uf_invar p \<Longrightarrow> i < length p \<Longrightarrow> uf_root p i < length p"
  using uf_root_le[of p i] by linarith

text \<open>\<open>union\<close> gives the elements of both sets the smaller of the two roots.\<close>

lemma uf_root_link:
  assumes "uf_invar p" and "a < b" and "b < length p" and "uf_root p a = a" and "uf_root p b = b"
  shows "uf_root (p[b := a]) k = (if uf_root p k = b then a else uf_root p k)"
proof (induction k rule: less_induct)
  case (less k)
  have up: "uf_root (p[b := a]) a = a"
    using uf_root_update_above[OF \<open>a < b\<close>] assms(4) by simp
  show ?case
  proof (cases "k = b")
    case True
    have "uf_root (p[b := a]) b = uf_root (p[b := a]) a"
      using assms(2,3) by (subst uf_root.simps) simp
    then show ?thesis using True up assms(5) by simp
  next
    case False
    show ?thesis
    proof (cases "k < length p \<and> p ! k < k")
      case True
      then have "uf_root (p[b := a]) k = uf_root (p[b := a]) (p ! k)"
        using False by (subst uf_root.simps) simp
      then show ?thesis using less[of "p ! k"] True uf_root_parent[of k p] by simp
    next
      case no: False
      have "uf_root (p[b := a]) k = k" using no False by (subst uf_root.simps) auto
      moreover have "uf_root p k = k" using no by (subst uf_root.simps) auto
      ultimately show ?thesis using False by simp
    qed
  qed
qed

lemma uf_union_correct:
  assumes "uf_invar p" and "i < length p" and "j < length p"
  shows "uf_invar (uf_union p i j) \<and> length (uf_union p i j) = length p \<and>
    (\<forall>k. uf_root (uf_union p i j) k =
       (if uf_root p k \<in> {uf_root p i, uf_root p j}
        then min (uf_root p i) (uf_root p j) else uf_root p k))"
proof -
  obtain p1 ri where f1: "uf_find p i = (p1, ri)" by fastforce
  obtain p2 rj where f2: "uf_find p1 j = (p2, rj)" by fastforce
  note c1 = uf_find_correct[OF assms(1) f1]
  then have i1: "uf_invar p1" by simp
  note c2 = uf_find_correct[OF i1 f2]
  have ri: "ri = uf_root p i" "uf_root p2 ri = ri" and rj: "rj = uf_root p j" "uf_root p2 rj = rj"
    using c1 c2 by simp_all
  have lt: "ri < length p2" "rj < length p2"
    using uf_root_lt[OF assms(1)] assms c1 c2 ri rj by simp_all
  have inv2: "uf_invar p2" and eq: "\<And>k. uf_root p2 k = uf_root p k" and len: "length p2 = length p"
    using c1 c2 by simp_all
  consider "ri < rj" | "rj < ri" | "ri = rj" by linarith
  then show ?thesis
  proof cases
    case 1
    then show ?thesis
      using uf_root_link[OF inv2 1 lt(2) ri(2) rj(2)] inv2 eq len ri(1) rj(1)
      by (auto simp: uf_union_def f1 f2 uf_invar_update)
  next
    case 2
    then show ?thesis
      using uf_root_link[OF inv2 2 lt(1) rj(2) ri(2)] inv2 eq len ri(1) rj(1)
      by (auto simp: uf_union_def f1 f2 uf_invar_update)
  next
    case 3
    then show ?thesis using inv2 eq len ri rj by (auto simp: uf_union_def f1 f2)
  qed
qed

section \<open>Linking the owners of shared keys\<close>

text \<open>
  One step of the loop for element \<open>i\<close> and key \<open>k\<close>: \<open>if j, ok := first[k]; ok { uf.union(i, j) } else
  { first[k] = i }\<close>; and the whole loop over the elements and their keys.
\<close>

definition link_key :: "('u \<Rightarrow> nat \<Rightarrow> nat \<Rightarrow> 'u) \<Rightarrow> nat \<Rightarrow> 'k \<Rightarrow> 'u \<times> ('k \<rightharpoonup> nat) \<Rightarrow> 'u \<times> ('k \<rightharpoonup> nat)" where
  "link_key un i k s =
     (case snd s k of Some j \<Rightarrow> (un (fst s) i j, snd s) | None \<Rightarrow> (fst s, (snd s)(k \<mapsto> i)))"

definition link_all ::
    "('u \<Rightarrow> nat \<Rightarrow> nat \<Rightarrow> 'u) \<Rightarrow> 'u \<Rightarrow> (nat \<Rightarrow> 'k list) \<Rightarrow> nat \<Rightarrow> 'u \<times> ('k \<rightharpoonup> nat)" where
  "link_all un u keys n = fold (\<lambda>i. fold (link_key un i) (keys i)) [0..<n] (u, Map.empty)"

text \<open>Two elements share a key; the pairs processed so far decide which.\<close>

definition shares :: "(nat \<times> 'k) set \<Rightarrow> (nat \<times> nat) set" where
  "shares P = {(a, b). \<exists>k. (a, k) \<in> P \<and> (b, k) \<in> P}"

definition owned :: "(nat \<Rightarrow> 'k list) \<Rightarrow> nat \<Rightarrow> (nat \<times> 'k) set" where
  "owned keys n = {(i, k). i < n \<and> k \<in> set (keys i)}"

lemma shares_sym: "sym (shares P)"
  by (auto simp: shares_def sym_def)

lemma rtrancl_sym_pair:
  assumes "sym E"
  shows "(a, b) \<in> (E \<union> {(i, j), (j, i)})\<^sup>* \<longleftrightarrow>
    (a, b) \<in> E\<^sup>* \<or> (a, i) \<in> E\<^sup>* \<and> (j, b) \<in> E\<^sup>* \<or> (a, j) \<in> E\<^sup>* \<and> (i, b) \<in> E\<^sup>*" (is "?l \<longleftrightarrow> ?r")
proof
  assume ?l
  then show ?r
    by (induction rule: rtrancl_induct) (auto intro: rtrancl_into_rtrancl)
next
  have mono: "E\<^sup>* \<subseteq> (E \<union> {(i, j), (j, i)})\<^sup>*" by (rule rtrancl_mono) auto
  have ij: "(i, j) \<in> (E \<union> {(i, j), (j, i)})\<^sup>*" "(j, i) \<in> (E \<union> {(i, j), (j, i)})\<^sup>*" by auto
  assume ?r
  then show ?l
    using mono ij by (meson rtrancl_trans subsetD)
qed

text \<open>A new owner of a known key adds nothing to the closure beyond its link to one owner.\<close>

lemma shares_insert_closure:
  assumes "(j, k) \<in> P"
  shows "(shares (insert (i, k) P))\<^sup>* = (shares P \<union> {(i, j), (j, i)})\<^sup>*"
proof (rule antisym)
  let ?R = "(shares P \<union> {(i, j), (j, i)})\<^sup>*"
  have "shares (insert (i, k) P) \<subseteq> ?R"
  proof
    fix x assume "x \<in> shares (insert (i, k) P)"
    then obtain a b k' where x: "x = (a, b)"
      and ab: "(a, k') \<in> insert (i, k) P" "(b, k') \<in> insert (i, k) P"
      by (auto simp: shares_def)
    have toj: "(c, j) \<in> ?R" "(j, c) \<in> ?R" if "(c, k) \<in> insert (i, k) P" for c
      using that assms by (auto simp: shares_def)
    show "x \<in> ?R"
    proof (cases "k' = k")
      case True
      then show ?thesis using x toj ab by (meson rtrancl_trans)
    next
      case False
      then show ?thesis using x ab by (auto simp: shares_def)
    qed
  qed
  then show "(shares (insert (i, k) P))\<^sup>* \<subseteq> ?R" by (metis rtrancl_idemp rtrancl_mono)
  have "shares P \<union> {(i, j), (j, i)} \<subseteq> shares (insert (i, k) P)"
    using assms by (auto simp: shares_def)
  then show "?R \<subseteq> (shares (insert (i, k) P))\<^sup>*" by (rule rtrancl_mono)
qed

lemma shares_insert_new:
  assumes "\<And>j. (j, k) \<notin> P"
  shows "(shares (insert (i, k) P))\<^sup>* = (shares P)\<^sup>*"
proof -
  have "shares (insert (i, k) P) = shares P \<union> {(i, i)}"
    using assms by (auto simp: shares_def)
  then show ?thesis
    by (simp add: rtrancl_Un_rtrancl[symmetric]) (metis Un_insert_right rtrancl_idemp rtrancl_reflcl
        rtrancl_subset subset_insertI sup_bot_right insert_subset rtrancl.rtrancl_refl r_into_rtrancl subsetI)
qed

locale disjoint_sets =
  fixes init :: "nat \<Rightarrow> 'u"
    and un :: "'u \<Rightarrow> nat \<Rightarrow> nat \<Rightarrow> 'u"
    and same :: "'u \<Rightarrow> nat \<Rightarrow> nat \<Rightarrow> bool"
    and ok :: "nat \<Rightarrow> 'u \<Rightarrow> bool"
  assumes ok_init: "ok n (init n)"
    and same_init: "same (init n) a b \<longleftrightarrow> a = b"
    and ok_un: "ok n u \<Longrightarrow> i < n \<Longrightarrow> j < n \<Longrightarrow> ok n (un u i j)"
    and same_un: "ok n u \<Longrightarrow> i < n \<Longrightarrow> j < n \<Longrightarrow> same (un u i j) a b \<longleftrightarrow>
      same u a b \<or> same u a i \<and> same u j b \<or> same u a j \<and> same u i b"
begin

definition linked :: "nat \<Rightarrow> (nat \<times> 'k) set \<Rightarrow> 'u \<times> ('k \<rightharpoonup> nat) \<Rightarrow> bool" where
  "linked n P s \<longleftrightarrow> ok n (fst s) \<and> (\<forall>a b. same (fst s) a b \<longleftrightarrow> (a, b) \<in> (shares P)\<^sup>*) \<and>
     (\<forall>k j. snd s k = Some j \<longrightarrow> (j, k) \<in> P) \<and> (\<forall>k j. snd s k = None \<longrightarrow> (j, k) \<notin> P) \<and>
     (\<forall>a k. (a, k) \<in> P \<longrightarrow> a < n)"

lemma linked_step:
  assumes "linked n P s" and "i < n"
  shows "linked n (insert (i, k) P) (link_key un i k s)"
proof (cases "snd s k")
  case None
  then have "\<And>j. (j, k) \<notin> P" using assms by (simp add: linked_def)
  then show ?thesis
    using None assms by (auto simp: linked_def link_key_def shares_insert_new)
next
  case (Some j)
  then have jk: "(j, k) \<in> P" using assms by (simp add: linked_def)
  then have "j < n" using assms by (auto simp: linked_def)
  have "same (un (fst s) i j) a b \<longleftrightarrow> (a, b) \<in> (shares (insert (i, k) P))\<^sup>*" for a b
    using same_un[of n "fst s" i j] assms \<open>j < n\<close> rtrancl_sym_pair[OF shares_sym, of a b P i j]
    unfolding shares_insert_closure[OF jk] by (simp add: linked_def)
  then show ?thesis
    using Some assms jk \<open>j < n\<close> ok_un by (auto simp: linked_def link_key_def)
qed

lemma linked_keys:
  assumes "linked n P s" and "i < n"
  shows "linked n (P \<union> Pair i ` set ks) (fold (link_key un i) ks s)"
  using assms
proof (induction ks arbitrary: P s)
  case (Cons k ks)
  then show ?case using linked_step[of n P s i k] by (fastforce simp: insert_commute)
qed simp

lemma linked_upto: "m \<le> n \<Longrightarrow>
    linked n (owned keys m) (fold (\<lambda>i. fold (link_key un i) (keys i)) [0..<m] (init n, Map.empty))"
proof (induction m)
  case 0
  then show ?case by (simp add: linked_def ok_init same_init owned_def shares_def)
next
  case (Suc m)
  then have "linked n (owned keys m \<union> Pair m ` set (keys m))
      (fold (link_key un m) (keys m) (fold (\<lambda>i. fold (link_key un i) (keys i)) [0..<m] (init n, Map.empty)))"
    by (intro linked_keys) simp_all
  moreover have "owned keys m \<union> Pair m ` set (keys m) = owned keys (Suc m)"
    by (auto simp: owned_def less_Suc_eq)
  ultimately show ?case by simp
qed

lemma same_link_all:
  "same (fst (link_all un (init n) keys n)) a b \<longleftrightarrow> (a, b) \<in> (shares (owned keys n))\<^sup>*"
  using linked_upto[of n n keys] by (simp add: linked_def link_all_def)

lemma ok_link_all: "ok n (fst (link_all un (init n) keys n))"
  using linked_upto[of n n keys] by (simp add: linked_def link_all_def)

end

interpretation uf: disjoint_sets newUnionFind uf_union "\<lambda>p a b. uf_root p a = uf_root p b"
    "\<lambda>n p. uf_invar p \<and> length p = n"
proof unfold_locales
  fix n u i j a b
  assume u: "uf_invar u \<and> length u = n" and lt: "i < n" "j < n"
  show "uf_root (uf_union u i j) a = uf_root (uf_union u i j) b \<longleftrightarrow>
      uf_root u a = uf_root u b \<or> uf_root u a = uf_root u i \<and> uf_root u j = uf_root u b \<or>
      uf_root u a = uf_root u j \<and> uf_root u i = uf_root u b"
    using uf_union_correct[of u i j] u lt by (auto simp: min_def)
qed (use uf_union_correct in \<open>simp_all add: newUnionFind_length\<close>)

text \<open>The find of a union-find structure that links elements by keys: a common key gives a common root.\<close>

lemma link_find_iff:
  assumes "i < n" "j < n"
  shows "snd (uf_find (fst (link_all uf_union (newUnionFind n) keys n)) i) =
         snd (uf_find (fst (link_all uf_union (newUnionFind n) keys n)) j) \<longleftrightarrow>
         (i, j) \<in> (shares (owned keys n))\<^sup>*"
proof -
  let ?u = "fst (link_all uf_union (newUnionFind n) keys n)"
  have ok: "uf_invar ?u" using uf.ok_link_all[of n keys] by simp
  have "snd (uf_find ?u k) = uf_root ?u k" for k
    using uf_find_correct[OF ok, of k] by (cases "uf_find ?u k") simp
  then show ?thesis using uf.same_link_all[of n keys i j] assms by simp
qed

end
