(* ===== verification/GoStrings.thy ===== *)
theory GoStrings
  imports Prelude "HOL-Library.Sublist"
begin

text \<open>
  What the sources use of Go's \<open>strings\<close>, \<open>strconv\<close>, \<open>path\<close>, \<open>unicode\<close> and \<open>fmt\<close> packages. A Go
  string is a list of bytes (\<open>string\<close>, one \<open>char\<close> per byte; comparison is byte-wise lexicographic,
  the order of \<open>List_Lexorder\<close>). Case mapping and the letter, digit and white-space classes are those
  of ASCII: on ASCII text they agree with Go's, on other bytes they leave the byte alone and classify
  it as neither letter nor space. Non-ASCII punctuation that the messages contain is written as its
  UTF-8 bytes.
\<close>

section \<open>Characters\<close>

definition byte :: "char \<Rightarrow> nat" where
  "byte c = of_char c"

definition is_space :: "char \<Rightarrow> bool" where
  "is_space c \<longleftrightarrow> byte c = 32 \<or> 9 \<le> byte c \<and> byte c \<le> 13"

definition is_digit :: "char \<Rightarrow> bool" where
  "is_digit c \<longleftrightarrow> 48 \<le> byte c \<and> byte c \<le> 57"

definition is_upper :: "char \<Rightarrow> bool" where
  "is_upper c \<longleftrightarrow> 65 \<le> byte c \<and> byte c \<le> 90"

definition is_lower :: "char \<Rightarrow> bool" where
  "is_lower c \<longleftrightarrow> 97 \<le> byte c \<and> byte c \<le> 122"

definition isASCIILetter :: "char \<Rightarrow> bool" where
  "isASCIILetter b \<longleftrightarrow> is_lower b \<or> is_upper b"

definition lower_char :: "char \<Rightarrow> char" where
  "lower_char c = (if is_upper c then char_of (byte c + 32) else c)"

definition upper_char :: "char \<Rightarrow> char" where
  "upper_char c = (if is_lower c then char_of (byte c - 32) else c)"

lemma byte_char_of [simp]: "n < 256 \<Longrightarrow> byte (char_of n) = n"
  by (simp add: byte_def)

lemma lower_char_idem [simp]: "lower_char (lower_char c) = lower_char c"
  by (auto simp: lower_char_def is_upper_def)

lemma lower_slash [simp]: "lower_char c = CHR ''/'' \<longleftrightarrow> c = CHR ''/''"
proof
  assume a: "lower_char c = CHR ''/''"
  show "c = CHR ''/''"
  proof (cases "is_upper c")
    case True
    then have "byte (lower_char c) = byte c + 32" "65 \<le> byte c"
      by (simp_all add: lower_char_def is_upper_def)
    moreover have "byte (lower_char c) = 47" using a by (simp add: byte_def)
    ultimately show ?thesis by simp
  qed (use a in \<open>simp add: lower_char_def\<close>)
qed (simp add: lower_char_def is_upper_def byte_def)

section \<open>Package strings\<close>

definition ToLower :: "string \<Rightarrow> string" where
  "ToLower = map lower_char"

definition ToUpper :: "string \<Rightarrow> string" where
  "ToUpper = map upper_char"

definition TrimRightFunc :: "(char \<Rightarrow> bool) \<Rightarrow> string \<Rightarrow> string" where
  "TrimRightFunc P s = rev (dropWhile P (rev s))"

definition TrimSpace :: "string \<Rightarrow> string" where
  "TrimSpace s = TrimRightFunc is_space (dropWhile is_space s)"

definition TrimRight :: "string \<Rightarrow> string \<Rightarrow> string" where
  "TrimRight s cutset = TrimRightFunc (\<lambda>c. c \<in> set cutset) s"

definition Trim :: "string \<Rightarrow> string \<Rightarrow> string" where
  "Trim s cutset = TrimRight (dropWhile (\<lambda>c. c \<in> set cutset) s) cutset"

definition HasPrefix :: "string \<Rightarrow> string \<Rightarrow> bool" where
  "HasPrefix s p \<longleftrightarrow> take (length p) s = p"

definition HasSuffix :: "string \<Rightarrow> string \<Rightarrow> bool" where
  "HasSuffix s p \<longleftrightarrow> length p \<le> length s \<and> drop (length s - length p) s = p"

definition TrimPrefix :: "string \<Rightarrow> string \<Rightarrow> string" where
  "TrimPrefix s p = (if HasPrefix s p then drop (length p) s else s)"

definition TrimSuffix :: "string \<Rightarrow> string \<Rightarrow> string" where
  "TrimSuffix s p = (if HasSuffix s p then take (length s - length p) s else s)"

text \<open>\<open>Index s t\<close> is \<open>None\<close> where Go returns -1.\<close>

fun Index :: "string \<Rightarrow> string \<Rightarrow> nat option" where
  "Index [] t = (if t = [] then Some 0 else None)"
| "Index (c # s) t = (if HasPrefix (c # s) t then Some 0 else map_option Suc (Index s t))"

fun IndexFunc :: "(char \<Rightarrow> bool) \<Rightarrow> string \<Rightarrow> nat option" where
  "IndexFunc P [] = None"
| "IndexFunc P (c # s) = (if P c then Some 0 else map_option Suc (IndexFunc P s))"

definition IndexAny :: "string \<Rightarrow> string \<Rightarrow> nat option" where
  "IndexAny s chars = IndexFunc (\<lambda>c. c \<in> set chars) s"

definition Contains :: "string \<Rightarrow> string \<Rightarrow> bool" where
  "Contains s t \<longleftrightarrow> Index s t \<noteq> None"

definition ReplaceChar :: "char \<Rightarrow> string \<Rightarrow> string \<Rightarrow> string" where
  "ReplaceChar a r s = concat (map (\<lambda>c. if c = a then r else [c]) s)"

definition EqualFold :: "string \<Rightarrow> string \<Rightarrow> bool" where
  "EqualFold s t \<longleftrightarrow> ToLower s = ToLower t"

text \<open>
  \<open>strings.ReplaceAll\<close> for a non-empty \<open>old\<close>: the occurrences that do not overlap, from the left. (The
  sources never replace the empty string.)
\<close>

lemma Index_Some_nonempty: "Index s old = Some i \<Longrightarrow> old \<noteq> [] \<Longrightarrow> s \<noteq> []"
  by (cases s) auto

function ReplaceAll :: "string \<Rightarrow> string \<Rightarrow> string \<Rightarrow> string" where
  "ReplaceAll s old repl =
     (if old = [] then s
      else case Index s old of
             None \<Rightarrow> s
           | Some i \<Rightarrow> take i s @ repl @ ReplaceAll (drop (i + length old) s) old repl)"
  by pat_completeness auto
termination
  by (relation "measure (\<lambda>(s, _, _). length s)") (auto dest: Index_Some_nonempty)

declare ReplaceAll.simps [simp del]

fun Join :: "string list \<Rightarrow> string \<Rightarrow> string" where
  "Join [] sep = []"
| "Join [x] sep = x"
| "Join (x # y # xs) sep = x @ sep @ Join (y # xs) sep"

fun Split :: "char \<Rightarrow> string \<Rightarrow> string list" where
  "Split sep [] = [[]]"
| "Split sep (c # s) =
     (if c = sep then [] # Split sep s
      else case Split sep s of [] \<Rightarrow> [[c]] | x # xs \<Rightarrow> (c # x) # xs)"

text \<open>\<open>FieldsFunc P s\<close>: the maximal runs of characters that do not satisfy \<open>P\<close>.\<close>

fun fields_acc :: "(char \<Rightarrow> bool) \<Rightarrow> string \<Rightarrow> string \<Rightarrow> string list" where
  "fields_acc P acc [] = (if acc = [] then [] else [acc])"
| "fields_acc P acc (c # s) =
     (if P c then (if acc = [] then fields_acc P [] s else acc # fields_acc P [] s)
      else fields_acc P (acc @ [c]) s)"

definition FieldsFunc :: "(char \<Rightarrow> bool) \<Rightarrow> string \<Rightarrow> string list" where
  "FieldsFunc P s = fields_acc P [] s"

definition Fields :: "string \<Rightarrow> string list" where
  "Fields s = FieldsFunc is_space s"

lemma ToLower_idem [simp]: "ToLower (ToLower s) = ToLower s"
  by (simp add: ToLower_def)

lemma ToLower_Nil_iff [simp]: "ToLower s = [] \<longleftrightarrow> s = []"
  by (simp add: ToLower_def)

lemma ToLower_Nil [simp]: "ToLower [] = []"
  by (simp add: ToLower_def)

lemma length_ToLower [simp]: "length (ToLower s) = length s"
  by (simp add: ToLower_def)

lemma EqualFold_refl [simp]: "EqualFold s s"
  by (simp add: EqualFold_def)

lemma HasPrefix_prefix: "HasPrefix s p \<longleftrightarrow> prefix p s"
proof
  assume "HasPrefix s p"
  then show "prefix p s" by (metis HasPrefix_def take_is_prefix)
qed (auto simp: HasPrefix_def prefix_def)

lemma HasSuffix_suffix: "HasSuffix s p \<longleftrightarrow> suffix p s"
proof
  assume "HasSuffix s p"
  then show "suffix p s" by (metis HasSuffix_def suffix_drop)
qed (auto simp: HasSuffix_def suffix_def)

lemma Split_not_Nil [simp]: "Split sep s \<noteq> []"
  by (cases s) (auto split: list.splits)

lemma Split_no_sep: "x \<in> set (Split sep s) \<Longrightarrow> sep \<notin> set x"
proof (induction s arbitrary: x)
  case (Cons c s)
  then show ?case by (cases "Split sep s") (auto split: if_splits)
qed simp

lemma Join_Split: "Join (Split sep s) [sep] = s"
proof (induction s)
  case (Cons c s)
  then show ?case
    by (cases "Split sep s"; cases "tl (Split sep s)") auto
qed simp

lemma dropWhile_idem: "dropWhile P (dropWhile P s) = dropWhile P s"
  by (cases "dropWhile P s") (auto simp: dropWhile_eq_Cons_conv)

lemma TrimRightFunc_prefix: "prefix (TrimRightFunc P s) s"
  by (metis TrimRightFunc_def rev_rev_ident suffix_dropWhile suffix_to_prefix)

lemma TrimRightFunc_last: "TrimRightFunc P s \<noteq> [] \<Longrightarrow> \<not> P (last (TrimRightFunc P s))"
  by (simp add: TrimRightFunc_def last_rev hd_dropWhile)

lemma length_TrimRightFunc_le: "length (TrimRightFunc P s) \<le> length s"
  unfolding TrimRightFunc_def by (metis length_dropWhile_le length_rev)

lemma length_TrimSpace_le: "length (TrimSpace s) \<le> length s"
  unfolding TrimSpace_def using length_TrimRightFunc_le length_dropWhile_le le_trans by blast

lemma IndexFunc_less: "IndexFunc P s = Some i \<Longrightarrow> i < length s"
  by (induction s arbitrary: i) (auto split: if_splits)

lemma HasPrefix_length: "HasPrefix s t \<Longrightarrow> length t \<le> length s"
  unfolding HasPrefix_def by (metis length_take min.cobounded2 nat_le_linear take_all)

lemma Index_le: "Index s t = Some i \<Longrightarrow> i + length t \<le> length s"
  by (induction s arbitrary: i) (auto split: if_splits dest: HasPrefix_length)

lemma length_ReplaceAll_le:
  "length repl \<le> length old \<Longrightarrow> length (ReplaceAll s old repl) \<le> length s"
proof (induction s old repl rule: ReplaceAll.induct)
  case (1 s old repl)
  show ?case
  proof (cases "old = [] \<or> Index s old = None")
    case False
    then obtain i where i: "Index s old = Some i" by auto
    have "length (ReplaceAll s old repl) = i + length repl + length (ReplaceAll (drop (i + length old) s) old repl)"
      using False i Index_le[OF i] by (subst ReplaceAll.simps) simp
    also have "\<dots> \<le> i + length old + length (drop (i + length old) s)"
      using 1 False i by (intro add_mono) auto
    also have "\<dots> = length s" using Index_le[OF i] by simp
    finally show ?thesis .
  qed (auto simp: ReplaceAll.simps)
qed

lemma length_ReplaceAll_less:
  assumes "Contains s old" and "length repl < length old"
  shows "length (ReplaceAll s old repl) < length s"
proof -
  from assms(1) obtain i where i: "Index s old = Some i" by (auto simp: Contains_def)
  have "length (ReplaceAll s old repl) = i + length repl + length (ReplaceAll (drop (i + length old) s) old repl)"
    using assms i Index_le[OF i] by (subst ReplaceAll.simps) auto
  also have "\<dots> < i + length old + length (drop (i + length old) s)"
    using assms length_ReplaceAll_le[of repl old "drop (i + length old) s"] by linarith
  also have "\<dots> = length s" using Index_le[OF i] by simp
  finally show ?thesis .
qed

lemma TrimSpace_idem [simp]: "TrimSpace (TrimSpace s) = TrimSpace s"
proof -
  let ?t = "dropWhile is_space s"
  have r: "TrimRightFunc is_space (TrimRightFunc is_space ?t) = TrimRightFunc is_space ?t"
    by (simp add: TrimRightFunc_def dropWhile_idem)
  show ?thesis
  proof (cases "TrimRightFunc is_space ?t")
    case Nil
    then show ?thesis by (simp only: TrimSpace_def) (simp add: TrimRightFunc_def)
  next
    case (Cons c u)
    then obtain z where "?t = c # z"
      using TrimRightFunc_prefix[of is_space ?t] by (auto simp: prefix_def)
    then have "c = hd ?t" "?t \<noteq> []" by simp_all
    then have "\<not> is_space c" by (metis hd_dropWhile)
    with Cons r show ?thesis by (simp add: TrimSpace_def)
  qed
qed

section \<open>Package strconv\<close>

fun digits :: "nat \<Rightarrow> string" where
  "digits n = (if n < 10 then [char_of (48 + n)] else digits (n div 10) @ [char_of (48 + n mod 10)])"

declare digits.simps [simp del]

definition Itoa :: "int \<Rightarrow> string" where
  "Itoa i = (if i < 0 then CHR ''-'' # digits (nat (- i)) else digits (nat i))"

definition digits_value :: "string \<Rightarrow> nat" where
  "digits_value s = fold (\<lambda>c n. 10 * n + (byte c - 48)) s 0"

text \<open>
  \<open>strconv.ParseInt(s, 10, 64)\<close> (and \<open>Atoi\<close> on a 64-bit platform): an optional sign, one or more
  decimal digits, and a value that fits in 64 bits; \<open>None\<close> where Go returns an error.
\<close>

definition ParseInt :: "string \<Rightarrow> int option" where
  "ParseInt s =
     (let neg = HasPrefix s ''-'';
          ds = (if neg \<or> HasPrefix s ''+'' then tl s else s);
          v = int (digits_value ds)
      in if ds = [] \<or> \<not> list_all is_digit ds then None
         else if neg then (if v \<le> 2 ^ 63 then Some (- v) else None)
         else (if v < 2 ^ 63 then Some v else None))"

definition pad2 :: "int \<Rightarrow> string" where
  "pad2 i = (if 0 \<le> i \<and> i < 10 then CHR ''0'' # Itoa i else Itoa i)"

lemma digits_ne [simp]: "digits n \<noteq> []"
  by (subst digits.simps) simp

lemma is_digit_char_of: "n < 10 \<Longrightarrow> is_digit (char_of (48 + n :: nat))"
  by (simp add: is_digit_def)

lemma digits_all_digit: "list_all is_digit (digits n)"
proof (induction n rule: digits.induct)
  case (1 n)
  then show ?case by (subst digits.simps) (simp add: is_digit_char_of)
qed

lemma digits_value_digits: "digits_value (digits n) = n"
proof (induction n rule: digits.induct)
  case (1 n)
  then show ?case by (subst digits.simps) (simp add: digits_value_def)
qed

lemma digits_inj: "digits m = digits n \<Longrightarrow> m = n"
  by (metis digits_value_digits)

lemma digits_hd: "hd (digits n) \<noteq> CHR ''-''" "hd (digits n) \<noteq> CHR ''+''"
proof -
  have "is_digit (hd (digits n))"
    using digits_all_digit[of n] by (cases "digits n") auto
  then show "hd (digits n) \<noteq> CHR ''-''" "hd (digits n) \<noteq> CHR ''+''"
    by (auto simp: is_digit_def byte_def)
qed

lemma ParseInt_Itoa:
  assumes "- (2 ^ 63) \<le> i" and "i < 2 ^ 63"
  shows "ParseInt (Itoa i) = Some i"
proof (cases "i < 0")
  case True
  then show ?thesis
    using assms
    by (simp add: ParseInt_def Itoa_def HasPrefix_def digits_all_digit digits_value_digits Let_def)
next
  case False
  obtain c cs where ds: "digits (nat i) = c # cs" by (cases "digits (nat i)") auto
  then have c: "c \<noteq> CHR ''-''" "c \<noteq> CHR ''+''" using digits_hd[of "nat i"] by auto
  have v: "digits_value (c # cs) = nat i" "list_all is_digit (c # cs)"
    using ds digits_value_digits[of "nat i"] digits_all_digit[of "nat i"] by auto
  show ?thesis
    using False assms c v by (simp add: ParseInt_def Itoa_def HasPrefix_def ds Let_def)
qed

section \<open>Package path\<close>

text \<open>
  \<open>path.Clean\<close> by its documented rules, over the segments of the path: empty segments and \<open>.\<close> are
  dropped, \<open>..\<close> removes the segment before it, at the root it is dropped, at the start of a relative
  path it stays.
\<close>

definition clean_step :: "bool \<Rightarrow> string \<Rightarrow> string list \<Rightarrow> string list" where
  "clean_step rooted seg st =
     (if seg = [] \<or> seg = ''.'' then st
      else if seg = ''..'' then
        (if st \<noteq> [] \<and> hd st \<noteq> ''..'' then tl st else if rooted then st else seg # st)
      else seg # st)"

definition path_Clean :: "string \<Rightarrow> string" where
  "path_Clean p =
     (let rooted = HasPrefix p ''/'';
          segs = rev (fold (clean_step rooted) (Split (CHR ''/'') p) [])
      in if rooted then CHR ''/'' # Join segs ''/''
         else if segs = [] then ''.'' else Join segs ''/'')"

definition after_last_slash :: "string \<Rightarrow> string" where
  "after_last_slash p = rev (takeWhile (\<lambda>c. c \<noteq> CHR ''/'') (rev p))"

definition path_Base :: "string \<Rightarrow> string" where
  "path_Base p =
     (if p = [] then ''.''
      else let b = after_last_slash (TrimRight p ''/'') in if b = [] then ''/'' else b)"

definition path_Dir :: "string \<Rightarrow> string" where
  "path_Dir p = path_Clean (take (length p - length (after_last_slash p)) p)"

text \<open>\<open>path.Ext\<close>: from the last dot of the last element on.\<close>

definition path_Ext :: "string \<Rightarrow> string" where
  "path_Ext p =
     (let b = after_last_slash p; e = rev (takeWhile (\<lambda>c. c \<noteq> CHR ''.'') (rev b))
      in if CHR ''.'' \<in> set b then CHR ''.'' # e else [])"

section \<open>Text that is not ASCII\<close>

definition emdash :: string where "emdash = [CHR 0xE2, CHR 0x80, CHR 0x94]"
definition rarrow :: string where "rarrow = [CHR 0xE2, CHR 0x86, CHR 0x92]"
definition middot :: string where "middot = [CHR 0xC2, CHR 0xB7]"
definition ellipsis :: string where "ellipsis = [CHR 0xE2, CHR 0x80, CHR 0xA6]"

definition quote :: string where "quote = [CHR 0x22]"

text \<open>\<open>%q\<close> on ASCII text (\<open>strconv.Quote\<close>).\<close>

definition hex_digit :: "nat \<Rightarrow> char" where
  "hex_digit n = (if n < 10 then char_of (48 + n) else char_of (87 + n))"

definition quote_char :: "char \<Rightarrow> string" where
  "quote_char c =
     (if c = CHR 0x22 then [CHR 0x5C, CHR 0x22]
      else if c = CHR 0x5C then [CHR 0x5C, CHR 0x5C]
      else if byte c = 7 then [CHR 0x5C, CHR ''a'']
      else if byte c = 8 then [CHR 0x5C, CHR ''b'']
      else if byte c = 9 then [CHR 0x5C, CHR ''t'']
      else if byte c = 10 then [CHR 0x5C, CHR ''n'']
      else if byte c = 11 then [CHR 0x5C, CHR ''v'']
      else if byte c = 12 then [CHR 0x5C, CHR ''f'']
      else if byte c = 13 then [CHR 0x5C, CHR ''r'']
      else if byte c < 32 \<or> byte c = 127
        then [CHR 0x5C, CHR ''x'', hex_digit (byte c div 16), hex_digit (byte c mod 16)]
      else [c])"

definition Quote :: "string \<Rightarrow> string" where
  "Quote s = quote @ concat (map quote_char s) @ quote"

end
