(* ===== verification/GoRegexp.thy ===== *)
theory GoRegexp
  imports GoStrings
begin

text \<open>
  What the sources use of Go's \<open>regexp\<close> package: the constructs that occur in their constant
  expressions, as a syntax tree, and a matcher with leftmost-first semantics. \<open>rx_ends s r i\<close> lists the
  positions at which a match of \<open>r\<close> that starts at \<open>i\<close> may end, in the order of preference of a
  backtracking matcher (greedy repetitions, earlier alternatives first), so its first element is the
  end of the match Go reports. Characters are bytes; \<open>(?i)\<close> folds ASCII letters.
\<close>

datatype rx =
    RClass "char \<Rightarrow> bool"
  | REps
  | RSeq rx rx
  | RAlt rx rx
  | RStar rx
  | RRep nat nat rx    \<comment> \<open>\<open>r{m,n}\<close>\<close>
  | RBegin             \<comment> \<open>\<open>^\<close>\<close>
  | REnd               \<comment> \<open>\<open>$\<close>\<close>
  | RWordB             \<comment> \<open>\<open>\b\<close>\<close>

definition is_word :: "char \<Rightarrow> bool" where
  "is_word c \<longleftrightarrow> is_digit c \<or> isASCIILetter c \<or> c = CHR ''_''"

definition word_at :: "string \<Rightarrow> nat \<Rightarrow> bool" where
  "word_at s i \<longleftrightarrow> i < length s \<and> is_word (s ! i)"

definition at_boundary :: "string \<Rightarrow> nat \<Rightarrow> bool" where
  "at_boundary s i \<longleftrightarrow> (0 < i \<and> word_at s (i - 1)) \<noteq> word_at s i"

text \<open>Every pass of a starred expression has to advance, so \<open>length s + 1\<close> passes are enough.\<close>

primrec star_ends :: "(nat \<Rightarrow> nat list) \<Rightarrow> nat \<Rightarrow> nat \<Rightarrow> nat list" where
  "star_ends f 0 i = [i]"
| "star_ends f (Suc n) i = dedup (concat (map (star_ends f n) (filter (\<lambda>j. i < j) (f i))) @ [i])"

fun rep_ends :: "(nat \<Rightarrow> nat list) \<Rightarrow> nat \<Rightarrow> nat \<Rightarrow> nat \<Rightarrow> nat list" where
  "rep_ends f m 0 i = (if m = 0 then [i] else [])"
| "rep_ends f m (Suc n) i =
     dedup (concat (map (rep_ends f (m - 1) n) (f i)) @ (if m = 0 then [i] else []))"

primrec rx_ends :: "string \<Rightarrow> rx \<Rightarrow> nat \<Rightarrow> nat list" where
  "rx_ends s (RClass P) i = (if i < length s \<and> P (s ! i) then [Suc i] else [])"
| "rx_ends s REps i = [i]"
| "rx_ends s (RSeq r1 r2) i = dedup (concat (map (rx_ends s r2) (rx_ends s r1 i)))"
| "rx_ends s (RAlt r1 r2) i = dedup (rx_ends s r1 i @ rx_ends s r2 i)"
| "rx_ends s (RStar r) i = star_ends (rx_ends s r) (length s + 1) i"
| "rx_ends s (RRep m n r) i = rep_ends (rx_ends s r) m n i"
| "rx_ends s RBegin i = (if i = 0 then [i] else [])"
| "rx_ends s REnd i = (if i = length s then [i] else [])"
| "rx_ends s RWordB i = (if at_boundary s i then [i] else [])"

section \<open>Building expressions\<close>

definition r_char :: "char \<Rightarrow> rx" where "r_char c = RClass (\<lambda>x. x = c)"
definition r_ichar :: "char \<Rightarrow> rx" where "r_ichar c = RClass (\<lambda>x. lower_char x = lower_char c)"
definition r_set :: "string \<Rightarrow> rx" where "r_set cs = RClass (\<lambda>x. x \<in> set cs)"
definition r_notset :: "string \<Rightarrow> rx" where "r_notset cs = RClass (\<lambda>x. x \<notin> set cs)"
definition r_digit :: rx where "r_digit = RClass is_digit"
definition r_opt :: "rx \<Rightarrow> rx" where "r_opt r = RRep 0 1 r"
definition r_plus :: "rx \<Rightarrow> rx" where "r_plus r = RSeq r (RStar r)"

fun r_seq :: "rx list \<Rightarrow> rx" where
  "r_seq [] = REps"
| "r_seq [r] = r"
| "r_seq (r # rs) = RSeq r (r_seq rs)"

fun r_alt :: "rx list \<Rightarrow> rx" where
  "r_alt [] = RClass (\<lambda>_. False)"
| "r_alt [r] = r"
| "r_alt (r # rs) = RAlt r (r_alt rs)"

definition r_lit :: "string \<Rightarrow> rx" where "r_lit s = r_seq (map r_char s)"
definition r_ilit :: "string \<Rightarrow> rx" where "r_ilit s = r_seq (map r_ichar s)"
definition r_ialt :: "string list \<Rightarrow> rx" where "r_ialt ss = r_alt (map r_ilit ss)"

section \<open>Searching\<close>

text \<open>The leftmost match that starts at or after \<open>i\<close>: its start and its end.\<close>

primrec search :: "rx \<Rightarrow> string \<Rightarrow> nat \<Rightarrow> nat \<Rightarrow> (nat \<times> nat) option" where
  "search r s 0 i = (case rx_ends s r i of [] \<Rightarrow> None | e # _ \<Rightarrow> Some (i, e))"
| "search r s (Suc n) i =
     (case rx_ends s r i of [] \<Rightarrow> search r s n (Suc i) | e # _ \<Rightarrow> Some (i, e))"

definition find_from :: "rx \<Rightarrow> string \<Rightarrow> nat \<Rightarrow> (nat \<times> nat) option" where
  "find_from r s i = (if i \<le> length s then search r s (length s - i) i else None)"

definition MatchString :: "rx \<Rightarrow> string \<Rightarrow> bool" where
  "MatchString r s \<longleftrightarrow> find_from r s 0 \<noteq> None"

primrec find_all_fuel :: "nat \<Rightarrow> rx \<Rightarrow> string \<Rightarrow> nat \<Rightarrow> (nat \<times> nat) list" where
  "find_all_fuel 0 r s i = []"
| "find_all_fuel (Suc n) r s i =
     (case find_from r s i of
        None \<Rightarrow> []
      | Some (b, e) \<Rightarrow> (b, e) # find_all_fuel n r s (if e \<le> b then Suc b else e))"

text \<open>Every match starts beyond the one before it, so \<open>length s + 1\<close> searches are enough.\<close>

definition find_all :: "rx \<Rightarrow> string \<Rightarrow> (nat \<times> nat) list" where
  "find_all r s = find_all_fuel (length s + 1) r s 0"

definition substr :: "string \<Rightarrow> nat \<Rightarrow> nat \<Rightarrow> string" where
  "substr s b e = take (e - b) (drop b s)"

definition FindString :: "rx \<Rightarrow> string \<Rightarrow> string option" where
  "FindString r s = map_option (\<lambda>(b, e). substr s b e) (find_from r s 0)"

definition FindAllString :: "rx \<Rightarrow> string \<Rightarrow> string list" where
  "FindAllString r s = map (\<lambda>(b, e). substr s b e) (find_all r s)"

fun replace_spans :: "string \<Rightarrow> nat \<Rightarrow> (nat \<times> nat) list \<Rightarrow> string \<Rightarrow> string" where
  "replace_spans s i [] repl = drop i s"
| "replace_spans s i ((b, e) # ms) repl = substr s i b @ repl @ replace_spans s e ms repl"

definition ReplaceAllString :: "rx \<Rightarrow> string \<Rightarrow> string \<Rightarrow> string" where
  "ReplaceAllString r s repl = replace_spans s 0 (find_all r s) repl"

section \<open>Submatches\<close>

text \<open>
  The position at which every factor of a concatenation starts, and the end of the match, on the match
  that a backtracking matcher prefers. A capturing group that is a run of factors is read off it.
\<close>

primrec first_some :: "('a \<Rightarrow> 'b option) \<Rightarrow> 'a list \<Rightarrow> 'b option" where
  "first_some f [] = None"
| "first_some f (x # xs) = (case f x of None \<Rightarrow> first_some f xs | Some y \<Rightarrow> Some y)"

primrec rx_path :: "string \<Rightarrow> rx list \<Rightarrow> nat \<Rightarrow> nat list option" where
  "rx_path s [] i = Some [i]"
| "rx_path s (r # rs) i = map_option (Cons i) (first_some (rx_path s rs) (rx_ends s r i))"

definition path_from :: "rx list \<Rightarrow> string \<Rightarrow> nat \<Rightarrow> nat list option" where
  "path_from rs s i = first_some (rx_path s rs) [i..<Suc (length s)]"

primrec all_paths_fuel :: "nat \<Rightarrow> rx list \<Rightarrow> string \<Rightarrow> nat \<Rightarrow> nat list list" where
  "all_paths_fuel 0 rs s i = []"
| "all_paths_fuel (Suc n) rs s i =
     (case path_from rs s i of
        None \<Rightarrow> []
      | Some ps \<Rightarrow> ps # all_paths_fuel n rs s (if last ps \<le> hd ps then Suc (hd ps) else last ps))"

definition all_paths :: "rx list \<Rightarrow> string \<Rightarrow> nat list list" where
  "all_paths rs s = all_paths_fuel (length s + 1) rs s 0"

text \<open>The texts of the factors.\<close>

fun path_texts :: "string \<Rightarrow> nat list \<Rightarrow> string list" where
  "path_texts s (b # e # ps) = substr s b e # path_texts s (e # ps)"
| "path_texts s ps = []"

end
