(* ===== verification/GoTime.thy ===== *)
theory GoTime
  imports Complex_Main GoStrings
begin

text \<open>
  Numbers and times. Go's \<open>int\<close>, \<open>int64\<close> and \<open>time.Duration\<close> values are \<open>int\<close>: the sources only
  add up file sizes and durations, which stay far from the 64-bit bounds; \<open>time.Time.Sub\<close>, which
  saturates, is written with its bounds. A \<open>float64\<close> that comes from outside (a profile's
  tolerances) is one of the values of \<open>f64\<close>; arithmetic on finite values is exact.
  A \<open>time.Time\<close> is the number of nanoseconds since January 1 of year 1, UTC: 0 is the zero time.
\<close>

section \<open>float64\<close>

datatype f64 = Fin rat | PosInf | NegInf | NaN

text \<open>\<open>x > 0 && !math.IsInf(x, 0)\<close>, with the value: the guard every tolerance goes through.\<close>

definition pos_finite :: "f64 \<Rightarrow> rat option" where
  "pos_finite x = (case x of Fin q \<Rightarrow> if 0 < q then Some q else None | _ \<Rightarrow> None)"

lemma pos_finite_pos: "pos_finite x = Some q \<Longrightarrow> 0 < q"
  by (auto simp: pos_finite_def split: f64.splits if_splits)

definition round_half_even :: "int \<Rightarrow> int \<Rightarrow> int" where
  "round_half_even p q =
     (let d = p div q; r = p mod q
      in if 2 * r < q then d else if q < 2 * r then d + 1 else if even d then d else d + 1)"

fun bit_len :: "nat \<Rightarrow> nat" where
  "bit_len n = (if n = 0 then 0 else Suc (bit_len (n div 2)))"

declare bit_len.simps [simp del]

text \<open>
  The \<open>float64\<close> quotient of two positive integers as \<open>m / 2 ^ k\<close> with a 53-bit \<open>m\<close> (for quotients
  below \<open>2 ^ 52\<close>), and \<open>%.1f\<close> of such a value, which rounds the exact binary value.
\<close>

definition f64_quot :: "int \<Rightarrow> int \<Rightarrow> int \<times> nat" where
  "f64_quot p q =
     (let k0 = nat (52 - (int (bit_len (nat p)) - int (bit_len (nat q))));
          k = (if p * 2 ^ k0 < 2 ^ 52 * q then Suc k0 else k0)
      in (round_half_even (p * 2 ^ k) q, k))"

definition fmt_1f :: "int \<times> nat \<Rightarrow> string" where
  "fmt_1f x = (let t = round_half_even (10 * fst x) (2 ^ snd x)
               in Itoa (t div 10) @ ''.'' @ Itoa (t mod 10))"

section \<open>Durations and times\<close>

text \<open>The value that an \<open>int64\<close> operation stores for the mathematical result \<open>i\<close>.\<close>

definition wrap64 :: "int \<Rightarrow> int" where
  "wrap64 i = (i + 2 ^ 63) mod 2 ^ 64 - 2 ^ 63"

lemma wrap64_id: "- (2 ^ 63) \<le> i \<Longrightarrow> i < 2 ^ 63 \<Longrightarrow> wrap64 i = i"
  by (simp add: wrap64_def)

abbreviation (input) Nanosecond :: int where "Nanosecond \<equiv> 1"
abbreviation Millisecond :: int where "Millisecond \<equiv> 1000000"
abbreviation Second :: int where "Second \<equiv> 1000000000"
abbreviation Minute :: int where "Minute \<equiv> 60000000000"
abbreviation Hour :: int where "Hour \<equiv> 3600000000000"

type_synonym time = int
type_synonym duration = int

definition IsZero :: "time \<Rightarrow> bool" where
  "IsZero t \<longleftrightarrow> t = 0"

definition After :: "time \<Rightarrow> time \<Rightarrow> bool" where
  "After t u \<longleftrightarrow> u < t"

definition Unix :: "time \<Rightarrow> int" where
  "Unix t = t div Second - 62135596800"

definition Sub :: "time \<Rightarrow> time \<Rightarrow> duration" where
  "Sub t u = max (- (2 ^ 63)) (min (2 ^ 63 - 1) (t - u))"

definition is_leap :: "int \<Rightarrow> bool" where
  "is_leap y \<longleftrightarrow> y mod 4 = 0 \<and> (y mod 100 \<noteq> 0 \<or> y mod 400 = 0)"

fun month_of :: "int list \<Rightarrow> int \<Rightarrow> int \<Rightarrow> int \<times> int" where
  "month_of [] m d = (m, d)"
| "month_of (n # ns) m d = (if d < n then (m, d) else month_of ns (m + 1) (d - n))"

text \<open>The civil date of a day number (0 is January 1 of year 1) in the Gregorian calendar.\<close>

definition civil :: "int \<Rightarrow> int \<times> int \<times> int" where
  "civil days =
     (let n400 = days div 146097; r = days mod 146097;
          n100 = min 3 (r div 36524); r2 = r - n100 * 36524;
          n4 = r2 div 1461; r3 = r2 mod 1461;
          n1 = min 3 (r3 div 365); doy = r3 - n1 * 365;
          y = 400 * n400 + 100 * n100 + 4 * n4 + n1 + 1;
          feb = (if is_leap y then 29 else 28);
          md = month_of [31, feb, 31, 30, 31, 30, 31, 31, 30, 31, 30, 31] 1 doy
      in (y, fst md, snd md + 1))"

definition pad4 :: "int \<Rightarrow> string" where
  "pad4 y = replicate (4 - length (Itoa y)) (CHR ''0'') @ Itoa y"

definition FormatDate :: "time \<Rightarrow> string" where
  "FormatDate t =
     (case civil (t div (24 * Hour)) of (y, m, d) \<Rightarrow> pad4 y @ ''-'' @ pad2 m @ ''-'' @ pad2 d)"

definition FormatDateMinute :: "time \<Rightarrow> string" where
  "FormatDateMinute t =
     FormatDate t @ '' '' @ pad2 (t mod (24 * Hour) div Hour) @ '':'' @ pad2 (t mod Hour div Minute)"

end
