(* ===== verification/Models.thy ===== *)
theory Models
  imports GoTime
begin

text \<open>
  The domain types of \<open>internal/models\<close> that the decision core reads and writes (\<open>media.go\<close>,
  \<open>entities.go\<close>, \<open>arritems.go\<close>, \<open>keys.go\<close>) with their small pure methods. A struct is a record with the
  source's fields behind a short prefix; a pointer is an \<open>option\<close>; a slice or a map whose nil value the
  code tells apart from an empty one is an \<open>option\<close> too; the string-typed enumerations stay strings, as
  in the code, where any other value is possible.
\<close>

section \<open>Constants\<close>

abbreviation MediaTypeMovie :: string where "MediaTypeMovie \<equiv> ''movie''"
abbreviation MediaTypeEpisode :: string where "MediaTypeEpisode \<equiv> ''episode''"

abbreviation GroupPending :: string where "GroupPending \<equiv> ''pending''"
abbreviation GroupReview :: string where "GroupReview \<equiv> ''review''"
abbreviation GroupDeferred :: string where "GroupDeferred \<equiv> ''deferred''"
abbreviation GroupProtected :: string where "GroupProtected \<equiv> ''protected''"
abbreviation GroupQueued :: string where "GroupQueued \<equiv> ''queued''"
abbreviation GroupIgnored :: string where "GroupIgnored \<equiv> ''ignored''"

abbreviation DecisionKeep :: string where "DecisionKeep \<equiv> ''keep''"
abbreviation DecisionRemove :: string where "DecisionRemove \<equiv> ''remove''"

abbreviation FlagCrossLibrary :: string where "FlagCrossLibrary \<equiv> ''cross_library''"
abbreviation FlagDurationMismatch :: string where "FlagDurationMismatch \<equiv> ''duration_mismatch''"
abbreviation FlagMultiEpisode :: string where "FlagMultiEpisode \<equiv> ''multi_episode''"
abbreviation FlagStacked :: string where "FlagStacked \<equiv> ''stacked''"
abbreviation FlagHardlinked :: string where "FlagHardlinked \<equiv> ''hardlinked''"
abbreviation FlagMinAge :: string where "FlagMinAge \<equiv> ''min_age''"
abbreviation FlagMissingKeeperFile :: string where "FlagMissingKeeperFile \<equiv> ''missing_keeper_file''"
abbreviation FlagArrUntrackedKeeper :: string where "FlagArrUntrackedKeeper \<equiv> ''arr_untracked_keeper''"
abbreviation FlagUnanalyzed :: string where "FlagUnanalyzed \<equiv> ''unanalyzed''"
abbreviation FlagUnavailableVersion :: string where "FlagUnavailableVersion \<equiv> ''unavailable_version''"
abbreviation FlagSuspectMerge :: string where "FlagSuspectMerge \<equiv> ''suspect_merge''"
abbreviation FlagIntentionalArr :: string where "FlagIntentionalArr \<equiv> ''intentional_arr_instances''"
abbreviation FlagArrQueueBusy :: string where "FlagArrQueueBusy \<equiv> ''arr_queue_busy''"
abbreviation FlagArrCutoffUnmet :: string where "FlagArrCutoffUnmet \<equiv> ''arr_cutoff_unmet''"
abbreviation FlagPlaying :: string where "FlagPlaying \<equiv> ''playing''"
abbreviation FlagSample :: string where "FlagSample \<equiv> ''sample''"
abbreviation FlagSameFile :: string where "FlagSameFile \<equiv> ''same_file''"
abbreviation FlagFullDisc :: string where "FlagFullDisc \<equiv> ''full_disc''"
abbreviation FlagDiscUnreadable :: string where "FlagDiscUnreadable \<equiv> ''disc_unreadable''"
abbreviation FlagDiscTracked :: string where "FlagDiscTracked \<equiv> ''disc_tracked_clip''"
abbreviation FlagWatchUnreadable :: string where "FlagWatchUnreadable \<equiv> ''watch_unreadable''"
abbreviation FlagOtherServerListing :: string where "FlagOtherServerListing \<equiv> ''other_server_listing''"
abbreviation FlagOtherServerKeeps :: string where "FlagOtherServerKeeps \<equiv> ''other_server_keeps''"
abbreviation FlagOtherServerPossible :: string where "FlagOtherServerPossible \<equiv> ''other_server_possible''"
abbreviation FlagOtherServerUnread :: string where "FlagOtherServerUnread \<equiv> ''other_server_unread''"
abbreviation FlagManualOnly :: string where "FlagManualOnly \<equiv> ''manual_only''"
abbreviation FlagReportOnly :: string where "FlagReportOnly \<equiv> ''report_only''"

abbreviation FlagEditionSplit :: string where "FlagEditionSplit \<equiv> ''edition_split''"
abbreviation FlagVariant3D :: string where "FlagVariant3D \<equiv> ''variant_3d''"
abbreviation FlagLanguageVariant :: string where "FlagLanguageVariant \<equiv> ''language_variant''"

abbreviation DiscBluray :: string where "DiscBluray \<equiv> ''bluray''"
abbreviation DiscUHDBluray :: string where "DiscUHDBluray \<equiv> ''uhd_bluray''"
abbreviation DiscDVD :: string where "DiscDVD \<equiv> ''dvd''"
abbreviation DiscHDDVD :: string where "DiscHDDVD \<equiv> ''hddvd''"
abbreviation DiscAVCHD :: string where "DiscAVCHD \<equiv> ''avchd''"
abbreviation DiscBDAV :: string where "DiscBDAV \<equiv> ''bdav''"
abbreviation DiscISO :: string where "DiscISO \<equiv> ''iso''"
abbreviation DiscBlurayClips :: string where "DiscBlurayClips \<equiv> ''bluray_clips''"
abbreviation DiscDVDClips :: string where "DiscDVDClips \<equiv> ''dvd_clips''"

abbreviation WatchKnown :: string where "WatchKnown \<equiv> ''known''"
abbreviation WatchFailed :: string where "WatchFailed \<equiv> ''failed''"
abbreviation WatchSourceTautulli :: string where "WatchSourceTautulli \<equiv> ''tautulli''"

abbreviation OtherSameFile :: string where "OtherSameFile \<equiv> ''same_file''"
abbreviation OtherPossiblySame :: string where "OtherPossiblySame \<equiv> ''possibly_same''"

abbreviation CritResolution :: string where "CritResolution \<equiv> ''resolution''"
abbreviation CritDynamicRange :: string where "CritDynamicRange \<equiv> ''dynamic_range''"
abbreviation CritSource :: string where "CritSource \<equiv> ''source''"
abbreviation CritVideoCodec :: string where "CritVideoCodec \<equiv> ''video_codec''"
abbreviation CritAudioFormat :: string where "CritAudioFormat \<equiv> ''audio_format''"
abbreviation CritContainer :: string where "CritContainer \<equiv> ''container''"
abbreviation CritLibrary :: string where "CritLibrary \<equiv> ''library''"
abbreviation CritAudioChannels :: string where "CritAudioChannels \<equiv> ''audio_channels''"
abbreviation CritVideoBitrate :: string where "CritVideoBitrate \<equiv> ''video_bitrate''"
abbreviation CritFileSize :: string where "CritFileSize \<equiv> ''file_size''"
abbreviation CritBitDepth :: string where "CritBitDepth \<equiv> ''bit_depth''"
abbreviation CritCustomFormatScore :: string where "CritCustomFormatScore \<equiv> ''custom_format_score''"
abbreviation CritDateAdded :: string where "CritDateAdded \<equiv> ''date_added''"
abbreviation CritAudioTrackCount :: string where "CritAudioTrackCount \<equiv> ''audio_track_count''"
abbreviation CritSubtitleTrackCount :: string where "CritSubtitleTrackCount \<equiv> ''subtitle_track_count''"
abbreviation CritArrManaged :: string where "CritArrManaged \<equiv> ''arr_managed''"
abbreviation CritAudioLanguage :: string where "CritAudioLanguage \<equiv> ''audio_language''"
abbreviation CritFilenameScore :: string where "CritFilenameScore \<equiv> ''filename_score''"
abbreviation CritHealth :: string where "CritHealth \<equiv> ''health''"
abbreviation CritPlayed :: string where "CritPlayed \<equiv> ''played''"
abbreviation CritLastPlayed :: string where "CritLastPlayed \<equiv> ''last_played''"

abbreviation DirectionHigher :: string where "DirectionHigher \<equiv> ''higher''"
abbreviation DirectionLower :: string where "DirectionLower \<equiv> ''lower''"

abbreviation ProtectPathGlob :: string where "ProtectPathGlob \<equiv> ''path_glob''"
abbreviation ProtectLibrary :: string where "ProtectLibrary \<equiv> ''library''"
abbreviation ProtectArrInstance :: string where "ProtectArrInstance \<equiv> ''arr_instance''"
abbreviation ProtectArrTag :: string where "ProtectArrTag \<equiv> ''arr_tag''"

abbreviation (input) KeepPerNone :: string where "KeepPerNone \<equiv> ''''"
abbreviation KeepPerResolution :: string where "KeepPerResolution \<equiv> ''resolution''"
abbreviation KeepPerDynamicRange :: string where "KeepPerDynamicRange \<equiv> ''dynamic_range''"

abbreviation ArrRadarr :: string where "ArrRadarr \<equiv> ''radarr''"
abbreviation ArrSonarr :: string where "ArrSonarr \<equiv> ''sonarr''"

abbreviation Res2160 :: string where "Res2160 \<equiv> ''2160''"
abbreviation Res1440 :: string where "Res1440 \<equiv> ''1440''"
abbreviation Res1080 :: string where "Res1080 \<equiv> ''1080''"
abbreviation Res720 :: string where "Res720 \<equiv> ''720''"
abbreviation Res576 :: string where "Res576 \<equiv> ''576''"
abbreviation Res480 :: string where "Res480 \<equiv> ''480''"
abbreviation ResSD :: string where "ResSD \<equiv> ''sd''"
abbreviation DRDolbyVisionHDR10 :: string where "DRDolbyVisionHDR10 \<equiv> ''dv_hdr10''"
abbreviation DRDolbyVision :: string where "DRDolbyVision \<equiv> ''dv''"
abbreviation DRHDR10Plus :: string where "DRHDR10Plus \<equiv> ''hdr10plus''"
abbreviation DRHDR10 :: string where "DRHDR10 \<equiv> ''hdr10''"
abbreviation DRHLG :: string where "DRHLG \<equiv> ''hlg''"
abbreviation DRSDR :: string where "DRSDR \<equiv> ''sdr''"
abbreviation VCodecAV1 :: string where "VCodecAV1 \<equiv> ''av1''"
abbreviation VCodecHEVC :: string where "VCodecHEVC \<equiv> ''hevc''"
abbreviation VCodecH264 :: string where "VCodecH264 \<equiv> ''h264''"
abbreviation VCodecVC1 :: string where "VCodecVC1 \<equiv> ''vc1''"
abbreviation VCodecMPEG2 :: string where "VCodecMPEG2 \<equiv> ''mpeg2''"
abbreviation VCodecMPEG4 :: string where "VCodecMPEG4 \<equiv> ''mpeg4''"
abbreviation VCodecVP9 :: string where "VCodecVP9 \<equiv> ''vp9''"
abbreviation VCodecOther :: string where "VCodecOther \<equiv> ''other''"
abbreviation AudioTrueHDAtmos :: string where "AudioTrueHDAtmos \<equiv> ''truehd_atmos''"
abbreviation AudioTrueHD :: string where "AudioTrueHD \<equiv> ''truehd''"
abbreviation AudioDTSX :: string where "AudioDTSX \<equiv> ''dtsx''"
abbreviation AudioDTSHDMA :: string where "AudioDTSHDMA \<equiv> ''dts_hd_ma''"
abbreviation AudioDTSHDHRA :: string where "AudioDTSHDHRA \<equiv> ''dts_hd_hra''"
abbreviation AudioEAC3Atmos :: string where "AudioEAC3Atmos \<equiv> ''eac3_atmos''"
abbreviation AudioFLAC :: string where "AudioFLAC \<equiv> ''flac''"
abbreviation AudioPCM :: string where "AudioPCM \<equiv> ''pcm''"
abbreviation AudioDTS :: string where "AudioDTS \<equiv> ''dts''"
abbreviation AudioEAC3 :: string where "AudioEAC3 \<equiv> ''eac3''"
abbreviation AudioAC3 :: string where "AudioAC3 \<equiv> ''ac3''"
abbreviation AudioAAC :: string where "AudioAAC \<equiv> ''aac''"
abbreviation AudioOpus :: string where "AudioOpus \<equiv> ''opus''"
abbreviation AudioMP3 :: string where "AudioMP3 \<equiv> ''mp3''"
abbreviation AudioOther :: string where "AudioOther \<equiv> ''other''"
abbreviation SourceRemux :: string where "SourceRemux \<equiv> ''remux''"
abbreviation SourceDisc :: string where "SourceDisc \<equiv> ''disc''"
abbreviation SourceBluray :: string where "SourceBluray \<equiv> ''bluray''"
abbreviation SourceWebDL :: string where "SourceWebDL \<equiv> ''webdl''"
abbreviation SourceWebRip :: string where "SourceWebRip \<equiv> ''webrip''"
abbreviation SourceHDTV :: string where "SourceHDTV \<equiv> ''hdtv''"
abbreviation SourceDVD :: string where "SourceDVD \<equiv> ''dvd''"
abbreviation SourceSDTV :: string where "SourceSDTV \<equiv> ''sdtv''"
abbreviation SourceUnknown :: string where "SourceUnknown \<equiv> ''unknown''"

abbreviation MediaServerPlex :: string where "MediaServerPlex \<equiv> ''plex''"
abbreviation MediaServerJellyfin :: string where "MediaServerJellyfin \<equiv> ''jellyfin''"

section \<open>Media versions (media.go)\<close>

record AudioTrack =
  at_format :: string
  at_codec :: string
  at_profile :: string
  at_channels :: int
  at_language :: string
  at_languageCode :: string
  at_title :: string
  at_default :: bool
  at_atmos :: bool

record SubtitleTrack =
  st_codec :: string
  st_language :: string
  st_languageCode :: string
  st_forced :: bool
  st_external :: bool

record MediaPart =
  p_id :: int
  p_path :: string
  p_localPath :: string
  p_size :: int
  p_duration :: int
  p_exists :: "bool option"
  p_accessible :: "bool option"
  p_sharedWith :: "string list"
  p_itemID :: string
  p_shortcutOf :: "string list"
  p_linkCount :: int
  p_inode :: string

record ArrFileInfo =
  a_instanceID :: int
  a_instanceName :: string
  a_kind :: string
  a_fileID :: int
  a_itemID :: int
  a_episodeIDs :: "int list"
  a_itemPath :: string
  a_monitored :: bool
  a_qualityName :: string
  a_qualitySource :: string
  a_qualityResolution :: int
  a_qualityModifier :: string
  a_customFormats :: "string list"
  a_customFormatScore :: "int option"
  a_releaseGroup :: string
  a_edition :: string
  a_languages :: "string list"
  a_dynamicRangeType :: string
  a_tags :: "string list"
  a_qualityCutoffNotMet :: bool
  a_sceneName :: string
  a_dateAdded :: time

record WatchInfo =
  w_source :: string
  w_sourceName :: string
  w_status :: string
  w_reason :: string
  w_plays :: int
  w_users :: int
  w_lastPlayed :: time
  w_since :: time
  w_readAt :: time

record DiscInfo =
  d_type :: string
  d_root :: string
  d_localRoot :: string
  d_discs :: int
  d_fileCount :: int
  d_mainFeature :: string
  d_readable :: bool
  d_origin :: string
  d_roots :: "string list"
  d_localRoots :: "string list"
  d_ownedEntries :: "string list"
  d_totalBytes :: int
  d_featureBytes :: int
  d_freedBytes :: int
  d_hardlinkedFiles :: int
  d_fingerprint :: string
  d_newestModTime :: time
  d_is3D :: bool
  d_alternates :: int
  d_removable :: bool
  d_problem :: string
  d_trackedClip :: string
  d_plexItems :: "string list"
  d_clipCount :: int
  d_mainClip :: string
  d_plexMediaIDs :: "int list"

record OtherMedia =
  om_mediaID :: int
  om_versionKey :: string
  om_path :: string
  om_same :: "string list"
  om_distinct :: "string list"

record OtherListing =
  o_serverID :: int
  o_serverName :: string
  o_libraryID :: int
  o_libraryTitle :: string
  o_ratingKey :: string
  o_mediaID :: int
  o_versionKey :: string
  o_itemTitle :: string
  o_path :: string
  o_match :: string
  o_partItemIDs :: "string list"
  o_itemKeepsAnother :: "bool option"
  o_keptByGroup :: "bool option"
  o_others :: "OtherMedia list"
  o_hint :: string

record MediaVersion =
  v_key :: string
  v_serverID :: int
  v_libraryID :: int
  v_libraryTitle :: string
  v_sectionKey :: string
  v_ratingKey :: string
  v_mediaID :: int
  v_itemTitle :: string
  v_displayTitle :: string
  v_optimizedVersion :: bool
  v_itemKeyID :: string
  v_sourceID :: string
  v_episodeEnd :: int
  v_reportOnly :: "string list"
  v_parts :: "MediaPart list"
  v_container :: string
  v_durationMs :: int
  v_bitrateKbps :: int
  v_videoBitrate :: int
  v_width :: int
  v_height :: int
  v_resolution :: string
  v_videoCodec :: string
  v_videoProfile :: string
  v_bitDepth :: int
  v_frameRate :: string
  v_dynamicRange :: string
  v_dvProfile :: int
  v_audioTracks :: "AudioTrack list"
  v_subtitleTracks :: "SubtitleTrack list"
  v_source :: string
  v_edition :: string
  v_addedAt :: time
  v_arr :: "ArrFileInfo option"
  v_disc :: "DiscInfo option"
  v_watch :: "WatchInfo option"
  v_otherServers :: "OtherListing list"

definition IsLooseClipDisc :: "string \<Rightarrow> bool" where
  "IsLooseClipDisc kind \<longleftrightarrow> kind = DiscBlurayClips \<or> kind = DiscDVDClips"

definition IsImage :: "DiscInfo option \<Rightarrow> bool" where
  "IsImage d = (case d of None \<Rightarrow> False | Some d \<Rightarrow> d_type d = DiscISO)"

definition IsLooseClips :: "DiscInfo option \<Rightarrow> bool" where
  "IsLooseClips d = (case d of None \<Rightarrow> False | Some d \<Rightarrow> IsLooseClipDisc (d_type d))"

definition IsDisc :: "MediaVersion \<Rightarrow> bool" where
  "IsDisc v \<longleftrightarrow> v_disc v \<noteq> None"

definition TotalSize :: "MediaVersion \<Rightarrow> int" where
  "TotalSize v =
     (case v_disc v of
        Some d \<Rightarrow> if d_totalBytes d > 0 then d_totalBytes d else sum_list (map p_size (v_parts v))
      | None \<Rightarrow> sum_list (map p_size (v_parts v)))"

definition PrimaryAudio :: "MediaVersion \<Rightarrow> AudioTrack option" where
  "PrimaryAudio v =
     (case find at_default (v_audioTracks v) of
        Some t \<Rightarrow> Some t
      | None \<Rightarrow> (case v_audioTracks v of [] \<Rightarrow> None | t # _ \<Rightarrow> Some t))"

section \<open>Groups, profiles, libraries (entities.go, arritems.go)\<close>

record ArrQueueEntry =
  q_title :: string
  q_status :: string
  q_trackedDownloadState :: string
  q_trackedDownloadStatus :: string
  q_label :: string
  q_messages :: "string list"
  q_errorMessage :: string

record ArrItemRef =
  ai_instanceID :: int
  ai_instanceName :: string
  ai_kind :: string
  ai_itemID :: int
  ai_titleSlug :: string
  ai_queueCount :: int
  ai_queue :: "ArrQueueEntry list"

record CrossServerServer =
  cs_serverID :: int
  cs_machineIdentifier :: string
  cs_separate :: bool
  cs_mapped :: bool
  cs_mappings :: string
  cs_unread :: string

record CrossServerLibrary =
  cl_serverID :: int
  cl_libraryID :: int
  cl_sectionKey :: string
  cl_type :: string
  cl_locations :: "string list"
  cl_scannedAt :: int
  cl_contentChangedAt :: int
  cl_refreshing :: bool
  cl_fingerprint :: string

record CrossServerRecord =
  cr_complete :: bool
  cr_servers :: "CrossServerServer list"
  cr_libraries :: "CrossServerLibrary list"

record GroupFile =
  f_id :: int
  f_groupID :: int
  f_version :: MediaVersion
  f_decision :: string
  f_engineDecision :: string
  f_override :: string
  f_rank :: int
  f_reasons :: "string list"
  f_decidingCriterion :: string
  f_protected :: bool
  f_protectedReason :: string
  f_values :: "string \<rightharpoonup> string"

record DuplicateGroup =
  g_id :: int
  g_key :: string
  g_mediaType :: string
  g_title :: string
  g_year :: int
  g_showTitle :: string
  g_season :: int
  g_episode :: int
  g_serverID :: int
  g_libraryIDs :: "int list option"
  g_externalIDs :: "(string \<rightharpoonup> string) option"
  g_thumb :: string
  g_status :: string
  g_statusReason :: string
  g_flags :: "string list"
  g_profileID :: int
  g_files :: "GroupFile list"
  g_reclaimableBytes :: int
  g_firstSeenAt :: time
  g_lastSeenAt :: time
  g_updatedAt :: time
  g_lastScanID :: int
  g_signature :: string
  g_stableCount :: int
  g_crossServer :: "CrossServerRecord option"
  g_arrItems :: "ArrItemRef list"

definition HasFlag :: "DuplicateGroup \<Rightarrow> string \<Rightarrow> bool" where
  "HasFlag g f \<longleftrightarrow> f \<in> set (g_flags g)"

record PatternScore =
  ps_pattern :: string
  ps_score :: int
  ps_regex :: bool
  ps_caseSensitive :: bool

record Criterion =
  c_type :: string
  c_enabled :: bool
  c_direction :: string
  c_order :: "string list"
  c_tolerancePercent :: f64
  c_minDelta :: f64
  c_patterns :: "PatternScore list"
  c_value :: string

record Protection =
  pr_type :: string
  pr_value :: string

record Profile =
  pf_id :: int
  pf_name :: string
  pf_isDefault :: bool
  pf_criteria :: "Criterion list"
  pf_keepCount :: int
  pf_keepPer :: string
  pf_protections :: "Protection list"
  pf_createdAt :: time
  pf_updatedAt :: time

record Library =
  l_id :: int
  l_serverID :: int
  l_sectionKey :: string
  l_title :: string
  l_type :: string
  l_locations :: "string list"
  l_enabled :: bool
  l_profileID :: "int option"
  l_scopeGroup :: string
  l_updatedAt :: time

abbreviation ExcludeGroupKey :: string where "ExcludeGroupKey \<equiv> ''group_key''"
abbreviation ExcludePathPrefix :: string where "ExcludePathPrefix \<equiv> ''path_prefix''"
abbreviation ExcludeLibrary :: string where "ExcludeLibrary \<equiv> ''library''"
abbreviation ExcludeRegex :: string where "ExcludeRegex \<equiv> ''title_regex''"

record Exclusion =
  x_id :: int
  x_kind :: string
  x_value :: string
  x_title :: string
  x_reason :: string
  x_createdAt :: time

text \<open>An item of a media server with its versions, as a scan reads it.\<close>

record MediaItem =
  it_serverID :: int
  it_libraryID :: int
  it_libraryTitle :: string
  it_sectionKey :: string
  it_ratingKey :: string
  it_mediaType :: string
  it_title :: string
  it_year :: int
  it_showTitle :: string
  it_season :: int
  it_episode :: int
  it_externalIDs :: "string \<rightharpoonup> string"
  it_showIDs :: "string \<rightharpoonup> string"
  it_editionTitle :: string
  it_thumb :: string
  it_addedAt :: time
  it_versions :: "MediaVersion list"
  it_guid :: string
  it_serverKind :: string
  it_keyID :: string

abbreviation ModeManual :: string where "ModeManual \<equiv> ''manual''"
abbreviation MethodArr :: string where "MethodArr \<equiv> ''arr''"
abbreviation MethodPlex :: string where "MethodPlex \<equiv> ''plex''"
abbreviation MethodFilesystem :: string where "MethodFilesystem \<equiv> ''filesystem''"

record Settings =
  s_DryRun :: bool
  s_Mode :: string
  s_ScanIntervalMinutes :: int
  s_MinAgeHours :: int
  s_MaxDeletionsPerRun :: int
  s_DeletionMethods :: "string list"
  s_ArrRescanAfterDelete :: bool
  s_UnmonitorWhenKeeperElsewhere :: bool
  s_AddExclusionWhenKeeperElsewhere :: bool
  s_RecycleBinPath :: string
  s_RecycleBinCleanupDays :: int
  s_RefreshPlexAfterDelete :: bool
  s_CleanupPlexStaleEntries :: bool
  s_TreatEditionsAsDistinct :: bool
  s_Treat3DAsDistinct :: bool
  s_LanguageVariantsAsDistinct :: bool
  s_DifferentArrInstancesIntentional :: bool
  s_MaxGroupSize :: int
  s_StableScansRequired :: int
  s_MaxBytesPerRunGB :: int
  s_DurationTolerancePercent :: rat
  s_DurationToleranceMinutes :: int
  s_HistoryRetentionDays :: int
  s_BackupIntervalDays :: int
  s_BackupRetentionDays :: int
  s_DetectDiscs :: bool
  s_AllowDiscRemoval :: bool
  s_KeepPlayableCopy :: bool

definition DefaultSettings :: Settings where
  "DefaultSettings =
     \<lparr>s_DryRun = True, s_Mode = ModeManual, s_ScanIntervalMinutes = 360, s_MinAgeHours = 168,
      s_MaxDeletionsPerRun = 25, s_DeletionMethods = [MethodArr, MethodPlex, MethodFilesystem],
      s_ArrRescanAfterDelete = True, s_UnmonitorWhenKeeperElsewhere = True,
      s_AddExclusionWhenKeeperElsewhere = False, s_RecycleBinPath = [], s_RecycleBinCleanupDays = 7,
      s_RefreshPlexAfterDelete = True, s_CleanupPlexStaleEntries = True, s_TreatEditionsAsDistinct = True,
      s_Treat3DAsDistinct = True, s_LanguageVariantsAsDistinct = True,
      s_DifferentArrInstancesIntentional = True, s_MaxGroupSize = 4, s_StableScansRequired = 2,
      s_MaxBytesPerRunGB = 500, s_DurationTolerancePercent = 10, s_DurationToleranceMinutes = 5,
      s_HistoryRetentionDays = 90, s_BackupIntervalDays = 7, s_BackupRetentionDays = 28,
      s_DetectDiscs = True, s_AllowDiscRemoval = False, s_KeepPlayableCopy = True\<rparr>"

section \<open>Media-server kinds and keys (entities.go, keys.go)\<close>

definition ReadOnly :: "string \<Rightarrow> bool" where
  "ReadOnly k \<longleftrightarrow> k = MediaServerJellyfin"

definition KeyPrefix :: "string \<Rightarrow> string" where
  "KeyPrefix k = (if k = [] then MediaServerPlex else k)"

definition SupportedMediaServerKinds :: "string list" where
  "SupportedMediaServerKinds = [MediaServerPlex, [], MediaServerJellyfin]"

definition keyKinds :: "string list" where
  "keyKinds = dedup (map (\<lambda>k. if k = [] then MediaServerPlex else k) SupportedMediaServerKinds)"

definition VersionKey :: "string \<Rightarrow> int \<Rightarrow> string \<Rightarrow> string" where
  "VersionKey kind serverID versionID = KeyPrefix kind @ '':'' @ Itoa serverID @ '':'' @ versionID"

definition ServerItemKey :: "string \<Rightarrow> int \<Rightarrow> string \<Rightarrow> string" where
  "ServerItemKey kind serverID itemID = KeyPrefix kind @ '':'' @ Itoa serverID @ '':'' @ itemID"

definition KindOfVersionKey :: "string \<Rightarrow> string option" where
  "KindOfVersionKey key = find (\<lambda>k. HasPrefix key (KeyPrefix k @ '':'')) keyKinds"

definition DisambiguationIndex :: "string \<Rightarrow> (nat \<times> nat) option" where
  "DisambiguationIndex s =
     fold (\<lambda>k acc.
       let m = ''@'' @ KeyPrefix k @ '':''
       in case Index s m of
            None \<Rightarrow> acc
          | Some j \<Rightarrow> (case acc of
                         None \<Rightarrow> Some (j, length m)
                       | Some (i, n) \<Rightarrow> if j < i then Some (j, length m) else acc))
       keyKinds None"

definition KeyItemID :: "string \<Rightarrow> string \<Rightarrow> string" where
  "KeyItemID keyID ratingKey = (if TrimSpace keyID \<noteq> [] then TrimSpace keyID else TrimSpace ratingKey)"

definition ServerVersionID :: "MediaVersion \<Rightarrow> string" where
  "ServerVersionID v = (if v_mediaID v > 0 then Itoa (v_mediaID v) else TrimSpace (v_sourceID v))"

section \<open>Text from an *arr (arritems.go)\<close>

definition is_control :: "char \<Rightarrow> bool" where
  "is_control c \<longleftrightarrow> byte c < 32 \<or> byte c = 127"

text \<open>The runes of valid UTF-8 text: a lead byte and the continuation bytes after it.\<close>

definition is_cont :: "char \<Rightarrow> bool" where
  "is_cont c \<longleftrightarrow> 128 \<le> byte c \<and> byte c < 192"

function runes :: "string \<Rightarrow> string list" where
  "runes [] = []"
| "runes (c # s) = (c # takeWhile is_cont s) # runes (dropWhile is_cont s)"
  by pat_completeness auto
termination
  by (relation "measure length") (auto simp: length_dropWhile_le le_imp_less_Suc)

text \<open>
  The loop of \<open>CleanArrText\<close>: \<open>out\<close> is the builder, \<open>space\<close> whether a blank is due. It stops once the
  builder holds more than \<open>4 * limit\<close> bytes. White space and control characters are the ASCII ones.
\<close>

fun clean_loop :: "nat \<Rightarrow> string \<Rightarrow> bool \<Rightarrow> string list \<Rightarrow> string" where
  "clean_loop limit out space [] = out"
| "clean_loop limit out space (r # s) =
     (if list_all is_space r then clean_loop limit out (out \<noteq> []) s
      else if list_all is_control r then clean_loop limit out space s
      else let out' = (if space then out @ '' '' else out) @ r
           in if length out' > 4 * limit then out' else clean_loop limit out' False s)"

definition truncateRunes :: "string \<Rightarrow> nat \<Rightarrow> string" where
  "truncateRunes s limit =
     (if length (runes s) \<le> limit then s
      else if limit \<le> 1 then ellipsis
      else TrimRightFunc is_space (concat (take (limit - 1) (runes s))) @ ellipsis)"

definition CleanArrText :: "string \<Rightarrow> nat \<Rightarrow> string" where
  "CleanArrText s limit =
     (if limit = 0 then [] else truncateRunes (clean_loop limit [] False (runes s)) limit)"

section \<open>Keys identify versions\<close>

lemma Itoa_inj: "Itoa i = Itoa j \<Longrightarrow> i = j"
proof -
  assume eq: "Itoa i = Itoa j"
  have neg: "i < 0 \<longleftrightarrow> j < 0" using eq digits_hd(1) by (metis Itoa_def list.sel(1))
  then have "nat \<bar>i\<bar> = nat \<bar>j\<bar>" using eq by (auto simp: Itoa_def dest!: digits_inj split: if_splits)
  then show ?thesis using neg by auto
qed

lemma Itoa_no_colon: "CHR '':'' \<notin> set (Itoa i)"
proof -
  have "CHR '':'' \<notin> set (digits n)" for n using digits_all_digit[of n] by (fastforce simp: list_all_iff is_digit_def byte_def)
  then show ?thesis by (simp add: Itoa_def)
qed

text \<open>Splitting at the first separator is unique.\<close>

lemma append_sep_inj:
  "c \<notin> set a \<Longrightarrow> c \<notin> set b \<Longrightarrow> a @ c # x = b @ c # y \<Longrightarrow> a = b \<and> x = y"
  by (induction a arbitrary: b) (auto simp: Cons_eq_append_conv append_eq_Cons_conv)

lemma keyKinds_eq: "keyKinds = [MediaServerPlex, MediaServerJellyfin]"
  by (simp add: keyKinds_def SupportedMediaServerKinds_def dedup_def add_new_def)

text \<open>
  A version key names its server kind, server and version uniquely: for the supported kinds the kind is
  read back from the key, and two keys are equal only for the same kind, server id and version id.
\<close>

theorem version_key_round_trip:
  assumes "k \<in> set keyKinds" and "k' \<in> set keyKinds"
  shows "KindOfVersionKey (VersionKey k s i) = Some k \<and>
    (VersionKey k s i = VersionKey k' s' i' \<longrightarrow> k = k' \<and> s = s' \<and> i = i')"
proof
  have k: "k = MediaServerPlex \<or> k = MediaServerJellyfin" "k' = MediaServerPlex \<or> k' = MediaServerJellyfin"
    using assms by (simp_all add: keyKinds_eq)
  then have kp: "KeyPrefix k = k" "KeyPrefix k' = k'" "CHR '':'' \<notin> set k" "CHR '':'' \<notin> set k'"
    by (auto simp: KeyPrefix_def)
  show "KindOfVersionKey (VersionKey k s i) = Some k"
    using k(1) by (auto simp: KindOfVersionKey_def VersionKey_def keyKinds_eq KeyPrefix_def HasPrefix_def)
  show "VersionKey k s i = VersionKey k' s' i' \<longrightarrow> k = k' \<and> s = s' \<and> i = i'"
  proof
    assume "VersionKey k s i = VersionKey k' s' i'"
    then have "k @ CHR '':'' # (Itoa s @ CHR '':'' # i) = k' @ CHR '':'' # (Itoa s' @ CHR '':'' # i')"
      by (simp add: VersionKey_def kp)
    from append_sep_inj[OF kp(3,4) this] have "k = k'" "Itoa s @ CHR '':'' # i = Itoa s' @ CHR '':'' # i'" by simp_all
    then show "k = k' \<and> s = s' \<and> i = i'" using append_sep_inj[OF Itoa_no_colon Itoa_no_colon] Itoa_inj by blast
  qed
qed

theorem version_key_round_trip_witness: "KindOfVersionKey (VersionKey MediaServerJellyfin 2 ''x'') = Some MediaServerJellyfin"
  using version_key_round_trip[of MediaServerJellyfin MediaServerPlex 2 "''x''"] by (simp add: keyKinds_eq)

section \<open>Text from an *arr is bounded\<close>

lemma takeWhile_app_stop: "b = [] \<or> \<not> P (hd b) \<Longrightarrow> takeWhile P (s @ b) = takeWhile P s"
  by (cases b; induction s) auto

lemma dropWhile_app_stop: "b = [] \<or> \<not> P (hd b) \<Longrightarrow> dropWhile P (s @ b) = dropWhile P s @ b"
  by (cases b; induction s) auto

lemma runes_append: "b = [] \<or> \<not> is_cont (hd b) \<Longrightarrow> runes (a @ b) = runes a @ runes b"
  by (induction a rule: runes.induct) (simp_all add: takeWhile_app_stop dropWhile_app_stop)

lemma concat_runes: "concat (runes s) = s"
  by (induction s rule: runes.induct) simp_all

text \<open>The text of the first runes has just these runes.\<close>

lemma runes_take: "runes (concat (take n (runes s))) = take n (runes s)"
proof (induction s arbitrary: n rule: runes.induct)
  case (2 c s)
  show ?case
  proof (cases n)
    case (Suc m)
    let ?d = "concat (take m (runes (dropWhile is_cont s)))"
    have hd: "?d = [] \<or> \<not> is_cont (hd ?d)"
    proof (cases "dropWhile is_cont s")
      case (Cons x xs)
      then have "\<not> is_cont x" using hd_dropWhile[of is_cont s] by simp
      then show ?thesis using Cons by (cases m) simp_all
    next
      case Nil
      then show ?thesis by (simp only: Nil runes.simps take_Nil concat.simps) simp
    qed
    have "runes ((c # takeWhile is_cont s) @ ?d) = runes (c # takeWhile is_cont s) @ runes ?d"
      by (rule runes_append[OF hd])
    moreover have "runes (c # takeWhile is_cont s) = [c # takeWhile is_cont s]"
    proof -
      have "dropWhile is_cont (takeWhile is_cont s) = []" by (auto simp: dropWhile_eq_Nil_conv dest: set_takeWhileD)
      then show ?thesis by (simp only: runes.simps takeWhile_idem)
    qed
    ultimately show ?thesis using 2[of m] Suc by simp
  qed simp
qed simp

lemma length_runes_prefix: "length (runes (take n s)) \<le> length (runes s)"
proof (induction s arbitrary: n rule: runes.induct)
  case (2 c s)
  show ?case
  proof (cases n)
    case (Suc m)
    have "dropWhile is_cont (take m s) = take (m - length (takeWhile is_cont s)) (dropWhile is_cont s)"
    proof (induction s arbitrary: m)
      case (Cons x xs)
      then show ?case by (cases m) auto
    qed simp
    then show ?thesis using 2 Suc by simp
  qed simp
qed simp

lemma TrimRight_take: "\<exists>n. TrimRightFunc P s = take n s"
  by (metis TrimRightFunc_def append_eq_conv_conj rev_append rev_rev_ident takeWhile_dropWhile_id)

text \<open>
  Text an *arr sends is bounded before it is shown: \<open>CleanArrText\<close> returns at most \<open>limit\<close> runes.
\<close>

theorem clean_arr_text_bounded: "length (runes (CleanArrText s limit)) \<le> limit"
proof -
  have e: "runes ellipsis = [ellipsis]" "\<not> is_cont (hd ellipsis)"
    by (simp_all add: ellipsis_def is_cont_def byte_def)
  have "length (runes (truncateRunes t limit)) \<le> limit" if "0 < limit" for t
  proof -
    obtain n where n: "TrimRightFunc is_space (concat (take (limit - 1) (runes t))) = take n (concat (take (limit - 1) (runes t)))"
      using TrimRight_take by blast
    have "length (runes (take n (concat (take (limit - 1) (runes t))))) \<le> limit - 1"
      using length_runes_prefix[of n "concat (take (limit - 1) (runes t))"] by (simp add: runes_take)
    then have "length (runes (TrimRightFunc is_space (concat (take (limit - 1) (runes t))) @ ellipsis)) \<le> limit"
      using that e runes_append[of ellipsis "take n (concat (take (limit - 1) (runes t)))"] unfolding n by simp
    then show ?thesis using that e by (simp add: truncateRunes_def)
  qed
  then show ?thesis by (simp add: CleanArrText_def)
qed

end
