(* ===== verification/DiscPaths.thy ===== *)
theory DiscPaths
  imports GoRegexp Models
begin

text \<open>
  The path rules of \<open>internal/disc/paths.go\<close>: which paths lie inside a full-disc structure (the
  per-file guard of every removal method), which folder is the disc's root, and which file names belong
  to a loose clip set. Both separators are accepted and names are compared without case.
\<close>

section \<open>Tables and expressions\<close>

definition structureDirs :: "(string \<times> string) list" where
  "structureDirs =
    [(''BDMV'', DiscBluray), (''AACS'', DiscBluray), (''CERTIFICATE'', DiscBluray),
     (''MAKEMKV'', DiscBluray), (''BDSVM'', DiscBluray), (''SLYVM'', DiscBluray),
     (''ANYVM'', DiscBluray), (''BDAV'', DiscBDAV), (''VIDEO_TS'', DiscDVD),
     (''HVDVD_TS'', DiscHDDVD), (''ADV_OBJ'', DiscHDDVD), (''AVCHD'', DiscAVCHD)]"

definition discFileNames :: "(string \<times> string) list" where
  "discFileNames =
    [(''INDEX.BDMV'', DiscBluray), (''MOVIEOBJECT.BDMV'', DiscBluray), (''DISCATT.DAT'', DiscBluray),
     (''INDEX.BDM'', DiscAVCHD), (''MOVIEOBJ.BDM'', DiscAVCHD)]"

definition discExtensions :: "(string \<times> string) list" where
  "discExtensions =
    [(''.MPLS'', DiscBluray), (''.CLPI'', DiscBluray), (''.BDMV'', DiscBluray),
     (''.SSIF'', DiscBluray), (''.BDM'', DiscAVCHD), (''.MPL'', DiscAVCHD), (''.CPI'', DiscAVCHD),
     (''.IFO'', DiscDVD), (''.BUP'', DiscDVD), (''.EVO'', DiscHDDVD)]"

definition r_sep :: rx where "r_sep = r_set '' ._-''"

definition copyMarkers :: rx where
  "copyMarkers =
     RStar (r_seq [r_plus r_sep,
       r_alt [r_ilit ''copy'', r_seq [r_char (CHR ''(''), RRep 1 3 r_digit, r_char (CHR '')'')],
              RRep 1 3 r_digit]])"

definition clipStem :: rx where
  "clipStem = RSeq (RRep 5 5 r_digit) copyMarkers"

definition reFlatDVD :: rx where
  "reFlatDVD =
     r_seq [RBegin,
       r_alt [r_seq [r_ilit ''VIDEO_TS'', copyMarkers, r_char (CHR ''.''), r_ialt [''IFO'', ''BUP'', ''VOB'']],
              r_seq [r_ilit ''VTS_'', RRep 2 2 r_digit, r_char (CHR ''_''), r_digit, copyMarkers,
                     r_char (CHR ''.''), r_ialt [''IFO'', ''BUP'', ''VOB'']]],
       REnd]"

definition reClipName :: rx where
  "reClipName =
     r_seq [RBegin, clipStem, r_char (CHR ''.''), r_ialt [''m2ts'', ''mts'', ''m2t''], REnd]"

definition reDVDClipName :: rx where
  "reDVDClipName =
     r_seq [RBegin,
       r_alt [r_seq [r_ilit ''VTS_'', RRep 2 2 r_digit, r_char (CHR ''_''), r_digit, copyMarkers,
                     r_ilit ''.VOB''],
              r_seq [r_ilit ''VIDEO_TS'', copyMarkers, r_char (CHR ''.''), r_ialt [''VOB'', ''IFO'', ''BUP'']]],
       REnd]"

definition reLooseBDMeta :: rx where
  "reLooseBDMeta =
     r_seq [RBegin,
       r_alt [r_seq [r_plus (r_notset [CHR ''/'', CHR 0x5C]), r_char (CHR ''.''),
                     r_ialt [''mpls'', ''clpi'', ''bdmv'']],
              r_seq [clipStem, r_ilit ''.ssif'']],
       REnd]"

section \<open>Names\<close>

definition IsClipName :: "string \<Rightarrow> bool" where
  "IsClipName name = MatchString reClipName name"

definition IsDVDClipName :: "string \<Rightarrow> bool" where
  "IsDVDClipName name = MatchString reDVDClipName name"

definition IsLooseSetFileName :: "string \<Rightarrow> bool" where
  "IsLooseSetFileName name \<longleftrightarrow>
     MatchString reClipName name \<or> MatchString reLooseBDMeta name \<or> MatchString reFlatDVD name"

text \<open>The table keys are upper-case ASCII; on ASCII input folding is upper-casing.\<close>

definition lookupFold :: "(string \<times> string) list \<Rightarrow> string \<Rightarrow> string option" where
  "lookupFold m s = map_of m (ToUpper s)"

definition slashes :: "string \<Rightarrow> string" where
  "slashes p = ReplaceChar (CHR 0x5C) ''/'' p"

definition baseName :: "string \<Rightarrow> string" where
  "baseName p = after_last_slash (TrimRight (slashes p) ''/'')"

definition IsImagePath :: "string \<Rightarrow> bool" where
  "IsImagePath p \<longleftrightarrow> ToUpper (path_Ext (baseName p)) \<in> {''.ISO'', ''.IMG''}"

definition inStructure :: "string \<Rightarrow> bool" where
  "inStructure p \<longleftrightarrow>
     (\<exists>seg\<in>set (butlast (Split (CHR ''/'') (TrimRight (slashes p) ''/''))).
        seg \<noteq> [] \<and> lookupFold structureDirs seg \<noteq> None)"

definition LooseClipKind :: "string \<Rightarrow> string option" where
  "LooseClipKind p =
     (let name = baseName p;
          kind = (if name = [] then None
                  else if MatchString reClipName name then Some DiscBlurayClips
                  else if MatchString reDVDClipName name then Some DiscDVDClips
                  else None)
      in if kind = None \<or> inStructure p then None else kind)"

definition IsLooseClipPath :: "string \<Rightarrow> bool" where
  "IsLooseClipPath p \<longleftrightarrow> LooseClipKind p \<noteq> None"

section \<open>Locating the structure\<close>

text \<open>The components of a path with their byte offsets.\<close>

fun offsets :: "nat \<Rightarrow> string list \<Rightarrow> (nat \<times> string) list" where
  "offsets i [] = []"
| "offsets i (c # cs) = (i, c) # offsets (i + length c + 1) cs"

definition loose_file_kind :: "string \<Rightarrow> string option" where
  "loose_file_kind name =
     (case lookupFold discFileNames name of
        Some k \<Rightarrow> Some k
      | None \<Rightarrow>
          if MatchString reFlatDVD name then Some DiscDVD
          else (case lookupFold discExtensions (path_Ext name) of
                  Some k \<Rightarrow> Some k
                | None \<Rightarrow> if MatchString reClipName name then Some DiscBlurayClips else None))"

text \<open>
  The loop of \<open>locate\<close> over the components; \<open>prev\<close> is the last non-empty component before (its start
  and its name). The result is the kind and the offset at which the disc root ends.
\<close>

fun locate_loop :: "(nat \<times> string) list \<Rightarrow> (nat \<times> string) option \<Rightarrow> (string \<times> nat) option" where
  "locate_loop [] prev =
     (case prev of
        None \<Rightarrow> None
      | Some (st, name) \<Rightarrow> map_option (\<lambda>k. (k, st)) (loose_file_kind name))"
| "locate_loop ((st, seg) # cs) prev =
     (if seg = [] then locate_loop cs prev
      else case lookupFold structureDirs seg of
             Some kind \<Rightarrow>
               Some (kind, case prev of
                             Some (pst, pseg) \<Rightarrow>
                               if kind = DiscAVCHD \<and> EqualFold pseg ''PRIVATE'' then pst else st
                           | None \<Rightarrow> st)
           | None \<Rightarrow> locate_loop cs (Some (st, seg)))"

definition locate :: "string \<Rightarrow> (string \<times> nat) option" where
  "locate p = locate_loop (offsets 0 (Split (CHR ''/'') (slashes p))) None"

definition IsDiscPath :: "string \<Rightarrow> bool" where
  "IsDiscPath p \<longleftrightarrow> locate p \<noteq> None"

definition isDrive :: "string \<Rightarrow> bool" where
  "isDrive t \<longleftrightarrow> length t = 2 \<and> t ! 1 = CHR '':'' \<and> isASCIILetter (t ! 0)"

definition rootBefore :: "string \<Rightarrow> nat \<Rightarrow> string" where
  "rootBefore p e =
     (if e = 0 then []
      else let r = take e p; t = TrimRight r [CHR ''/'', CHR 0x5C]
           in if t = [] then take 1 r
              else if isDrive t \<and> length r > 2 then take 3 r
              else t)"

definition RootOf :: "string \<Rightarrow> (string \<times> string) option" where
  "RootOf p = (case locate p of None \<Rightarrow> None | Some (t, e) \<Rightarrow> Some (rootBefore p e, t))"

section \<open>Properties\<close>

lemma length_slashes [simp]: "length (slashes p) = length p"
  by (induction p) (auto simp: slashes_def ReplaceChar_def)

lemma slashes_idem [simp]: "slashes (slashes p) = slashes p"
  by (induction p) (auto simp: slashes_def ReplaceChar_def)

lemma slashes_append: "slashes (p @ q) = slashes p @ slashes q"
  by (simp add: slashes_def ReplaceChar_def)

text \<open>A path is a disc path through a structure folder or through its last component.\<close>

fun last_named :: "string list \<Rightarrow> string option \<Rightarrow> string option" where
  "last_named [] prev = prev"
| "last_named (c # cs) prev = last_named cs (if c = [] then prev else Some c)"

lemma locate_loop_iff:
  "locate_loop (offsets i cs) prev \<noteq> None \<longleftrightarrow>
     (\<exists>c\<in>set cs. c \<noteq> [] \<and> lookupFold structureDirs c \<noteq> None) \<or>
     (\<exists>n. last_named cs (map_option snd prev) = Some n \<and> loose_file_kind n \<noteq> None)"
proof (induction cs arbitrary: i prev)
  case Nil
  then show ?case by (auto split: option.splits)
next
  case (Cons c cs)
  then show ?case by (auto split: option.splits)
qed

lemma IsDiscPath_iff:
  "IsDiscPath p \<longleftrightarrow>
     (\<exists>c\<in>set (Split (CHR ''/'') (slashes p)). c \<noteq> [] \<and> lookupFold structureDirs c \<noteq> None) \<or>
     (\<exists>n. last_named (Split (CHR ''/'') (slashes p)) None = Some n \<and> loose_file_kind n \<noteq> None)"
  by (simp add: IsDiscPath_def locate_def locate_loop_iff del: not_None_eq)

lemma Split_append_sep:
  "Split sep (a @ sep # b) = Split sep a @ Split sep b"
proof (induction a)
  case (Cons c a)
  then show ?case by (cases "Split sep a") auto
qed simp

lemma Split_single: "sep \<notin> set s \<Longrightarrow> Split sep s = [s]"
  by (induction s) auto

lemma slashes_no_backslash: "CHR 0x5C \<notin> set p \<Longrightarrow> slashes p = p"
  by (induction p) (auto simp: slashes_def ReplaceChar_def)

text \<open>
  The fail-closed per-file guard: whatever folder a disc lies in and whatever file of it a path
  names, with either separator and in any case, every path below a structure folder is a disc path.
\<close>

theorem structure_folder_paths_are_disc_paths:
  assumes "(ToUpper dir, kind) \<in> set structureDirs" and "sep1 \<in> {CHR ''/'', CHR 0x5C}"
    and "sep2 \<in> {CHR ''/'', CHR 0x5C}"
  shows "IsDiscPath (base @ [sep1] @ dir @ [sep2] @ rest)"
proof -
  have chars: "set dir \<inter> {CHR ''/'', CHR 0x5C} = {}"
  proof -
    have "upper_char c \<noteq> c \<or> c \<notin> {CHR ''/'', CHR 0x5C} \<or> c \<in> set (ToUpper dir)" if "c \<in> set dir" for c
      using that by (force simp: ToUpper_def)
    moreover have "upper_char c = c" if "c \<in> {CHR ''/'', CHR 0x5C}" for c
      using that by (auto simp: upper_char_def is_lower_def byte_def)
    moreover have "set (ToUpper dir) \<inter> {CHR ''/'', CHR 0x5C} = {}"
      using assms(1) by (auto simp: structureDirs_def)
    ultimately show ?thesis by blast
  qed
  have s: "slashes [c] = ''/''" if "c \<in> {CHR ''/'', CHR 0x5C}" for c
    using that by (auto simp: slashes_def ReplaceChar_def)
  have d: "slashes dir = dir" using chars by (intro slashes_no_backslash) auto
  have "slashes (base @ [sep1] @ dir @ [sep2] @ rest) =
      slashes base @ CHR ''/'' # dir @ CHR ''/'' # slashes rest"
    using s[OF assms(2)] s[OF assms(3)] d by (simp only: slashes_append) simp
  then have "dir \<in> set (Split (CHR ''/'') (slashes (base @ [sep1] @ dir @ [sep2] @ rest)))"
    using chars by (simp add: Split_append_sep Split_single)
  moreover have "lookupFold structureDirs dir \<noteq> None" "dir \<noteq> []"
    using assms(1) by (auto simp: lookupFold_def structureDirs_def ToUpper_def)
  ultimately show ?thesis unfolding IsDiscPath_iff by blast
qed

theorem structure_folder_paths_are_disc_paths_witness:
  "(ToUpper ''Bdmv'', DiscBluray) \<in> set structureDirs \<and>
   IsDiscPath (''D:'' @ [CHR 0x5C] @ ''Bdmv'' @ [CHR ''/''] @ ''STREAM/x.mkv'')"
proof -
  have "ToUpper ''Bdmv'' = ''BDMV''" by code_simp
  then have h: "(ToUpper ''Bdmv'', DiscBluray) \<in> set structureDirs" by (simp add: structureDirs_def)
  show ?thesis using h structure_folder_paths_are_disc_paths
      [OF h, of "CHR 0x5C" "CHR ''/''" "''D:''" "''STREAM/x.mkv''"] by simp
qed

lemma rootBefore_prefix: "prefix (rootBefore p e) p"
proof -
  have "prefix (TrimRight (take e p) cs) p" for cs
    using TrimRightFunc_prefix[of _ "take e p"] take_is_prefix prefix_order.trans
    by (metis TrimRight_def)
  then show ?thesis
    by (simp add: rootBefore_def Let_def take_is_prefix)
qed

lemma RootOf_prefix: "RootOf p = Some (r, t) \<Longrightarrow> prefix r p"
  using rootBefore_prefix by (auto simp: RootOf_def split: option.splits prod.splits)

end
