(* ===== verification/Helpers.thy ===== *)
theory Helpers
  imports UnionFind DiscPaths
begin

text \<open>
  The helpers of \<open>internal/engine/helpers.go\<close>: path normalisation and matching, title and year
  tokens, the properties of a version that decide whether it may be removed, language codes, and the
  text utilities of the messages; with the laws of path normalisation and of flag lists.

  The glob library (\<open>github.com/bmatcuk/doublestar\<close>) and regular expressions that users write are
  parameters: \<open>golib\<close> bundles the functions the engine calls, and the wall clock it reads when an
  evaluation is given no time.
\<close>

record golib =
  ds_validate :: "string \<Rightarrow> bool"           \<comment> \<open>\<open>doublestar.ValidatePattern\<close>\<close>
  ds_match :: "string \<Rightarrow> string \<Rightarrow> bool"   \<comment> \<open>\<open>doublestar.MatchUnvalidated\<close>: pattern, name\<close>
  re_compile :: "string \<Rightarrow> (string \<Rightarrow> bool) option"  \<comment> \<open>\<open>regexp.Compile\<close> and \<open>MatchString\<close>\<close>
  time_now :: time                          \<comment> \<open>\<open>time.Now()\<close>\<close>

section \<open>Expressions\<close>

definition reSeasonDir :: rx where
  "reSeasonDir = r_seq [RBegin, r_alt
     [r_seq [r_ialt [''season'', ''series'', ''staffel'', ''saison'', ''temporada'', ''stagione''],
             RStar r_sep, r_plus r_digit],
      r_seq [r_ichar (CHR ''s''), RRep 1 4 r_digit],
      r_seq [r_ilit ''special'', r_opt (r_ichar (CHR ''s''))]], REnd]"

definition reDiscDir :: rx where
  "reDiscDir = r_seq [RBegin,
     r_alt [r_ilit ''cd'', r_seq [r_ilit ''dis'', RAlt (r_ichar (CHR ''c'')) (r_ichar (CHR ''k''))],
            r_ilit ''dvd'', r_ilit ''part'', r_ilit ''pt''],
     RStar r_sep, r_plus r_digit, REnd]"

definition reParenYear :: rx where
  "reParenYear = r_seq [r_char (CHR ''(''), RAlt (r_lit ''19'') (r_lit ''20''), RRep 2 2 r_digit,
     r_char (CHR '')'')]"

definition reBracketTag :: rx where
  "reBracketTag = RAlt
     (r_seq [r_char (CHR ''{''), RStar (r_notset ''{}''), r_char (CHR ''}'')])
     (r_seq [r_char (CHR ''[''), RStar (r_notset ''[]''), r_char (CHR '']'')])"

text \<open>\<open>\s\<close> is \<open>[\t\n\f\r ]\<close>.\<close>

definition re_space :: string where
  "re_space = [CHR 0x09, CHR 0x0A, CHR 0x0C, CHR 0x0D, CHR 0x20]"

definition reIDTag :: rx where
  "reIDTag = r_seq [r_set ''{['', r_ialt [''tmdb'', ''imdb'', ''tvdb''], r_opt (r_ilit ''id''),
     r_set ''-='', r_plus (r_notset (''}]'' @ re_space)), r_set ''}]'']"

definition reOrdinal_suffixes :: "string list" where
  "reOrdinal_suffixes = [''st'', ''nd'', ''rd'', ''th'']"

definition r_ep :: rx where  \<comment> \<open>\<open>[ ._-]?e\d{1,4}\<close>\<close>
  "r_ep = r_seq [r_opt r_sep, r_ichar (CHR ''e''), RRep 1 4 r_digit]"

definition r_no_res :: rx where  \<comment> \<open>\<open>(?:[^0-9pi]|$)\<close> under \<open>(?i)\<close>\<close>
  "r_no_res = RAlt (RClass (\<lambda>c. \<not> is_digit c \<and> lower_char c \<noteq> CHR ''p'' \<and> lower_char c \<noteq> CHR ''i'')) REnd"

definition reMultiEpisode :: rx where
  "reMultiEpisode = RAlt
     (r_seq [RWordB, r_ichar (CHR ''s''), RRep 1 4 r_digit, r_ep,
        RAlt (r_seq [RStar r_sep,
                     r_opt (r_seq [r_ichar (CHR ''s''), RRep 1 4 r_digit, r_opt r_sep]),
                     r_ichar (CHR ''e''), RRep 1 4 r_digit])
             (r_seq [r_char (CHR ''-''), RRep 1 4 r_digit, r_no_res])])
     (r_seq [RWordB, RRep 1 2 r_digit, r_ichar (CHR ''x''), RRep 2 3 r_digit, r_char (CHR ''-''),
        r_opt (r_seq [RRep 1 2 r_digit, r_ichar (CHR ''x'')]), RRep 2 3 r_digit, r_no_res])"

definition r_dash :: rx where  \<comment> \<open>\<open>(?:-| - )\<close>\<close>
  "r_dash = RAlt (r_lit ''-'') (r_lit '' - '')"

definition reJellyfinMultiEpisode :: rx where
  "reJellyfinMultiEpisode = r_seq
     [RAlt (r_seq [RWordB, r_ichar (CHR ''s''), RRep 1 4 r_digit,
                   r_opt (RAlt (r_ichar (CHR ''x'')) (r_char (CHR ''.''))), r_ichar (CHR ''e''), RRep 1 3 r_digit])
           (r_seq [RWordB, r_opt (r_ichar (CHR ''s'')), RRep 1 4 r_digit, r_ichar (CHR ''x''), RRep 1 3 r_digit]),
      r_alt [r_seq [r_opt r_dash, r_opt (r_ichar (CHR ''x'')), r_ichar (CHR ''e''), RRep 1 3 r_digit],
             r_seq [r_opt r_dash, r_ichar (CHR ''x''), r_opt (r_ichar (CHR ''e'')), RRep 1 3 r_digit],
             r_seq [r_dash, r_opt (r_ichar (CHR ''s'')), RRep 1 4 r_digit,
                    r_ialt [''x'', ''e'', ''xe''], RRep 1 3 r_digit],
             r_seq [r_char (CHR ''-''), RRep 1 3 r_digit]],
      r_no_res]"

section \<open>Paths\<close>

definition isDrivePath :: "string \<Rightarrow> bool" where
  "isDrivePath p \<longleftrightarrow> length p \<ge> 2 \<and> p ! 1 = CHR '':'' \<and> isASCIILetter (p ! 0)"

definition normPath :: "string \<Rightarrow> string" where
  "normPath p0 =
     (let p1 = TrimSpace p0
      in if p1 = [] then []
         else let p2 = slashes p1;
                  unc = HasPrefix p2 ''//'';
                  p3 = path_Clean p2;
                  p4 = (if unc \<and> \<not> HasPrefix p3 ''//'' then CHR ''/'' # p3 else p3)
              in if isDrivePath p4 then ToLower (take 1 p4) @ drop 1 p4 else p4)"

definition fileKey :: "string \<Rightarrow> string" where
  "fileKey p = ToLower (normPath p)"

definition hasPathPrefix :: "string \<Rightarrow> string \<Rightarrow> bool" where
  "hasPathPrefix p pre =
     (if p = [] \<or> pre = [] then False
      else if p = pre then True
      else if HasSuffix pre ''/'' \<or> HasSuffix pre '':'' then
        HasPrefix p pre \<and> (HasSuffix pre ''/'' \<or> HasPrefix (drop (length pre) p) ''/'')
      else HasPrefix p (pre @ ''/''))"

definition pathUnder :: "string \<Rightarrow> string \<Rightarrow> bool" where
  "pathUnder p pre = hasPathPrefix (ToLower (normPath p)) (ToLower (normPath pre))"

definition versionPaths :: "MediaVersion \<Rightarrow> string list" where
  "versionPaths v =
     concat (map (\<lambda>p. (if TrimSpace (p_path p) \<noteq> [] then [p_path p] else []) @
                      (if TrimSpace (p_localPath p) \<noteq> [] then [p_localPath p] else [])) (v_parts v))"

definition primaryPath :: "MediaVersion \<Rightarrow> string" where
  "primaryPath v = (case versionPaths v of [] \<Rightarrow> [] | p # _ \<Rightarrow> p)"

definition stripExt :: "string \<Rightarrow> string" where
  "stripExt name =
     (let ext = path_Ext name
      in if ext \<noteq> [] \<and> length ext \<le> 6 \<and> \<not> Contains ext '' '' then TrimSuffix name ext else name)"

definition hasGlobMeta :: "string \<Rightarrow> bool" where
  "hasGlobMeta p \<longleftrightarrow> (\<exists>c\<in>set p. c \<in> set ''*?[{'')"

definition fold_case :: "bool \<Rightarrow> string \<Rightarrow> string" where
  "fold_case caseSensitive s = (if caseSensitive then s else ToLower s)"

definition globMatch1 :: "golib \<Rightarrow> string \<Rightarrow> bool \<Rightarrow> string \<Rightarrow> bool" where
  "globMatch1 lib pat literal np =
     (if \<not> Contains pat ''/'' then ds_match lib pat (path_Base np)
      else if literal then hasPathPrefix np pat
      else ds_match lib pat np \<or>
        (\<not> HasPrefix pat ''/'' \<and> \<not> HasPrefix pat ''*'' \<and> \<not> isDrivePath pat \<and> ds_match lib (''**/'' @ pat) np))"

definition globMatch :: "golib \<Rightarrow> string \<Rightarrow> string list \<Rightarrow> bool \<Rightarrow> bool" where
  "globMatch lib pattern paths caseSensitive =
     (let pat = fold_case caseSensitive (slashes (TrimSpace pattern))
      in if pat = [] then False
         else if \<not> ds_validate lib pat then False
         else let literal = \<not> hasGlobMeta pat;
                  pat' = (if literal then fold_case caseSensitive (normPath pat) else pat)
              in \<exists>p\<in>set paths. normPath p \<noteq> [] \<and>
                   globMatch1 lib pat' literal (fold_case caseSensitive (normPath p)))"

definition protectionGlobMatch :: "golib \<Rightarrow> string \<Rightarrow> string list \<Rightarrow> bool" where
  "protectionGlobMatch lib pattern paths =
     (globMatch lib pattern paths False \<or>
      (let pat = TrimRight (ToLower (slashes (TrimSpace pattern))) ''/''
       in if pat = [] \<or> \<not> ds_validate lib pat then False
          else let pats = [pat, pat @ ''/**''] @
                 (if \<not> HasPrefix pat ''/'' \<and> \<not> isDrivePath pat \<and> \<not> HasPrefix pat ''**''
                  then [''**/'' @ pat, ''**/'' @ pat @ ''/**''] else [])
               in \<exists>p\<in>set paths. normPath p \<noteq> [] \<and> (\<exists>pt\<in>set pats. ds_match lib pt (ToLower (normPath p)))))"

section \<open>Tokens, titles, years\<close>

definition tokenize :: "string \<Rightarrow> string list" where
  "tokenize s = FieldsFunc (\<lambda>c. \<not> isASCIILetter c \<and> \<not> is_digit c) (ToLower s)"

definition isYearToken :: "string \<Rightarrow> bool" where
  "isYearToken t \<longleftrightarrow> length t = 4 \<and> (HasPrefix t ''19'' \<or> HasPrefix t ''20'') \<and> ParseInt t \<noteq> None"

definition titlePath :: "MediaVersion \<Rightarrow> string" where
  "titlePath v =
     (let under = (\<lambda>root. TrimRight (slashes root) ''/'' @ ''/BDMV'');
          p = primaryPath v;
          plain = (case RootOf p of Some (r, _) \<Rightarrow> if r \<noteq> [] then under r else p | None \<Rightarrow> p)
      in case v_disc v of
           None \<Rightarrow> plain
         | Some d \<Rightarrow>
             let root1 = TrimSpace (d_root d);
                 root2 = (if root1 = [] then TrimSpace (d_localRoot d) else root1);
                 root = (if root2 = [] then (case RootOf p of Some (r, _) \<Rightarrow> r | None \<Rightarrow> []) else root2)
             in if root = [] then plain
                else if IsImage (Some d) then root
                else under root)"

fun title_dir :: "nat \<Rightarrow> string \<Rightarrow> string" where
  "title_dir 0 dir = []"
| "title_dir (Suc n) dir =
     (if dir = ''/'' \<or> dir = ''.'' \<or> dir = [] \<or> dir = ''//'' \<or> (length dir = 2 \<and> isDrivePath dir) then []
      else let b = path_Base dir
           in if MatchString reSeasonDir b \<or> MatchString reDiscDir b then title_dir n (path_Dir dir)
              else b)"

definition titleFolder :: "MediaVersion \<Rightarrow> string" where
  "titleFolder v = (let np = normPath (titlePath v) in if np = [] then [] else title_dir 4 (path_Dir np))"

definition isQualityToken :: "string \<Rightarrow> bool" where
  "isQualityToken t \<longleftrightarrow>
     t \<in> {''4k'', ''uhd'', ''hdr'', ''hdr10'', ''sdr'', ''dv'', ''remux'', ''bluray'', ''web'', ''webdl'', ''3d'', ''imax''} \<or>
     (length t \<ge> 4 \<and> HasSuffix t ''p'' \<and> ParseInt (butlast t) \<noteq> None)"

text \<open>The apostrophe that \<open>strings.NewReplacer\<close> also drops is U+2019 (three bytes).\<close>

fun drop_quotes :: "string \<Rightarrow> string" where
  "drop_quotes [] = []"
| "drop_quotes (c # s) =
     (if c = CHR 0x27 \<or> c = CHR 0x60 then drop_quotes s
      else if c = CHR 0xE2 \<and> take 2 s = [CHR 0x80, CHR 0x99] then drop_quotes (drop 2 s)
      else c # drop_quotes s)"

fun cut_at_year :: "string list \<Rightarrow> string list" where
  "cut_at_year [] = []"
| "cut_at_year (t # ts) = t # takeWhile (\<lambda>t. \<not> isYearToken t) ts"

definition normalizeTitle :: "string \<Rightarrow> string" where
  "normalizeTitle folder =
     (let s1 = ReplaceAllString reBracketTag folder '' '';
          s2 = ReplaceAllString reParenYear s1 '' '';
          s3 = ReplaceChar (CHR ''&'') '' and '' (drop_quotes s2);
          toks = cut_at_year (tokenize s3)
      in Join (filter (\<lambda>t. t \<notin> {''the'', ''a'', ''an''} \<and> \<not> isQualityToken t) toks) '' '')"

text \<open>The first group of \<open>reParenYear\<close>: its match without the parentheses.\<close>

definition paren_years :: "string \<Rightarrow> string list" where
  "paren_years s = map (\<lambda>m. butlast (tl m)) (FindAllString reParenYear s)"

definition folderYear :: "string \<Rightarrow> string" where
  "folderYear folder =
     (if paren_years folder \<noteq> [] then last (paren_years folder)
      else case find isYearToken (rev (tokenize (ReplaceAllString reBracketTag folder '' ''))) of
             Some t \<Rightarrow> t | None \<Rightarrow> [])"

definition fileNameYear :: "MediaVersion \<Rightarrow> string" where
  "fileNameYear v =
     (if v_disc v \<noteq> None \<and> \<not> IsImage (v_disc v) then []
      else let base = path_Base (normPath (titlePath v))
           in if base = ''.'' \<or> base = ''/'' \<or> base = [] then []
              else let name = TrimSuffix base (path_Ext base)
                   in case paren_years name of
                        y # _ \<Rightarrow> y
                      | [] \<Rightarrow>
                          (case find isYearToken
                                  (rev (tl (butlast (tokenize (ReplaceAllString reBracketTag name '' ''))))) of
                             Some t \<Rightarrow> t | None \<Rightarrow> []))"

text \<open>
  One match of \<open>reIDTag\<close>: its first group is its second to fifth byte, its second group what follows
  the first separator after the optional \<open>id\<close>.
\<close>

definition id_tag :: "string \<Rightarrow> string \<times> string" where
  "id_tag m =
     (let space = ToLower (take 4 (drop 1 m));
          rest = butlast (drop 5 m);
          val = (if HasPrefix (ToLower rest) ''id-'' \<or> HasPrefix (ToLower rest) ''id='' then drop 3 rest else drop 1 rest)
      in (space, ToLower (TrimSpace val)))"

definition idTags :: "MediaVersion \<Rightarrow> (string \<rightharpoonup> string)" where
  "idTags v =
     fold (\<lambda>(space, val) out. if val \<noteq> [] \<and> out space = None then out(space \<mapsto> val) else out)
       (map id_tag (concat (map (FindAllString reIDTag) [titleFolder v, path_Base (normPath (titlePath v))])))
       Map.empty"

end
