(* ===== verification/Versions.thy ===== *)
theory Versions
  imports Helpers
begin

text \<open>
  The properties of a version and of the versions of one group (\<open>internal/engine/helpers.go\<close>, the flags
  section of \<open>group.go\<close>, the disc protections): optimized, missing, inaccessible and multi-episode
  files, disc members, the identity keys two versions of one file share, and the flags derived from
  the versions alone.
\<close>

section \<open>Text utilities\<close>

definition addFlag :: "string list \<Rightarrow> string \<Rightarrow> string list" where
  "addFlag flags f = add_new f flags"

definition addFlagIf :: "bool \<Rightarrow> string \<Rightarrow> string list \<Rightarrow> string list" where
  "addFlagIf b f flags = (if b then addFlag flags f else flags)"

definition sortedUnique :: "string list \<Rightarrow> string list" where
  "sortedUnique xs = sort (dedup (filter (\<lambda>s. s \<noteq> []) xs))"

definition naturalLess :: "string \<Rightarrow> string \<Rightarrow> bool" where
  "naturalLess a b =
     (case (ParseInt a, ParseInt b) of
        (Some ai, Some bi) \<Rightarrow> if ai \<noteq> bi then ai < bi else a < b
      | (Some _, None) \<Rightarrow> True
      | (None, Some _) \<Rightarrow> False
      | (None, None) \<Rightarrow> a < b)"

definition setKeys :: "string list \<Rightarrow> string list" where
  "setKeys xs = sort_by naturalLess (dedup xs)"

text \<open>The loop of \<open>humanBytes\<close>: \<open>for m := n / unit; m >= unit && exp < 5; m /= unit\<close>.\<close>

fun byte_unit :: "nat \<Rightarrow> int \<Rightarrow> int \<Rightarrow> nat \<Rightarrow> int \<times> nat" where
  "byte_unit 0 m dv ex = (dv, ex)"
| "byte_unit (Suc f) m dv ex = (if m \<ge> 1024 then byte_unit f (m div 1024) (dv * 1024) (Suc ex) else (dv, ex))"

definition humanBytes :: "int \<Rightarrow> string" where
  "humanBytes n =
     (if n < 1024 then Itoa n @ '' B''
      else case byte_unit 5 (n div 1024) 1024 0 of
             (dv, ex) \<Rightarrow> fmt_1f (f64_quot n dv) @ '' '' @ [''KMGTPE'' ! ex] @ ''iB'')"

definition msDuration :: "int \<Rightarrow> duration" where
  "msDuration ms = ms * Millisecond"

definition humanDuration :: "duration \<Rightarrow> string" where
  "humanDuration d0 =
     (let d = \<bar>d0\<bar>
      in if d < Minute then Itoa (d div Second) @ ''s''
         else if d < Hour then Itoa (d div Minute) @ ''m''
         else if d < 24 * Hour then
           (let h = d div Hour; m = d mod Hour div Minute
            in if m = 0 then Itoa h @ ''h'' else Itoa h @ ''h '' @ Itoa m @ ''m'')
         else
           (let days = d div (24 * Hour); h = d mod (24 * Hour) div Hour
            in if h = 0 then Itoa days @ ''d'' else Itoa days @ ''d '' @ Itoa h @ ''h''))"

text \<open>\<open>titleCase\<close> (evaluate.go) on text that starts with an ASCII character.\<close>

definition titleCase :: "string \<Rightarrow> string" where
  "titleCase s = (case s of [] \<Rightarrow> [] | c # cs \<Rightarrow> upper_char c # cs)"

section \<open>Version properties\<close>

definition isOptimized :: "MediaVersion \<Rightarrow> bool" where
  "isOptimized v \<longleftrightarrow> v_optimizedVersion v \<or>
     (\<exists>p\<in>set (versionPaths v). Contains (''/'' @ Trim (fileKey p) ''/'' @ ''/'') ''/plex versions/'')"

definition isUnavailable :: "MediaVersion \<Rightarrow> bool" where
  "isUnavailable v \<longleftrightarrow> v_parts v = [] \<or> (\<exists>p\<in>set (v_parts v). p_exists p = Some False)"

definition isInaccessible :: "MediaVersion \<Rightarrow> bool" where
  "isInaccessible v \<longleftrightarrow> (\<exists>p\<in>set (v_parts v). p_accessible p = Some False)"

definition sharedWith :: "MediaVersion \<Rightarrow> string list" where
  "sharedWith v =
     sort_by naturalLess
       (dedup (filter (\<lambda>rk. rk \<noteq> []) (map TrimSpace (concat (map p_sharedWith (v_parts v))))))"

definition arr_label :: "string \<Rightarrow> string \<Rightarrow> int \<Rightarrow> string" where
  "arr_label iname k0 i =
     (if TrimSpace iname \<noteq> [] then TrimSpace iname
      else let kind = (if k0 = ArrRadarr then ''Radarr'' else if k0 = ArrSonarr then ''Sonarr'' else ''*arr'')
           in if i \<noteq> 0 then kind @ '' #'' @ Itoa i else kind)"

definition arrName :: "ArrFileInfo \<Rightarrow> string" where
  "arrName a = arr_label (a_instanceName a) (a_kind a) (a_instanceID a)"

definition readOnlyVersion :: "MediaVersion \<Rightarrow> bool" where
  "readOnlyVersion v = (case KindOfVersionKey (v_key v) of Some k \<Rightarrow> ReadOnly k | None \<Rightarrow> False)"

definition multi_episode_name :: "MediaVersion \<Rightarrow> string \<Rightarrow> bool" where
  "multi_episode_name v p \<longleftrightarrow> normPath p \<noteq> [] \<and>
     (let name = stripExt (path_Base (normPath p))
      in MatchString reMultiEpisode name \<or> (readOnlyVersion v \<and> MatchString reJellyfinMultiEpisode name))"

definition multiEpisodeReasons :: "MediaVersion \<Rightarrow> string list" where
  "multiEpisodeReasons v =
     (if v_episodeEnd v > 0
      then [''the media server lists it as a multi-episode file (through episode '' @ Itoa (v_episodeEnd v) @ '')'']
      else []) @
     (if \<exists>p\<in>set (v_parts v). p_sharedWith p \<noteq> []
      then (if sharedWith v \<noteq> []
            then [''file is shared with other episodes ('' @ Join (sharedWith v) '', '' @ '')'']
            else [''file is shared with other episodes''])
      else []) @
     (case v_arr v of
        Some a \<Rightarrow> (let n = length (dedup (a_episodeIDs a))
                   in if n > 1 then [''the '' @ arrName a @ '' file covers '' @ Itoa (int n) @ '' episodes''] else [])
      | None \<Rightarrow> []) @
     (if \<exists>p\<in>set (versionPaths v). multi_episode_name v p
      then [''file name indicates a multi-episode file''] else [])"

definition isShared :: "MediaVersion \<Rightarrow> bool" where
  "isShared v \<longleftrightarrow> multiEpisodeReasons v \<noteq> []"

definition shortcutReasons :: "MediaVersion \<Rightarrow> string list" where
  "shortcutReasons v =
     (let names = dedup (filter (\<lambda>n. n \<noteq> []) (map TrimSpace (concat (map p_shortcutOf (v_parts v)))))
      in if names = [] then []
         else [''a .strm shortcut points to this file ('' @ Join (sort names) '', '' @ '')''])"

definition reportOnlyReasons :: "MediaVersion list \<Rightarrow> string list" where
  "reportOnlyReasons vs = dedup (filter (\<lambda>r. r \<noteq> []) (map TrimSpace (concat (map v_reportOnly vs))))"

definition isStacked :: "MediaVersion \<Rightarrow> bool" where
  "isStacked v \<longleftrightarrow> length (v_parts v) > 1"

definition isHardlinked :: "MediaVersion \<Rightarrow> bool" where
  "isHardlinked v \<longleftrightarrow>
     (case v_disc v of Some d \<Rightarrow> d_hardlinkedFiles d > 0 | None \<Rightarrow> False) \<or>
     (\<exists>p\<in>set (v_parts v). p_linkCount p > 1)"

definition unanalyzedProblems :: "MediaVersion \<Rightarrow> string list" where
  "unanalyzedProblems v =
     (let nocodec = TrimSpace (v_videoCodec v) = []; nowidth = v_width v \<le> 0;
          nobitrate = v_bitrateKbps v \<le> 0 \<and> v_videoBitrate v \<le> 0;
          plain = (if nocodec then [''no video codec''] else []) @
                  (if nowidth then [''width unknown''] else []) @
                  (if nobitrate then [''bitrate unknown''] else [])
      in case v_disc v of
           Some d \<Rightarrow>
             if nocodec \<or> nowidth \<or> nobitrate then
               (if TrimSpace (d_problem d) \<noteq> [] then [''disc metadata unreadable'']
                else if IsImage (Some d) then [''disc image: quality unknown'']
                else [''disc metadata incomplete''])
             else plain
         | None \<Rightarrow> plain)"

definition versionDuration :: "MediaVersion \<Rightarrow> int" where
  "versionDuration v =
     (if v_durationMs v > 0 then v_durationMs v
      else sum_list (map p_duration (filter (\<lambda>p. p_duration p > 0) (v_parts v))))"

definition isSamplePath :: "string \<Rightarrow> bool" where
  "isSamplePath p =
     (let np = normPath p
      in if np = [] then False
         else ''sample'' \<in> set (tokenize (stripExt (path_Base np))) \<or>
              ToLower (path_Base (path_Dir np)) \<in> {''sample'', ''samples''})"

definition hasSampleName :: "MediaVersion \<Rightarrow> bool" where
  "hasSampleName v \<longleftrightarrow> (\<exists>p\<in>set (versionPaths v). isSamplePath p)"

definition dateAdded :: "MediaVersion \<Rightarrow> time" where
  "dateAdded v =
     (case v_arr v of Some a \<Rightarrow> if \<not> IsZero (a_dateAdded a) then a_dateAdded a else v_addedAt v
      | None \<Rightarrow> v_addedAt v)"

definition newestAdded :: "MediaVersion \<Rightarrow> time" where
  "newestAdded v =
     (case v_arr v of Some a \<Rightarrow> if After (a_dateAdded a) (v_addedAt v) then a_dateAdded a else v_addedAt v
      | None \<Rightarrow> v_addedAt v)"

definition validInode :: "string \<Rightarrow> bool" where
  "validInode s0 = (let s = TrimSpace s0 in s \<noteq> [] \<and> s \<noteq> ''0'' \<and> \<not> HasSuffix s '':0'' \<and> \<not> HasSuffix s '':'')"

section \<open>Same-file identity\<close>

definition key_if :: "string \<Rightarrow> string \<Rightarrow> string list" where
  "key_if pre p = (if fileKey p \<noteq> [] then [pre @ fileKey p] else [])"

definition discRootKeys :: "MediaVersion \<Rightarrow> string list" where
  "discRootKeys v =
     (case v_disc v of
        Some d \<Rightarrow>
          concat (map (key_if ''dr:'') (d_root d # d_roots d)) @
          concat (map (key_if ''dl:'') (d_localRoot d # d_localRoots d))
      | None \<Rightarrow>
          concat (map (\<lambda>p.
            (case RootOf (p_path p) of Some (r, _) \<Rightarrow> key_if ''dr:'' r | None \<Rightarrow> []) @
            (case RootOf (p_localPath p) of Some (r, _) \<Rightarrow> key_if ''dl:'' r | None \<Rightarrow> [])) (v_parts v)))"

definition part_keys :: "MediaPart \<Rightarrow> string list" where
  "part_keys p =
     key_if ''p:'' (p_path p) @ key_if ''l:'' (p_localPath p) @
     (if validInode (p_inode p) then [''i:'' @ TrimSpace (p_inode p)] else [])"

definition sameFileKeys :: "MediaVersion \<Rightarrow> string list" where
  "sameFileKeys v =
     (case v_arr v of
        Some a \<Rightarrow> if a_fileID a > 0 then [''a:'' @ Itoa (a_instanceID a) @ '':'' @ Itoa (a_fileID a)] else []
      | None \<Rightarrow> []) @
     concat (map part_keys (v_parts v)) @ discRootKeys v"

text \<open>
  \<open>sameFileComponents\<close>: the component id of every version and the components with at least two
  members, in the order of their first member. \<open>find\<close> changes no root, so the ids are the roots.
\<close>

definition same_uf :: "MediaVersion list \<Rightarrow> unionFind" where
  "same_uf vs = fst (link_all uf_union (newUnionFind (length vs)) (vat sameFileKeys vs) (length vs))"

definition comp_of :: "MediaVersion list \<Rightarrow> nat \<Rightarrow> nat" where
  "comp_of vs i = snd (uf_find (same_uf vs) i)"

definition sameFileComponents :: "MediaVersion list \<Rightarrow> nat array \<times> (nat \<times> nat list) list" where
  "sameFileComponents vs =
     (comp_of vs, filter (\<lambda>(c, m). length m > 1) (group_by (comp_of vs) [0..<length vs]))"

definition partName :: "MediaPart \<Rightarrow> string" where
  "partName p =
     (let np = (if fileKey (p_path p) \<noteq> [] then fileKey (p_path p) else fileKey (p_localPath p))
      in if np = [] then [] else path_Base np)"

definition same_part :: "MediaPart \<times> MediaPart \<Rightarrow> bool" where
  "same_part ab =
     (case ab of (pa, pb) \<Rightarrow>
        p_size pa > 0 \<and> p_size pa = p_size pb \<and> partName pa \<noteq> [] \<and> partName pa = partName pb \<and>
        \<not> (validInode (p_inode pa) \<and> validInode (p_inode pb) \<and> TrimSpace (p_inode pa) \<noteq> TrimSpace (p_inode pb)))"

definition sameNamesAndSizes :: "MediaVersion \<Rightarrow> MediaVersion \<Rightarrow> bool" where
  "sameNamesAndSizes a b \<longleftrightarrow>
     v_parts a \<noteq> [] \<and> length (v_parts a) = length (v_parts b) \<and> list_all same_part (zip (v_parts a) (v_parts b))"

fun pairs_after :: "('a \<Rightarrow> 'a \<Rightarrow> bool) \<Rightarrow> 'a list \<Rightarrow> ('a \<times> 'a) list" where
  "pairs_after P [] = []"
| "pairs_after P (x # xs) = map (Pair x) (filter (P x) xs) @ pairs_after P xs"

definition key_order :: "MediaVersion list \<Rightarrow> nat list" where
  "key_order vs = sort_key (vat v_key vs) [0..<length vs]"

definition likely_pair :: "MediaVersion list \<Rightarrow> nat array \<Rightarrow> nat \<Rightarrow> nat \<Rightarrow> bool" where
  "likely_pair vs cmp i j \<longleftrightarrow> cmp i \<noteq> cmp j \<and> sameNamesAndSizes (vs ! i) (vs ! j)"

definition likelySameFilePairs :: "MediaVersion list \<Rightarrow> nat array \<Rightarrow> (nat \<times> nat) list" where
  "likelySameFilePairs vs cmp =
     pairs_after (likely_pair vs cmp) (key_order vs)"

definition libraryIDsOf :: "MediaVersion list \<Rightarrow> int list" where
  "libraryIDsOf vs = sort (dedup (filter (\<lambda>i. i \<noteq> 0) (map v_libraryID vs)))"

definition tracked :: "MediaVersion \<Rightarrow> ArrFileInfo option" where
  "tracked v = (case v_arr v of Some a \<Rightarrow> if a_instanceID a \<noteq> 0 then Some a else None | None \<Rightarrow> None)"

text \<open>The sorted distinct *arr instances and the display name of each (its first version's).\<close>

definition arrInstanceIDs :: "MediaVersion list \<Rightarrow> int list" where
  "arrInstanceIDs vs = sort (dedup (map a_instanceID (List.map_filter tracked vs)))"

definition arrInstanceName :: "MediaVersion list \<Rightarrow> int \<Rightarrow> string" where
  "arrInstanceName vs i =
     (case find (\<lambda>a. a_instanceID a = i) (List.map_filter tracked vs) of Some a \<Rightarrow> arrName a | None \<Rightarrow> [])"

section \<open>Full-disc backups\<close>

definition discMemberPath :: "MediaVersion \<Rightarrow> string" where
  "discMemberPath v =
     (if v_disc v \<noteq> None then []
      else case find IsDiscPath (versionPaths v) of Some p \<Rightarrow> p | None \<Rightarrow> [])"

definition discProtectOnly :: "string \<Rightarrow> bool" where
  "discProtectOnly kind \<longleftrightarrow>
     kind \<notin> {DiscBluray, DiscUHDBluray, DiscDVD, DiscISO, DiscBlurayClips, DiscDVDClips}"

definition discLabel :: "string \<Rightarrow> string" where
  "discLabel kind =
     (if kind = DiscBluray then ''Blu-ray''
      else if kind = DiscUHDBluray then ''UHD Blu-ray''
      else if kind = DiscDVD then ''DVD''
      else if kind = DiscHDDVD then ''HD DVD''
      else if kind = DiscAVCHD then ''AVCHD''
      else if kind = DiscBDAV then ''Blu-ray recording (BDAV)''
      else if kind = DiscISO then ''disc image''
      else if kind = DiscBlurayClips then ''Blu-ray clip set (loose .m2ts)''
      else if kind = DiscDVDClips then ''DVD file set (loose VOB)''
      else ''disc'')"

definition discProtectionReasons :: "string \<Rightarrow> MediaVersion \<Rightarrow> bool \<Rightarrow> string list" where
  "discProtectionReasons mt v allowDiscRemoval =
     (case v_disc v of
        None \<Rightarrow> []
      | Some d \<Rightarrow>
          (if mt = MediaTypeEpisode then [''full-disc backup in a TV library (always kept)'']
           else if \<not> allowDiscRemoval then
             [''full-disc backup (disc removal is off '' @ emdash @ '' Settings '' @ rarrow @
              '' Media Management '' @ rarrow @ '' Allow Removing Full Discs)'']
           else []) @
          (if discProtectOnly (d_type d) then [discLabel (d_type d) @ '' backups are never removed'']
           else if allowDiscRemoval \<and> mt \<noteq> MediaTypeEpisode then
             (if \<not> d_removable d then
                [''full-disc backup that cannot be removed safely: '' @
                 (if TrimSpace (d_problem d) = [] then ''it could not be verified completely'' else TrimSpace (d_problem d))]
              else if TrimSpace (d_localRoot d) = [] \<or> d_ownedEntries d = [] then
                [''Dupearr cannot reach this disc (no path mapping covers it), so it cannot move it to the recycle bin'']
              else [])
           else []) @
          (if d_plexItems d \<noteq> [] then
             [''other Plex items ('' @ Join (d_plexItems d) '', '' @ '') use files of this disc'']
           else []))"

section \<open>Flags derived from the versions (group.go)\<close>

definition episodeCount :: "string \<Rightarrow> MediaVersion \<Rightarrow> nat" where
  "episodeCount mt v =
     (if mt \<noteq> MediaTypeEpisode \<or> \<not> isShared v then 1
      else let n0 = (case v_arr v of Some a \<Rightarrow> length (dedup (a_episodeIDs a)) | None \<Rightarrow> 0);
               n = max n0 (length (sharedWith v) + 1)
           in if n < 2 then 0 else n)"

definition longer :: "string \<Rightarrow> nat \<Rightarrow> MediaVersion \<Rightarrow> int \<Rightarrow> int" where
  "longer mt c v m = (if episodeCount mt v = c \<and> versionDuration v > m then versionDuration v else m)"

text \<open>The longest known duration among the versions that cover the same number of episodes.\<close>

definition durationPeers :: "string \<Rightarrow> MediaVersion list \<Rightarrow> nat \<Rightarrow> int" where
  "durationPeers mt vs i =
     (let c = episodeCount mt (vs ! i)
      in if c = 0 then 0
         else fold (longer mt c) vs 0)"

definition durationLowerBound :: "MediaVersion \<Rightarrow> bool" where
  "durationLowerBound v =
     (case v_disc v of
        Some d \<Rightarrow> IsLooseClips (Some d) \<and> ToLower (path_Ext (TrimSpace (d_mainFeature d))) \<notin> {''.mpls'', ''.ifo''}
      | None \<Rightarrow> False)"

text \<open>
  \<open>float64(d) < 0.9*float64(m)\<close>: for durations below \<open>2 ^ 50\<close> milliseconds the rounded product lies
  on the same side of every integer as the exact one.
\<close>

definition below_90 :: "int \<Rightarrow> int \<Rightarrow> bool" where
  "below_90 d m \<longleftrightarrow> 10 * d < 9 * m"

definition version_flag_step :: "string \<Rightarrow> MediaVersion list \<Rightarrow> nat \<Rightarrow> string list \<Rightarrow> string list" where
  "version_flag_step mt vs i flags =
     (let v = vs ! i; d = versionDuration v in
      addFlagIf (v_reportOnly v \<noteq> []) FlagReportOnly
      (addFlagIf (readOnlyVersion v) FlagManualOnly
      (addFlagIf (case v_disc v of Some d \<Rightarrow> TrimSpace (d_trackedClip d) \<noteq> [] | None \<Rightarrow> False) FlagDiscTracked
      (addFlagIf (case v_disc v of Some d \<Rightarrow> TrimSpace (d_problem d) \<noteq> [] | None \<Rightarrow> False) FlagDiscUnreadable
      (addFlagIf (v_disc v \<noteq> None \<or> discMemberPath v \<noteq> []) FlagFullDisc
      (addFlagIf (isUnavailable v) FlagUnavailableVersion
      (addFlagIf (isStacked v) FlagStacked
      (addFlagIf (isHardlinked v) FlagHardlinked
      (addFlagIf (isShared v) FlagMultiEpisode
      (addFlagIf (hasSampleName v \<or> (d > 0 \<and> below_90 d (durationPeers mt vs i) \<and> \<not> durationLowerBound v)) FlagSample
      (addFlagIf (unanalyzedProblems v \<noteq> []) FlagUnanalyzed flags)))))))))))"

definition versionFlags :: "string \<Rightarrow> MediaVersion list \<Rightarrow> string list" where
  "versionFlags mt vs =
     (let flags = fold (version_flag_step mt vs) [0..<length vs] [];
          (cmp, members) = sameFileComponents vs
      in addFlagIf (members \<noteq> [] \<or> likelySameFilePairs vs cmp \<noteq> []) FlagSameFile flags)"

end
