(* ===== verification/MediaInfo.thy ===== *)
theory MediaInfo
  imports DiscPaths
begin

text \<open>
  The normalisers of \<open>internal/mediainfo\<close>: raw stream attributes and file names to the values the engine
  compares (resolution tiers, codecs, audio formats, dynamic range, source, container), the editions
  and 3D markers of a name that keep variants apart, and language codes. The constant expressions are
  written as syntax trees of \<open>GoRegexp\<close>; a capturing group is a run of factors of a concatenation.
\<close>

section \<open>Resolution\<close>

definition resolutionRank :: "string \<Rightarrow> nat" where
  "resolutionRank t =
     (case map_of [(ResSD, 1), (Res480, 2), (Res576, 3), (Res720, 4), (Res1080, 5), (Res1440, 6), (Res2160, 7)] t of
        Some n \<Rightarrow> n | None \<Rightarrow> 0)"

definition tierFromWidth :: "int \<Rightarrow> int \<Rightarrow> string" where
  "tierFromWidth w h =
     (if w \<ge> 3200 then Res2160
      else if w \<ge> 2200 then Res1440
      else if w \<ge> 1700 then Res1080
      else if w \<ge> 1100 then Res720
      else if w \<ge> 1000 \<and> h > 480 then Res576
      else if w \<ge> 640 then Res480
      else ResSD)"

definition tierFromHeight :: "int \<Rightarrow> string" where
  "tierFromHeight h =
     (if h \<ge> 1800 then Res2160
      else if h \<ge> 1300 then Res1440
      else if h \<ge> 1000 then Res1080
      else if h \<ge> 700 then Res720
      else if h \<ge> 570 then Res576
      else if h \<ge> 400 then Res480
      else ResSD)"

definition tierFromLabel :: "string \<Rightarrow> string" where
  "tierFromLabel label =
     (let s = ToLower (TrimSpace label)
      in if s = [] then []
         else if s \<in> {''4k'', ''uhd'', ''8k'', ''4320'', ''4320p'', ''2160'', ''2160p''} then Res2160
         else if s \<in> {''2k'', ''qhd'', ''1440'', ''1440p''} then Res1440
         else if s \<in> {''fhd'', ''1080'', ''1080p'', ''1080i''} then Res1080
         else if s \<in> {''hd'', ''720'', ''720p''} then Res720
         else if s \<in> {''576'', ''576p'', ''576i'', ''pal''} then Res576
         else if s \<in> {''480'', ''480p'', ''480i'', ''ntsc''} then Res480
         else if s = ''sd'' then ResSD
         else case ParseInt (TrimRight s ''pi'') of
                Some n \<Rightarrow> if n > 0 then tierFromHeight n else []
              | None \<Rightarrow> [])"

text \<open>The frame that is measured: no negative edge, and a portrait frame is turned.\<close>

definition measured :: "int \<Rightarrow> int \<Rightarrow> int \<times> int" where
  "measured width height =
     (let w = max width 0; h = max height 0
      in if w > 0 \<and> h > w then (h, w) else (w, h))"

definition ResolutionTier :: "int \<Rightarrow> int \<Rightarrow> string \<Rightarrow> string" where
  "ResolutionTier width height plexVideoResolution =
     (let (w, h) = measured width height
      in if w > 0 then
           (let tier = tierFromWidth w h; ht = tierFromHeight h
            in if h > 0 \<and> resolutionRank ht > resolutionRank tier then ht else tier)
         else if h > 0 then tierFromHeight h
         else tierFromLabel plexVideoResolution)"

definition ResolutionLabel :: "string \<Rightarrow> string" where
  "ResolutionLabel tier =
     (if tier = Res2160 then ''2160p (4K)''
      else if tier = Res1440 then ''1440p (2K)''
      else if tier = Res1080 then ''1080p''
      else if tier = Res720 then ''720p''
      else if tier = Res576 then ''576p''
      else if tier = Res480 then ''480p''
      else if tier = ResSD then ''SD''
      else if tier = [] then ''Unknown''
      else tier)"

section \<open>Video codec\<close>

definition codecSeparators :: "string \<Rightarrow> string" where
  "codecSeparators s = filter (\<lambda>c. c \<notin> set ''.-_ '') s"

definition videoCodecs :: "(string \<times> string) list" where
  "videoCodecs =
    [(''hevc'', VCodecHEVC), (''h265'', VCodecHEVC), (''x265'', VCodecHEVC), (''hvc1'', VCodecHEVC),
     (''hev1'', VCodecHEVC), (''h264'', VCodecH264), (''avc'', VCodecH264), (''avc1'', VCodecH264),
     (''x264'', VCodecH264), (''av1'', VCodecAV1), (''av01'', VCodecAV1), (''vc1'', VCodecVC1),
     (''wvc1'', VCodecVC1), (''mpeg2video'', VCodecMPEG2), (''mpeg2'', VCodecMPEG2),
     (''mp2v'', VCodecMPEG2), (''h262'', VCodecMPEG2), (''mpeg4'', VCodecMPEG4), (''mp4v'', VCodecMPEG4),
     (''xvid'', VCodecMPEG4), (''divx'', VCodecMPEG4), (''dx50'', VCodecMPEG4), (''div3'', VCodecMPEG4),
     (''fmp4'', VCodecMPEG4), (''vp9'', VCodecVP9), (''vp09'', VCodecVP9)]"

definition videoCodecKey :: "string \<Rightarrow> string" where
  "videoCodecKey s =
     (let k = codecSeparators s
      in case map_of videoCodecs k of
           Some c \<Rightarrow> c
         | None \<Rightarrow> if HasPrefix k ''msmpeg4'' then VCodecMPEG4 else [])"

definition VideoCodec :: "string \<Rightarrow> string" where
  "VideoCodec raw =
     (let s = ToLower (TrimSpace raw); f = Fields s
      in if s = [] then []
         else if videoCodecKey s \<noteq> [] then videoCodecKey s
         else if length f > 1 \<and> videoCodecKey (hd f) \<noteq> [] then videoCodecKey (hd f)
         else VCodecOther)"

section \<open>Audio format\<close>

definition r_nonletter :: rx where "r_nonletter = RClass (\<lambda>c. \<not> is_lower c)"
definition r_open :: rx where "r_open = RAlt RBegin r_nonletter"
definition r_close :: rx where "r_close = RAlt REnd r_nonletter"
definition r_gap :: rx where "r_gap = r_opt (r_set '' -'')"

definition reDTSX :: rx where
  "reDTSX = r_seq [RWordB, r_lit ''dts'', r_opt (r_set '':-''), r_lit ''x'', RWordB]"

definition reDTSMAProfile :: rx where
  "reDTSMAProfile = r_seq [r_open,
     r_alt [r_seq [r_lit ''hd'', r_gap, r_lit ''ma''], r_lit ''ma'', r_lit ''master audio''], r_close]"

definition reDTSMATitle :: rx where
  "reDTSMATitle = r_alt
     [r_seq [r_lit ''dts'', r_gap, r_lit ''hd'', r_gap, r_lit ''ma'', RWordB],
      r_seq [r_lit ''dts'', r_gap, r_lit ''hd'', r_gap, r_lit ''master''],
      r_lit ''master audio'']"

definition reDTSHRA :: rx where
  "reDTSHRA = r_seq [r_open,
     r_alt [r_seq [r_lit ''hd'', r_gap, r_lit ''hra''], r_lit ''hra'', r_lit ''high resolution audio''], r_close]"

definition audioFamily :: "string \<Rightarrow> string" where
  "audioFamily s =
     (if s = [] then []
      else if Contains s ''truehd'' \<or> Contains s ''true-hd'' \<or> Contains s ''true hd'' \<or> s = ''mlp'' then ''truehd''
      else if HasPrefix s ''dca'' \<or> Contains s ''dts'' \<or> s = ''dta'' then ''dts''
      else if Contains s ''eac3'' \<or> Contains s ''e-ac-3'' \<or> Contains s ''ec-3'' \<or> s = ''ec3'' \<or> s = ''ddp'' \<or>
              Contains s ''dd+'' \<or> Contains s ''dolby digital plus'' then ''eac3''
      else if Contains s ''flac'' then ''flac''
      else if Contains s ''pcm'' then ''pcm''
      else if Contains s ''ac3'' \<or> Contains s ''ac-3'' \<or> s = ''a52'' \<or> s = ''dd'' \<or>
              Contains s ''dolby digital'' then ''ac3''
      else if Contains s ''aac'' then ''aac''
      else if Contains s ''opus'' then ''opus''
      else if Contains s ''mp3'' then ''mp3''
      else [])"

definition dts_format :: "string \<Rightarrow> string \<Rightarrow> string" where
  "dts_format codecProfile t =
     (if MatchString reDTSX codecProfile \<or> MatchString reDTSX t then AudioDTSX
      else if MatchString reDTSMAProfile codecProfile \<or> MatchString reDTSMATitle t then AudioDTSHDMA
      else if MatchString reDTSHRA codecProfile \<or> MatchString reDTSHRA t then AudioDTSHDHRA
      else AudioDTS)"

text \<open>The \<open>switch\<close> on the codec family; \<open>dts\<close> is the format of the DTS case.\<close>

definition family_format :: "string \<Rightarrow> bool \<Rightarrow> string \<Rightarrow> string \<times> bool" where
  "family_format fam hasAtmos dts =
     (if fam = ''truehd'' then (if hasAtmos then (AudioTrueHDAtmos, True) else (AudioTrueHD, False))
      else if fam = ''dts'' then (dts, False)
      else if fam = ''eac3'' then (if hasAtmos then (AudioEAC3Atmos, True) else (AudioEAC3, False))
      else if fam = ''flac'' then (AudioFLAC, False)
      else if fam = ''pcm'' then (AudioPCM, False)
      else if fam = ''ac3'' then (AudioAC3, False)
      else if fam = ''aac'' then (AudioAAC, False)
      else if fam = ''opus'' then (AudioOpus, False)
      else if fam = ''mp3'' then (AudioMP3, False)
      else (AudioOther, False))"

definition AudioFormat :: "string \<Rightarrow> string \<Rightarrow> string \<Rightarrow> int \<Rightarrow> string \<times> bool" where
  "AudioFormat codec profile title channels =
     (let c = ToLower (TrimSpace codec);
          p = ToLower (TrimSpace profile);
          t = ToLower (TrimSpace title);
          fam = (if c = [] then audioFamily (p @ '' '' @ t) else audioFamily c);
          hasAtmos = (Contains c ''atmos'' \<or> Contains p ''atmos'' \<or> Contains t ''atmos'')
      in if c = [] \<and> p = [] \<and> t = [] then ([], False)
         else family_format fam hasAtmos (dts_format (c @ '' '' @ p) t))"

section \<open>Dynamic range\<close>

definition reHDR10Plus :: rx where
  "reHDR10Plus = RSeq (r_lit ''hdr10'') (r_alt [r_lit ''+'', r_lit ''plus'', r_lit '' plus''])"

definition reHDRWord :: rx where
  "reHDRWord = r_seq [RWordB, r_lit ''hdr'', RWordB]"

definition dolbyVisionKind :: "int \<Rightarrow> int \<Rightarrow> bool \<Rightarrow> string \<Rightarrow> string" where
  "dolbyVisionKind profile blCompatID basePQ title =
     (if profile = 5 then DRDolbyVision
      else if blCompatID = 1 \<or> blCompatID = 6 then DRDolbyVisionHDR10
      else if blCompatID = 2 \<or> blCompatID = 4 then DRDolbyVision
      else if profile = 7 then DRDolbyVisionHDR10
      else if basePQ \<or> Contains title ''hdr10'' then DRDolbyVisionHDR10
      else DRDolbyVision)"

definition DynamicRange :: "string \<Rightarrow> string \<Rightarrow> bool \<Rightarrow> int \<Rightarrow> int \<Rightarrow> bool \<Rightarrow> string \<Rightarrow> string \<times> int" where
  "DynamicRange colorTrc colorPrimaries doviPresent doviProfile doviBLCompatID hdr10Plus displayTitle =
     (let trc = ToLower (TrimSpace colorTrc);
          title = ToLower displayTitle;
          isPQ = (trc \<in> {''smpte2084'', ''smpte-st-2084'', ''pq''});
          isHLG = (trc \<in> {''arib-std-b67'', ''hlg''});
          prof = max doviProfile 0;
          titleDV = (Contains title ''dovi'' \<or> Contains title ''dolby vision'')
      in if doviPresent \<or> prof > 0 \<or> titleDV then (dolbyVisionKind prof doviBLCompatID isPQ title, prof)
         else if hdr10Plus \<or> MatchString reHDR10Plus title then (DRHDR10Plus, 0)
         else if isPQ then (DRHDR10, 0)
         else if isHLG then (DRHLG, 0)
         else if Contains title ''hdr10'' then (DRHDR10, 0)
         else if Contains title ''hlg'' then (DRHLG, 0)
         else if MatchString reHDRWord title then (DRHDR10, 0)
         else (DRSDR, 0))"

definition DynamicRangeFromArr :: "string \<Rightarrow> string" where
  "DynamicRangeFromArr videoDynamicRangeType =
     (let s = ToUpper (Join (Fields videoDynamicRangeType) '' '');
          isDV = (HasPrefix s ''DV'' \<or> Contains s ''DOLBY VISION'' \<or> Contains s ''DOVI'')
      in if s = [] then DRSDR
         else if s \<in> {''DV HDR10'', ''DV HDR10PLUS'', ''DV HDR10+''} then DRDolbyVisionHDR10
         else if s \<in> {''DV'', ''DV HLG'', ''DV SDR''} then DRDolbyVision
         else if s \<in> {''HDR10PLUS'', ''HDR10+''} then DRHDR10Plus
         else if s \<in> {''HDR10'', ''PQ'', ''HDR''} then DRHDR10
         else if s = ''HLG'' then DRHLG
         else if s = ''SDR'' then DRSDR
         else if isDV \<and> Contains s ''HDR10'' then DRDolbyVisionHDR10
         else if isDV then DRDolbyVision
         else if Contains s ''HDR10PLUS'' \<or> Contains s ''HDR10+'' then DRHDR10Plus
         else if Contains s ''HDR'' \<or> Contains s ''PQ'' then DRHDR10
         else if Contains s ''HLG'' then DRHLG
         else DRSDR)"

section \<open>Paths and release markers\<close>

definition baseAndParent :: "string \<Rightarrow> string \<times> string" where
  "baseAndParent p =
     (let s = TrimRight (slashes p) ''/''; base = after_last_slash s
      in if s = [] then ([], [])
         else if CHR ''/'' \<notin> set s then (s, [])
         else (base, after_last_slash (take (length s - length base - 1) s)))"

definition r_markerBoundary :: rx where  \<comment> \<open>\<open>(?:^|[^0-9a-z])\<close> under \<open>(?i)\<close>\<close>
  "r_markerBoundary = RAlt RBegin (RClass (\<lambda>c. \<not> is_digit c \<and> \<not> isASCIILetter c))"

definition r_marker :: rx where
  "r_marker = RAlt (RSeq (RAlt (r_lit ''19'') (r_lit ''20'')) (RRep 2 2 r_digit))
     (r_seq [r_ichar (CHR ''s''), RRep 1 3 r_digit, r_ichar (CHR ''e''), RRep 1 4 r_digit])"

definition reReleaseMarker :: "rx list" where
  "reReleaseMarker = [r_markerBoundary, r_marker]"

text \<open>Start and end of group 1 of a match.\<close>

definition marker_of :: "nat list \<Rightarrow> nat \<times> nat" where
  "marker_of ps = (ps ! 1, ps ! 2)"

definition marker_ok :: "string \<Rightarrow> nat \<times> nat \<Rightarrow> bool" where
  "marker_ok name m \<longleftrightarrow> \<not> (snd m < length name \<and> is_digit (name ! snd m)) \<and> fst m > 0"

definition splitAtReleaseMarker :: "string \<Rightarrow> (string \<times> string) option" where
  "splitAtReleaseMarker name =
     map_option (\<lambda>m. (take (fst m) name, drop (snd m) name))
       (find (marker_ok name) (map marker_of (all_paths reReleaseMarker name)))"

definition afterReleaseMarker :: "string \<Rightarrow> string option" where
  "afterReleaseMarker name = map_option snd (splitAtReleaseMarker name)"

definition afterTitle :: "string \<Rightarrow> string" where
  "afterTitle name = (case afterReleaseMarker name of Some rest \<Rightarrow> rest | None \<Rightarrow> name)"

section \<open>Source\<close>

definition SourceFromArr :: "string \<Rightarrow> string \<Rightarrow> string" where
  "SourceFromArr qualitySource qualityModifier =
     (let src = ToLower (TrimSpace qualitySource); md = ToLower (TrimSpace qualityModifier)
      in if md = ''remux'' \<and> src \<noteq> ''dvd'' then SourceRemux
         else if src = ''blurayraw'' then SourceRemux
         else if src = ''bluray'' then SourceBluray
         else if src \<in> {''webdl'', ''web'', ''web-dl''} then SourceWebDL
         else if src \<in> {''webrip'', ''web-rip''} then SourceWebRip
         else if src \<in> {''tv'', ''television'', ''televisionraw'', ''hdtv''} then SourceHDTV
         else if src = ''sdtv'' then SourceSDTV
         else if src = ''dvd'' then SourceDVD
         else SourceUnknown)"

definition r_noLetter :: rx where  \<comment> \<open>\<open>[^a-z]\<close> under \<open>(?i)\<close>\<close>
  "r_noLetter = RClass (\<lambda>c. \<not> isASCIILetter c)"

definition tokenRe :: "rx \<Rightarrow> rx" where
  "tokenRe alt = r_seq [RAlt RBegin r_noLetter, alt, RAlt REnd r_noLetter]"

definition r_isplit :: "string \<Rightarrow> string \<Rightarrow> rx" where  \<comment> \<open>\<open>a[ ._-]?b\<close>\<close>
  "r_isplit a b = r_seq [r_ilit a, r_opt r_sep, r_ilit b]"

definition reSrcRemux :: rx where
  "reSrcRemux = tokenRe (RSeq (r_opt (r_ialt [''bd'', ''uhd''])) (r_ilit ''remux''))"
definition reSrcBluray :: rx where
  "reSrcBluray = tokenRe (r_alt [r_isplit ''blu'' ''ray'', r_isplit ''bd'' ''rip'', r_isplit ''br'' ''rip'', r_ilit ''bdmv''])"
definition reSrcWebRip :: rx where "reSrcWebRip = tokenRe (r_isplit ''web'' ''rip'')"
definition reSrcWebDL :: rx where "reSrcWebDL = tokenRe (r_isplit ''web'' ''dl'')"
definition reSrcHDTV :: rx where "reSrcHDTV = tokenRe (RAlt (r_ilit ''hdtv'') (r_isplit ''raw'' ''hd''))"
definition reSrcSDTV :: rx where
  "reSrcSDTV = tokenRe (r_ialt [''sdtv'', ''pdtv'', ''dsr'', ''dsrip'', ''tvrip'', ''satrip''])"
definition reSrcDVD :: rx where
  "reSrcDVD = tokenRe (RSeq (r_ilit ''dvd'')
     (r_opt (RAlt (RSeq (r_opt r_sep) (r_ilit ''rip'')) (r_ilit ''r''))))"
definition reSrcWeb :: rx where "reSrcWeb = tokenRe (r_ilit ''web'')"
definition reSrcWebUp :: rx where
  "reSrcWebUp = r_seq [RAlt RBegin r_noLetter, r_lit ''WEB'', RAlt REnd r_noLetter]"

definition sourceFromName :: "string \<Rightarrow> string" where
  "sourceFromName name =
     (if TrimSpace name = [] then SourceUnknown
      else if MatchString reSrcRemux name then SourceRemux
      else if MatchString reSrcBluray name then SourceBluray
      else if MatchString reSrcWebRip name then SourceWebRip
      else if MatchString reSrcWebDL name then SourceWebDL
      else if MatchString reSrcHDTV name then SourceHDTV
      else if MatchString reSrcSDTV name then SourceSDTV
      else if MatchString reSrcDVD name then SourceDVD
      else if (case afterReleaseMarker name of Some rest \<Rightarrow> MatchString reSrcWeb rest | None \<Rightarrow> False)
      then SourceWebDL
      else if MatchString reSrcWebUp name then SourceWebDL
      else SourceUnknown)"

definition SourceFromPath :: "string \<Rightarrow> string" where
  "SourceFromPath p =
     (if IsDiscPath p \<or> IsImagePath p then SourceDisc
      else let (base, parent) = baseAndParent p
           in if sourceFromName base \<noteq> SourceUnknown then sourceFromName base
              else if parent \<noteq> [] then sourceFromName parent
              else SourceUnknown)"

section \<open>Container\<close>

definition videoExtensions :: "string list" where
  "videoExtensions =
    [''mkv'', ''mp4'', ''m4v'', ''avi'', ''ts'', ''m2ts'', ''mts'', ''m2t'', ''mov'', ''wmv'', ''asf'',
     ''mpg'', ''mpeg'', ''webm'', ''flv'', ''vob'', ''iso'', ''ogm'', ''ogv'', ''divx'', ''xvid'',
     ''3gp'', ''rm'', ''rmvb'', ''f4v'', ''img'', ''mk3d'']"

definition containerTokens :: "(string \<times> string) list" where
  "containerTokens =
    [('''', ''''), (''mkv'', ''mkv''), (''mk3d'', ''mkv''), (''matroska'', ''mkv''), (''mp4'', ''mp4''), (''m4v'', ''m4v''),
     (''avi'', ''avi''), (''m2ts'', ''m2ts''), (''mts'', ''m2ts''), (''m2t'', ''m2ts''), (''ts'', ''ts''), (''mpegts'', ''ts'')]"

text \<open>The recursive call is made on \<open>matroska\<close> or \<open>mp4\<close> only, which the table holds.\<close>

definition containerFromToken :: "string \<Rightarrow> string" where
  "containerFromToken s =
     (case map_of containerTokens s of
        Some c \<Rightarrow> c
      | None \<Rightarrow>
          if CHR '','' \<in> set s then
            (case find (\<lambda>p. p = ''matroska'' \<or> p = ''mp4'') (Split (CHR '','') s) of
               Some p \<Rightarrow> the (map_of containerTokens p)
             | None \<Rightarrow> [])
          else [])"

definition ContainerFromPath :: "string \<Rightarrow> string \<Rightarrow> string" where
  "ContainerFromPath p plexContainer =
     (let ext = ToLower (TrimPrefix (path_Ext (fst (baseAndParent p))) ''.'');
          pc = ToLower (TrimSpace plexContainer)
      in if containerFromToken ext \<noteq> [] then containerFromToken ext
         else if containerFromToken pc \<noteq> [] then containerFromToken pc
         else if ext \<in> set videoExtensions \<or> TrimSpace plexContainer \<noteq> [] then ''other''
         else [])"

section \<open>Editions (edition.go)\<close>

text \<open>The typographic apostrophes and the back-tick become an ASCII apostrophe.\<close>

fun apostrophes :: "string \<Rightarrow> string" where
  "apostrophes [] = []"
| "apostrophes (c # s) =
     (if c = CHR 0x60 then CHR 0x27 # apostrophes s
      else if c = CHR 0xE2 \<and> (take 2 s = [CHR 0x80, CHR 0x99] \<or> take 2 s = [CHR 0x80, CHR 0x98])
      then CHR 0x27 # apostrophes (drop 2 s)
      else if c = CHR 0xC2 \<and> take 1 s = [CHR 0xB4] then CHR 0x27 # apostrophes (drop 1 s)
      else c # apostrophes s)"

definition maxEditionLen :: nat where "maxEditionLen = 100"

definition reEditionTag :: "rx list" where
  "reEditionTag = [r_ilit ''{edition-'', r_plus (r_notset ''{}''), r_char (CHR ''}'')]"

definition cleanEdition :: "string \<Rightarrow> string" where
  "cleanEdition s0 =
     (let s = TrimSpace (Trim (Join (Fields (apostrophes s0)) '' '') (CHR 0x22 # ''[](){}<>''))
      in if length (runes s) > maxEditionLen then TrimSpace (concat (take maxEditionLen (runes s))) else s)"

definition editionTag :: "string \<Rightarrow> string" where
  "editionTag name =
     (case path_from reEditionTag name 0 of
        None \<Rightarrow> []
      | Some ps \<Rightarrow>
          let tag = substr name (ps ! 1) (ps ! 2)
          in cleanEdition (if Contains tag '' '' then tag
                           else map (\<lambda>c. if c = CHR ''.'' \<or> c = CHR ''_'' then CHR '' '' else c) tag))"

text \<open>
  An edition pattern: the factors of the token, and the display of a match from the texts of its
  factors. Group 2 of the sources' expressions is one of these texts.
\<close>

type_synonym editionPattern = "rx list \<times> (string list \<Rightarrow> string)"

definition r_edge :: rx where "r_edge = RClass (\<lambda>c. \<not> is_lower c \<and> \<not> is_digit c)"

definition editionToken :: "rx list \<Rightarrow> rx list" where
  "editionToken alt = RAlt RBegin r_edge # alt @ [RAlt REnd r_edge]"

definition staticEdition :: "string \<Rightarrow> string list \<Rightarrow> string" where
  "staticEdition d sub = d"

definition r_seps :: rx where "r_seps = RStar r_sep"

definition r_suffix :: "string list \<Rightarrow> rx" where  \<comment> \<open>\<open>[ ._-]*(?:a|b|c)\<close>\<close>
  "r_suffix ws = RSeq r_seps (r_alt (map r_lit ws))"

definition ordinal :: "int \<Rightarrow> string" where
  "ordinal n =
     Itoa n @ (if 11 \<le> n mod 100 \<and> n mod 100 \<le> 13 then ''th''
               else if n mod 10 = 1 then ''st''
               else if n mod 10 = 2 then ''nd''
               else if n mod 10 = 3 then ''rd''
               else ''th'')"

definition ultimateEdition :: "string list \<Rightarrow> string" where
  "ultimateEdition sub =
     (if dropWhile (\<lambda>c. c \<in> set '' ._-'') (sub ! 1) = ''cut'' then ''Ultimate Cut'' else ''Ultimate Edition'')"

definition anniversaryEdition :: "string list \<Rightarrow> string" where
  "anniversaryEdition sub =
     (case ParseInt (sub ! 0) of
        Some n \<Rightarrow> if n > 0 then ordinal n @ '' Anniversary Edition'' else ''Anniversary Edition''
      | None \<Rightarrow> ''Anniversary Edition'')"

definition r_owner :: "string \<Rightarrow> rx" where  \<comment> \<open>\<open>director'?s?\<close>\<close>
  "r_owner w = r_seq [r_lit w, r_opt (r_char (CHR 0x27)), r_opt (r_lit ''s'')]"

definition editionPatterns :: "editionPattern list" where
  "editionPatterns =
    [([r_owner ''director'', r_suffix [''cut'', ''edition'', ''version'']], staticEdition (''Director'' @ [CHR 0x27] @ ''s Cut'')),
     ([r_owner ''collector'', r_suffix [''edition'', ''cut'', ''version'']],
      staticEdition (''Collector'' @ [CHR 0x27] @ ''s Edition'')),
     ([r_lit ''extended'', r_opt (r_suffix [''cut'', ''edition'', ''version''])], staticEdition ''Extended''),
     ([r_lit ''theatrical'', r_opt (r_suffix [''cut'', ''edition'', ''version'', ''release''])], staticEdition ''Theatrical''),
     ([r_lit ''unrated''], staticEdition ''Unrated''),
     ([r_lit ''uncut''], staticEdition ''Uncut''),
     ([r_lit ''uncensored''], staticEdition ''Uncensored''),
     ([r_lit ''imax'', r_opt (r_suffix [''edition'', ''version'', ''enhanced''])], staticEdition ''IMAX''),
     ([r_lit ''remastered''], staticEdition ''Remastered''),
     ([r_lit ''criterion'', r_opt (r_suffix [''collection'', ''edition''])], staticEdition ''Criterion''),
     ([r_lit ''special'', r_suffix [''edition'', ''cut'', ''version'']], staticEdition ''Special Edition''),
     ([r_lit ''ultimate'', r_opt (r_suffix [''cut'', ''edition'', ''version''])], ultimateEdition),
     ([r_lit ''final'', r_suffix [''cut'']], staticEdition ''Final Cut''),
     ([RRep 1 3 r_digit, r_opt (r_alt (map r_lit [''st'', ''nd'', ''rd'', ''th''])), r_suffix [''anniversary''],
       r_opt (r_suffix [''edition'', ''cut'', ''version''])], anniversaryEdition),
     ([r_lit ''anniversary'', r_suffix [''edition'']], staticEdition ''Anniversary Edition''),
     ([r_lit ''redux''], staticEdition ''Redux''),
     ([r_lit ''open'', r_opt r_sep, r_lit ''matte''], staticEdition ''Open Matte'')]"

record hit =
  h_start :: nat
  h_end :: nat
  h_display :: string

text \<open>Group 1 runs from the second position of the match to the one before the last.\<close>

definition edition_hit :: "string \<Rightarrow> editionPattern \<Rightarrow> hit list" where
  "edition_hit s pat =
     (case path_from (editionToken (fst pat)) s 0 of
        None \<Rightarrow> []
      | Some ps \<Rightarrow> [\<lparr>h_start = ps ! 1, h_end = ps ! (length ps - 2),
                     h_display = snd pat (path_texts s (butlast (tl ps)))\<rparr>])"

definition hit_less :: "hit \<Rightarrow> hit \<Rightarrow> bool" where
  "hit_less a b = (if h_start a \<noteq> h_start b then h_start a < h_start b else h_end a > h_end b)"

text \<open>The loop over the sorted hits; \<open>lastEnd\<close> is -1 before the first.\<close>

fun take_hits :: "int \<Rightarrow> string list \<Rightarrow> hit list \<Rightarrow> string list" where
  "take_hits lastEnd parts [] = parts"
| "take_hits lastEnd parts (h # hs) =
     (if int (h_start h) < lastEnd \<or> h_display h \<in> set parts then take_hits lastEnd parts hs
      else take_hits (int (h_end h)) (parts @ [h_display h]) hs)"

definition editionDisplays :: "string \<Rightarrow> string list" where
  "editionDisplays txt =
     (if TrimSpace txt = [] then []
      else let s = ToLower (apostrophes txt)
           in take_hits (-1) [] (sort_by hit_less (concat (map (edition_hit s) editionPatterns))))"

text \<open>The display set of the source: in order, each once.\<close>

definition displays :: "string list \<Rightarrow> string" where
  "displays ds = Join (dedup ds) '' ''"

definition normWords :: "string \<Rightarrow> string" where
  "normWords s =
     Join (FieldsFunc (\<lambda>c. \<not> isASCIILetter c \<and> \<not> is_digit c) (ReplaceChar (CHR 0x27) [] (ToLower (apostrophes s)))) '' ''"

function strip_phrase :: "string \<Rightarrow> string \<Rightarrow> string" where
  "strip_phrase p t =
     (let needle = '' '' @ p @ '' ''
      in if Contains t needle then strip_phrase p (ReplaceAll t needle '' '') else t)"
  by pat_completeness auto
termination
  by (relation "measure (\<lambda>(p, t). length t)") (auto intro!: length_ReplaceAll_less)

declare strip_phrase.simps [simp del]

definition stripWords :: "string \<Rightarrow> string list \<Rightarrow> string" where
  "stripWords txt phrases = TrimSpace (fold strip_phrase phrases ('' '' @ txt @ '' ''))"

definition editionOutsideTitles :: "string \<Rightarrow> string \<Rightarrow> string list \<Rightarrow> string" where
  "editionOutsideTitles base parent normTitles =
     displays (concat (map (\<lambda>name. editionDisplays (stripWords (normWords name) normTitles)) [base, parent]))"

definition name_editions :: "string \<Rightarrow> string \<Rightarrow> string list" where
  "name_editions name other =
     (if TrimSpace name = [] then []
      else case splitAtReleaseMarker name of
             None \<Rightarrow> editionDisplays name
           | Some (titlePart, rest) \<Rightarrow>
               filter (\<lambda>d. d \<notin> set (editionDisplays other)) (editionDisplays titlePart) @ editionDisplays rest)"

definition editionFromNames :: "string \<Rightarrow> string \<Rightarrow> string" where
  "editionFromNames base parent = displays (name_editions base parent @ name_editions parent base)"

definition EditionWithTitles :: "string \<Rightarrow> string \<Rightarrow> string \<Rightarrow> string list \<Rightarrow> string" where
  "EditionWithTitles p plexEditionTitle arrEdition titles =
     (let (base, parent) = baseAndParent p;
          nrm = filter (\<lambda>n. n \<noteq> []) (map normWords titles)
      in if cleanEdition plexEditionTitle \<noteq> [] then cleanEdition plexEditionTitle
         else if cleanEdition arrEdition \<noteq> [] then cleanEdition arrEdition
         else if editionTag base \<noteq> [] then editionTag base
         else if editionTag parent \<noteq> [] then editionTag parent
         else if nrm \<noteq> [] then editionOutsideTitles base parent nrm
         else editionFromNames base parent)"

definition Edition :: "string \<Rightarrow> string \<Rightarrow> string \<Rightarrow> string" where
  "Edition p plexEditionTitle arrEdition = EditionWithTitles p plexEditionTitle arrEdition []"

definition editionFiller :: "string list" where
  "editionFiller = [''edition'', ''cut'', ''version'', ''the'', ''collection'']"

text \<open>\<open>^([0-9]+)(?:st|nd|rd|th)$\<close>: the number of an ordinal.\<close>

definition reOrdinalNumber :: "rx list" where
  "reOrdinalNumber = [RBegin, r_plus r_digit, r_alt (map r_lit [''st'', ''nd'', ''rd'', ''th'']), REnd]"

definition ordinal_number :: "string \<Rightarrow> string" where
  "ordinal_number t =
     (case path_from reOrdinalNumber t 0 of Some ps \<Rightarrow> substr t (ps ! 1) (ps ! 2) | None \<Rightarrow> t)"

definition edition_word :: "string \<Rightarrow> string" where
  "edition_word f =
     ordinal_number (if f = ''director'' then ''directors'' else if f = ''collector'' then ''collectors'' else f)"

definition baseCuts :: "string list" where
  "baseCuts = [''theatrical'', ''original-theatrical'', ''theatrical-release'', ''original-theatrical-release'', ''standard'']"

definition EditionKey :: "string \<Rightarrow> string" where
  "EditionKey edition =
     (let s = ReplaceChar (CHR 0x27) [] (ToLower (apostrophes edition));
          fields = FieldsFunc (\<lambda>c. \<not> isASCIILetter c \<and> \<not> is_digit c) s;
          toks0 = map edition_word (filter (\<lambda>f. f \<notin> set editionFiller) fields);
          toks = (if toks0 = [] \<and> fields \<noteq> [] then fields else toks0);
          key = Join toks ''-''
      in if key \<in> set baseCuts then []
         else if key = [] then Join (Fields s) ''-''
         else key)"

section \<open>3D and samples\<close>

definition r_iedge :: rx where  \<comment> \<open>\<open>[^a-z0-9]\<close> under \<open>(?i)\<close>\<close>
  "r_iedge = RClass (\<lambda>c. \<not> isASCIILetter c \<and> \<not> is_digit c)"

definition r_itoken :: "rx \<Rightarrow> rx" where
  "r_itoken alt = r_seq [RAlt RBegin r_iedge, alt, RAlt REnd r_iedge]"

definition re3DAnywhere :: rx where
  "re3DAnywhere = r_itoken (r_alt
     [r_seq [r_ilit ''blu'', r_opt r_sep, r_ilit ''ray'', r_opt r_sep, r_ilit ''3d''],
      r_ilit ''bd3d'', r_ilit ''3dbd'', r_ilit ''sbs'',
      r_seq [r_ialt [''h'', ''f''], r_opt r_sep, r_ilit ''sbs''],
      r_isplit ''h'' ''tab'',
      r_seq [r_ialt [''half'', ''full''], r_opt r_sep, r_ialt [''sbs'', ''ou'', ''tab'']]])"

definition re3DTitleSafe :: rx where
  "re3DTitleSafe = r_itoken (RAlt (r_ilit ''3d'') (r_seq [r_ialt [''h'', ''f''], r_opt r_sep, r_ilit ''ou'']))"

definition reSample :: rx where "reSample = r_itoken (r_ilit ''sample'')"

definition name_3D :: "string \<Rightarrow> bool" where
  "name_3D name \<longleftrightarrow> name \<noteq> [] \<and> (MatchString re3DAnywhere name \<or> MatchString re3DTitleSafe (afterTitle name))"

definition title_3D :: "string \<Rightarrow> string \<Rightarrow> bool" where
  "title_3D name other =
     (case splitAtReleaseMarker name of
        Some (t, _) \<Rightarrow> MatchString re3DTitleSafe t \<and> \<not> MatchString re3DTitleSafe other
      | None \<Rightarrow> False)"

definition Is3D :: "string \<Rightarrow> bool" where
  "Is3D p =
     (let (base, parent) = baseAndParent p
      in name_3D base \<or> name_3D parent \<or> (parent \<noteq> [] \<and> (title_3D base parent \<or> title_3D parent base)))"

definition IsSamplePath :: "string \<Rightarrow> bool" where
  "IsSamplePath p =
     (let (base, parent) = baseAndParent p
      in base \<noteq> [] \<and> (ToLower parent \<in> {''sample'', ''samples''} \<or> MatchString reSample (afterTitle base)))"

section \<open>Languages (language.go)\<close>

definition languageTable :: "(string \<times> string \<times> string \<times> string list) list" where
  "languageTable =
    [(''eng'', '''', ''en'', [''english'']),
     (''fre'', ''fra'', ''fr'', [''french'', (''fran'' @ [CHR 0xC3, CHR 0xA7] @ ''ais''), ''francais'']),
     (''ger'', ''deu'', ''de'', [''german'', ''deutsch'']),
     (''spa'', '''', ''es'', [''spanish'', (''espa'' @ [CHR 0xC3, CHR 0xB1] @ ''ol''), ''espanol'', ''castilian'', ''latin american spanish'']),
     (''ita'', '''', ''it'', [''italian'', ''italiano'']),
     (''por'', '''', ''pt'', [''portuguese'', (''portugu'' @ [CHR 0xC3, CHR 0xAA] @ ''s''), ''portugues'', ''brazilian portuguese'', ''brazilian'']),
     (''rus'', '''', ''ru'', [''russian'', [CHR 0xD1, CHR 0x80, CHR 0xD1, CHR 0x83, CHR 0xD1, CHR 0x81, CHR 0xD1, CHR 0x81, CHR 0xD0, CHR 0xBA, CHR 0xD0, CHR 0xB8, CHR 0xD0, CHR 0xB9]]),
     (''jpn'', '''', ''ja'', [''japanese'', [CHR 0xE6, CHR 0x97, CHR 0xA5, CHR 0xE6, CHR 0x9C, CHR 0xAC, CHR 0xE8, CHR 0xAA, CHR 0x9E]]),
     (''chi'', ''zho'', ''zh'', [''chinese'', ''mandarin'', [CHR 0xE4, CHR 0xB8, CHR 0xAD, CHR 0xE6, CHR 0x96, CHR 0x87]]),
     (''kor'', '''', ''ko'', [''korean'', [CHR 0xED, CHR 0x95, CHR 0x9C, CHR 0xEA, CHR 0xB5, CHR 0xAD, CHR 0xEC, CHR 0x96, CHR 0xB4]]),
     (''ara'', '''', ''ar'', [''arabic'']), (''hin'', '''', ''hi'', [''hindi'']),
     (''dut'', ''nld'', ''nl'', [''dutch'', ''flemish'', ''nederlands'']),
     (''swe'', '''', ''sv'', [''swedish'', ''svenska'']),
     (''nor'', '''', ''no'', [''norwegian'', ''norsk'']),
     (''nob'', '''', ''nb'', [(''norwegian bokm'' @ [CHR 0xC3, CHR 0xA5] @ ''l''), ''norwegian bokmal'', (''bokm'' @ [CHR 0xC3, CHR 0xA5] @ ''l''), ''bokmal'']),
     (''nno'', '''', ''nn'', [''norwegian nynorsk'', ''nynorsk'']),
     (''dan'', '''', ''da'', [''danish'', ''dansk'']), (''fin'', '''', ''fi'', [''finnish'', ''suomi'']),
     (''pol'', '''', ''pl'', [''polish'', ''polski'']),
     (''cze'', ''ces'', ''cs'', [''czech'', ([CHR 0xC4, CHR 0x8D] @ ''e'' @ [CHR 0xC5, CHR 0xA1] @ ''tina''), ''cestina'']),
     (''slo'', ''slk'', ''sk'', [''slovak'', (''sloven'' @ [CHR 0xC4, CHR 0x8D] @ ''ina''), ''slovencina'']),
     (''hun'', '''', ''hu'', [''hungarian'', ''magyar'']),
     (''rum'', ''ron'', ''ro'', [''romanian'', ''moldavian'', ''moldovan'', (''rom'' @ [CHR 0xC3, CHR 0xA2] @ ''n'' @ [CHR 0xC4, CHR 0x83]), ''romana'']),
     (''bul'', '''', ''bg'', [''bulgarian'']), (''gre'', ''ell'', ''el'', [''greek'', ''modern greek'']),
     (''tur'', '''', ''tr'', [''turkish'', (''t'' @ [CHR 0xC3, CHR 0xBC] @ ''rk'' @ [CHR 0xC3, CHR 0xA7] @ ''e''), ''turkce'']),
     (''heb'', '''', ''he'', [''hebrew'']), (''tha'', '''', ''th'', [''thai'']),
     (''vie'', '''', ''vi'', [''vietnamese'', (''ti'' @ [CHR 0xE1, CHR 0xBA, CHR 0xBF] @ ''ng vi'' @ [CHR 0xE1, CHR 0xBB, CHR 0x87] @ ''t'')]),
     (''ind'', '''', ''id'', [''indonesian'', ''bahasa indonesia'']),
     (''may'', ''msa'', ''ms'', [''malay'', ''bahasa melayu'']), (''tgl'', '''', ''tl'', [''tagalog'']),
     (''fil'', '''', '''', [''filipino'']), (''ukr'', '''', ''uk'', [''ukrainian'']),
     (''hrv'', '''', ''hr'', [''croatian'', ''hrvatski'']),
     (''srp'', '''', ''sr'', [''serbian'', ''srpski'']),
     (''slv'', '''', ''sl'', [''slovenian'', ''slovene'', (''sloven'' @ [CHR 0xC5, CHR 0xA1, CHR 0xC4, CHR 0x8D] @ ''ina'')]),
     (''bos'', '''', ''bs'', [''bosnian'']), (''mac'', ''mkd'', ''mk'', [''macedonian'']),
     (''alb'', ''sqi'', ''sq'', [''albanian'', ''shqip'']),
     (''est'', '''', ''et'', [''estonian'', ''eesti'']),
     (''lav'', '''', ''lv'', [''latvian'', (''latvie'' @ [CHR 0xC5, CHR 0xA1] @ ''u'')]),
     (''lit'', '''', ''lt'', [''lithuanian'', (''lietuvi'' @ [CHR 0xC5, CHR 0xB3])]),
     (''ice'', ''isl'', ''is'', [''icelandic'', ([CHR 0xC3, CHR 0xAD] @ ''slenska''), ''islenska'']),
     (''per'', ''fas'', ''fa'', [''persian'', ''farsi'']), (''urd'', '''', ''ur'', [''urdu'']),
     (''ben'', '''', ''bn'', [''bengali'', ''bangla'']), (''tam'', '''', ''ta'', [''tamil'']),
     (''tel'', '''', ''te'', [''telugu'']), (''mar'', '''', ''mr'', [''marathi'']),
     (''kan'', '''', ''kn'', [''kannada'']), (''mal'', '''', ''ml'', [''malayalam'']),
     (''guj'', '''', ''gu'', [''gujarati'']), (''pan'', '''', ''pa'', [''punjabi'', ''panjabi'']),
     (''cat'', '''', ''ca'', [''catalan'', (''catal'' @ [CHR 0xC3, CHR 0xA0]), ''catala'', ''valencian'']),
     (''baq'', ''eus'', ''eu'', [''basque'', ''euskara'']),
     (''glg'', '''', ''gl'', [''galician'', ''galego'']),
     (''wel'', ''cym'', ''cy'', [''welsh'', ''cymraeg'']),
     (''gle'', '''', ''ga'', [''irish'', ''gaeilge'']), (''arm'', ''hye'', ''hy'', [''armenian'']),
     (''geo'', ''kat'', ''ka'', [''georgian'']), (''aze'', '''', ''az'', [''azerbaijani'']),
     (''kaz'', '''', ''kk'', [''kazakh'']), (''uzb'', '''', ''uz'', [''uzbek'']),
     (''mon'', '''', ''mn'', [''mongolian'']), (''nep'', '''', ''ne'', [''nepali'']),
     (''sin'', '''', ''si'', [''sinhala'', ''sinhalese'']),
     (''khm'', '''', ''km'', [''khmer'', ''central khmer'']), (''lao'', '''', ''lo'', [''lao'']),
     (''bur'', ''mya'', ''my'', [''burmese'']), (''amh'', '''', ''am'', [''amharic'']),
     (''swa'', '''', ''sw'', [''swahili'']), (''afr'', '''', ''af'', [''afrikaans'']),
     (''zul'', '''', ''zu'', [''zulu'']), (''xho'', '''', ''xh'', [''xhosa'']),
     (''yor'', '''', ''yo'', [''yoruba'']), (''ibo'', '''', ''ig'', [''igbo'']),
     (''hau'', '''', ''ha'', [''hausa'']), (''som'', '''', ''so'', [''somali'']),
     (''lat'', '''', ''la'', [''latin'']), (''epo'', '''', ''eo'', [''esperanto'']),
     (''tib'', ''bod'', ''bo'', [''tibetan'']),
     (''mao'', ''mri'', ''mi'', [''maori'', (''m'' @ [CHR 0xC4, CHR 0x81] @ ''ori'')]),
     (''haw'', '''', '''', [''hawaiian'']), (''yid'', '''', ''yi'', [''yiddish'']),
     (''bel'', '''', ''be'', [''belarusian'']),
     (''ltz'', '''', ''lb'', [''luxembourgish'', ''letzeburgesch'']),
     (''fao'', '''', ''fo'', [''faroese'']), (''kur'', '''', ''ku'', [''kurdish'']),
     (''pus'', '''', ''ps'', [''pashto'', ''pushto'']), (''tat'', '''', ''tt'', [''tatar'']),
     (''mul'', '''', '''', [''multiple languages'', ''multi'', ''multiple''])]"

definition legacyLanguageCodes :: "(string \<times> string) list" where
  "legacyLanguageCodes = [(''iw'', ''heb''), (''in'', ''ind''), (''ji'', ''yid''), (''jw'', ''jav'')]"

text \<open>The assignments of one row, in the order the code makes them; a later one wins.\<close>

definition language_row :: "string \<times> string \<times> string \<times> string list \<Rightarrow> (string \<times> string) list" where
  "language_row l = (case l of (b, t, one, names) \<Rightarrow>
     (b, b) # (if t \<noteq> [] then [(t, b)] else []) @ (if one \<noteq> [] then [(one, b)] else []) @ map (\<lambda>n. (n, b)) names)"

definition buildLanguageIndex :: "(string \<times> string) list" where
  "buildLanguageIndex = rev (concat (map language_row languageTable) @ legacyLanguageCodes)"

definition languageIndex :: "string \<Rightarrow> string option" where
  "languageIndex k = map_of buildLanguageIndex k"

definition isASCIILetters :: "string \<Rightarrow> bool" where
  "isASCIILetters s \<longleftrightarrow> list_all is_lower s \<and> s \<noteq> []"

definition undetermined :: "string list" where
  "undetermined = [''und'', ''unknown'', ''undetermined'', ''zxx'', ''none'', ''n/a'']"

definition locale_code :: "string \<Rightarrow> string" where
  "locale_code v =
     (case IndexAny v ''-_'' of
        Some (Suc i) \<Rightarrow> (case languageIndex (take (Suc i) v) of Some c \<Rightarrow> c | None \<Rightarrow> [])
      | _ \<Rightarrow> [])"

lemma language_cut_less:
  assumes "IndexAny (ToLower (TrimSpace s)) cs = Some (Suc i)"
  shows "length (take (Suc i) (ToLower (TrimSpace s))) < length s"
proof -
  have "Suc i < length (TrimSpace s)"
    using assms IndexFunc_less unfolding IndexAny_def by (metis length_ToLower)
  then show ?thesis using length_TrimSpace_le[of s] by simp
qed

text \<open>No code of the index is empty, so an empty result stands for a missing entry.\<close>

function LanguageCode :: "string \<Rightarrow> string" where
  "LanguageCode s =
     (let v = ToLower (TrimSpace s);
          bare = (if length v = 3 \<and> isASCIILetters v then v else []);
          fallback = (if locale_code v \<noteq> [] then locale_code v else bare)
      in if v = [] \<or> v \<in> set undetermined then []
         else case languageIndex v of
                Some c \<Rightarrow> c
              | None \<Rightarrow>
                  (case IndexAny v ''(['' of
                     Some (Suc i) \<Rightarrow> (let c = LanguageCode (take (Suc i) v) in if c \<noteq> [] then c else fallback)
                   | _ \<Rightarrow> fallback))"
  by pat_completeness auto
termination
  by (relation "measure length") (use language_cut_less in \<open>auto simp del: length_take\<close>)

declare LanguageCode.simps [simp del]

section \<open>Resolution tiers\<close>

lemma resolutionRank_simps [simp]:
  "resolutionRank ResSD = 1" "resolutionRank Res480 = 2" "resolutionRank Res576 = 3" "resolutionRank Res720 = 4"
  "resolutionRank Res1080 = 5" "resolutionRank Res1440 = 6" "resolutionRank Res2160 = 7"
  by (simp_all add: resolutionRank_def)

lemma rank_width_mono:
  "w \<le> w' \<Longrightarrow> h \<le> h' \<Longrightarrow> resolutionRank (tierFromWidth w h) \<le> resolutionRank (tierFromWidth w' h')"
  unfolding tierFromWidth_def by simp

lemma rank_height_mono: "h \<le> h' \<Longrightarrow> resolutionRank (tierFromHeight h) \<le> resolutionRank (tierFromHeight h')"
  unfolding tierFromHeight_def by simp

lemma measured_mono:
  assumes "0 < w" "0 < h" "w \<le> w'" "h \<le> h'"
  shows "0 < fst (measured w h)" "0 < snd (measured w h)"
    "fst (measured w h) \<le> fst (measured w' h')" "snd (measured w h) \<le> snd (measured w' h')"
  using assms by (auto simp: measured_def Let_def)

lemma rank_ResolutionTier:
  assumes "0 < w" and "0 < h"
  shows "resolutionRank (ResolutionTier w h l) =
    max (resolutionRank (tierFromWidth (fst (measured w h)) (snd (measured w h))))
        (resolutionRank (tierFromHeight (snd (measured w h))))"
  using measured_mono(1,2)[OF assms order_refl order_refl]
  by (cases "measured w h") (auto simp: ResolutionTier_def Let_def)

text \<open>
  A frame that is at least as large in both directions never gets a lower resolution tier, whatever
  label the server gives: a re-encode that shrinks the picture cannot rank above its original on
  resolution.
\<close>

theorem resolution_tier_monotone:
  assumes "0 < w" "0 < h" "w \<le> w'" "h \<le> h'"
  shows "resolutionRank (ResolutionTier w h l) \<le> resolutionRank (ResolutionTier w' h' l')"
proof -
  note m = measured_mono[OF assms]
  have "0 < w'" "0 < h'" using assms by auto
  then show ?thesis
    using assms m by (simp add: rank_ResolutionTier rank_width_mono rank_height_mono max.coboundedI1 max.coboundedI2)
qed

theorem resolution_tier_monotone_witness:
  "resolutionRank (ResolutionTier 1440 1080 ''sd'') \<le> resolutionRank (ResolutionTier 1920 1080 [])"
  using resolution_tier_monotone[of 1440 1080 1920 1080 "''sd''" "[]"] by simp

text \<open>
  For a frame that is at least as wide as 16:9 the tier is the width tier alone, as the comment of
  \<open>ResolutionTier\<close> says: the height only lifts narrower frames.
\<close>

theorem resolution_tier_wide_frame:
  assumes "0 < w" "0 \<le> h" "16 * h \<le> 9 * w"
  shows "ResolutionTier w h l = tierFromWidth w h"
proof -
  have "resolutionRank (tierFromHeight h) \<le> resolutionRank (tierFromWidth w h)"
    using assms unfolding tierFromHeight_def tierFromWidth_def by simp
  then show ?thesis using assms by (simp add: ResolutionTier_def measured_def Let_def)
qed

theorem resolution_tier_wide_frame_witness: "ResolutionTier 1920 800 [] = Res1080"
  using resolution_tier_wide_frame[of 1920 800 "[]"] by (simp add: tierFromWidth_def)

section \<open>Audio formats\<close>

lemma dts_format_cases: "dts_format cp t \<in> {AudioDTSX, AudioDTSHDMA, AudioDTSHDHRA, AudioDTS}"
  by (simp add: dts_format_def)

lemma family_format_atmos:
  assumes "d \<in> {AudioDTSX, AudioDTSHDMA, AudioDTSHDHRA, AudioDTS}"
  shows "snd (family_format fam a d) \<longleftrightarrow> fst (family_format fam a d) \<in> {AudioTrueHDAtmos, AudioEAC3Atmos}"
    and "fst (family_format fam a d) \<noteq> []"
  using assms by (auto simp: family_format_def)

text \<open>
  A track is reported as carrying Atmos exactly when its format is one of the two Atmos formats, and
  only an all-blank description has no format.
\<close>

theorem audio_format_atmos:
  "(snd (AudioFormat c p t n) \<longleftrightarrow> fst (AudioFormat c p t n) \<in> {AudioTrueHDAtmos, AudioEAC3Atmos}) \<and>
   (fst (AudioFormat c p t n) = [] \<longleftrightarrow> TrimSpace c = [] \<and> TrimSpace p = [] \<and> TrimSpace t = [])"
  using family_format_atmos[OF dts_format_cases] by (simp add: AudioFormat_def Let_def)

section \<open>Removing titles\<close>

text \<open>
  C40 The loop of \<open>stripWords\<close> that removes a title from a name ends for every name and every phrase: each
  pass shortens the text, and when it stops the phrase does not occur as whole words any more.
\<close>

theorem strip_phrase_ends:
  "\<not> Contains (strip_phrase p t) ('' '' @ p @ '' '') \<and> length (strip_phrase p t) \<le> length t"
proof (induction p t rule: strip_phrase.induct)
  case (1 p t)
  let ?n = "'' '' @ p @ '' ''"
  show ?case
  proof (cases "Contains t ?n")
    case True
    then have "strip_phrase p t = strip_phrase p (ReplaceAll t ?n '' '')" by (subst strip_phrase.simps) simp
    moreover have "length (ReplaceAll t ?n '' '') < length t" using True by (intro length_ReplaceAll_less) auto
    ultimately show ?thesis using 1[OF refl True] by simp
  qed (subst (1 2) strip_phrase.simps, simp)
qed

section \<open>Languages\<close>

text \<open>The codes of the index are three-letter lower-case words, and each row's code is its own code.\<close>

definition table_codes :: "string list" where
  "table_codes = map fst languageTable"

lemma table_codes_ok:
  "list_all (\<lambda>b. isASCIILetters b \<and> length b = 3 \<and> b \<notin> set undetermined) (''jav'' # table_codes)"
  by code_simp

lemma index_consistent:
  "list_all (\<lambda>(k, c). c \<in> set (''jav'' # table_codes) \<and> (k = c \<or> length k \<noteq> 3 \<or> k \<notin> set table_codes))
     (concat (map language_row languageTable) @ legacyLanguageCodes)"
  by code_simp

lemma index_entry:
  assumes "languageIndex k = Some c"
  shows "c \<in> set (''jav'' # table_codes)" and "k = c \<or> length k \<noteq> 3 \<or> k \<notin> set table_codes"
proof -
  have "(k, c) \<in> set (concat (map language_row languageTable) @ legacyLanguageCodes)"
    using assms map_of_SomeD[of buildLanguageIndex k c]
    unfolding languageIndex_def buildLanguageIndex_def set_rev by blast
  from index_consistent[unfolded list_all_iff, rule_format, OF this]
  show "c \<in> set (''jav'' # table_codes)" and "k = c \<or> length k \<noteq> 3 \<or> k \<notin> set table_codes" by blast+
qed

lemma table_code:
  assumes "b \<in> set table_codes"
  shows "isASCIILetters b" "length b = 3" "b \<notin> set undetermined"
  using table_codes_ok[unfolded list_all_iff, rule_format, of b] assms by auto

lemma table_codes_fixed:
  assumes "b \<in> set table_codes"
  shows "languageIndex b = Some b"
proof -
  obtain row where row: "row \<in> set languageTable" "fst row = b" using assms by (auto simp: table_codes_def)
  moreover obtain c t u ns where "row = (c, t, u, ns)" by (metis prod_cases4)
  ultimately have "(b, b) \<in> set (language_row row)" by (simp add: language_row_def)
  with row have "b \<in> fst ` set buildLanguageIndex"
    unfolding buildLanguageIndex_def set_rev set_append set_concat set_map by force
  then obtain c where c: "languageIndex b = Some c"
    unfolding languageIndex_def by (metis map_of_eq_None_iff not_None_eq)
  then have "b = c" using index_entry(2) table_code(2)[OF assms] assms by blast
  then show ?thesis using c by simp
qed

lemma is_lower_lower [simp]: "is_lower c \<Longrightarrow> lower_char c = c"
  by (auto simp: is_lower_def is_upper_def lower_char_def)

lemma is_lower_not_space: "is_lower c \<Longrightarrow> \<not> is_space c"
  by (auto simp: is_lower_def is_space_def)

lemma trim_lower_letters:
  assumes "isASCIILetters v"
  shows "ToLower (TrimSpace v) = v"
proof -
  have *: "list_all is_lower v" using assms by (simp add: isASCIILetters_def)
  have "dropWhile is_space xs = xs" if "list_all is_lower xs" for xs
    using that by (cases xs) (auto dest: is_lower_not_space)
  then have "TrimSpace v = v" using * by (simp add: TrimSpace_def TrimRightFunc_def list_all_iff)
  then show ?thesis using * by (simp add: ToLower_def list_all_iff map_idI)
qed

lemma IndexFunc_None: "(\<And>c. c \<in> set xs \<Longrightarrow> \<not> P c) \<Longrightarrow> IndexFunc P xs = None"
  by (induction xs) auto

lemma letters_no_sep:
  assumes "isASCIILetters v"
  shows "IndexAny v ''(['' = None" "IndexAny v ''-_'' = None"
proof -
  have "byte (CHR ''('') = 40" "byte (CHR ''['') = 91" "byte (CHR ''-'') = 45" "byte (CHR ''_'') = 95"
    by (simp_all add: byte_def)
  then have "\<not> c \<in> set ''([''" "\<not> c \<in> set ''-_''" if "c \<in> set v" for c
    using that assms by (auto simp: isASCIILetters_def list_all_iff is_lower_def)
  then show "IndexAny v ''(['' = None" "IndexAny v ''-_'' = None"
    unfolding IndexAny_def by (auto intro!: IndexFunc_None)
qed

text \<open>What a result looks like, by induction on the recursive call.\<close>

definition language_result :: "string \<Rightarrow> bool" where
  "language_result c \<longleftrightarrow>
     c = [] \<or> c \<in> set table_codes \<or> (isASCIILetters c \<and> length c = 3 \<and> c \<notin> set undetermined \<and> languageIndex c = None)"

lemma jav_result: "language_result ''jav''"
proof -
  have "languageIndex ''jav'' = None" by code_simp
  then show ?thesis using table_codes_ok unfolding language_result_def list.pred_inject by blast
qed

lemma index_result: "languageIndex k = Some c \<Longrightarrow> language_result c"
  using index_entry(1)[of k c] jav_result by (auto simp: language_result_def)

lemma language_result_Nil: "language_result []"
  by (simp add: language_result_def)

lemma locale_result: "language_result (locale_code v)"
  unfolding locale_code_def
  by (auto intro: index_result language_result_Nil split: option.splits nat.splits)

lemma LanguageCode_result: "language_result (LanguageCode s)"
proof (induction s rule: LanguageCode.induct)
  case (1 s)
  let ?v = "ToLower (TrimSpace s)"
  let ?fb = "if locale_code ?v \<noteq> [] then locale_code ?v else if length ?v = 3 \<and> isASCIILetters ?v then ?v else []"
  show ?case
  proof (cases "?v = [] \<or> ?v \<in> set undetermined \<or> languageIndex ?v \<noteq> None")
    case True
    then show ?thesis
      by (subst LanguageCode.simps) (auto simp: Let_def intro: index_result language_result_Nil)
  next
    case False
    then have fb: "language_result ?fb"
      using locale_result by (auto simp: language_result_def[of ?v] intro: language_result_Nil)
    show ?thesis
      using False fb 1[of ?v]
      by (subst LanguageCode.simps) (auto simp: Let_def split: option.splits nat.splits)
  qed
qed

lemma LanguageCode_fixed:
  assumes "language_result c"
  shows "LanguageCode c = c"
proof (cases "c = []")
  case True
  then show ?thesis by (subst LanguageCode.simps) (simp add: TrimSpace_def TrimRightFunc_def ToLower_def)
next
  case False
  then have c: "isASCIILetters c" "c \<notin> set undetermined" "length c = 3" "languageIndex c \<in> {Some c, None}"
    using assms table_code table_codes_fixed by (auto simp: language_result_def)
  then show ?thesis
    using False by (subst LanguageCode.simps)
      (auto simp: Let_def trim_lower_letters letters_no_sep locale_code_def)
qed

text \<open>
  A normalised language code is a fixed point: normalising it again, as the scanner and the engine both
  do with the same value, never changes it.
\<close>

theorem language_code_idempotent: "LanguageCode (LanguageCode s) = LanguageCode s"
  using LanguageCode_fixed LanguageCode_result by blast

end
