(* ===== verification/Editions.thy ===== *)
theory Editions
  imports Versions MediaInfo
begin

text \<open>
  The variant attributes of a version in \<open>internal/engine/helpers.go\<close>: the edition key that separates
  the cuts of a film, and whether a version is 3D. The engine keeps its own slug of an edition, next
  to \<open>EditionKey\<close> of \<open>internal/mediainfo\<close>.
\<close>

definition EpisodeLabel :: "int \<Rightarrow> int \<Rightarrow> string" where
  "EpisodeLabel season episode =
     ''S'' @ (if season \<ge> 0 then pad2 season else ''??'') @ ''E'' @ (if episode > 0 then pad2 episode else ''??'')"

definition isVersion3D :: "MediaVersion \<Rightarrow> string \<Rightarrow> bool" where
  "isVersion3D v edition \<longleftrightarrow>
     (case v_disc v of Some d \<Rightarrow> d_is3D d | None \<Rightarrow> False) \<or>
     ''3d'' \<in> set (Split (CHR ''-'') edition) \<or>
     (\<exists>p\<in>set (versionPaths v). Is3D p)"

text \<open>The engine's \<open>reEditionTag\<close> and \<open>reOrdinal\<close>; group 1 is the middle factor.\<close>

definition engine_reEditionTag :: "rx list" where
  "engine_reEditionTag = [r_ilit ''{edition-'', r_plus (r_notset ''{}''), r_char (CHR ''}'')]"

definition reOrdinal :: "rx list" where
  "reOrdinal = [RBegin, r_plus r_digit, r_alt (map r_lit [''st'', ''nd'', ''rd'', ''th'']), REnd]"

definition editionFromPath :: "string \<Rightarrow> string" where
  "editionFromPath p =
     (let s = normPath p; ms = all_paths engine_reEditionTag s
      in if ms = [] then [] else TrimSpace (substr s (last ms ! 1) (last ms ! 2)))"

definition edition_token :: "string \<Rightarrow> string" where
  "edition_token t0 =
     (let t = (if t0 = ''director'' then ''directors'' else if t0 = ''collector'' then ''collectors'' else t0)
      in case path_from reOrdinal t 0 of Some ps \<Rightarrow> substr t (ps ! 1) (ps ! 2) | None \<Rightarrow> t)"

definition editionKey :: "string \<Rightarrow> string" where
  "editionKey e =
     (let toks = tokenize (drop_quotes (TrimSpace e));
          out = map edition_token
            (filter (\<lambda>t. t \<notin> {''edition'', ''cut'', ''version'', ''the'', ''collection''}) toks);
          key = Join out ''-''
      in if key \<in> {''theatrical'', ''original-theatrical'', ''theatrical-release'', ''original-theatrical-release'', ''standard''}
         then [] else key)"

definition versionEditionKey :: "MediaVersion \<Rightarrow> string \<Rightarrow> string" where
  "versionEditionKey v itemEdition =
     (let cands = [v_edition v] @ (case v_arr v of Some a \<Rightarrow> [a_edition a] | None \<Rightarrow> []) @ [itemEdition] @
                  map editionFromPath (versionPaths v)
      in case find (\<lambda>c. TrimSpace c \<noteq> []) cands of Some c \<Rightarrow> editionKey c | None \<Rightarrow> [])"

end
