(* ===== verification/Languages.thy ===== *)
theory Languages
  imports Helpers
begin

text \<open>
  The language codes of \<open>internal/engine/helpers.go\<close>: \<open>normLang\<close> maps the code or the name of an audio
  track to an ISO 639-2/B code, \<open>audioLangs\<close> lists the languages of a version. The three \<open>switch\<close>
  statements of the source are tables.
\<close>

definition table_get :: "(string \<times> string) list \<Rightarrow> string \<Rightarrow> string option" where
  "table_get t k = map_of t k"

definition iso6391To6392B :: "string \<Rightarrow> string" where
  "iso6391To6392B c = (case table_get
    [(''en'', ''eng''), (''de'', ''ger''), (''fr'', ''fre''), (''es'', ''spa''), (''it'', ''ita''),
     (''pt'', ''por''), (''nl'', ''dut''), (''sv'', ''swe''), (''no'', ''nor''), (''nb'', ''nob''),
     (''nn'', ''nno''), (''da'', ''dan''), (''fi'', ''fin''), (''is'', ''ice''), (''pl'', ''pol''),
     (''cs'', ''cze''), (''sk'', ''slo''), (''hu'', ''hun''), (''ro'', ''rum''), (''bg'', ''bul''),
     (''hr'', ''hrv''), (''sr'', ''srp''), (''sl'', ''slv''), (''el'', ''gre''), (''tr'', ''tur''),
     (''ru'', ''rus''), (''uk'', ''ukr''), (''he'', ''heb''), (''iw'', ''heb''), (''ar'', ''ara''),
     (''fa'', ''per''), (''hi'', ''hin''), (''bn'', ''ben''), (''ta'', ''tam''), (''te'', ''tel''),
     (''ml'', ''mal''), (''kn'', ''kan''), (''mr'', ''mar''), (''ur'', ''urd''), (''th'', ''tha''),
     (''vi'', ''vie''), (''id'', ''ind''), (''ms'', ''may''), (''zh'', ''chi''), (''ja'', ''jpn''),
     (''ko'', ''kor''), (''et'', ''est''), (''lv'', ''lav''), (''lt'', ''lit''), (''ca'', ''cat''),
     (''eu'', ''baq''), (''gl'', ''glg''), (''ga'', ''gle''), (''cy'', ''wel''), (''sq'', ''alb''),
     (''mk'', ''mac''), (''hy'', ''arm''), (''ka'', ''geo''), (''af'', ''afr''), (''sw'', ''swa''),
     (''tl'', ''tgl'')] c of Some l \<Rightarrow> l | None \<Rightarrow> [])"

definition iso6392TToB :: "string \<Rightarrow> string" where
  "iso6392TToB c = (case table_get
    [(''deu'', ''ger''), (''fra'', ''fre''), (''nld'', ''dut''), (''ces'', ''cze''),
     (''slk'', ''slo''), (''ron'', ''rum''), (''ell'', ''gre''), (''fas'', ''per''),
     (''zho'', ''chi''), (''msa'', ''may''), (''isl'', ''ice''), (''eus'', ''baq''),
     (''cym'', ''wel''), (''sqi'', ''alb''), (''mkd'', ''mac''), (''hye'', ''arm''),
     (''kat'', ''geo''), (''bod'', ''tib''), (''mya'', ''bur''), (''mri'', ''mao'')] c of Some l \<Rightarrow> l | None \<Rightarrow> c)"

definition langFromName :: "string \<Rightarrow> string" where
  "langFromName n0 =
     (let n1 = ToLower (TrimSpace n0);
          n = (case IndexAny n1 ''(,;/'' of Some i \<Rightarrow> if i > 0 then TrimSpace (take i n1) else n1 | None \<Rightarrow> n1)
      in case table_get
    [(''english'', ''eng''), (''german'', ''ger''), (''deutsch'', ''ger''), (''french'', ''fre''),
     ((''fran'' @ [CHR 0xC3] @ [CHR 0xA7] @ ''ais''), ''fre''), (''francais'', ''fre''),
     (''spanish'', ''spa''), ((''espa'' @ [CHR 0xC3] @ [CHR 0xB1] @ ''ol''), ''spa''),
     (''espanol'', ''spa''), (''castilian'', ''spa''), (''italian'', ''ita''), (''italiano'', ''ita''),
     (''portuguese'', ''por''), ((''portugu'' @ [CHR 0xC3] @ [CHR 0xAA] @ ''s''), ''por''),
     (''portugues'', ''por''), (''brazilian'', ''por''), (''dutch'', ''dut''), (''flemish'', ''dut''),
     (''swedish'', ''swe''), (''norwegian'', ''nor''), (''danish'', ''dan''), (''finnish'', ''fin''),
     (''icelandic'', ''ice''), (''polish'', ''pol''), (''czech'', ''cze''), (''slovak'', ''slo''),
     (''hungarian'', ''hun''), (''romanian'', ''rum''), (''bulgarian'', ''bul''),
     (''croatian'', ''hrv''), (''serbian'', ''srp''), (''slovenian'', ''slv''), (''greek'', ''gre''),
     (''turkish'', ''tur''), (''russian'', ''rus''), (''ukrainian'', ''ukr''), (''hebrew'', ''heb''),
     (''arabic'', ''ara''), (''persian'', ''per''), (''farsi'', ''per''), (''hindi'', ''hin''),
     (''tamil'', ''tam''), (''telugu'', ''tel''), (''thai'', ''tha''), (''vietnamese'', ''vie''),
     (''indonesian'', ''ind''), (''malay'', ''may''), (''chinese'', ''chi''), (''mandarin'', ''chi''),
     (''cantonese'', ''chi''), (''japanese'', ''jpn''), (''korean'', ''kor'')] n of Some l \<Rightarrow> l | None \<Rightarrow> [])"

definition langFromCode :: "string \<Rightarrow> string" where
  "langFromCode c0 =
     (let c1 = ToLower (TrimSpace c0);
          c = (case IndexAny c1 ''-_'' of Some i \<Rightarrow> if i > 0 then take i c1 else c1 | None \<Rightarrow> c1)
      in if c \<in> {[], ''und'', ''unk'', ''mis'', ''mul'', ''zxx'', ''xx'', ''qaa'', ''none''} then []
         else if length c = 2 then (let l = iso6391To6392B c in if l \<noteq> [] then l else c)
         else if length c = 3 then iso6392TToB c
         else langFromName c)"

definition normLang :: "string \<Rightarrow> string \<Rightarrow> string" where
  "normLang cd nm = (let l = langFromCode cd in if l \<noteq> [] then l else langFromName nm)"

definition audioLangs :: "MediaVersion \<Rightarrow> string list" where
  "audioLangs v =
     sort (dedup (filter (\<lambda>l. l \<noteq> []) (map (\<lambda>t. normLang (at_languageCode t) (at_language t)) (v_audioTracks v))))"

definition hasLanguage :: "MediaVersion \<Rightarrow> string \<Rightarrow> bool" where
  "hasLanguage v want \<longleftrightarrow> want \<in> set (audioLangs v)"

end
