(* ===== verification/GroupChecks.thy ===== *)
theory GroupChecks
  imports Versions
begin

text \<open>
  The checks of \<open>internal/engine/group.go\<close> on the versions of one group that explain why a person
  should look at it: the spread of the durations and the signs of a mismatched merge.
\<close>

section \<open>Durations\<close>

record spread =
  sp_found :: bool
  sp_lo :: int
  sp_hi :: int
  sp_mismatch :: bool
  sp_widest :: int

definition spread_entries :: "string \<Rightarrow> MediaVersion list \<Rightarrow> (nat \<times> int) list" where
  "spread_entries mt vs =
     map (\<lambda>v. (episodeCount mt v, versionDuration v))
       (filter (\<lambda>v. \<not> isStacked v \<and> versionDuration v > 0 \<and> episodeCount mt v \<noteq> 0) vs)"

text \<open>\<open>float64(hi-lo) > max(float64(hi)*pct/100, float64(minutes)*60000)\<close>, on exact values.\<close>

definition spread_step :: "rat \<Rightarrow> int \<Rightarrow> (nat \<times> int) list \<Rightarrow> nat \<Rightarrow> spread \<Rightarrow> spread" where
  "spread_step pct minutes entries c st =
     (let ds = map snd (filter (\<lambda>e. fst e = c) entries);
          lo = fold min ds (hd ds); hi = fold max ds (hd ds);
          tol = max (of_int hi * pct / 100) (of_int (minutes * 60000));
          mm = (of_int (hi - lo) > tol)
      in if length ds < 2 then st
         else if \<not> sp_found st \<or> (mm \<and> \<not> sp_mismatch st) \<or> (mm = sp_mismatch st \<and> hi - lo > sp_widest st) then
           \<lparr> sp_found = True, sp_lo = lo, sp_hi = hi, sp_mismatch = mm, sp_widest = hi - lo \<rparr>
         else st)"

definition durationSpread :: "string \<Rightarrow> MediaVersion list \<Rightarrow> rat \<Rightarrow> int \<Rightarrow> int \<times> int \<times> bool" where
  "durationSpread mt vs pct minutes =
     (let entries = spread_entries mt vs;
          st = fold (spread_step pct minutes entries) (sort (dedup (map fst entries)))
            \<lparr> sp_found = False, sp_lo = 0, sp_hi = 0, sp_mismatch = False, sp_widest = 0 \<rparr>
      in (sp_lo st, sp_hi st, sp_mismatch st))"

section \<open>Mismatched merges\<close>

abbreviation DefaultMaxGroupSize :: int where "DefaultMaxGroupSize \<equiv> 4"

definition intersects :: "int list \<Rightarrow> int list \<Rightarrow> bool" where
  "intersects a b \<longleftrightarrow> (\<exists>y\<in>set b. y \<in> set a)"

fun disjointEpisodes :: "MediaVersion list \<Rightarrow> int \<Rightarrow> bool" where
  "disjointEpisodes [] inst = False"
| "disjointEpisodes (a # vs) inst =
     ((case v_arr a of
         None \<Rightarrow> False
       | Some x \<Rightarrow>
           a_instanceID x = inst \<and> a_episodeIDs x \<noteq> [] \<and>
           (\<exists>b\<in>set vs. case v_arr b of
              None \<Rightarrow> False
            | Some y \<Rightarrow> a_instanceID y = inst \<and> a_itemID y = a_itemID x \<and> a_episodeIDs y \<noteq> [] \<and>
                \<not> intersects (a_episodeIDs x) (a_episodeIDs y))) \<or>
      disjointEpisodes vs inst)"

definition version_year :: "MediaVersion \<Rightarrow> string" where
  "version_year v =
     (let f = titleFolder v; y = (if f \<noteq> [] then folderYear f else [])
      in if y = [] then fileNameYear v else y)"

text \<open>The first folder of every normalised title.\<close>

definition folder_titles :: "MediaVersion list \<Rightarrow> (string \<times> string) list" where
  "folder_titles vs =
     fold (\<lambda>v m. let f = titleFolder v; t = normalizeTitle f in
       if f = [] \<or> t = [] \<or> map_of m t \<noteq> None then m else m @ [(t, f)]) vs []"

definition folder_tags :: "string \<Rightarrow> MediaVersion list \<Rightarrow> string list" where
  "folder_tags sp vs =
     dedup (List.map_filter (\<lambda>v. if titleFolder v = [] then None else idTags v sp) vs)"

definition instance_reasons :: "MediaVersion list \<Rightarrow> int \<Rightarrow> string list" where
  "instance_reasons vs inst =
     (let name = arrInstanceName vs inst;
          arrs = filter (\<lambda>a. a_instanceID a = inst) (List.map_filter v_arr vs);
          items = dedup (map (\<lambda>a. Itoa (a_itemID a)) (filter (\<lambda>a. a_itemID a > 0) arrs));
          files = map a_fileID (filter (\<lambda>a. a_fileID a > 0) arrs)
      in (if length items > 1 then
            [''tracked as different items by '' @ name @ '' (ids '' @ Join (setKeys items) '', '' @ '')'']
          else []) @
         concat (map (\<lambda>i. let n = length (filter (\<lambda>x. x = i) files) in
            if n > 1 then
              [''the same '' @ name @ '' file (id '' @ Itoa i @ '') is matched to '' @ Itoa (int n) @ '' versions'']
            else []) (sort (dedup files))) @
         (if disjointEpisodes vs inst then [''tracked as different episodes by '' @ name] else []))"

definition suspectReasons :: "MediaVersion list \<Rightarrow> int \<Rightarrow> string list" where
  "suspectReasons vs maxGroupSize0 =
     (let maxGroupSize = (if maxGroupSize0 \<le> 0 then DefaultMaxGroupSize else maxGroupSize0);
          titles = folder_titles vs;
          years = dedup (filter (\<lambda>y. y \<noteq> []) (map version_year vs))
      in (if int (length vs) > maxGroupSize then
            [Itoa (int (length vs)) @ '' versions in one group (more than '' @ Itoa maxGroupSize @ '')''] else []) @
         (if length titles > 1 then
            [''folder titles differ ('' @ Join (sort (map (\<lambda>(t, f). quote @ f @ quote) titles)) '' vs '' @ '')'']
          else []) @
         (if length years > 1 then [''years differ ('' @ Join (setKeys years) '' vs '' @ '')''] else []) @
         concat (map (\<lambda>sp. if length (folder_tags sp vs) > 1 then
              [sp @ '' ids in folder names differ ('' @ Join (setKeys (folder_tags sp vs)) '' vs '' @ '')'']
            else []) [''tmdb'', ''imdb'', ''tvdb'']) @
         concat (map (instance_reasons vs) (arrInstanceIDs vs)))"

end
