(* ===== verification/Grouping.thy ===== *)
theory Grouping
  imports Editions Languages GroupChecks
begin

text \<open>
  \<open>BuildGroups\<close> of \<open>internal/engine/group.go\<close>, step by step: the exclusions, the items of a scan with the
  versions that may be grouped, the content identities (one item, or the items that libraries of one
  scope group share), their keys, the split into edition, 3D and language variants, and the groups;
  and the options of \<open>internal/engine/engine.go\<close> it takes.

  An item's id maps are maps; the entry an identity points to is the entry of that identity in the
  list. A loop over a Go map whose result does not depend on the order runs over a fixed order here.
\<close>

section \<open>Options (engine.go)\<close>

abbreviation DefaultDurationTolerancePercent :: rat where "DefaultDurationTolerancePercent \<equiv> 10"
abbreviation DefaultDurationToleranceMinutes :: int where "DefaultDurationToleranceMinutes \<equiv> 5"

record GroupOptions =
  go_TreatEditionsAsDistinct :: bool
  go_Treat3DAsDistinct :: bool
  go_LanguageVariantsAsDistinct :: bool
  go_DifferentArrInstancesIntentional :: bool
  go_DurationTolerancePercent :: rat
  go_DurationToleranceMinutes :: int
  go_MaxGroupSize :: int
  go_Exclusions :: "Exclusion list"
  go_Libraries :: "int \<rightharpoonup> Library"

definition GroupOptionsFromSettings :: "Settings \<Rightarrow> Exclusion list \<Rightarrow> (int \<rightharpoonup> Library) \<Rightarrow> GroupOptions" where
  "GroupOptionsFromSettings s exclusions libraries =
     \<lparr>go_TreatEditionsAsDistinct = s_TreatEditionsAsDistinct s,
      go_Treat3DAsDistinct = s_Treat3DAsDistinct s,
      go_LanguageVariantsAsDistinct = s_LanguageVariantsAsDistinct s,
      go_DifferentArrInstancesIntentional = s_DifferentArrInstancesIntentional s,
      go_DurationTolerancePercent = s_DurationTolerancePercent s,
      go_DurationToleranceMinutes = s_DurationToleranceMinutes s,
      go_MaxGroupSize = s_MaxGroupSize s,
      go_Exclusions = exclusions,
      go_Libraries = libraries\<rparr>"

definition normalized :: "GroupOptions \<Rightarrow> GroupOptions" where
  "normalized o0 =
     (let o1 = (if go_DurationTolerancePercent o0 \<le> 0 \<and> go_DurationToleranceMinutes o0 \<le> 0
                then o0\<lparr>go_DurationTolerancePercent := DefaultDurationTolerancePercent,
                        go_DurationToleranceMinutes := DefaultDurationToleranceMinutes\<rparr> else o0);
          o2 = (if go_DurationTolerancePercent o1 < 0 then o1\<lparr>go_DurationTolerancePercent := 0\<rparr> else o1);
          o3 = (if go_DurationToleranceMinutes o2 < 0 then o2\<lparr>go_DurationToleranceMinutes := 0\<rparr> else o2)
      in if go_MaxGroupSize o3 \<le> 0 then o3\<lparr>go_MaxGroupSize := DefaultMaxGroupSize\<rparr> else o3)"

section \<open>Identity keys\<close>

definition movieIDSpaces :: "string list" where "movieIDSpaces = [''tmdb'', ''imdb'', ''tvdb'', ''plex'']"
definition episodeIDSpaces :: "string list" where "episodeIDSpaces = [''tvdb'', ''tmdb'', ''imdb'', ''plex'']"

definition normID :: "string \<Rightarrow> string \<Rightarrow> string" where
  "normID space raw =
     (let s0 = TrimSpace raw;
          s1 = (case Index s0 ''://'' of Some i \<Rightarrow> drop (i + 3) s0 | None \<Rightarrow> s0);
          s2 = (case IndexAny s1 ''?'' of Some i \<Rightarrow> take i s1 | None \<Rightarrow> s1);
          s3 = (if space = ''plex'' then after_last_slash s2 else s2);
          s4 = ToLower (TrimSpace s3)
      in if s4 = [] \<or> s4 = ''0'' then [] else s4)"

text \<open>A missing entry of an id map reads as the empty string.\<close>

definition id_at :: "(string \<rightharpoonup> string) \<Rightarrow> string \<Rightarrow> string" where
  "id_at m k = (case m k of Some v \<Rightarrow> v | None \<Rightarrow> [])"

definition firstID :: "(string \<rightharpoonup> string) \<Rightarrow> string list \<Rightarrow> (string \<times> string) option" where
  "firstID ids spaces =
     map_option (\<lambda>sp. (sp, normID sp (id_at ids sp))) (find (\<lambda>sp. normID sp (id_at ids sp) \<noteq> []) spaces)"

definition GroupKey :: "MediaItem \<Rightarrow> int \<Rightarrow> string" where
  "GroupKey item serverID =
     (let fallback = ServerItemKey (it_serverKind item) serverID (KeyItemID (it_keyID item) (it_ratingKey item))
      in if it_mediaType item = MediaTypeEpisode then
           (case firstID (it_externalIDs item) episodeIDSpaces of
              Some (sp, i) \<Rightarrow> ''episode:'' @ sp @ '':'' @ i
            | None \<Rightarrow>
                if it_episode item > 0 \<and> it_season item \<ge> 0 then
                  (case firstID (it_showIDs item) episodeIDSpaces of
                     Some (sp, i) \<Rightarrow>
                       ''episode:'' @ sp @ '':'' @ i @ '':s'' @ Itoa (it_season item) @ ''e'' @ Itoa (it_episode item)
                   | None \<Rightarrow> fallback)
                else fallback)
         else
           (case firstID (it_externalIDs item) movieIDSpaces of
              Some (sp, i) \<Rightarrow> ''movie:'' @ sp @ '':'' @ i
            | None \<Rightarrow> fallback))"

section \<open>Exclusions\<close>

text \<open>A title expression is kept with its text.\<close>

record exclusionSet =
  xs_groupKeys :: "string list"
  xs_pathPrefixes :: "string list"
  xs_libraries :: "int list"
  xs_titles :: "(string \<times> (string \<Rightarrow> bool)) list"

definition compile_exclusion :: "golib \<Rightarrow> Exclusion \<Rightarrow> exclusionSet \<Rightarrow> exclusionSet" where
  "compile_exclusion lib e s =
     (let val = TrimSpace (x_value e)
      in if val = [] then s
         else if x_kind e = ExcludeGroupKey then s\<lparr>xs_groupKeys := xs_groupKeys s @ [val]\<rparr>
         else if x_kind e = ExcludePathPrefix then
           (let p = ToLower (normPath val)
            in if p \<noteq> [] then s\<lparr>xs_pathPrefixes := xs_pathPrefixes s @ [p]\<rparr> else s)
         else if x_kind e = ExcludeLibrary then
           (case ParseInt val of Some i \<Rightarrow> s\<lparr>xs_libraries := xs_libraries s @ [i]\<rparr> | None \<Rightarrow> s)
         else if x_kind e = ExcludeRegex then
           (case re_compile lib (''(?i)'' @ val) of
              Some m \<Rightarrow> s\<lparr>xs_titles := xs_titles s @ [(val, m)]\<rparr> | None \<Rightarrow> s)
         else s)"

definition compileExclusions :: "golib \<Rightarrow> Exclusion list \<Rightarrow> exclusionSet" where
  "compileExclusions lib ex =
     fold (compile_exclusion lib) ex
       \<lparr>xs_groupKeys = [], xs_pathPrefixes = [], xs_libraries = [], xs_titles = []\<rparr>"

definition title_excluded :: "exclusionSet \<Rightarrow> string \<Rightarrow> bool" where
  "title_excluded s t \<longleftrightarrow> t \<noteq> [] \<and> (\<exists>re\<in>set (xs_titles s). snd re t)"

definition itemExcluded :: "exclusionSet \<Rightarrow> MediaItem \<Rightarrow> bool" where
  "itemExcluded s it \<longleftrightarrow>
     it_libraryID it \<in> set (xs_libraries s) \<or> title_excluded s (it_title it) \<or> title_excluded s (it_showTitle it)"

definition prefix_covers :: "string \<Rightarrow> string \<Rightarrow> bool" where
  "prefix_covers np pre \<longleftrightarrow>
     hasPathPrefix np pre \<or>
     (\<not> HasPrefix pre ''/'' \<and> \<not> isDrivePath pre \<and> Contains (''/'' @ np @ ''/'') (''/'' @ pre @ ''/''))"

definition versionExcluded :: "exclusionSet \<Rightarrow> MediaVersion \<Rightarrow> bool" where
  "versionExcluded s v \<longleftrightarrow>
     v_libraryID v \<in> set (xs_libraries s) \<or>
     (\<exists>p\<in>set (versionPaths v). \<exists>pre\<in>set (xs_pathPrefixes s). prefix_covers (ToLower (normPath p)) pre)"

section \<open>Candidate collection\<close>

record candidate =
  cd_v :: MediaVersion
  cd_edition :: string
  cd_is3D :: bool
  cd_langs :: "string list"

record itemEntry =
  e_item :: MediaItem
  e_ids :: "string \<rightharpoonup> string"
  e_cands :: "candidate list"
  e_seen :: "string list"
  e_unavailable :: bool
  e_scope :: string

definition or_if :: "string \<Rightarrow> string \<Rightarrow> string" where
  "or_if a b = (if a = [] then b else a)"

definition fill_fields :: "MediaVersion \<Rightarrow> MediaItem \<Rightarrow> MediaVersion" where
  "fill_fields v it =
     v\<lparr>v_serverID := (if v_serverID v = 0 then it_serverID it else v_serverID v),
       v_libraryID := (if v_libraryID v = 0 then it_libraryID it else v_libraryID v),
       v_libraryTitle := or_if (v_libraryTitle v) (it_libraryTitle it),
       v_sectionKey := or_if (v_sectionKey v) (it_sectionKey it),
       v_ratingKey := or_if (v_ratingKey v) (it_ratingKey it),
       v_itemTitle := or_if (v_itemTitle v) (it_title it),
       v_itemKeyID := or_if (v_itemKeyID v) (it_keyID it),
       v_key := TrimSpace (v_key v)\<rparr>"

definition fillVersionIdentity :: "MediaVersion \<Rightarrow> MediaItem \<Rightarrow> MediaVersion" where
  "fillVersionIdentity v0 it =
     (let v = fill_fields v0 it; i = ServerVersionID v
      in if v_key v = [] \<and> i \<noteq> [] then v\<lparr>v_key := VersionKey (it_serverKind it) (v_serverID v) i\<rparr> else v)"

definition item_identity :: "MediaItem \<Rightarrow> string" where
  "item_identity it =
     (let rk = TrimSpace (it_ratingKey it) in if rk = [] then [] else Itoa (it_serverID it) @ ''|'' @ rk)"

definition new_entry :: "GroupOptions \<Rightarrow> MediaItem \<Rightarrow> itemEntry" where
  "new_entry opts it =
     \<lparr>e_item = it\<lparr>it_versions := []\<rparr>, e_ids = Map.empty, e_cands = [], e_seen = [], e_unavailable = False,
      e_scope = (case go_Libraries opts (it_libraryID it) of
                   Some l \<Rightarrow> ToLower (TrimSpace (l_scopeGroup l)) | None \<Rightarrow> [])\<rparr>"

text \<open>Ids that the entry lacks come from another listing of the same item.\<close>

definition fill_ids :: "(string \<rightharpoonup> string) \<Rightarrow> (string \<rightharpoonup> string) \<Rightarrow> string \<rightharpoonup> string" where
  "fill_ids src dst k =
     (case src k of Some v \<Rightarrow> if TrimSpace (id_at dst k) = [] then Some v else dst k | None \<Rightarrow> dst k)"

definition merge_item :: "MediaItem \<Rightarrow> itemEntry \<Rightarrow> itemEntry" where
  "merge_item it e =
     e\<lparr>e_item := (e_item e)\<lparr>it_externalIDs := fill_ids (it_externalIDs it) (it_externalIDs (e_item e))\<rparr>\<rparr>"

definition set_ids :: "itemEntry \<Rightarrow> itemEntry" where
  "set_ids e =
     e\<lparr>e_ids := (\<lambda>sp. let v = normID sp (id_at (it_externalIDs (e_item e)) sp)
                      in if sp \<in> set movieIDSpaces \<and> v \<noteq> [] then Some v else e_ids e sp)\<rparr>"

definition add_version :: "exclusionSet \<Rightarrow> MediaItem \<Rightarrow> MediaVersion \<Rightarrow> itemEntry \<Rightarrow> itemEntry" where
  "add_version ex it src e =
     (let v = fillVersionIdentity src it
      in if v_key v = [] \<or> v_key v \<in> set (e_seen e) \<or> isOptimized v then e
         else if isUnavailable v then e\<lparr>e_unavailable := True\<rparr>
         else if versionExcluded ex v then e
         else let ed = versionEditionKey v (it_editionTitle it)
              in e\<lparr>e_seen := v_key v # e_seen e,
                   e_cands := e_cands e @
                     [\<lparr>cd_v = v, cd_edition = ed, cd_is3D = isVersion3D v ed, cd_langs = audioLangs v\<rparr>]\<rparr>)"

definition add_versions :: "exclusionSet \<Rightarrow> MediaItem \<Rightarrow> itemEntry \<Rightarrow> itemEntry" where
  "add_versions ex it e = fold (add_version ex it) (it_versions it) (set_ids e)"

text \<open>The entries with their identities, in the order of their first item.\<close>

definition collect_item ::
    "GroupOptions \<Rightarrow> exclusionSet \<Rightarrow> MediaItem \<Rightarrow> (string \<times> itemEntry) list \<Rightarrow> (string \<times> itemEntry) list" where
  "collect_item opts ex it es =
     (let identity = item_identity it
      in if itemExcluded ex it then es
         else if identity \<noteq> [] \<and> identity \<in> fst ` set es then
           map (\<lambda>(i, e). if i = identity then (i, add_versions ex it (merge_item it e)) else (i, e)) es
         else es @ [(identity, add_versions ex it (new_entry opts it))])"

definition collectItems :: "MediaItem list \<Rightarrow> GroupOptions \<Rightarrow> exclusionSet \<Rightarrow> itemEntry list" where
  "collectItems items opts ex = map snd (fold (collect_item opts ex) items [])"

section \<open>Units\<close>

text \<open>The source's \<open>unit\<close>.\<close>

record content =
  u_entries :: "itemEntry list"
  u_cands :: "candidate list"
  u_meta :: MediaItem
  u_unavailable :: bool
  u_key :: string
  u_idConflicts :: "string list"

definition entryLess :: "itemEntry \<Rightarrow> itemEntry \<Rightarrow> bool" where
  "entryLess a b =
     (if it_libraryID (e_item a) \<noteq> it_libraryID (e_item b) then it_libraryID (e_item a) < it_libraryID (e_item b)
      else if it_serverID (e_item a) \<noteq> it_serverID (e_item b) then it_serverID (e_item a) < it_serverID (e_item b)
      else naturalLess (it_ratingKey (e_item a)) (it_ratingKey (e_item b)))"

definition candLess :: "candidate \<Rightarrow> candidate \<Rightarrow> bool" where
  "candLess a b =
     (if v_serverID (cd_v a) \<noteq> v_serverID (cd_v b) then v_serverID (cd_v a) < v_serverID (cd_v b)
      else if v_mediaID (cd_v a) \<noteq> v_mediaID (cd_v b) then v_mediaID (cd_v a) < v_mediaID (cd_v b)
      else v_key (cd_v a) < v_key (cd_v b))"

definition mergeIDs :: "(string \<rightharpoonup> string) \<Rightarrow> (string \<rightharpoonup> string) \<Rightarrow> string \<rightharpoonup> string" where
  "mergeIDs dst src k =
     (if TrimSpace (id_at dst k) = [] \<and> TrimSpace (id_at src k) \<noteq> [] then src k else dst k)"

definition merge_meta :: "itemEntry \<Rightarrow> MediaItem \<Rightarrow> MediaItem" where
  "merge_meta e m =
     m\<lparr>it_externalIDs := mergeIDs (it_externalIDs m) (it_externalIDs (e_item e)),
       it_showIDs := mergeIDs (it_showIDs m) (it_showIDs (e_item e)),
       it_title := or_if (it_title m) (it_title (e_item e)),
       it_year := (if it_year m = 0 then it_year (e_item e) else it_year m),
       it_showTitle := or_if (it_showTitle m) (it_showTitle (e_item e)),
       it_season := (if it_season m < 0 \<and> it_season (e_item e) \<ge> 0 then it_season (e_item e) else it_season m),
       it_episode := (if it_episode m \<le> 0 \<and> it_episode (e_item e) > 0 then it_episode (e_item e) else it_episode m),
       it_thumb := or_if (it_thumb m) (it_thumb (e_item e)),
       it_mediaType := or_if (it_mediaType m) (it_mediaType (e_item e))\<rparr>"

definition id_conflict :: "itemEntry list \<Rightarrow> string \<Rightarrow> string list" where
  "id_conflict entries sp =
     (let vals = dedup (List.map_filter (\<lambda>e. e_ids e sp) entries)
      in if length vals > 1
         then [sp @ '' ids of the matched items differ ('' @ Join (setKeys vals) '' vs '' @ '')'']
         else [])"

definition idConflicts :: "itemEntry list \<Rightarrow> string list" where
  "idConflicts entries =
     (let its = map e_item entries;
          years = dedup (map (\<lambda>i. Itoa (it_year i)) (filter (\<lambda>i. it_year i > 0) its));
          eps = filter (\<lambda>i. it_mediaType i = MediaTypeEpisode \<and> it_episode i > 0) its;
          labels = dedup (map (\<lambda>i. EpisodeLabel (it_season i) (it_episode i)) eps);
          numbers = dedup (map it_episode eps);
          seasons = dedup (map it_season (filter (\<lambda>i. it_season i \<ge> 0) eps));
          episodes = (if length seasons \<le> 1 \<and> length numbers \<le> 1 then [] else labels)
      in if length entries < 2 then []
         else concat (map (id_conflict entries) movieIDSpaces) @
              (if length years > 1
               then [''years of the matched items differ ('' @ Join (setKeys years) '' vs '' @ '')''] else []) @
              (if length episodes > 1
               then [''the matched items are different episodes ('' @ Join (setKeys episodes) '' vs '' @ '')''] else []))"

text \<open>The candidates of a list of entries, each version key once.\<close>

definition add_cand :: "candidate \<Rightarrow> candidate list \<Rightarrow> candidate list" where
  "add_cand c cs = (if v_key (cd_v c) \<in> (\<lambda>d. v_key (cd_v d)) ` set cs then cs else cs @ [c])"

definition newUnit :: "itemEntry list \<Rightarrow> content" where
  "newUnit entries =
     (let sorted = sort_by entryLess entries;
          meta0 = (e_item (hd sorted))\<lparr>it_externalIDs := Map.empty, it_showIDs := Map.empty\<rparr>;
          meta = fold merge_meta sorted meta0
      in \<lparr>u_entries = sorted,
          u_cands = sort_by candLess (fold add_cand (concat (map e_cands sorted)) []),
          u_meta = meta,
          u_unavailable = list_ex e_unavailable sorted,
          u_key = GroupKey meta (it_serverID meta),
          u_idConflicts = idConflicts sorted\<rparr>)"

definition id_tokens :: "itemEntry \<Rightarrow> string list" where
  "id_tokens e =
     List.map_filter
       (\<lambda>sp. case e_ids e sp of Some v \<Rightarrow> if v \<noteq> [] then Some (sp @ '':'' @ v) else None | None \<Rightarrow> None)
       movieIDSpaces"

definition id_uf :: "itemEntry list \<Rightarrow> unionFind" where
  "id_uf es = fst (link_all uf_union (newUnionFind (length es)) (vat id_tokens es) (length es))"

text \<open>The classes of a union-find structure as lists of elements, by root.\<close>

definition componentsOf :: "'a list \<Rightarrow> unionFind \<Rightarrow> 'a list list" where
  "componentsOf es uf =
     (let byRoot = group_by (\<lambda>i. snd (uf_find uf i)) [0..<length es]
      in map (\<lambda>r. map (\<lambda>i. es ! i) (members_of byRoot r)) (sort (map fst byRoot)))"

definition idComponents :: "itemEntry list \<Rightarrow> itemEntry list list" where
  "idComponents es0 = (let es = sort_by entryLess es0 in componentsOf es (id_uf es))"

definition conflicting :: "itemEntry list \<Rightarrow> bool" where
  "conflicting cs \<longleftrightarrow> (\<exists>sp\<in>set movieIDSpaces. length (dedup (List.map_filter (\<lambda>e. e_ids e sp) cs)) > 1)"

definition splitConflicting :: "itemEntry list \<Rightarrow> itemEntry list list" where
  "splitConflicting cs =
     (if \<not> conflicting cs then [cs]
      else let byKey = group_by (\<lambda>e. GroupKey (e_item e) (it_serverID (e_item e))) cs
           in map (members_of byKey) (sort (map fst byKey)))"

definition readOnlyCluster :: "itemEntry list \<Rightarrow> bool" where
  "readOnlyCluster es \<longleftrightarrow> (\<exists>e\<in>set es. ReadOnly (it_serverKind (e_item e)))"

definition distinctLibraries :: "itemEntry list \<Rightarrow> nat" where
  "distinctLibraries es = length (dedup (map (\<lambda>e. it_libraryID (e_item e)) es))"

definition cluster_units :: "itemEntry list \<Rightarrow> content list" where
  "cluster_units cluster =
     (if distinctLibraries cluster \<ge> 2 \<and>
         (\<not> readOnlyCluster cluster \<or> distinctLibraries cluster = length cluster)
      then [newUnit cluster]
      else map (\<lambda>e. newUnit [e]) cluster)"

definition unscoped :: "itemEntry \<Rightarrow> bool" where
  "unscoped e \<longleftrightarrow> e_scope e = [] \<or> (\<forall>sp\<in>set movieIDSpaces. e_ids e sp = None)"

definition bucket_key :: "itemEntry \<Rightarrow> string" where
  "bucket_key e = Itoa (it_serverID (e_item e)) @ ''|'' @ e_scope e @ ''|'' @ it_mediaType (e_item e)"

definition buildUnits :: "itemEntry list \<Rightarrow> content list" where
  "buildUnits entries =
     (let es = filter (\<lambda>e. e_cands e \<noteq> []) entries;
          buckets = group_by bucket_key (filter (\<lambda>e. \<not> unscoped e) es)
      in map (\<lambda>e. newUnit [e]) (filter unscoped es) @
         concat (map (\<lambda>bk. concat (map cluster_units
                       (concat (map splitConflicting (idComponents (members_of buckets bk))))))
                   (sort (map fst buckets))))"

definition key_count :: "content list \<Rightarrow> string \<Rightarrow> nat" where
  "key_count us k = length (filter (\<lambda>u. length (u_cands u) \<ge> 2 \<and> u_key u = k) us)"

definition disambiguate :: "content list \<Rightarrow> content \<Rightarrow> content" where
  "disambiguate us u =
     (let p = e_item (hd (u_entries u))
      in if length (u_cands u) \<ge> 2 \<and> key_count us (u_key u) > 1
         then u\<lparr>u_key := u_key u @ ''@'' @ ServerItemKey (it_serverKind p) (it_serverID p) (KeyItemID (it_keyID p) (it_ratingKey p))\<rparr>
         else u)"

definition unitLess :: "content \<Rightarrow> content \<Rightarrow> bool" where
  "unitLess a b = (if u_key a \<noteq> u_key b then u_key a < u_key b else entryLess (hd (u_entries a)) (hd (u_entries b)))"

definition disambiguateKeys :: "content list \<Rightarrow> content list" where
  "disambiguateKeys us = sort_by unitLess (map (disambiguate us) us)"

section \<open>Variants\<close>

record variantGroup =
  vg_suffix :: string
  vg_cands :: "candidate list"
  vg_flags :: "string list"

definition split_group ::
    "(candidate \<Rightarrow> string) \<Rightarrow> (string \<Rightarrow> string) \<Rightarrow> string \<Rightarrow> variantGroup \<Rightarrow> variantGroup list" where
  "split_group keyOf suffixOf flag g =
     (let parts = group_by keyOf (vg_cands g); ks = sort (map fst parts)
      in map (\<lambda>k. \<lparr>vg_suffix = vg_suffix g @ (if k \<noteq> [] then suffixOf k else []),
                   vg_cands = members_of parts k,
                   vg_flags = (if length ks > 1 then addFlag (vg_flags g) flag else vg_flags g)\<rparr>) ks)"

definition splitBy ::
    "variantGroup list \<Rightarrow> (candidate \<Rightarrow> string) \<Rightarrow> (string \<Rightarrow> string) \<Rightarrow> string \<Rightarrow> variantGroup list" where
  "splitBy groups keyOf suffixOf flag = concat (map (split_group keyOf suffixOf flag) groups)"

definition stringsIntersect :: "string list \<Rightarrow> string list \<Rightarrow> bool" where
  "stringsIntersect a b \<longleftrightarrow> (\<exists>x\<in>set a. x \<in> set b)"

definition lang_uf :: "candidate list \<Rightarrow> unionFind" where
  "lang_uf cands = fst (link_all uf_union (newUnionFind (length cands)) (vat cd_langs cands) (length cands))"

definition part_code :: "candidate list \<Rightarrow> nat list \<Rightarrow> nat \<Rightarrow> string" where
  "part_code cands ms i =
     (let bridged = (pairs_after (\<lambda>i j. \<not> stringsIntersect (cd_langs (cands ! i)) (cd_langs (cands ! j))) ms \<noteq> [])
      in if bridged then Join (sortedUnique (cd_langs (cands ! i))) ''+''
         else Join (sortedUnique (concat (map (\<lambda>j. cd_langs (cands ! j)) ms))) ''+'')"

definition languageParts :: "candidate list \<Rightarrow> string list" where
  "languageParts cands =
     (let root = (\<lambda>i. snd (uf_find (lang_uf cands) i));
          members = group_by root (filter (\<lambda>i. cd_langs (cands ! i) \<noteq> []) [0..<length cands])
      in map (\<lambda>i. if cd_langs (cands ! i) = [] then [] else part_code cands (members_of members (root i)) i)
           [0..<length cands])"

definition lang_suffix :: "string \<Rightarrow> string" where
  "lang_suffix p = (if p = [] then ''#lang-und'' else ''#lang-'' @ p)"

definition split_language :: "variantGroup \<Rightarrow> variantGroup list" where
  "split_language g =
     (let partOf = languageParts (vg_cands g);
          parts = group_by (\<lambda>pc. lang_suffix (fst pc)) (zip partOf (vg_cands g))
      in if length (dedup (filter (\<lambda>p. p \<noteq> []) partOf)) < 2 then [g]
         else map (\<lambda>s. \<lparr>vg_suffix = vg_suffix g @ s, vg_cands = map snd (members_of parts s),
                        vg_flags = addFlag (vg_flags g) FlagLanguageVariant\<rparr>)
                (sort (map fst parts)))"

definition splitLanguages :: "variantGroup list \<Rightarrow> variantGroup list" where
  "splitLanguages groups = concat (map split_language groups)"

definition edition_suffix :: "string \<Rightarrow> string" where "edition_suffix k = ''#ed-'' @ k"
definition is3D_key :: "candidate \<Rightarrow> string" where "is3D_key c = (if cd_is3D c then ''3d'' else [])"
definition is3D_suffix :: "string \<Rightarrow> string" where "is3D_suffix k = ''#3d''"

definition splitVariants :: "candidate list \<Rightarrow> GroupOptions \<Rightarrow> variantGroup list" where
  "splitVariants cands opts =
     (let g0 = [\<lparr>vg_suffix = [], vg_cands = cands, vg_flags = []\<rparr>];
          g1 = (if go_TreatEditionsAsDistinct opts then splitBy g0 cd_edition edition_suffix FlagEditionSplit else g0);
          g2 = (if go_Treat3DAsDistinct opts then splitBy g1 is3D_key is3D_suffix FlagVariant3D else g1)
      in if go_LanguageVariantsAsDistinct opts then splitLanguages g2 else g2)"

section \<open>Groups\<close>

definition new_file :: "candidate \<Rightarrow> GroupFile" where
  "new_file c =
     \<lparr>f_id = 0, f_groupID = 0, f_version = cd_v c, f_decision = [], f_engineDecision = [], f_override = [],
      f_rank = 0, f_reasons = [], f_decidingCriterion = [], f_protected = False, f_protectedReason = [],
      f_values = Map.empty\<rparr>"

definition new_flags :: "content \<Rightarrow> variantGroup \<Rightarrow> GroupOptions \<Rightarrow> string \<Rightarrow> MediaVersion list \<Rightarrow> string list" where
  "new_flags u vg opts mt vs =
     (let f1 = fold (\<lambda>f fs. addFlag fs f) (versionFlags mt vs) (vg_flags vg);
          f2 = addFlagIf (u_unavailable u) FlagUnavailableVersion f1;
          f3 = addFlagIf (length (libraryIDsOf vs) \<ge> 2) FlagCrossLibrary f2;
          f4 = addFlagIf (snd (snd (durationSpread mt vs (go_DurationTolerancePercent opts)
                 (go_DurationToleranceMinutes opts)))) FlagDurationMismatch f3;
          f5 = addFlagIf (u_idConflicts u \<noteq> [] \<or> suspectReasons vs (go_MaxGroupSize opts) \<noteq> []) FlagSuspectMerge f4
      in addFlagIf (go_DifferentArrInstancesIntentional opts \<and> length (arrInstanceIDs vs) \<ge> 2) FlagIntentionalArr f5)"

definition newGroup :: "content \<Rightarrow> variantGroup \<Rightarrow> string \<Rightarrow> GroupOptions \<Rightarrow> DuplicateGroup" where
  "newGroup u vg key opts =
     (let files = map new_file (vg_cands vg);
          vs = map f_version files;
          meta = u_meta u;
          mt = or_if (it_mediaType meta) MediaTypeMovie;
          episode = (mt = MediaTypeEpisode)
      in \<lparr>g_id = 0, g_key = key, g_mediaType = mt, g_title = it_title meta, g_year = it_year meta,
          g_showTitle = (if episode then it_showTitle meta else []),
          g_season = (if episode then it_season meta else 0),
          g_episode = (if episode then it_episode meta else 0),
          g_serverID = (if it_serverID meta = 0 \<and> vs \<noteq> [] then v_serverID (hd vs) else it_serverID meta),
          g_libraryIDs = Some (libraryIDsOf vs),
          g_externalIDs = Some (it_externalIDs meta),
          g_thumb = it_thumb meta, g_status = [], g_statusReason = [],
          g_flags = sortedUnique (new_flags u vg opts mt vs),
          g_profileID = 0, g_files = files, g_reclaimableBytes = 0, g_firstSeenAt = 0, g_lastSeenAt = 0,
          g_updatedAt = 0, g_lastScanID = 0, g_signature = [], g_stableCount = 0, g_crossServer = None,
          g_arrItems = []\<rparr>)"

text \<open>The loop that makes a key unused: \<open>for n := 2; used[key]; n++\<close>. It ends because \<open>used\<close> is finite.\<close>

definition numbered :: "string \<Rightarrow> nat \<Rightarrow> string" where
  "numbered base n = base @ ''~'' @ Itoa (int n)"

lemma numbered_inj: "numbered base m = numbered base n \<longleftrightarrow> m = n"
  using Itoa_inj[of "int m" "int n"] by (auto simp: numbered_def)

definition taken :: "string list \<Rightarrow> string \<Rightarrow> nat \<Rightarrow> nat set" where
  "taken used base n = {m. n \<le> m \<and> numbered base m \<in> set used}"

lemma finite_taken: "finite (taken used base n)"
proof (rule finite_imageD)
  show "finite (numbered base ` taken used base n)"
    by (rule finite_subset[of _ "set used"]) (auto simp: taken_def)
qed (auto simp: inj_on_def numbered_inj)

lemma taken_Suc:
  "taken used base n = (if numbered base n \<in> set used then insert n (taken used base (Suc n)) else taken used base (Suc n))"
  by (auto simp: taken_def Suc_le_eq le_eq_less_or_eq)

lemma card_taken:
  "card (taken used base n) = card (taken used base (Suc n)) + (if numbered base n \<in> set used then 1 else 0)"
proof -
  have "n \<notin> taken used base (Suc n)" by (simp add: taken_def)
  then show ?thesis using finite_taken[of used base "Suc n"] by (simp add: taken_Suc[of used base n])
qed

function fresh_key :: "string list \<Rightarrow> string \<Rightarrow> nat \<Rightarrow> string \<Rightarrow> string" where
  "fresh_key used base n key =
     (if key \<in> set used then fresh_key used base (Suc n) (numbered base n) else key)"
  by pat_completeness auto
termination
  apply (relation "measure (\<lambda>(used, base, n, key). card (taken used base n) + (if key \<in> set used then 1 else 0))")
   apply simp
  subgoal for used base n key
    using card_taken[of used base n] by simp
  done

declare fresh_key.simps [simp del]

text \<open>One variant of a unit: too small, excluded by its key, or a new group.\<close>

definition add_group ::
    "GroupOptions \<Rightarrow> exclusionSet \<Rightarrow> content \<Rightarrow> variantGroup \<Rightarrow> DuplicateGroup list \<times> string list \<Rightarrow> DuplicateGroup list \<times> string list" where
  "add_group opts ex u vg st =
     (case st of (groups, used) \<Rightarrow>
        let base = u_key u @ vg_suffix vg; key = fresh_key used base 2 base
        in if length (vg_cands vg) < 2 \<or> base \<in> set (xs_groupKeys ex) then st
           else (groups @ [newGroup u vg key opts], key # used))"

definition group_units ::
    "GroupOptions \<Rightarrow> exclusionSet \<Rightarrow> content list \<Rightarrow> DuplicateGroup list \<times> string list \<Rightarrow> DuplicateGroup list \<times> string list" where
  "group_units opts ex units =
     fold (\<lambda>u. fold (add_group opts ex u) (splitVariants (u_cands u) opts)) units"

definition groupLess :: "DuplicateGroup \<Rightarrow> DuplicateGroup \<Rightarrow> bool" where
  "groupLess a b \<longleftrightarrow> g_key a < g_key b"

definition BuildGroups :: "golib \<Rightarrow> MediaItem list \<Rightarrow> GroupOptions \<Rightarrow> DuplicateGroup list" where
  "BuildGroups lib items opts0 =
     (let opts = normalized opts0;
          ex = compileExclusions lib (go_Exclusions opts);
          units = disambiguateKeys (buildUnits (collectItems items opts ex))
      in sort_by groupLess (fst (group_units opts ex units ([], []))))"

end
