(* ===== verification/Metrics.thy ===== *)
theory Metrics
  imports Models
begin

text \<open>
  The comparable form of a criterion over the versions of one group: the \<open>metric\<close> of
  \<open>internal/engine/criteria.go\<close>, the pairwise comparison \<open>beats\<close> and the optimised filter
  \<open>survivors\<close>, which looks only at the best-scoring member of every class. A version is its position
  in the group. Scores are integers (the sources only store integral values); the tolerance and the
  minimum difference are rationals, a floor may be infinite.

  The interface \<open>narrowing\<close> states what the ranking relies on: the survivors of a metric are the
  members that no member beats, and a non-empty set keeps at least one of them.
\<close>

section \<open>The metric and its comparison\<close>

datatype special = SpecialNone | SpecialHealth | SpecialArr | SpecialLang | SpecialPlayed | SpecialLastPlayed

record metric =
  m_id :: string
  m_label :: string
  m_worse :: string
  m_tiebreak :: bool
  m_special :: special
  m_subject :: string
  m_present :: "bool array"
  m_score :: "int array"
  m_class :: "string array option"
  m_floor :: "f64 array option"
  m_tolPct :: rat
  m_minDelta :: rat
  m_display :: "string array"

definition newMetric :: "string \<Rightarrow> string \<Rightarrow> metric" where
  "newMetric ident label = \<lparr> m_id = ident, m_label = label, m_worse = ''lower'', m_tiebreak = False,
     m_special = SpecialNone, m_subject = [], m_present = (\<lambda>_. False), m_score = (\<lambda>_. 0),
     m_class = None, m_floor = None, m_tolPct = 0, m_minDelta = 0, m_display = (\<lambda>_. []) \<rparr>"

definition comparable :: "metric \<Rightarrow> nat \<Rightarrow> nat \<Rightarrow> bool" where
  "comparable m a b =
     (case m_class m of None \<Rightarrow> True | Some cls \<Rightarrow> cls a \<noteq> [] \<and> cls a = cls b)"

text \<open>\<open>score < floor\<close> on \<open>float64\<close>, the floor possibly infinite.\<close>

definition below_floor :: "int \<Rightarrow> f64 \<Rightarrow> bool" where
  "below_floor s fl = (case fl of Fin q \<Rightarrow> of_int s < q | PosInf \<Rightarrow> True | NegInf \<Rightarrow> False | NaN \<Rightarrow> False)"

definition beats :: "metric \<Rightarrow> nat \<Rightarrow> nat \<Rightarrow> bool" where
  "beats m a b =
     (if \<not> comparable m a b then False
      else if \<not> m_present m a then False
      else if \<not> m_present m b then True
      else if (case m_floor m of Some fl \<Rightarrow> below_floor (m_score m a) (fl b) | None \<Rightarrow> False) then False
      else let diff = m_score m a - m_score m b in
        if \<not> diff > 0 then False
        else if m_minDelta m > 0 \<and> of_int diff < m_minDelta m then False
        else if m_tolPct m > 0 \<and>
          of_int diff \<le> of_int (max \<bar>m_score m a\<bar> \<bar>m_score m b\<bar>) * m_tolPct m / 100 then False
        else True)"

section \<open>Survivors\<close>

text \<open>The class key of a member in the map \<open>best\<close>; \<open>None\<close> where the first loop skips it.\<close>

definition class_key :: "metric \<Rightarrow> nat \<Rightarrow> string" where
  "class_key m i = (case m_class m of None \<Rightarrow> ''*'' | Some cls \<Rightarrow> cls i)"

definition best_step :: "metric \<Rightarrow> nat \<Rightarrow> (string \<rightharpoonup> nat) \<Rightarrow> (string \<rightharpoonup> nat)" where
  "best_step m i best =
     (if m_class m \<noteq> None \<and> class_key m i = [] then best
      else if \<not> m_present m i then best
      else case best (class_key m i) of
             None \<Rightarrow> best(class_key m i \<mapsto> i)
           | Some b \<Rightarrow> if m_score m i > m_score m b then best(class_key m i \<mapsto> i) else best)"

definition best_of :: "metric \<Rightarrow> nat list \<Rightarrow> (string \<rightharpoonup> nat)" where
  "best_of m s = fold (best_step m) s Map.empty"

definition elim_by :: "metric \<Rightarrow> nat list \<Rightarrow> nat \<Rightarrow> nat option" where
  "elim_by m s i =
     (case best_of m s (class_key m i) of
        None \<Rightarrow> None
      | Some b \<Rightarrow> if b \<noteq> i \<and> beats m b i then Some b else None)"

definition survives :: "metric \<Rightarrow> nat list \<Rightarrow> nat \<Rightarrow> bool" where
  "survives m s i \<longleftrightarrow> elim_by m s i = None"

definition elim_in :: "metric \<Rightarrow> nat list \<Rightarrow> (nat \<rightharpoonup> nat)" where
  "elim_in m s i = (if i \<in> set s then elim_by m s i else None)"

text \<open>The survivors, in order, and for every eliminated member the one that beat it.\<close>

definition survivors :: "metric \<Rightarrow> nat list \<Rightarrow> nat list \<times> (nat \<rightharpoonup> nat)" where
  "survivors m s =
     (filter (survives m s) s, elim_in m s)"

text \<open>The reference: the members no member beats.\<close>

definition unbeaten :: "metric \<Rightarrow> nat list \<Rightarrow> nat list" where
  "unbeaten m s = filter (\<lambda>i. \<not> (\<exists>j\<in>set s. beats m j i)) s"

section \<open>Laws of the comparison\<close>

text \<open>What \<open>buildMetric\<close> guarantees and the filter needs: a tolerance of at most 100 percent.\<close>

definition wf_metric :: "metric \<Rightarrow> bool" where
  "wf_metric m \<longleftrightarrow> m_tolPct m \<le> 100"

lemma wf_newMetric [simp]: "wf_metric (newMetric i l)"
  by (simp add: wf_metric_def newMetric_def)

lemma beats_irrefl [simp]: "\<not> beats m a a"
  by (simp add: beats_def Let_def)

lemma beats_present: "beats m a b \<Longrightarrow> m_present m a"
  by (simp add: beats_def split: if_splits)

lemma beats_comparable: "beats m a b \<Longrightarrow> comparable m a b"
  by (simp add: beats_def split: if_splits)

lemma beats_score: "beats m a b \<Longrightarrow> m_present m b \<Longrightarrow> m_score m b < m_score m a"
  by (auto simp: beats_def Let_def split: if_splits)

lemma beats_asym: "beats m a b \<Longrightarrow> \<not> beats m b a"
  using beats_present beats_score by (metis less_asym)

lemma below_floor_mono: "s \<le> s' \<Longrightarrow> below_floor s' fl \<Longrightarrow> below_floor s fl"
  by (cases fl) (auto simp: below_floor_def intro: le_less_trans)

lemma tolerance_mono:
  fixes a a' b :: int and t :: rat
  assumes t: "0 < t" "t \<le> 100" and a: "a \<le> a'" and ab: "b < a"
    and d: "of_int (max \<bar>a\<bar> \<bar>b\<bar>) * t / 100 < of_int (a - b)"
  shows "of_int (max \<bar>a'\<bar> \<bar>b\<bar>) * t / 100 < of_int (a' - b)"
proof -
  let ?u = "t / 100"
  have u: "0 < ?u" "?u \<le> 1" using t by simp_all
  have m: "max \<bar>a'\<bar> \<bar>b\<bar> \<le> max \<bar>a\<bar> \<bar>b\<bar> + (a' - a)" using a ab by linarith
  have "of_int (max \<bar>a'\<bar> \<bar>b\<bar>) * ?u \<le> of_int (max \<bar>a\<bar> \<bar>b\<bar> + (a' - a)) * ?u"
    using m u by (intro mult_right_mono) (simp_all only: of_int_le_iff)
  also have "\<dots> = of_int (max \<bar>a\<bar> \<bar>b\<bar>) * ?u + of_int (a' - a) * ?u"
    by (simp only: of_int_add distrib_right)
  also have "of_int (a' - a) * ?u \<le> (of_int (a' - a) :: rat) * 1"
    using u a by (intro mult_left_mono) simp_all
  finally show ?thesis using d by simp
qed

lemma beats_mono:
  assumes wf: "wf_metric m" and b: "beats m a i" and p: "m_present m a'"
    and c: "class_key m a' = class_key m a" and s: "m_score m a \<le> m_score m a'"
  shows "beats m a' i"
proof (cases "m_present m i")
  case False
  then show ?thesis using b p c by (auto simp: beats_def comparable_def class_key_def split: option.splits if_splits)
next
  case True
  have cmp: "comparable m a' i"
    using beats_comparable[OF b] c by (auto simp: comparable_def class_key_def split: option.splits)
  have lt: "m_score m i < m_score m a" using beats_score[OF b True] .
  have fl: "m_floor m = Some fl \<Longrightarrow> \<not> below_floor (m_score m a') (fl i)" for fl
    using b True below_floor_mono[OF s] by (auto simp: beats_def Let_def split: if_splits)
  have md: "\<not> (0 < m_minDelta m \<and> of_int (m_score m a' - m_score m i) < m_minDelta m)"
  proof -
    have "\<not> (0 < m_minDelta m \<and> of_int (m_score m a - m_score m i) < m_minDelta m)"
      using b True by (auto simp: beats_def Let_def split: if_splits)
    moreover have "(of_int (m_score m a - m_score m i) :: rat) \<le> of_int (m_score m a' - m_score m i)"
      using s by (simp only: of_int_le_iff)
    ultimately show ?thesis by linarith
  qed
  have tol: "0 < m_tolPct m \<Longrightarrow>
      of_int (max \<bar>m_score m a'\<bar> \<bar>m_score m i\<bar>) * m_tolPct m / 100 < of_int (m_score m a' - m_score m i)"
    using wf b True lt by (intro tolerance_mono[OF _ _ s lt]) (auto simp: wf_metric_def beats_def Let_def not_le split: if_splits)
  have gt: "0 < m_score m a' - m_score m i" using lt s by linarith
  show ?thesis
    using cmp p True fl md tol gt
    by (auto simp: beats_def Let_def not_less split: option.splits)
qed

section \<open>The optimised filter is the brute-force one\<close>

definition skipped :: "metric \<Rightarrow> nat \<Rightarrow> bool" where
  "skipped m i \<longleftrightarrow> (m_class m \<noteq> None \<and> class_key m i = []) \<or> \<not> m_present m i"

text \<open>After the first loop \<open>best\<close> holds, for every class, a best-scoring present member.\<close>

definition best_ok :: "metric \<Rightarrow> nat set \<Rightarrow> (string \<rightharpoonup> nat) \<Rightarrow> bool" where
  "best_ok m S best \<longleftrightarrow>
     (\<forall>c b. best c = Some b \<longrightarrow> b \<in> S \<and> \<not> skipped m b \<and> class_key m b = c) \<and>
     (\<forall>i\<in>S. \<not> skipped m i \<longrightarrow> (\<exists>b. best (class_key m i) = Some b \<and> m_score m i \<le> m_score m b))"

lemma best_step_ok: "best_ok m S best \<Longrightarrow> best_ok m (insert i S) (best_step m i best)"
  unfolding best_ok_def best_step_def skipped_def
  by (auto split: option.splits if_splits) (metis le_cases order_trans order.strict_implies_order)+

lemma best_of_ok: "best_ok m (set s) (best_of m s)"
proof -
  have "best_ok m S b \<Longrightarrow> best_ok m (S \<union> set s) (fold (best_step m) s b)" for S b
  proof (induction s arbitrary: S b)
    case (Cons i s)
    then show ?case using Cons.IH[OF best_step_ok[OF Cons.prems, of i]] by simp
  qed simp
  from this[of "{}" Map.empty] show ?thesis by (simp add: best_of_def best_ok_def)
qed

lemma elim_by_iff:
  assumes wf: "wf_metric m"
  shows "elim_by m s i \<noteq> None \<longleftrightarrow> (\<exists>j\<in>set s. beats m j i)"
proof
  assume "elim_by m s i \<noteq> None"
  then show "\<exists>j\<in>set s. beats m j i"
    using best_of_ok[of m s] by (auto simp: elim_by_def best_ok_def split: option.splits if_splits)
next
  assume "\<exists>j\<in>set s. beats m j i"
  then obtain j where j: "j \<in> set s" "beats m j i" by blast
  have ck: "class_key m j = class_key m i" and ns: "\<not> skipped m j"
    using beats_comparable[OF j(2)] beats_present[OF j(2)]
    by (auto simp: comparable_def class_key_def skipped_def split: option.splits)
  obtain b where b: "best_of m s (class_key m j) = Some b" "m_score m j \<le> m_score m b"
    using best_of_ok[of m s] j(1) ns by (auto simp: best_ok_def)
  have "m_present m b" "class_key m b = class_key m j"
    using best_of_ok[of m s] b(1) by (auto simp: best_ok_def skipped_def)
  then have "beats m b i" using beats_mono[OF wf j(2)] b(2) by blast
  then show "elim_by m s i \<noteq> None"
    using b(1) ck by (auto simp: elim_by_def)
qed

lemma elim_by_beats: "elim_by m s i = Some b \<Longrightarrow> b \<in> set s \<and> beats m b i"
  using best_of_ok[of m s] by (auto simp: elim_by_def best_ok_def split: option.splits if_splits)

lemma survivors_unbeaten: "wf_metric m \<Longrightarrow> fst (survivors m s) = unbeaten m s"
  unfolding survivors_def unbeaten_def fst_conv survives_def
  by (rule filter_cong[OF refl]) (use elim_by_iff in blast)

text \<open>The comparison goes strictly down in (present, score), so a maximal member is unbeaten.\<close>

definition standing :: "metric \<Rightarrow> nat \<Rightarrow> int option" where
  "standing m i = (if m_present m i then Some (m_score m i) else None)"

lemma unbeaten_nonempty:
  assumes "s \<noteq> []"
  shows "unbeaten m s \<noteq> []"
proof -
  let ?P = "filter (m_present m) s"
  show ?thesis
  proof (cases "?P = []")
    case True
    then have "\<forall>j\<in>set s. \<not> m_present m j" by (simp add: filter_empty_conv)
    then have "unbeaten m s = s"
      unfolding unbeaten_def using beats_present by (intro filter_same_if_all) blast
    with assms show ?thesis by simp
  next
    case False
    let ?M = "Max (m_score m ` set ?P)"
    have "?M \<in> m_score m ` set ?P" using False by (intro Max_in) (auto simp: filter_empty_conv)
    then obtain i where i: "i \<in> set s" "m_present m i" "m_score m i = ?M" by auto
    have "\<not> beats m j i" if "j \<in> set s" for j
    proof
      assume b: "beats m j i"
      then have "m_score m i < m_score m j" using beats_score i(2) by blast
      moreover have "m_score m j \<le> ?M" using that beats_present[OF b] by (intro Max_ge) auto
      ultimately show False using i(3) by simp
    qed
    with i(1) show ?thesis by (auto simp: unbeaten_def filter_empty_conv)
  qed
qed

section \<open>The interface of the ranking\<close>

locale narrowing =
  fixes surv :: "'m \<Rightarrow> nat list \<Rightarrow> nat list"
    and bt :: "'m \<Rightarrow> nat \<Rightarrow> nat \<Rightarrow> bool"
    and ok :: "'m \<Rightarrow> bool"
  assumes surv_eq: "ok m \<Longrightarrow> surv m s = filter (\<lambda>i. \<not> (\<exists>j\<in>set s. bt m j i)) s"
    and surv_ne: "ok m \<Longrightarrow> s \<noteq> [] \<Longrightarrow> surv m s \<noteq> []"
begin

lemma surv_subset: "ok m \<Longrightarrow> set (surv m s) \<subseteq> set s"
  by (auto simp: surv_eq)

lemma surv_one: "ok m \<Longrightarrow> surv m [i] = [i]"
  using surv_ne[of m "[i]"] surv_eq[of m "[i]"] by (auto split: if_splits)

text \<open>Narrowing by a list of metrics, one after the other.\<close>

lemma narrow_ne: "\<forall>m\<in>set ms. ok m \<Longrightarrow> s \<noteq> [] \<Longrightarrow> fold surv ms s \<noteq> []"
  by (induction ms arbitrary: s) (auto simp: surv_ne)

lemma narrow_subset: "\<forall>m\<in>set ms. ok m \<Longrightarrow> set (fold surv ms s) \<subseteq> set s"
proof (induction ms arbitrary: s)
  case (Cons m ms)
  then show ?case using surv_subset[of m s] Cons.IH[of "surv m s"] by auto
qed simp

lemma narrow_filter: "\<forall>m\<in>set ms. ok m \<Longrightarrow> \<exists>P. fold surv ms s = filter P s"
proof (induction ms arbitrary: s)
  case Nil
  then show ?case by (intro exI[of _ "\<lambda>_. True"]) simp
next
  case (Cons m ms)
  obtain P where "fold surv ms (surv m s) = filter P (surv m s)" using Cons.IH Cons.prems by auto
  then have "fold surv (m # ms) s = filter (\<lambda>i. P i \<and> \<not> (\<exists>j\<in>set s. bt m j i)) s"
    using Cons.prems surv_eq[of m s] by (simp add: conj_commute)
  then show ?case by blast
qed

lemma narrow_set:
  assumes "\<forall>m\<in>set ms. ok m" and "set s = set t"
  shows "set (fold surv ms s) = set (fold surv ms t)"
  using assms
proof (induction ms arbitrary: s t)
  case (Cons m ms)
  then have "set (surv m s) = set (surv m t)" by (simp add: surv_eq)
  then show ?case using Cons.IH[of "surv m s" "surv m t"] Cons.prems(1) by simp
qed simp

lemma narrow_one: "\<forall>m\<in>set ms. ok m \<Longrightarrow> fold surv ms [i] = [i]"
  by (induction ms) (auto simp: surv_one)

end

interpretation el: narrowing "\<lambda>m s. fst (survivors m s)" beats wf_metric
proof
  fix m :: metric and s :: "nat list"
  assume wf: "wf_metric m"
  then show "fst (survivors m s) = filter (\<lambda>i. \<not> (\<exists>j\<in>set s. beats m j i)) s"
    by (simp add: survivors_unbeaten unbeaten_def)
  show "s \<noteq> [] \<Longrightarrow> fst (survivors m s) \<noteq> []"
    using wf by (simp add: survivors_unbeaten unbeaten_nonempty)
qed

end
