(* ===== verification/Watch.thy ===== *)
theory Watch
  imports Metrics Versions
begin

text \<open>
  The play-history criteria of \<open>internal/engine/watch.go\<close>: which histories may be compared, the score
  and the floor of a copy, the texts, and whether a history that could not be read matters.
\<close>

definition watchClass :: string where "watchClass = ''watch''"
definition minDeltaDays :: string where "minDeltaDays = ''days''"
abbreviation secondsPerDay :: rat where "secondsPerDay \<equiv> 86400"
abbreviation maxLastPlayedMinDeltaDays :: rat where "maxLastPlayedMinDeltaDays \<equiv> 3650"
definition unknownValue :: string where "unknownValue = ''Unknown''"

definition isWatchCriterion :: "string \<Rightarrow> bool" where
  "isWatchCriterion t \<longleftrightarrow> t = CritPlayed \<or> t = CritLastPlayed"

definition knownWatch :: "MediaVersion \<Rightarrow> WatchInfo option" where
  "knownWatch v =
     (case v_watch v of
        None \<Rightarrow> None
      | Some w \<Rightarrow> if w_status w \<noteq> WatchKnown \<or> w_plays w < 0 then None else Some w)"

definition watchSourceLabel :: "WatchInfo option \<Rightarrow> string" where
  "watchSourceLabel w =
     (case w of Some w \<Rightarrow> if w_source w = WatchSourceTautulli then ''Tautulli'' else ''the play-history source''
      | None \<Rightarrow> ''the play-history source'')"

definition watchUnknownText :: "MediaVersion \<Rightarrow> string" where
  "watchUnknownText v =
     (case v_watch v of
        None \<Rightarrow> unknownValue @ '' (no watch-history source)''
      | Some w \<Rightarrow>
          let reason = TrimSpace (w_reason w) in
          if w_status w = WatchFailed \<and> reason \<noteq> [] then
            unknownValue @ '' ('' @ watchSourceLabel (Some w) @ '' could not be read: '' @ reason @ '')''
          else if w_status w = WatchFailed then
            unknownValue @ '' ('' @ watchSourceLabel (Some w) @ '' could not be read)''
          else if reason \<noteq> [] then unknownValue @ '' ('' @ reason @ '')''
          else unknownValue)"

definition countLabel :: "int \<Rightarrow> string \<Rightarrow> string \<Rightarrow> string" where
  "countLabel n one many = (if n = 1 then ''1 '' @ one else Itoa n @ '' '' @ many)"

definition playsLabel :: "WatchInfo \<Rightarrow> string" where
  "playsLabel w =
     countLabel (w_plays w) ''play'' ''plays'' @
     (if w_users w > 0 then '' '' @ middot @ '' '' @ countLabel (w_users w) ''user'' ''users'' else [])"

definition noPlaysText :: "WatchInfo \<Rightarrow> string" where
  "noPlaysText w =
     (if IsZero (w_since w) then ''no plays recorded''
      else ''no plays recorded since '' @ FormatDate (w_since w))"

definition noPlaysLabel :: "WatchInfo \<Rightarrow> string" where
  "noPlaysLabel w = titleCase (noPlaysText w)"

definition lastPlayedValue :: "MediaVersion \<Rightarrow> int option" where
  "lastPlayedValue v =
     (case knownWatch v of
        None \<Rightarrow> None
      | Some w \<Rightarrow>
          if w_plays w = 0 then Some 0
          else if IsZero (w_lastPlayed w) \<or> Unix (w_lastPlayed w) \<le> 0 then None
          else Some (Unix (w_lastPlayed w)))"

definition watchFloor :: "string \<Rightarrow> MediaVersion \<Rightarrow> f64" where
  "watchFloor t v =
     (case knownWatch v of
        None \<Rightarrow> PosInf
      | Some w \<Rightarrow>
          if w_plays w = 0 \<and> IsZero (w_since w) then PosInf
          else if w_plays w = 0 then Fin (of_int (Unix (w_since w)))
          else if t = CritPlayed then PosInf
          else NegInf)"

definition watchDisplay :: "string \<Rightarrow> MediaVersion \<Rightarrow> string" where
  "watchDisplay t v =
     (case knownWatch v of
        None \<Rightarrow> watchUnknownText v
      | Some w \<Rightarrow>
          if w_plays w = 0 then noPlaysLabel w
          else if t = CritPlayed then playsLabel w
          else if \<not> IsZero (w_lastPlayed w) then FormatDate (w_lastPlayed w)
          else watchUnknownText v)"

definition watchLossText :: "metric \<Rightarrow> MediaVersion \<Rightarrow> MediaVersion \<Rightarrow> string" where
  "watchLossText m loser winner =
     (case (knownWatch loser, knownWatch winner) of
        (Some lw, Some ww) \<Rightarrow>
          if w_plays lw = 0 then
            let plays = countLabel (w_plays ww) ''play'' ''plays'';
                other = (if m_special m = SpecialLastPlayed \<and> \<not> IsZero (w_lastPlayed ww)
                           then ''last played '' @ FormatDate (w_lastPlayed ww)
                         else if \<not> IsZero (w_lastPlayed ww)
                           then plays @ '', the last on '' @ FormatDate (w_lastPlayed ww)
                         else plays)
            in noPlaysText lw @ '' (vs '' @ other @ '')''
          else ''played less recently: '' @ FormatDate (w_lastPlayed lw) @ '' vs '' @ FormatDate (w_lastPlayed ww)
      | _ \<Rightarrow> m_label m @ '': '' @ watchDisplay (m_id m) loser @ '' vs '' @ watchDisplay (m_id m) winner)"

fun watchCanDecide_loop :: "string \<Rightarrow> MediaVersion list \<Rightarrow> bool" where
  "watchCanDecide_loop first [] = False"
| "watchCanDecide_loop first (v # vs) =
     (if v_disc v \<noteq> None then watchCanDecide_loop first vs
      else let rk = TrimSpace (v_ratingKey v) in
        if rk = [] then True
        else if first = [] then watchCanDecide_loop rk vs
        else if rk \<noteq> first then True
        else watchCanDecide_loop first vs)"

definition watchCanDecide :: "MediaVersion list \<Rightarrow> bool" where
  "watchCanDecide vs = watchCanDecide_loop [] vs"

fun watchFailure_loop :: "bool \<Rightarrow> string \<Rightarrow> MediaVersion list \<Rightarrow> bool \<times> string \<times> string" where
  "watchFailure_loop failed source [] = (failed, [], source)"
| "watchFailure_loop failed source (v # vs) =
     (case v_watch v of
        Some w \<Rightarrow>
          if w_status w = WatchFailed then
            (if TrimSpace (w_reason w) \<noteq> [] then (True, TrimSpace (w_reason w), watchSourceLabel (Some w))
             else watchFailure_loop True (if failed then source else watchSourceLabel (Some w)) vs)
          else watchFailure_loop failed source vs
      | None \<Rightarrow> watchFailure_loop failed source vs)"

definition watchFailure :: "MediaVersion list \<Rightarrow> bool \<times> string \<times> string" where
  "watchFailure vs = watchFailure_loop False [] vs"

lemma watchFailure_iff:
  "fst (watchFailure_loop f s vs) \<longleftrightarrow>
     f \<or> (\<exists>v\<in>set vs. \<exists>w. v_watch v = Some w \<and> w_status w = WatchFailed)"
  by (induction f s vs rule: watchFailure_loop.induct) (auto split: option.splits)

text \<open>The versions of one item, and full discs, can never be told apart by their histories.\<close>

definition regular_items :: "MediaVersion list \<Rightarrow> string set" where
  "regular_items vs = (\<lambda>v. TrimSpace (v_ratingKey v)) ` {v \<in> set vs. v_disc v = None}"

lemma regular_items_simps [simp]:
  "regular_items [] = {}"
  "regular_items (v # vs) =
     (if v_disc v = None then insert (TrimSpace (v_ratingKey v)) (regular_items vs) else regular_items vs)"
  by (auto simp: regular_items_def)

lemma watchCanDecide_loop_iff:
  "\<not> watchCanDecide_loop first vs \<longleftrightarrow>
     [] \<notin> regular_items vs \<and> (\<exists>k. regular_items vs \<subseteq> {k} \<and> (first = [] \<or> k = first))"
  by (induction first vs rule: watchCanDecide_loop.induct) (auto simp: Let_def)

end
