(* ===== verification/Criteria.thy ===== *)
theory Criteria
  imports Languages Watch
begin

text \<open>
  The criteria of \<open>internal/engine/criteria.go\<close>: the static facts about every criterion type, labels, the
  normalisation of values, the display values of the comparison table, the health verdict, filename
  patterns, and \<open>buildMetric\<close> / \<open>tiebreakMetrics\<close>, which turn a profile's criteria into metrics over the
  versions of a group. The main lemma: every metric they build has a tolerance of at most 100 percent,
  which is what makes the optimised filter of \<open>Metrics\<close> exact.
\<close>

section \<open>Static facts\<close>

datatype kind = kindOrdered | kindNumeric | kindBoolean | kindPatterns

record SchemaOption =
  so_value :: string
  so_label :: string

record criterionInfo =
  ci_label :: string
  ci_description :: string
  ci_kind :: kind
  ci_options :: "SchemaOption list"
  ci_defaultOrder :: "string list"
  ci_defaultDirection :: string
  ci_supportsTolerance :: bool
  ci_requiresArr :: bool
  ci_requiresWatch :: bool
  ci_minDeltaUnit :: string

definition criterionTypes :: "string list" where
  "criterionTypes =
     [CritHealth, CritResolution, CritDynamicRange, CritSource, CritVideoCodec,
      CritAudioFormat, CritContainer, CritLibrary, CritAudioChannels, CritVideoBitrate,
      CritFileSize, CritBitDepth, CritCustomFormatScore, CritDateAdded, CritAudioTrackCount,
      CritSubtitleTrackCount, CritArrManaged, CritAudioLanguage, CritFilenameScore, CritPlayed,
      CritLastPlayed]"

definition defaultResolutionOrder :: "string list" where
  "defaultResolutionOrder =
     [Res2160, Res1440, Res1080, Res720, Res576, Res480, ResSD]"

definition defaultDynamicRangeOrder :: "string list" where
  "defaultDynamicRangeOrder =
     [DRDolbyVisionHDR10, DRHDR10Plus, DRHDR10, DRHLG, DRDolbyVision, DRSDR]"

definition defaultSourceOrder :: "string list" where
  "defaultSourceOrder =
     [SourceRemux, SourceDisc, SourceBluray, SourceWebDL, SourceWebRip, SourceHDTV,
      SourceDVD, SourceSDTV, SourceUnknown]"

definition defaultVideoCodecOrder :: "string list" where
  "defaultVideoCodecOrder =
     [VCodecHEVC, VCodecAV1, VCodecH264, VCodecVC1, VCodecMPEG2, VCodecMPEG4,
      VCodecVP9, VCodecOther]"

definition defaultAudioFormatOrder :: "string list" where
  "defaultAudioFormatOrder =
     [AudioTrueHDAtmos, AudioTrueHD, AudioDTSX, AudioDTSHDMA, AudioDTSHDHRA, AudioEAC3Atmos,
      AudioFLAC, AudioPCM, AudioDTS, AudioEAC3, AudioAC3, AudioAAC,
      AudioOpus, AudioMP3, AudioOther]"

definition defaultContainerOrder :: "string list" where
  "defaultContainerOrder =
     [''mkv'', ''mp4'', ''m4v'', ''m2ts'', ''other'', ''avi'', ''ts'']"

definition containerDisc :: string where "containerDisc = ''disc''"

definition label_or :: "(string \<times> string) list \<Rightarrow> string \<Rightarrow> string \<Rightarrow> string" where
  "label_or t v d = (case table_get t v of Some l \<Rightarrow> l | None \<Rightarrow> d)"

definition valueLabel :: "string \<Rightarrow> string \<Rightarrow> string" where
  "valueLabel t v =
     (if t = CritResolution then
        (if v = ResSD then ''SD'' else if ParseInt v \<noteq> None then v @ ''p'' else v)
      else if t = CritDynamicRange then label_or
        [(DRDolbyVisionHDR10, ''Dolby Vision (HDR10)''),
        (DRDolbyVision, ''Dolby Vision (no fallback)''), (DRHDR10Plus, ''HDR10+''),
        (DRHDR10, ''HDR10''), (DRHLG, ''HLG''), (DRSDR, ''SDR'')] v v
      else if t = CritSource then label_or
        [(SourceRemux, ''Remux''), (SourceDisc, ''Full disc''), (SourceBluray, ''Blu-ray''),
        (SourceWebDL, ''WEB-DL''), (SourceWebRip, ''WEBRip''), (SourceHDTV, ''HDTV''),
        (SourceDVD, ''DVD''), (SourceSDTV, ''SDTV''), (SourceUnknown, ''Unknown'')] v v
      else if t = CritVideoCodec then label_or
        [(VCodecAV1, ''AV1''), (VCodecHEVC, ''HEVC''), (VCodecH264, ''H.264''), (VCodecVC1, ''VC-1''),
        (VCodecMPEG2, ''MPEG-2''), (VCodecMPEG4, ''MPEG-4''), (VCodecVP9, ''VP9''),
        (VCodecOther, ''Other'')] v v
      else if t = CritAudioFormat then label_or
        [(AudioTrueHDAtmos, ''TrueHD Atmos''), (AudioTrueHD, ''TrueHD''), (AudioDTSX, ''DTS:X''),
        (AudioDTSHDMA, ''DTS-HD MA''), (AudioDTSHDHRA, ''DTS-HD HRA''),
        (AudioEAC3Atmos, ''E-AC-3 Atmos''), (AudioFLAC, ''FLAC''), (AudioPCM, ''PCM''),
        (AudioDTS, ''DTS''), (AudioEAC3, ''E-AC-3''), (AudioAC3, ''AC-3''), (AudioAAC, ''AAC''),
        (AudioOpus, ''Opus''), (AudioMP3, ''MP3''), (AudioOther, ''Other'')] v v
      else if t = CritContainer then label_or
        [(''other'', ''Other''), (containerDisc, ''Full disc'')] v (ToUpper v)
      else v)"

definition optionLabel :: "string \<Rightarrow> string \<Rightarrow> string" where
  "optionLabel t v =
     (if t = CritResolution then label_or
        [(Res2160, ''2160p (4K)''), (Res1440, ''1440p (QHD)''), (ResSD, ''SD'')] v (v @ ''p'')
      else if t = CritDynamicRange then label_or
        [(DRDolbyVisionHDR10, ''Dolby Vision with HDR10 fallback''),
        (DRDolbyVision, ''Dolby Vision without fallback (P5)'')] v (valueLabel t v)
      else if t = CritVideoCodec then label_or
        [(VCodecHEVC, ''HEVC (H.265)''), (VCodecH264, ''H.264 (AVC)''),
        (VCodecMPEG4, ''MPEG-4 (XviD/DivX)'')] v (valueLabel t v)
      else if t = CritAudioFormat then label_or
        [(AudioEAC3Atmos, ''E-AC-3 Atmos (DD+ Atmos)''), (AudioEAC3, ''E-AC-3 (DD+)''),
        (AudioAC3, ''AC-3 (Dolby Digital)'')] v (valueLabel t v)
      else if t = CritContainer then label_or
        [(''ts'', ''TS (MPEG-TS / DVR)''), (''m2ts'', ''M2TS'')] v (valueLabel t v)
      else if t = CritSource then
        (if v = SourceDisc then ''Full disc (BDMV/VIDEO_TS/ISO)'' else valueLabel t v)
      else valueLabel t v)"

definition schemaOption :: "string \<Rightarrow> string \<Rightarrow> SchemaOption" where
  "schemaOption t v = \<lparr> so_value = v, so_label = optionLabel t v \<rparr>"

definition schemaOptions :: "string \<Rightarrow> string list \<Rightarrow> SchemaOption list" where
  "schemaOptions t values = map (schemaOption t) values"

definition criterionDescription :: "string \<Rightarrow> string" where
  "criterionDescription t =
     (if t = CritHealth then
          ''Prefer healthy files: analyzed by the media server (video codec, width and bitrate '' @
          ''known), available, not a sample (duration at least 90% of the longest version '' @
          ''covering the same number of episodes, no '' @ quote @ ''sample'' @ quote @ '' in the name).''
     else if t = CritResolution then
          ''Resolution tier derived from the frame width (scope films count as their tier).''
     else if t = CritDynamicRange then
          ''HDR format. Dolby Vision without an HDR10 fallback (profile 5) ranks below HDR10 by '' @
          ''default.''
     else if t = CritSource then
          ''Release source, from the *arr quality when tracked, otherwise from file name tokens. '' @
          quote @ ''Full disc'' @ quote @
          '' is a Blu-ray/DVD folder or disc image (never playable in Plex).''
     else if t = CritVideoCodec then
          ''Video codec preference (e.g. HEVC/AV1 to save space, H.264 for compatibility).''
     else if t = CritAudioFormat then
          ''Best audio track of each version under this order (not only the default track).''
     else if t = CritContainer then
          ''File container (MKV, MP4, '' @ ellipsis @
          ''); DVR recordings (.ts) rank last by default. A full disc has no container and ties '' @
          ''with every version.''
     else if t = CritLibrary then
          ''Prefer versions in libraries listed first (order of library ids). Unlisted libraries '' @
          ''rank last.''
     else if t = CritAudioChannels then
          ''Channel count of the audio track with the most channels.''
     else if t = CritVideoBitrate then
          ''Video bitrate (overall bitrate when unknown). Only compared between versions with the '' @
          ''same video codec; values within the tolerance are equal.''
     else if t = CritFileSize then
          ''Total size of all parts; values within the tolerance are equal.''
     else if t = CritBitDepth then
          ''Video bit depth (8, 10, 12).''
     else if t = CritCustomFormatScore then
          ''*arr custom format score. Only compared between versions tracked by the same *arr '' @
          ''instance with known scores; differences below the minimum delta are ignored.''
     else if t = CritDateAdded then
          ''When the file was added (*arr date when tracked, otherwise the media server's). '' @
          ''Higher = newer.''
     else if t = CritAudioTrackCount then
          ''Number of audio tracks.''
     else if t = CritSubtitleTrackCount then
          ''Number of subtitle tracks (embedded and sidecar).''
     else if t = CritArrManaged then
          ''Prefer the file tracked by Radarr/Sonarr (optionally a specific instance id in '' @
          ''value); avoids the *arr re-downloading a removed tracked file.''
     else if t = CritAudioLanguage then
          ''Prefer versions with an audio track in the language given in value (ISO 639-1/639-2 '' @
          ''code).''
     else if t = CritFilenameScore then
          ''Sum of the scores of matching patterns. Globs without '' @ quote @ ''/'' @ quote @
          '' match the file name, globs with '' @ quote @ ''/'' @ quote @
          '' the full path; regexes match the full path. Case-insensitive unless enabled.''
     else if t = CritPlayed then
          ''Prefer the copy whose Plex item has recorded plays (Tautulli, every user). Plays are '' @
          ''counted per Plex item, so versions of one item tie. An unknown play history is a tie, '' @
          ''never '' @ quote @ ''not played'' @ quote @ ''; '' @ quote @ ''no plays recorded'' @ quote @
          '' only loses to a copy played since the copy was added.''
     else if t = CritLastPlayed then
          ''Prefer the most recently played copy (Tautulli, per Plex item). Plays less than the '' @
          ''minimum difference (days) apart are a tie; '' @ quote @ ''no plays recorded'' @ quote @
          '' loses to a copy played since the copy was added; an unknown play history is a tie.''
     else [])"

definition no_info :: criterionInfo where
  "no_info = \<lparr> ci_label = [], ci_description = [], ci_kind = kindBoolean, ci_options = [],
     ci_defaultOrder = [], ci_defaultDirection = [], ci_supportsTolerance = False,
     ci_requiresArr = False, ci_requiresWatch = False, ci_minDeltaUnit = [] \<rparr>"

definition criterionInfoFor :: "string \<Rightarrow> criterionInfo option" where
  "criterionInfoFor t =
    (if t = CritHealth then Some (no_info \<lparr>
        ci_label := ''Health'',
        ci_description := criterionDescription t, ci_kind := kindBoolean \<rparr>)
     else if t = CritResolution then Some (no_info \<lparr>
        ci_label := ''Resolution'',
        ci_description := criterionDescription t, ci_kind := kindOrdered,
        ci_options := schemaOptions CritResolution defaultResolutionOrder,
        ci_defaultOrder := defaultResolutionOrder \<rparr>)
     else if t = CritDynamicRange then Some (no_info \<lparr>
        ci_label := ''Dynamic range'',
        ci_description := criterionDescription t, ci_kind := kindOrdered,
        ci_options := schemaOptions CritDynamicRange defaultDynamicRangeOrder,
        ci_defaultOrder := defaultDynamicRangeOrder \<rparr>)
     else if t = CritSource then Some (no_info \<lparr>
        ci_label := ''Source'',
        ci_description := criterionDescription t, ci_kind := kindOrdered,
        ci_options := schemaOptions CritSource defaultSourceOrder,
        ci_defaultOrder := defaultSourceOrder \<rparr>)
     else if t = CritVideoCodec then Some (no_info \<lparr>
        ci_label := ''Video codec'',
        ci_description := criterionDescription t, ci_kind := kindOrdered,
        ci_options := schemaOptions CritVideoCodec defaultVideoCodecOrder,
        ci_defaultOrder := defaultVideoCodecOrder \<rparr>)
     else if t = CritAudioFormat then Some (no_info \<lparr>
        ci_label := ''Audio format'',
        ci_description := criterionDescription t, ci_kind := kindOrdered,
        ci_options := schemaOptions CritAudioFormat defaultAudioFormatOrder,
        ci_defaultOrder := defaultAudioFormatOrder \<rparr>)
     else if t = CritContainer then Some (no_info \<lparr>
        ci_label := ''Container'',
        ci_description := criterionDescription t, ci_kind := kindOrdered,
        ci_options := schemaOptions CritContainer defaultContainerOrder,
        ci_defaultOrder := defaultContainerOrder \<rparr>)
     else if t = CritLibrary then Some (no_info \<lparr>
        ci_label := ''Library'',
        ci_description := criterionDescription t, ci_kind := kindOrdered \<rparr>)
     else if t = CritAudioChannels then Some (no_info \<lparr>
        ci_label := ''Audio channels'',
        ci_description := criterionDescription t, ci_kind := kindNumeric,
        ci_defaultDirection := DirectionHigher \<rparr>)
     else if t = CritVideoBitrate then Some (no_info \<lparr>
        ci_label := ''Video bitrate'',
        ci_description := criterionDescription t, ci_kind := kindNumeric,
        ci_defaultDirection := DirectionHigher, ci_supportsTolerance := True \<rparr>)
     else if t = CritFileSize then Some (no_info \<lparr>
        ci_label := ''File size'',
        ci_description := criterionDescription t, ci_kind := kindNumeric,
        ci_defaultDirection := DirectionHigher, ci_supportsTolerance := True \<rparr>)
     else if t = CritBitDepth then Some (no_info \<lparr>
        ci_label := ''Bit depth'',
        ci_description := criterionDescription t, ci_kind := kindNumeric,
        ci_defaultDirection := DirectionHigher \<rparr>)
     else if t = CritCustomFormatScore then Some (no_info \<lparr>
        ci_label := ''Custom format score'',
        ci_description := criterionDescription t, ci_kind := kindNumeric,
        ci_defaultDirection := DirectionHigher, ci_supportsTolerance := True, ci_requiresArr := True \<rparr>)
     else if t = CritDateAdded then Some (no_info \<lparr>
        ci_label := ''Date added'',
        ci_description := criterionDescription t, ci_kind := kindNumeric,
        ci_defaultDirection := DirectionHigher \<rparr>)
     else if t = CritAudioTrackCount then Some (no_info \<lparr>
        ci_label := ''Audio tracks'',
        ci_description := criterionDescription t, ci_kind := kindNumeric,
        ci_defaultDirection := DirectionHigher \<rparr>)
     else if t = CritSubtitleTrackCount then Some (no_info \<lparr>
        ci_label := ''Subtitle tracks'',
        ci_description := criterionDescription t, ci_kind := kindNumeric,
        ci_defaultDirection := DirectionHigher \<rparr>)
     else if t = CritArrManaged then Some (no_info \<lparr>
        ci_label := ''*arr managed'',
        ci_description := criterionDescription t, ci_kind := kindBoolean, ci_requiresArr := True \<rparr>)
     else if t = CritAudioLanguage then Some (no_info \<lparr>
        ci_label := ''Audio language'',
        ci_description := criterionDescription t, ci_kind := kindBoolean \<rparr>)
     else if t = CritFilenameScore then Some (no_info \<lparr>
        ci_label := ''Filename score'',
        ci_description := criterionDescription t, ci_kind := kindPatterns,
        ci_defaultDirection := DirectionHigher \<rparr>)
     else if t = CritPlayed then Some (no_info \<lparr>
        ci_label := ''Played'',
        ci_description := criterionDescription t, ci_kind := kindBoolean, ci_requiresWatch := True \<rparr>)
     else if t = CritLastPlayed then Some (no_info \<lparr>
        ci_label := ''Last played'',
        ci_description := criterionDescription t, ci_kind := kindNumeric,
        ci_defaultDirection := DirectionHigher, ci_requiresWatch := True, ci_minDeltaUnit := minDeltaDays \<rparr>)
     else None)"

section \<open>Value normalisation\<close>

definition tierFromDims :: "int \<Rightarrow> int \<Rightarrow> string" where
  "tierFromDims w h =
     (if w > 0 then
        (if w \<ge> 3200 then Res2160
         else if w \<ge> 2200 then Res1440
         else if w \<ge> 1700 then Res1080
         else if w \<ge> 1100 then Res720
         else if w \<ge> 1000 \<and> h > 480 then Res576
         else if w \<ge> 640 then Res480
         else ResSD)
      else if h \<le> 0 then []
      else if h \<ge> 2000 then Res2160
      else if h \<ge> 1400 then Res1440
      else if h \<ge> 1000 then Res1080
      else if h \<ge> 700 then Res720
      else if h \<ge> 560 then Res576
      else if h \<ge> 470 then Res480
      else ResSD)"

definition normResolution :: "MediaVersion \<Rightarrow> string" where
  "normResolution v =
     (let r = TrimSuffix (ToLower (TrimSpace (v_resolution v))) ''p'' in
      if r \<in> {''4k'', ''uhd'', ''2160''} then Res2160
      else if r = [] then tierFromDims (v_width v) (v_height v)
      else r)"

definition normDynamicRange :: "string \<Rightarrow> string" where
  "normDynamicRange s0 =
     (let s = ToLower (TrimSpace s0)
      in if s \<in> {''hdr10+'', ''hdr10 plus'', ''hdr10_plus''} then DRHDR10Plus else s)"

definition normSource :: "string \<Rightarrow> string" where
  "normSource s0 =
     (let s = ToLower (TrimSpace s0)
      in if s \<in> {''web-dl'', ''web''} then SourceWebDL else if s = ''blu-ray'' then SourceBluray else s)"

definition normVideoCodec :: "string \<Rightarrow> string" where
  "normVideoCodec s0 =
     (let s = ToLower (TrimSpace s0) in
      if s = [] then []
      else if s \<in> {''hevc'', ''h265'', ''h.265'', ''x265''} then VCodecHEVC
      else if s \<in> {''h264'', ''h.264'', ''avc'', ''avc1'', ''x264''} then VCodecH264
      else if s = ''av1'' then VCodecAV1
      else if s \<in> {''vc1'', ''vc-1'', ''wvc1''} then VCodecVC1
      else if s \<in> {''mpeg2'', ''mpeg2video'', ''mpeg-2''} then VCodecMPEG2
      else if s \<in> {''mpeg4'', ''mpeg-4'', ''xvid'', ''divx'', ''mp4v'', ''msmpeg4'', ''msmpeg4v2'', ''msmpeg4v3''}
        then VCodecMPEG4
      else if s = ''vp9'' then VCodecVP9
      else VCodecOther)"

definition normContainer :: "MediaVersion \<Rightarrow> string" where
  "normContainer v =
     (if v_disc v \<noteq> None then containerDisc
      else let c0 = ToLower (TrimSpace (v_container v));
               c = (if c0 = [] then TrimPrefix (ToLower (path_Ext (normPath (primaryPath v)))) ''.'' else c0)
           in if c = [] then []
              else if c \<in> {''mkv'', ''matroska''} then ''mkv''
              else if c = ''mp4'' then ''mp4''
              else if c = ''m4v'' then ''m4v''
              else if c = ''avi'' then ''avi''
              else if c \<in> {''m2ts'', ''mts'', ''m2t''} then ''m2ts''
              else if c \<in> {''ts'', ''mpegts''} then ''ts''
              else if c = containerDisc then containerDisc
              else ''other'')"

definition normAudioFormat :: "AudioTrack \<Rightarrow> string" where
  "normAudioFormat t =
     (let f = ToLower (TrimSpace (at_format t)) in
      if at_atmos t \<and> f = AudioTrueHD then AudioTrueHDAtmos
      else if at_atmos t \<and> f = AudioEAC3 then AudioEAC3Atmos
      else f)"

definition orderedValue :: "string \<Rightarrow> MediaVersion \<Rightarrow> string" where
  "orderedValue t v =
     (if t = CritResolution then normResolution v
      else if t = CritDynamicRange then normDynamicRange (v_dynamicRange v)
      else if t = CritSource then normSource (v_source v)
      else if t = CritVideoCodec then normVideoCodec (v_videoCodec v)
      else if t = CritContainer then normContainer v
      else if t = CritLibrary \<and> v_libraryID v \<noteq> 0 then Itoa (v_libraryID v)
      else [])"

definition normalizeOrder :: "string \<Rightarrow> string list \<Rightarrow> string list" where
  "normalizeOrder t order =
     (let low = filter (\<lambda>x. x \<noteq> []) (map ToLower (map TrimSpace order));
          out = (if t = CritDynamicRange then map normDynamicRange low else low)
      in if out = [] then (case criterionInfoFor t of Some info \<Rightarrow> ci_defaultOrder info | None \<Rightarrow> out) else out)"

text \<open>The index of the first occurrence of every value, as an association list.\<close>

definition orderIndex :: "string list \<Rightarrow> (string \<times> nat) list" where
  "orderIndex order =
     fold (\<lambda>(i, x) idx. if map_of idx x \<noteq> None then idx else idx @ [(x, i)]) (List.enumerate 0 order) []"

definition discAudioVariants :: "string \<Rightarrow> string option" where
  "discAudioVariants f = table_get
     [(AudioTrueHD, AudioTrueHDAtmos), (AudioDTSHDMA, AudioDTSX), (AudioEAC3, AudioEAC3Atmos)] f"

definition audio_rank :: "MediaVersion \<Rightarrow> (string \<times> nat) list \<Rightarrow> string \<Rightarrow> nat" where
  "audio_rank v idx f =
     (let r = (case map_of idx f of Some r \<Rightarrow> r | None \<Rightarrow> length idx) in
      case discAudioVariants f of
        Some variant \<Rightarrow>
          (case map_of idx variant of
             Some vr \<Rightarrow> if v_disc v \<noteq> None \<and> vr < r then vr else r
           | None \<Rightarrow> r)
      | None \<Rightarrow> r)"

definition better_track ::
  "MediaVersion \<Rightarrow> (string \<times> nat) list \<Rightarrow> AudioTrack \<Rightarrow> (string \<times> nat \<times> AudioTrack) option \<Rightarrow>
   (string \<times> nat \<times> AudioTrack) option" where
  "better_track v idx t acc =
     (let f = normAudioFormat t; r = audio_rank v idx f in
      if f = [] then acc
      else case acc of
             None \<Rightarrow> Some (f, r, t)
           | Some (_, rank, track) \<Rightarrow>
               if r < rank \<or> (r = rank \<and> at_channels t > at_channels track) then Some (f, r, t) else acc)"

definition bestAudio ::
  "MediaVersion \<Rightarrow> (string \<times> nat) list \<Rightarrow> (string \<times> nat \<times> AudioTrack) option" where
  "bestAudio v idx = fold (better_track v idx) (v_audioTracks v) None"

definition maxChannels :: "MediaVersion \<Rightarrow> int" where
  "maxChannels v = fold (\<lambda>t n. if at_channels t > n then at_channels t else n) (v_audioTracks v) 0"

definition rankingSize :: "MediaVersion \<Rightarrow> int" where
  "rankingSize v =
     (case v_disc v of Some d \<Rightarrow> if d_featureBytes d > 0 then d_featureBytes d else TotalSize v
      | None \<Rightarrow> TotalSize v)"

definition discChannelsUnknown :: "MediaVersion \<Rightarrow> bool" where
  "discChannelsUnknown v \<longleftrightarrow> v_disc v \<noteq> None \<and> (\<exists>t\<in>set (v_audioTracks v). at_channels t \<le> 0)"

definition known_if :: "bool \<Rightarrow> int \<Rightarrow> int option" where
  "known_if b x = (if b then Some x else None)"

definition numericValue :: "string \<Rightarrow> MediaVersion \<Rightarrow> int option" where
  "numericValue t v =
     (if t = CritAudioChannels then known_if (maxChannels v > 0) (maxChannels v)
      else if t = CritVideoBitrate then
        (let b = (if v_videoBitrate v \<le> 0 then v_bitrateKbps v else v_videoBitrate v) in known_if (b > 0) b)
      else if t = CritFileSize then known_if (rankingSize v > 0) (rankingSize v)
      else if t = CritBitDepth then known_if (v_bitDepth v > 0) (v_bitDepth v)
      else if t = CritCustomFormatScore then
        (case v_arr v of Some a \<Rightarrow> a_customFormatScore a | None \<Rightarrow> None)
      else if t = CritDateAdded then known_if (\<not> IsZero (dateAdded v)) (Unix (dateAdded v))
      else if t = CritLastPlayed then lastPlayedValue v
      else if t = CritAudioTrackCount then
        known_if (v_audioTracks v \<noteq> []) (int (length (v_audioTracks v)))
      else if t = CritSubtitleTrackCount then Some (int (length (v_subtitleTracks v)))
      else None)"

section \<open>Display values\<close>

definition channelLabel :: "int \<Rightarrow> string" where
  "channelLabel c =
     (if c = 1 then ''1.0'' else if c = 2 then ''2.0'' else if c = 3 then ''2.1''
      else if c = 6 then ''5.1'' else if c = 7 then ''6.1'' else if c = 8 then ''7.1''
      else Itoa c @ '' ch'')"

definition bitrateLabel :: "int \<Rightarrow> string" where
  "bitrateLabel kbps =
     (if kbps \<ge> 1000 then fmt_1f (f64_quot kbps 1000) @ '' Mbps'' else Itoa kbps @ '' kbps'')"

definition dynamicRangeLabel :: "MediaVersion \<Rightarrow> string" where
  "dynamicRangeLabel v =
     (let d = normDynamicRange (v_dynamicRange v) in
      if d = [] then unknownValue
      else if v_dvProfile v > 0 \<and> d = DRDolbyVisionHDR10 then
        ''Dolby Vision P'' @ Itoa (v_dvProfile v) @ '' (HDR10)''
      else if v_dvProfile v > 0 \<and> d = DRDolbyVision then
        ''Dolby Vision P'' @ Itoa (v_dvProfile v) @ '' (no fallback)''
      else valueLabel CritDynamicRange d)"

definition libraryLabel :: "MediaVersion \<Rightarrow> (int \<rightharpoonup> Library) \<Rightarrow> string" where
  "libraryLabel v libs =
     (if TrimSpace (v_libraryTitle v) \<noteq> [] then TrimSpace (v_libraryTitle v)
      else case libs (v_libraryID v) of
             Some l \<Rightarrow> if TrimSpace (l_title l) \<noteq> [] then l_title l
                       else if v_libraryID v \<noteq> 0 then ''Library '' @ Itoa (v_libraryID v) else unknownValue
           | None \<Rightarrow> if v_libraryID v \<noteq> 0 then ''Library '' @ Itoa (v_libraryID v) else unknownValue)"

definition audioFormatLabel :: "string \<Rightarrow> AudioTrack \<Rightarrow> string" where
  "audioFormatLabel fmt t =
     valueLabel CritAudioFormat fmt @ (if at_channels t > 0 then '' '' @ channelLabel (at_channels t) else [])"

text \<open>The health verdict of a version: its problems, none when it is healthy.\<close>

type_synonym healthInfo = "string list"

definition healthy :: "healthInfo \<Rightarrow> bool" where
  "healthy h \<longleftrightarrow> h = []"

definition health_display :: "healthInfo \<Rightarrow> string" where
  "health_display h = (if healthy h then ''Healthy'' else ''Unhealthy: '' @ Join h '', '')"

definition versionHealth :: "MediaVersion \<Rightarrow> int \<Rightarrow> healthInfo" where
  "versionHealth v maxDurationMs =
     (if isUnavailable v then [''file missing''] else []) @
     (if isInaccessible v then [''file not accessible''] else []) @
     unanalyzedProblems v @
     (if hasSampleName v then [''sample file name''] else []) @
     (let d = versionDuration v in
      if maxDurationMs > 0 \<and> d > 0 \<and> below_90 d maxDurationMs \<and> \<not> durationLowerBound v then
        [''possible sample ('' @ humanDuration (msDuration d) @ '' of '' @
         humanDuration (msDuration maxDurationMs) @ '')'']
      else [])"

definition or_unknown :: "bool \<Rightarrow> string \<Rightarrow> string" where
  "or_unknown b s = (if b then s else unknownValue)"

definition DisplayValue :: "string \<Rightarrow> MediaVersion \<Rightarrow> string" where
  "DisplayValue t v =
     (if t = CritHealth then health_display (versionHealth v 0)
      else if t \<in> {CritResolution, CritSource, CritVideoCodec, CritContainer} then
        or_unknown (orderedValue t v \<noteq> []) (valueLabel t (orderedValue t v))
      else if t = CritDynamicRange then dynamicRangeLabel v
      else if t = CritAudioFormat then
        (case bestAudio v (orderIndex defaultAudioFormatOrder) of
           Some (f, _, tr) \<Rightarrow> audioFormatLabel f tr | None \<Rightarrow> unknownValue)
      else if t = CritLibrary then libraryLabel v Map.empty
      else if t = CritAudioChannels then
        (if discChannelsUnknown v then ''Multichannel (disc)''
         else or_unknown (maxChannels v > 0) (channelLabel (maxChannels v)))
      else if t = CritVideoBitrate then
        (case numericValue t v of Some b \<Rightarrow> bitrateLabel b | None \<Rightarrow> unknownValue)
      else if t = CritFileSize then
        (case v_disc v of
           Some d \<Rightarrow>
             if d_featureBytes d > 0 \<and> d_totalBytes d > 0 then
               humanBytes (d_featureBytes d) @ '' feature '' @ middot @ '' '' @ humanBytes (d_totalBytes d) @ '' on disk''
             else or_unknown (TotalSize v > 0) (humanBytes (TotalSize v))
         | None \<Rightarrow> or_unknown (TotalSize v > 0) (humanBytes (TotalSize v)))
      else if t = CritBitDepth then or_unknown (v_bitDepth v > 0) (Itoa (v_bitDepth v) @ ''-bit'')
      else if t = CritCustomFormatScore then
        (case v_arr v of
           None \<Rightarrow> ''Not tracked''
         | Some a \<Rightarrow> (case a_customFormatScore a of None \<Rightarrow> unknownValue | Some s \<Rightarrow> Itoa s))
      else if t = CritDateAdded then or_unknown (\<not> IsZero (dateAdded v)) (FormatDate (dateAdded v))
      else if t = CritAudioTrackCount then Itoa (int (length (v_audioTracks v)))
      else if t = CritSubtitleTrackCount then Itoa (int (length (v_subtitleTracks v)))
      else if t = CritArrManaged then (case v_arr v of None \<Rightarrow> ''No'' | Some a \<Rightarrow> arrName a)
      else if t = CritAudioLanguage then or_unknown (audioLangs v \<noteq> []) (Join (audioLangs v) '', '')
      else if t = CritFilenameScore then
        or_unknown (normPath (primaryPath v) \<noteq> []) (path_Base (normPath (primaryPath v)))
      else if t = CritPlayed \<or> t = CritLastPlayed then watchDisplay t v
      else [])"

section \<open>Filename patterns and *arr instances\<close>

datatype matcher = MRegexp "string \<Rightarrow> bool" | MGlob string bool

record compiledPattern =
  cp_score :: int
  cp_match :: matcher

definition compile_pattern :: "golib \<Rightarrow> PatternScore \<Rightarrow> compiledPattern option" where
  "compile_pattern lib p =
     (let pat = TrimSpace (ps_pattern p) in
      if pat = [] then None
      else if ps_regex p then
        (case re_compile lib (if \<not> ps_caseSensitive p then ''(?i)'' @ pat else pat) of
           None \<Rightarrow> None
         | Some re \<Rightarrow> Some \<lparr> cp_score = ps_score p, cp_match = MRegexp re \<rparr>)
      else if \<not> ds_validate lib (fold_case (ps_caseSensitive p) (slashes pat)) then None
      else Some \<lparr> cp_score = ps_score p, cp_match = MGlob pat (ps_caseSensitive p) \<rparr>)"

definition compilePatterns :: "golib \<Rightarrow> PatternScore list \<Rightarrow> compiledPattern list" where
  "compilePatterns lib ps = List.map_filter (compile_pattern lib) ps"

definition pattern_matches :: "golib \<Rightarrow> compiledPattern \<Rightarrow> MediaVersion \<Rightarrow> bool" where
  "pattern_matches lib cp v =
     (case cp_match cp of
        MRegexp re \<Rightarrow> \<exists>p\<in>set (versionPaths v). re (normPath p)
      | MGlob glob cs \<Rightarrow> globMatch lib glob (versionPaths v) cs)"

definition filenameScore :: "golib \<Rightarrow> MediaVersion \<Rightarrow> compiledPattern list \<Rightarrow> int" where
  "filenameScore lib v cps = sum_list (map cp_score (filter (\<lambda>cp. pattern_matches lib cp v) cps))"

definition arrMatches :: "ArrFileInfo option \<Rightarrow> string \<Rightarrow> bool" where
  "arrMatches a target0 =
     (case a of
        None \<Rightarrow> False
      | Some a \<Rightarrow>
          let target = TrimSpace target0 in
          if target = [] then True
          else case ParseInt target of
                 Some i \<Rightarrow> a_instanceID a = i
               | None \<Rightarrow> EqualFold (TrimSpace (a_instanceName a)) target)"

section \<open>Building metrics\<close>

text \<open>The rank of a version on an ordered criterion (\<open>None\<close> when missing) and its display value.\<close>

definition ordered_entry ::
  "string \<Rightarrow> string list \<Rightarrow> (string \<times> nat) list \<Rightarrow> MediaVersion \<Rightarrow> nat option \<times> string" where
  "ordered_entry t order idx v =
     (if t = CritAudioFormat then
        (case bestAudio v idx of
           None \<Rightarrow> (None, unknownValue)
         | Some (f, rank, tr) \<Rightarrow> (Some rank, audioFormatLabel f tr))
      else let val = orderedValue t v in
        if val = [] then (None, unknownValue)
        else (Some (case map_of idx val of Some r \<Rightarrow> r | None \<Rightarrow> length order),
              if t = CritDynamicRange then dynamicRangeLabel v
              else if t = CritLibrary then libraryLabel v Map.empty
              else valueLabel t val))"

definition ordered_present :: "string \<Rightarrow> string list \<Rightarrow> (string \<times> nat) list \<Rightarrow> MediaVersion \<Rightarrow> bool" where
  "ordered_present t order idx v \<longleftrightarrow> fst (ordered_entry t order idx v) \<noteq> None"

definition ordered_score :: "string \<Rightarrow> string list \<Rightarrow> (string \<times> nat) list \<Rightarrow> MediaVersion \<Rightarrow> int" where
  "ordered_score t order idx v = (case fst (ordered_entry t order idx v) of Some r \<Rightarrow> - int r | None \<Rightarrow> 0)"

definition ordered_display :: "string \<Rightarrow> string list \<Rightarrow> (string \<times> nat) list \<Rightarrow> MediaVersion \<Rightarrow> string" where
  "ordered_display t order idx v = snd (ordered_entry t order idx v)"

definition container_class :: "MediaVersion \<Rightarrow> string" where
  "container_class v = (if v_disc v = None then ''file'' else [])"

definition ordered_metric :: "Criterion \<Rightarrow> MediaVersion list \<Rightarrow> metric \<Rightarrow> metric" where
  "ordered_metric c vs m =
     (let t = c_type c; order = normalizeOrder t (c_order c); idx = orderIndex order
      in m \<lparr> m_present := vat (ordered_present t order idx) vs,
             m_score := vat (ordered_score t order idx) vs,
             m_display := vat (ordered_display t order idx) vs,
             m_class := (if t = CritContainer \<and> list_ex IsDisc vs then Some (vat container_class vs) else None) \<rparr>)"

definition prefers_higher :: "Criterion \<Rightarrow> bool" where
  "prefers_higher c \<longleftrightarrow> \<not> EqualFold (TrimSpace (c_direction c)) DirectionLower"

definition numeric_tol :: "Criterion \<Rightarrow> criterionInfo \<Rightarrow> rat" where
  "numeric_tol c info =
     (if ci_supportsTolerance info then
        (case pos_finite (c_tolerancePercent c) of Some q \<Rightarrow> min q 100 | None \<Rightarrow> 0) else 0)"

definition numeric_delta :: "Criterion \<Rightarrow> criterionInfo \<Rightarrow> rat" where
  "numeric_delta c info =
     (if ci_supportsTolerance info \<and> pos_finite (c_minDelta c) \<noteq> None
      then the (pos_finite (c_minDelta c))
      else if c_type c = CritLastPlayed then
        (case pos_finite (c_minDelta c) of
           Some q \<Rightarrow> min q maxLastPlayedMinDeltaDays * secondsPerDay | None \<Rightarrow> 0)
      else 0)"

definition codec_class :: "MediaVersion \<Rightarrow> string" where
  "codec_class v = normVideoCodec (v_videoCodec v)"

definition instance_class :: "MediaVersion \<Rightarrow> string" where
  "instance_class v =
     (if numericValue CritCustomFormatScore v = None then []
      else case v_arr v of Some a \<Rightarrow> Itoa (a_instanceID a) | None \<Rightarrow> [])"

definition history_class :: "MediaVersion \<Rightarrow> string" where
  "history_class v = (if numericValue CritLastPlayed v \<noteq> None then watchClass else [])"

definition channel_class :: "MediaVersion \<Rightarrow> string" where
  "channel_class v = (if \<not> discChannelsUnknown v then ''known'' else [])"

definition numeric_class :: "string \<Rightarrow> MediaVersion list \<Rightarrow> string array option" where
  "numeric_class t vs =
     (if t = CritVideoBitrate then Some (vat codec_class vs)
      else if t = CritCustomFormatScore then Some (vat instance_class vs)
      else if t = CritLastPlayed then Some (vat history_class vs)
      else if t = CritAudioChannels \<and> list_ex discChannelsUnknown vs then Some (vat channel_class vs)
      else None)"

definition numeric_present :: "string \<Rightarrow> MediaVersion \<Rightarrow> bool" where
  "numeric_present t v \<longleftrightarrow> numericValue t v \<noteq> None"

definition numeric_score :: "string \<Rightarrow> bool \<Rightarrow> MediaVersion \<Rightarrow> int" where
  "numeric_score t higher v =
     (case numericValue t v of Some x \<Rightarrow> if higher then x else - x | None \<Rightarrow> 0)"

definition numeric_display :: "string \<Rightarrow> MediaVersion \<Rightarrow> string" where
  "numeric_display t v =
     (if t = CritAudioChannels \<and> discChannelsUnknown v then ''Multichannel (disc)'' else DisplayValue t v)"

definition numeric_metric :: "Criterion \<Rightarrow> criterionInfo \<Rightarrow> MediaVersion list \<Rightarrow> metric \<Rightarrow> metric" where
  "numeric_metric c info vs m =
     (let t = c_type c; higher = (t = CritLastPlayed \<or> prefers_higher c)
      in m \<lparr> m_special := (if t = CritLastPlayed then SpecialLastPlayed else SpecialNone),
             m_tolPct := numeric_tol c info,
             m_minDelta := numeric_delta c info,
             m_worse := (if t = CritDateAdded then (if higher then ''older'' else ''newer'')
                         else if t = CritFileSize then (if higher then ''smaller'' else ''larger'')
                         else if higher then ''lower'' else ''higher''),
             m_class := numeric_class t vs,
             m_floor := (if t = CritLastPlayed then Some (vat (watchFloor t) vs) else None),
             m_display := vat (numeric_display t) vs,
             m_present := vat (numeric_present t) vs,
             m_score := vat (numeric_score t higher) vs \<rparr>)"

definition health_text :: "healthInfo array \<Rightarrow> nat \<Rightarrow> string" where
  "health_text health i = health_display (health i)"

definition health_score :: "healthInfo array \<Rightarrow> nat \<Rightarrow> int" where
  "health_score health i = (if healthy (health i) then 1 else 0)"

definition arr_score :: "string \<Rightarrow> MediaVersion \<Rightarrow> int" where
  "arr_score subject v = (if arrMatches (v_arr v) subject then 1 else 0)"

definition played_class :: "MediaVersion \<Rightarrow> string" where
  "played_class v = (if knownWatch v = None then [] else watchClass)"

definition played_present :: "MediaVersion \<Rightarrow> bool" where
  "played_present v \<longleftrightarrow> knownWatch v \<noteq> None"

definition played_score :: "MediaVersion \<Rightarrow> int" where
  "played_score v = (case lastPlayedValue v of Some x \<Rightarrow> x | None \<Rightarrow> 0)"

definition lang_present :: "MediaVersion \<Rightarrow> bool" where
  "lang_present v \<longleftrightarrow> audioLangs v \<noteq> []"

definition lang_score :: "string \<Rightarrow> MediaVersion \<Rightarrow> int" where
  "lang_score want v = (if hasLanguage v want then 1 else 0)"

definition lang_display :: "string \<Rightarrow> MediaVersion \<Rightarrow> string" where
  "lang_display want v =
     (let langs = audioLangs v in
      if langs = [] then unknownValue
      else if hasLanguage v want then ''Yes ('' @ Join langs '', '' @ '')''
      else ''No ('' @ Join langs '', '' @ '')'')"

definition boolean_metric ::
  "Criterion \<Rightarrow> MediaVersion list \<Rightarrow> healthInfo array \<Rightarrow> metric \<Rightarrow> metric option" where
  "boolean_metric c vs health m =
     (let t = c_type c in
      if t = CritHealth then
        Some (m \<lparr> m_special := SpecialHealth, m_present := (\<lambda>_. True),
                  m_display := health_text health, m_score := health_score health \<rparr>)
      else if t = CritArrManaged then
        (let subject = TrimSpace (c_value c) in
         Some (m \<lparr> m_special := SpecialArr, m_subject := subject, m_present := (\<lambda>_. True),
                   m_display := vat (DisplayValue CritArrManaged) vs, m_score := vat (arr_score subject) vs \<rparr>))
      else if t = CritPlayed then
        Some (m \<lparr> m_special := SpecialPlayed,
                  m_class := Some (vat played_class vs),
                  m_floor := Some (vat (watchFloor CritPlayed) vs),
                  m_display := vat (watchDisplay CritPlayed) vs,
                  m_present := vat played_present vs,
                  m_score := vat played_score vs \<rparr>)
      else if t = CritAudioLanguage then
        (let want = normLang (c_value c) (c_value c) in
         if want = [] then None
         else Some (m \<lparr> m_special := SpecialLang, m_subject := want, m_present := vat lang_present vs,
                        m_score := vat (lang_score want) vs, m_display := vat (lang_display want) vs \<rparr>))
      else None)"

definition pattern_score :: "golib \<Rightarrow> compiledPattern list \<Rightarrow> bool \<Rightarrow> MediaVersion \<Rightarrow> int" where
  "pattern_score lib cps higher v = (if higher then filenameScore lib v cps else - filenameScore lib v cps)"

definition pattern_display :: "golib \<Rightarrow> compiledPattern list \<Rightarrow> MediaVersion \<Rightarrow> string" where
  "pattern_display lib cps v = Itoa (filenameScore lib v cps)"

definition patterns_metric :: "golib \<Rightarrow> Criterion \<Rightarrow> MediaVersion list \<Rightarrow> metric \<Rightarrow> metric option" where
  "patterns_metric lib c vs m =
     (let cps = compilePatterns lib (c_patterns c); higher = prefers_higher c in
      if cps = [] then None
      else Some (m \<lparr> m_worse := (if higher then m_worse m else ''higher''),
                     m_present := (\<lambda>_. True),
                     m_display := vat (pattern_display lib cps) vs,
                     m_score := vat (pattern_score lib cps higher) vs \<rparr>))"

definition buildMetric ::
  "golib \<Rightarrow> Criterion \<Rightarrow> MediaVersion list \<Rightarrow> healthInfo array \<Rightarrow> metric option" where
  "buildMetric lib c vs health =
     (case criterionInfoFor (c_type c) of
        None \<Rightarrow> None
      | Some info \<Rightarrow>
          if \<not> c_enabled c then None
          else let m = newMetric (c_type c) (ci_label info) in
            (case ci_kind info of
               kindOrdered \<Rightarrow> Some (ordered_metric c vs m)
             | kindNumeric \<Rightarrow> Some (numeric_metric c info vs m)
             | kindBoolean \<Rightarrow> boolean_metric c vs health m
             | kindPatterns \<Rightarrow> patterns_metric lib c vs m))"

abbreviation TiebreakMediaID :: string where "TiebreakMediaID \<equiv> ''media_id''"
abbreviation TiebreakKey :: string where "TiebreakKey \<equiv> ''key''"

definition tie_arr_score :: "MediaVersion \<Rightarrow> int" where
  "tie_arr_score v = (if v_arr v \<noteq> None then 1 else 0)"

definition tie_size_present :: "MediaVersion \<Rightarrow> bool" where
  "tie_size_present v \<longleftrightarrow> rankingSize v > 0"

definition tie_size_score :: "MediaVersion \<Rightarrow> int" where
  "tie_size_score v = (if rankingSize v > 0 then rankingSize v else 0)"

definition tie_added :: "MediaVersion \<Rightarrow> time" where
  "tie_added v = (if IsZero (v_addedAt v) then dateAdded v else v_addedAt v)"

definition tie_added_present :: "MediaVersion \<Rightarrow> bool" where
  "tie_added_present v \<longleftrightarrow> \<not> IsZero (tie_added v)"

definition tie_added_score :: "MediaVersion \<Rightarrow> int" where
  "tie_added_score v = (if IsZero (tie_added v) then 0 else - Unix (tie_added v))"

definition tie_added_display :: "MediaVersion \<Rightarrow> string" where
  "tie_added_display v = (if IsZero (tie_added v) then unknownValue else FormatDateMinute (tie_added v))"

definition tie_media_present :: "MediaVersion \<Rightarrow> bool" where
  "tie_media_present v \<longleftrightarrow> v_mediaID v > 0"

definition tie_media_score :: "MediaVersion \<Rightarrow> int" where
  "tie_media_score v = (if v_mediaID v > 0 then - v_mediaID v else 0)"

definition tie_media_display :: "MediaVersion \<Rightarrow> string" where
  "tie_media_display v = (if v_mediaID v > 0 then Itoa (v_mediaID v) else unknownValue)"

definition tiebreakMetrics :: "MediaVersion list \<Rightarrow> metric list" where
  "tiebreakMetrics vs =
     [(newMetric CritArrManaged ''*arr managed'') \<lparr>
        m_special := SpecialArr, m_tiebreak := True, m_present := (\<lambda>_. True),
        m_display := vat (DisplayValue CritArrManaged) vs, m_score := vat tie_arr_score vs \<rparr>,
      (newMetric CritFileSize ''File size'') \<lparr>
        m_worse := ''smaller'', m_tiebreak := True, m_display := vat (DisplayValue CritFileSize) vs,
        m_present := vat tie_size_present vs, m_score := vat tie_size_score vs \<rparr>,
      (newMetric CritDateAdded ''Date added'') \<lparr>
        m_worse := ''newer'', m_tiebreak := True, m_display := vat tie_added_display vs,
        m_present := vat tie_added_present vs, m_score := vat tie_added_score vs \<rparr>,
      (newMetric TiebreakMediaID ''Plex media id'') \<lparr>
        m_worse := ''higher'', m_tiebreak := True, m_display := vat tie_media_display vs,
        m_present := vat tie_media_present vs, m_score := vat tie_media_score vs \<rparr>]"

section \<open>Every metric is well formed\<close>

lemma tol_ordered: "m_tolPct (ordered_metric c vs m) = m_tolPct m"
  by (simp add: ordered_metric_def Let_def)

lemma tol_numeric: "m_tolPct (numeric_metric c info vs m) \<le> 100"
proof -
  have "m_tolPct (numeric_metric c info vs m) = numeric_tol c info"
    by (simp add: numeric_metric_def Let_def)
  then show ?thesis by (auto simp: numeric_tol_def split: option.splits)
qed

lemma tol_boolean: "boolean_metric c vs health m = Some m' \<Longrightarrow> m_tolPct m' = m_tolPct m"
  unfolding boolean_metric_def Let_def
  by (simp only: split: if_splits) (simp_all only: option.inject option.distinct, auto)

lemma tol_patterns: "patterns_metric lib c vs m = Some m' \<Longrightarrow> m_tolPct m' = m_tolPct m"
  unfolding patterns_metric_def Let_def by (simp only: split: if_splits) (simp_all only: option.inject option.distinct, auto)

lemma wf_buildMetric: "buildMetric lib c vs health = Some m \<Longrightarrow> wf_metric m"
  unfolding buildMetric_def Let_def
  using tol_ordered[of c vs] tol_numeric[of c _ vs] tol_boolean[of c vs health] tol_patterns[of lib c vs]
  by (auto simp: wf_metric_def newMetric_def split: option.splits kind.splits if_splits)

lemma wf_tiebreakMetrics: "m \<in> set (tiebreakMetrics vs) \<Longrightarrow> wf_metric m"
  by (auto simp: tiebreakMetrics_def newMetric_def wf_metric_def)

lemma plain_tiebreakMetrics:
  "m \<in> set (tiebreakMetrics vs) \<Longrightarrow> m_class m = None \<and> m_floor m = None \<and> m_tolPct m = 0 \<and> m_minDelta m = 0"
  by (auto simp: tiebreakMetrics_def newMetric_def)

end
