(* ===== verification/Ranking.thy ===== *)
theory Ranking
  imports Metrics Versions
begin

text \<open>
  The ranking of \<open>evaluate.go\<close> (\<open>rank\<close>): repeated elimination. In each round the remaining versions,
  in the order of their keys, are narrowed metric by metric; the first survivor wins the round and
  leaves. The lemmas show that the loop ends, that the result is a permutation with \<open>pos\<close> as its inverse,
  that every winner is the one the brute-force filter gives, that the recorded eliminations are true,
  and that with plain metrics the result is the lexicographic order of the metrics.
\<close>

section \<open>One round\<close>

record elimination =
  e_metric :: nat
  e_by :: nat

type_synonym eliminations = "nat \<rightharpoonup> elimination"

definition add_elims :: "nat \<Rightarrow> (nat \<rightharpoonup> nat) \<Rightarrow> eliminations \<Rightarrow> eliminations" where
  "add_elims mi elimBy el i =
     (case elimBy i of Some b \<Rightarrow> Some \<lparr> e_metric = mi, e_by = b \<rparr> | None \<Rightarrow> el i)"

definition add_ties :: "nat \<Rightarrow> nat list \<Rightarrow> eliminations \<Rightarrow> eliminations" where
  "add_ties mi s el i = (if i \<in> set (tl s) then Some \<lparr> e_metric = mi, e_by = hd s \<rparr> else el i)"

fun narrow :: "nat \<Rightarrow> metric list \<Rightarrow> nat list \<Rightarrow> eliminations \<Rightarrow> nat list \<times> eliminations" where
  "narrow mi [] s el = (s, el)"
| "narrow mi (m # ms) s el =
     (if length s = 1 then (s, el)
      else let nxt = fst (survivors m s); elimBy = snd (survivors m s) in
        if nxt = [] then narrow (Suc mi) ms s el
        else narrow (Suc mi) ms nxt (add_elims mi elimBy el))"

definition rank_round :: "metric list \<Rightarrow> nat list \<Rightarrow> nat \<times> eliminations" where
  "rank_round ms remaining =
     (let s = fst (narrow 0 ms remaining Map.empty); el = snd (narrow 0 ms remaining Map.empty);
          winner = hd s
      in (winner, add_ties (length ms) s el))"

lemma narrow_in: "s \<noteq> [] \<Longrightarrow> fst (narrow mi ms s el) \<noteq> [] \<and> set (fst (narrow mi ms s el)) \<subseteq> set s"
proof (induction mi ms s el rule: narrow.induct)
  case (2 mi m ms s el)
  have sub: "set (fst (survivors m s)) \<subseteq> set s" by (auto simp: survivors_def survives_def)
  show ?case
  proof (cases "length s = 1 \<or> fst (survivors m s) = []")
    case True
    then show ?thesis using 2 by (auto simp: Let_def)
  next
    case False
    then show ?thesis using "2.IH"(2)[OF _ refl refl] sub by (simp add: Let_def) blast
  qed
qed simp

lemma rank_round_in: "remaining \<noteq> [] \<Longrightarrow> fst (rank_round ms remaining) \<in> set remaining"
  using narrow_in[of remaining 0 ms Map.empty]
  by (auto simp: rank_round_def Let_def intro!: hd_in_subset)

section \<open>The loop\<close>

function rank_loop ::
  "metric list \<Rightarrow> nat list \<Rightarrow> nat list \<Rightarrow> nat array \<Rightarrow> eliminations list \<Rightarrow>
   nat list \<times> nat array \<times> eliminations list" where
  "rank_loop ms remaining order pos rounds =
     (if remaining = [] then (order, pos, rounds)
      else let winner = fst (rank_round ms remaining); el = snd (rank_round ms remaining)
        in rank_loop ms (filter (\<lambda>i. i \<noteq> winner) remaining) (order @ [winner])
             (pos(winner := length order)) (rounds @ [el]))"
  by pat_completeness auto
termination
  by (relation "measure (\<lambda>(ms, remaining, _). length remaining)")
     (auto intro!: length_filter_neq_less rank_round_in)

declare rank_loop.simps [simp del]

definition rank :: "metric list \<Rightarrow> MediaVersion list \<Rightarrow> nat list \<times> nat array \<times> eliminations list" where
  "rank ms vs = rank_loop ms (key_order vs) [] (\<lambda>_. 0) []"

definition rank_order :: "metric list \<Rightarrow> MediaVersion list \<Rightarrow> nat list" where
  "rank_order ms vs = fst (rank ms vs)"

definition rank_pos :: "metric list \<Rightarrow> MediaVersion list \<Rightarrow> nat array" where
  "rank_pos ms vs = fst (snd (rank ms vs))"

definition rank_rounds :: "metric list \<Rightarrow> MediaVersion list \<Rightarrow> eliminations list" where
  "rank_rounds ms vs = snd (snd (rank ms vs))"

section \<open>The loop as a list of winners\<close>

text \<open>The winners of the rounds, without the accumulators.\<close>

function winners :: "metric list \<Rightarrow> nat list \<Rightarrow> nat list" where
  "winners ms R =
     (if R = [] then []
      else fst (rank_round ms R) # winners ms (filter (\<lambda>i. i \<noteq> fst (rank_round ms R)) R))"
  by pat_completeness auto
termination
  by (relation "measure (\<lambda>(ms, R). length R)") (auto intro!: length_filter_neq_less rank_round_in)

declare winners.simps [simp del]

lemma winners_Nil [simp]: "winners ms [] = []"
  by (simp add: winners.simps)

lemma set_winners [simp]: "set (winners ms R) = set R"
proof (induction ms R rule: winners.induct)
  case (1 ms R)
  then show ?case
    using rank_round_in[of R ms] by (subst winners.simps) auto
qed

lemma distinct_winners: "distinct (winners ms R)"
proof (induction ms R rule: winners.induct)
  case (1 ms R)
  then show ?case by (subst winners.simps) auto
qed

lemma rank_loop_winners:
  "fst (rank_loop ms R order pos rounds) = order @ winners ms R"
proof (induction ms R order pos rounds rule: rank_loop.induct)
  case (1 ms R order pos rounds)
  show ?case
    using "1.IH"[OF _ refl refl]
    by (cases "R = []")
       (simp_all add: rank_loop.simps[of ms R order] rank_loop.simps[of ms "[]"] winners.simps[of ms R]
         Let_def fun_upd_def)
qed

lemma rank_loop_pos:
  assumes "distinct order" and "set order \<inter> set R = {}"
    and "\<And>p. p < length order \<Longrightarrow> pos (order ! p) = p"
    and "p < length (order @ winners ms R)"
  shows "fst (snd (rank_loop ms R order pos rounds)) ((order @ winners ms R) ! p) = p"
  using assms
proof (induction ms R order pos rounds rule: rank_loop.induct)
  case (1 ms R order pos rounds)
  show ?case
  proof (cases "R = []")
    case True
    then show ?thesis using "1.prems" by (simp add: rank_loop.simps)
  next
    case False
    define w el where w: "w = fst (rank_round ms R)" "el = snd (rank_round ms R)"
    have wR: "w \<in> set R" using rank_round_in[OF False, of ms] w by simp
    let ?R = "filter (\<lambda>i. i \<noteq> w) R"
    have ws: "winners ms R = w # winners ms ?R" using False w by (subst winners.simps) simp
    have "fst (snd (rank_loop ms ?R (order @ [w]) (pos(w := length order)) (rounds @ [el])))
        (((order @ [w]) @ winners ms ?R) ! p) = p"
    proof (rule "1.IH"[OF False w])
      show "(pos(w := length order)) ((order @ [w]) ! q) = q" if "q < length (order @ [w])" for q
        using that wR "1.prems"(2,3) by (auto simp: nth_append less_Suc_eq dest: nth_mem)
    qed (use "1.prems" wR ws in auto)
    then show ?thesis using False w ws by (simp add: rank_loop.simps[of ms R] Let_def fun_upd_def)
  qed
qed

lemma rank_order_winners: "rank_order ms vs = winners ms (key_order vs)"
  by (simp add: rank_order_def rank_def rank_loop_winners)

lemma set_key_order [simp]: "set (key_order vs) = {0..<length vs}"
  by (simp add: key_order_def)

lemma distinct_key_order [simp]: "distinct (key_order vs)"
  by (simp add: key_order_def)

lemma set_rank_order [simp]: "set (rank_order ms vs) = {0..<length vs}"
  by (simp add: rank_order_winners)

lemma distinct_rank_order [simp]: "distinct (rank_order ms vs)"
  by (simp add: rank_order_winners distinct_winners)

lemma length_rank_order [simp]: "length (rank_order ms vs) = length vs"
  using distinct_card[OF distinct_rank_order, of ms vs] by simp

lemma rank_pos_nth: "p < length vs \<Longrightarrow> rank_pos ms vs (rank_order ms vs ! p) = p"
  using rank_loop_pos[of "[]" "key_order vs" "\<lambda>_. 0" p ms "[]"]
  by (simp add: rank_pos_def rank_def rank_order_winners[symmetric])

lemma rank_nth_pos:
  assumes "i < length vs"
  shows "rank_pos ms vs i < length vs" "rank_order ms vs ! rank_pos ms vs i = i"
proof -
  obtain p where p: "p < length vs" "rank_order ms vs ! p = i"
    using assms in_set_conv_nth[of i "rank_order ms vs"] by auto
  then show "rank_pos ms vs i < length vs" "rank_order ms vs ! rank_pos ms vs i = i"
    using rank_pos_nth[of p vs ms] by simp_all
qed

section \<open>Every winner is the brute-force one\<close>

abbreviation narrowed :: "metric list \<Rightarrow> nat list \<Rightarrow> nat list" where
  "narrowed ms s \<equiv> fold unbeaten ms s"

lemma narrowed_surv:
  "\<forall>m\<in>set ms. wf_metric m \<Longrightarrow> narrowed ms s = fold (\<lambda>m s. fst (survivors m s)) ms s"
  by (intro fold_cong) (auto simp: survivors_unbeaten)

lemma fst_narrow:
  assumes "\<forall>m\<in>set ms. wf_metric m" and "s \<noteq> []"
  shows "fst (narrow mi ms s el) = narrowed ms s"
  using assms
proof (induction mi ms s el rule: narrow.induct)
  case (2 mi m ms s el)
  show ?case
  proof (cases "length s = 1")
    case True
    then obtain i where "s = [i]" by (auto simp: length_Suc_conv)
    then show ?thesis
      using 2 narrowed_surv[of "m # ms" s] el.narrow_one[of "m # ms" i] by simp
  next
    case False
    have sv: "fst (survivors m s) = unbeaten m s" using survivors_unbeaten[of m s] 2 by simp
    then have ne: "fst (survivors m s) \<noteq> []" using unbeaten_nonempty "2.prems" by simp
    show ?thesis using "2.IH"(2)[OF False refl refl ne] ne sv False "2.prems" by (simp add: Let_def)
  qed
qed simp

lemma rank_round_winner:
  "\<forall>m\<in>set ms. wf_metric m \<Longrightarrow> R \<noteq> [] \<Longrightarrow> fst (rank_round ms R) = hd (narrowed ms R)"
  using fst_narrow[of ms R 0 Map.empty] by (simp add: rank_round_def Let_def)

lemma winners_drop:
  assumes "p < length (winners ms R)"
  shows "winners ms R ! p = fst (rank_round ms (filter (\<lambda>i. i \<in> set (drop p (winners ms R))) R))"
  using assms
proof (induction ms R arbitrary: p rule: winners.induct)
  case (1 ms R)
  then have ne: "R \<noteq> []" by auto
  let ?w = "fst (rank_round ms R)" and ?R = "filter (\<lambda>i. i \<noteq> fst (rank_round ms R)) R"
  have ws: "winners ms R = ?w # winners ms ?R" using ne by (subst winners.simps) simp
  show ?case
  proof (cases p)
    case 0
    then show ?thesis using ws set_winners[of ms R] by (simp del: set_winners)
  next
    case (Suc q)
    then have "q < length (winners ms ?R)" using 1 ws by simp
    from "1.IH"[OF ne this] have
      "winners ms ?R ! q = fst (rank_round ms (filter (\<lambda>i. i \<in> set (drop q (winners ms ?R))) ?R))" .
    moreover have "filter (\<lambda>i. i \<in> set (drop q (winners ms ?R))) ?R =
        filter (\<lambda>i. i \<in> set (drop q (winners ms ?R))) R"
    proof -
      have "x \<noteq> ?w" if "x \<in> set (drop q (winners ms ?R))" for x
        using in_set_dropD[OF that] by simp
      then show ?thesis unfolding filter_filter by (intro filter_cong[OF refl]) blast
    qed
    ultimately show ?thesis using ws Suc by simp
  qed
qed

section \<open>The recorded eliminations are true\<close>

text \<open>An elimination of \<open>i\<close> names a member of the round that beats \<open>i\<close> on the metric it names.\<close>

definition elim_true :: "metric list \<Rightarrow> nat set \<Rightarrow> eliminations \<Rightarrow> bool" where
  "elim_true ms S el \<longleftrightarrow>
     (\<forall>i e. el i = Some e \<longrightarrow> e_metric e < length ms \<and> e_by e \<in> S \<and> beats (ms ! e_metric e) (e_by e) i)"

lemma narrow_true:
  assumes "elim_true (pre @ ms) S el" and "set s \<subseteq> S" and "mi = length pre"
  shows "elim_true (pre @ ms) S (snd (narrow mi ms s el))"
  using assms
proof (induction mi ms s el arbitrary: pre rule: narrow.induct)
  case (2 mi m ms s el)
  let ?nxt = "fst (survivors m s)" and ?by = "snd (survivors m s)"
  let ?el = "add_elims mi ?by el"
  have el': "elim_true (pre @ m # ms) S ?el"
    using 2(3-5) elim_by_beats[of m s]
    by (fastforce simp: elim_true_def survivors_def elim_in_def add_elims_def nth_append split: option.splits if_splits)
  have sub: "set ?nxt \<subseteq> S" using 2(4) by (auto simp: survivors_def survives_def)
  show ?case
    using "2.IH"(1)[OF _ refl refl, of "pre @ [m]"] "2.IH"(2)[OF _ refl refl, of "pre @ [m]"] 2(3-5) el' sub
    by (auto simp add: Let_def)
qed simp

lemma narrow_dom:
  assumes "s \<noteq> []" and "dom el \<union> set s = D"
  shows "dom (snd (narrow mi ms s el)) \<union> set (fst (narrow mi ms s el)) = D"
  using assms
proof (induction mi ms s el rule: narrow.induct)
  case (2 mi m ms s el)
  let ?nxt = "fst (survivors m s)" and ?by = "snd (survivors m s)"
  let ?el = "add_elims mi ?by el"
  have D: "dom ?el \<union> set ?nxt = D"
    using 2(4) by (auto simp: survivors_def survives_def elim_in_def add_elims_def dom_def split: option.splits if_splits)
  show ?case
    using "2.IH"(1)[OF _ refl refl] "2.IH"(2)[OF _ refl refl] 2(3,4) D by (simp add: Let_def)
qed simp

lemma rank_round_elims:
  fixes ms R
  defines "w \<equiv> fst (rank_round ms R)" and "el \<equiv> snd (rank_round ms R)"
  assumes "R \<noteq> []" and "distinct R"
  shows "\<And>i e. el i = Some e \<Longrightarrow> e_metric e < length ms \<Longrightarrow>
           e_by e \<in> set R \<and> beats (ms ! e_metric e) (e_by e) i"
    and "\<And>i e. el i = Some e \<Longrightarrow> \<not> e_metric e < length ms \<Longrightarrow> e = \<lparr> e_metric = length ms, e_by = w \<rparr>"
    and "set R - {w} \<subseteq> dom el"
proof -
  let ?s = "fst (narrow 0 ms R Map.empty)" and ?el = "snd (narrow 0 ms R Map.empty)"
  have t: "elim_true ms (set R) ?el"
    using narrow_true[of "[]" ms "set R" Map.empty R 0] by (simp add: elim_true_def)
  have s: "?s \<noteq> []" "set ?s \<subseteq> set R" using narrow_in[OF assms(3), of 0 ms Map.empty] by simp_all
  have d: "dom ?el \<union> set ?s = set R" using narrow_dom[OF assms(3), of Map.empty "set R" 0 ms] by simp
  have w: "w = hd ?s" and el: "el = (\<lambda>i. if i \<in> set (tl ?s) then Some \<lparr> e_metric = length ms, e_by = w \<rparr> else ?el i)"
    unfolding w_def el_def by (simp_all add: rank_round_def Let_def add_ties_def[abs_def] cong: if_cong)
  show "e_by e \<in> set R \<and> beats (ms ! e_metric e) (e_by e) i"
    if "el i = Some e" "e_metric e < length ms" for i e
    using that t by (auto simp: el elim_true_def split: if_splits)
  show "e = \<lparr> e_metric = length ms, e_by = w \<rparr>" if "el i = Some e" "\<not> e_metric e < length ms" for i e
    using that t by (auto simp: el elim_true_def split: if_splits)
  have "set ?s = insert w (set (tl ?s))" using s(1) w by (metis list.collapse list.simps(15))
  then show "set R - {w} \<subseteq> dom el"
    using d by (auto simp: el dom_def split: if_splits)
qed

section \<open>Plain metrics: the lexicographic order\<close>

definition plain_metric :: "metric \<Rightarrow> bool" where
  "plain_metric m \<longleftrightarrow> m_class m = None \<and> m_floor m = None \<and> m_tolPct m \<le> 0 \<and> m_minDelta m \<le> 0"

text \<open>\<open>lex_better ms key a b\<close>: \<open>a\<close> is at least as good as \<open>b\<close> metric by metric, the key last.\<close>

fun lex_better :: "metric list \<Rightarrow> (nat \<Rightarrow> string) \<Rightarrow> nat \<Rightarrow> nat \<Rightarrow> bool" where
  "lex_better [] key a b \<longleftrightarrow> key a \<le> key b"
| "lex_better (m # ms) key a b \<longleftrightarrow> beats m a b \<or> (\<not> beats m b a \<and> lex_better ms key a b)"

lemma plain_wf: "plain_metric m \<Longrightarrow> wf_metric m"
  by (simp add: plain_metric_def wf_metric_def)

lemma beats_plain:
  "plain_metric m \<Longrightarrow> beats m a b \<longleftrightarrow>
     m_present m a \<and> (\<not> m_present m b \<or> m_score m b < m_score m a)"
  by (auto simp: beats_def plain_metric_def comparable_def Let_def)

lemma hd_narrowed_lex:
  assumes "\<forall>m\<in>set ms. plain_metric m" and "sorted_wrt (\<lambda>a b. key a \<le> key b) s" and "x \<in> set s"
  shows "lex_better ms key (hd (narrowed ms s)) x"
  using assms
proof (induction ms arbitrary: s)
  case Nil
  then show ?case by (cases s) auto
next
  case (Cons m ms)
  let ?u = "unbeaten m s" and ?w = "hd (narrowed ms (unbeaten m s))"
  have wf: "\<forall>m\<in>set ms. wf_metric m" using Cons.prems plain_wf by auto
  have une: "?u \<noteq> []" using unbeaten_nonempty Cons.prems(3) by (cases s) auto
  have "?w \<in> set ?u"
    using narrowed_surv[OF wf] el.narrow_ne[OF wf une] el.narrow_subset[OF wf, of ?u]
    by (auto intro!: hd_in_subset)
  then have w: "?w \<in> set s" "\<forall>j\<in>set s. \<not> beats m j ?w" by (auto simp: unbeaten_def)
  have srt: "sorted_wrt (\<lambda>a b. key a \<le> key b) ?u"
    using Cons.prems(2) by (simp add: unbeaten_def sorted_wrt_filter)
  show ?case
  proof (cases "x \<in> set ?u")
    case True
    then have "lex_better ms key ?w x" using Cons.IH[OF _ srt] Cons.prems(1) by simp
    then show ?thesis using w Cons.prems(3) by auto
  next
    case False
    then obtain j where "j \<in> set s" "beats m j x" using Cons.prems(3) by (auto simp: unbeaten_def)
    moreover have "\<not> beats m j ?w" using w calculation by blast
    moreover have "plain_metric m" using Cons.prems(1) by simp
    ultimately have "beats m ?w x" by (auto simp: beats_plain)
    then show ?thesis by simp
  qed
qed

lemma winners_lex:
  assumes "\<forall>m\<in>set ms. plain_metric m" and "sorted_wrt (\<lambda>a b. key a \<le> key b) R"
  shows "sorted_wrt (lex_better ms key) (winners ms R)"
  using assms
proof (induction ms R rule: winners.induct)
  case (1 ms R)
  show ?case
  proof (cases "R = []")
    case False
    let ?w = "fst (rank_round ms R)" and ?R = "filter (\<lambda>i. i \<noteq> fst (rank_round ms R)) R"
    have "?w = hd (narrowed ms R)"
      using rank_round_winner[OF _ False] "1.prems"(1) plain_wf by auto
    then have "lex_better ms key ?w x" if "x \<in> set R" for x
      using hd_narrowed_lex[OF "1.prems" that] by simp
    then show ?thesis
      using "1.IH"[OF False "1.prems"(1)] "1.prems"(2) False
      by (subst winners.simps) (simp add: sorted_wrt_filter)
  qed simp
qed

lemma key_order_sorted: "sorted_wrt (\<lambda>a b. v_key (vs ! a) \<le> v_key (vs ! b)) (key_order vs)"
  using sorted_sort_key[of "vat v_key vs" "[0..<length vs]"]
  by (simp add: key_order_def sorted_map)

end
