(* ===== verification/Evaluation.thy ===== *)
theory Evaluation
  imports Criteria Ranking
begin

text \<open>
  The working state of one \<open>Evaluate\<close> call (\<open>evaluation\<close> of \<open>evaluate.go\<close>) and its first steps: the
  checks of the group, \<open>newEvaluation\<close>, \<open>rank\<close> and \<open>partition\<close>. The slices that the decision passes
  write are bundled in \<open>marks\<close>.
\<close>

section \<open>State\<close>

record EvalEnv =
  env_Now :: time
  env_MinAge :: duration
  env_Libraries :: "int \<rightharpoonup> Library"
  env_DifferentArrInstancesIntentional :: bool
  env_MaxGroupSize :: int
  env_AllowDiscRemoval :: bool
  env_KeepPlayableCopy :: bool

record marks =
  mk_keep :: "bool array"
  mk_protected :: "bool array"
  mk_protReasons :: "string list array"
  mk_overrideApplied :: "bool array"
  mk_notes :: "string list array"

record evaluation =
  ev_g :: DuplicateGroup
  ev_p :: Profile
  ev_env :: EvalEnv
  ev_now :: time
  ev_vs :: "MediaVersion list"
  ev_health :: "healthInfo array"
  ev_eligible :: "bool array"
  ev_metrics :: "metric list"
  ev_fnScores :: "metric list"
  ev_watchLabels :: "string list"
  ev_order :: "nat list"
  ev_pos :: "nat array"
  ev_rounds :: "eliminations list"
  ev_keepPer :: string
  ev_part :: "string array"
  ev_partLabel :: "string \<rightharpoonup> string"
  ev_partMembers :: "(string \<times> nat list) list"
  ev_partBest :: "string \<rightharpoonup> nat"
  ev_keepCount :: int
  ev_rankKeep :: "bool array"
  ev_engineKeep :: "bool array"
  ev_marks :: marks
  ev_sameComp :: "nat array"
  ev_sameMembers :: "(nat \<times> nat list) list"
  ev_samePairs :: "(nat \<times> nat) list"
  ev_intentional :: bool
  ev_arrNames :: "string list"
  ev_youngestAge :: duration
  ev_youngUnknown :: bool
  ev_youngFuture :: bool

section \<open>Which groups can be evaluated\<close>

datatype eval_error =
    NilGroup
  | NoFiles string
  | NoVersionKey string nat
  | DuplicateVersion string string

fun check_files :: "string \<Rightarrow> nat \<Rightarrow> string list \<Rightarrow> GroupFile list \<Rightarrow> eval_error option" where
  "check_files gkey i seen [] = None"
| "check_files gkey i seen (f # fs) =
     (let k = TrimSpace (v_key (f_version f)) in
      if k = [] then Some (NoVersionKey gkey i)
      else if k \<in> set seen then Some (DuplicateVersion gkey k)
      else check_files gkey (Suc i) (k # seen) fs)"

text \<open>The group is a pointer in the source: \<open>None\<close> is nil.\<close>

definition checkEvaluable :: "DuplicateGroup option \<Rightarrow> eval_error option" where
  "checkEvaluable g =
     (case g of
        None \<Rightarrow> Some NilGroup
      | Some g \<Rightarrow> if g_files g = [] then Some (NoFiles (g_key g)) else check_files (g_key g) 0 [] (g_files g))"

lemma check_files_None:
  "check_files k i seen fs = None \<longleftrightarrow>
     (\<forall>f\<in>set fs. TrimSpace (v_key (f_version f)) \<noteq> []) \<and>
     distinct (map (\<lambda>f. TrimSpace (v_key (f_version f))) fs) \<and>
     set (map (\<lambda>f. TrimSpace (v_key (f_version f))) fs) \<inter> set seen = {}"
  by (induction k i seen fs rule: check_files.induct) (auto simp: Let_def)

section \<open>Starting an evaluation\<close>

definition no_marks :: marks where
  "no_marks = \<lparr> mk_keep = (\<lambda>_. False), mk_protected = (\<lambda>_. False), mk_protReasons = (\<lambda>_. []),
     mk_overrideApplied = (\<lambda>_. False), mk_notes = (\<lambda>_. []) \<rparr>"

definition eligible_version :: "MediaVersion \<Rightarrow> bool" where
  "eligible_version v \<longleftrightarrow> \<not> isOptimized v \<and> \<not> isUnavailable v"

definition profile_metric ::
  "golib \<Rightarrow> MediaVersion list \<Rightarrow> healthInfo array \<Rightarrow> Criterion \<Rightarrow> (Criterion \<times> metric) option" where
  "profile_metric lib vs health c = map_option (Pair c) (buildMetric lib c vs health)"

definition profile_metrics ::
  "golib \<Rightarrow> Criterion list \<Rightarrow> MediaVersion list \<Rightarrow> healthInfo array \<Rightarrow> (Criterion \<times> metric) list" where
  "profile_metrics lib cs vs health =
     List.map_filter (profile_metric lib vs health) cs"

definition group_health :: "string \<Rightarrow> MediaVersion list \<Rightarrow> healthInfo array" where
  "group_health mt vs i = versionHealth (vs ! i) (durationPeers mt vs i)"

definition newEvaluation :: "golib \<Rightarrow> DuplicateGroup \<Rightarrow> Profile \<Rightarrow> EvalEnv \<Rightarrow> evaluation" where
  "newEvaluation lib g p env =
     (let vs = map f_version (g_files g);
          health = group_health (g_mediaType g) vs;
          pms = profile_metrics lib (pf_criteria p) vs health
      in \<lparr> ev_g = g, ev_p = p, ev_env = env,
           ev_now = (if IsZero (env_Now env) then time_now lib else env_Now env),
           ev_vs = vs, ev_health = health,
           ev_eligible = vat eligible_version vs,
           ev_metrics = map snd pms @ tiebreakMetrics vs,
           ev_fnScores = map snd (filter (\<lambda>(c, m). c_type c = CritFilenameScore) pms),
           ev_watchLabels = map (\<lambda>(c, m). m_label m) (filter (\<lambda>(c, m). isWatchCriterion (c_type c)) pms),
           ev_order = [], ev_pos = (\<lambda>_. 0), ev_rounds = [],
           ev_keepPer = [], ev_part = (\<lambda>_. []), ev_partLabel = Map.empty, ev_partMembers = [],
           ev_partBest = Map.empty, ev_keepCount = max (pf_keepCount p) 1,
           ev_rankKeep = (\<lambda>_. False), ev_engineKeep = (\<lambda>_. False), ev_marks = no_marks,
           ev_sameComp = (\<lambda>_. 0), ev_sameMembers = [], ev_samePairs = [],
           ev_intentional = False, ev_arrNames = [],
           ev_youngestAge = 0, ev_youngUnknown = False, ev_youngFuture = False \<rparr>)"

definition ev_rank :: "evaluation \<Rightarrow> evaluation" where
  "ev_rank ev =
     (let r = rank (ev_metrics ev) (ev_vs ev)
      in ev \<lparr> ev_order := fst r, ev_pos := fst (snd r), ev_rounds := snd (snd r) \<rparr>)"

section \<open>Partitions\<close>

definition partitionOf :: "string \<Rightarrow> MediaVersion \<Rightarrow> string \<times> string" where
  "partitionOf keepPer v =
     (if keepPer = KeepPerResolution then
        (let r = normResolution v in
         if r \<noteq> [] then (r, valueLabel CritResolution r) else (''?'', ''unknown-resolution''))
      else if keepPer = KeepPerDynamicRange then
        (let d = normDynamicRange (v_dynamicRange v) in
         if d \<noteq> [] then (d, valueLabel CritDynamicRange d) else (''?'', ''unknown-dynamic-range''))
      else ([], []))"

definition normKeepPer :: "string \<Rightarrow> string" where
  "normKeepPer keepPer =
     (let k = ToLower (TrimSpace keepPer)
      in if k \<noteq> KeepPerResolution \<and> k \<noteq> KeepPerDynamicRange then KeepPerNone else k)"

definition KeepPartition :: "string \<Rightarrow> MediaVersion \<Rightarrow> string \<times> string" where
  "KeepPartition keepPer v = partitionOf (normKeepPer keepPer) v"

definition part_key :: "string \<Rightarrow> MediaVersion \<Rightarrow> string" where
  "part_key keepPer v = fst (partitionOf keepPer v)"

definition add_part_label :: "string \<Rightarrow> MediaVersion list \<Rightarrow> nat \<Rightarrow> (string \<rightharpoonup> string) \<Rightarrow> (string \<rightharpoonup> string)" where
  "add_part_label keepPer vs i m = m(part_key keepPer (vs ! i) \<mapsto> snd (partitionOf keepPer (vs ! i)))"

definition best_member :: "bool array \<Rightarrow> nat list \<Rightarrow> nat" where
  "best_member eligible members =
     (case find eligible members of Some i \<Rightarrow> i | None \<Rightarrow> hd members)"

definition best_entry :: "bool array \<Rightarrow> string \<times> nat list \<Rightarrow> string \<times> nat" where
  "best_entry eligible km = (fst km, best_member eligible (snd km))"

definition part_at :: "nat list \<Rightarrow> string array \<Rightarrow> string array \<Rightarrow> string array" where
  "part_at order key part i = (if i \<in> set order then key i else part i)"

definition ev_partition :: "evaluation \<Rightarrow> evaluation" where
  "ev_partition ev =
     (let keepPer = normKeepPer (pf_keepPer (ev_p ev));
          key = vat (part_key keepPer) (ev_vs ev);
          members = group_by key (ev_order ev)
      in ev \<lparr> ev_keepPer := keepPer,
              ev_part := part_at (ev_order ev) key (ev_part ev),
              ev_partLabel := fold (add_part_label keepPer (ev_vs ev)) (ev_order ev) (ev_partLabel ev),
              ev_partMembers := members,
              ev_partBest := map_of (map (best_entry (ev_eligible ev)) members) \<rparr>)"

section \<open>What the first steps establish\<close>

text \<open>The state after \<open>newEvaluation\<close>, \<open>rank\<close> and \<open>partition\<close>.\<close>

definition ranked :: "golib \<Rightarrow> DuplicateGroup \<Rightarrow> Profile \<Rightarrow> EvalEnv \<Rightarrow> evaluation" where
  "ranked lib g p env = ev_partition (ev_rank (newEvaluation lib g p env))"

lemma wf_ev_metrics: "m \<in> set (ev_metrics (newEvaluation lib g p env)) \<Longrightarrow> wf_metric m"
  by (auto simp: newEvaluation_def Let_def profile_metrics_def profile_metric_def map_filter_def
      dest: wf_buildMetric wf_tiebreakMetrics)

lemma ranked_simps [simp]:
  "ev_g (ranked lib g p env) = g" "ev_p (ranked lib g p env) = p" "ev_env (ranked lib g p env) = env"
  "ev_vs (ranked lib g p env) = map f_version (g_files g)"
  "ev_marks (ranked lib g p env) = no_marks"
  "ev_rankKeep (ranked lib g p env) = (\<lambda>_. False)"
  "ev_keepCount (ranked lib g p env) = max (pf_keepCount p) 1"
  "ev_metrics (ranked lib g p env) = ev_metrics (newEvaluation lib g p env)"
  by (simp_all add: ranked_def ev_partition_def ev_rank_def newEvaluation_def Let_def)

lemma ranked_eligible:
  "ev_eligible (ranked lib g p env) = vat eligible_version (map f_version (g_files g))"
  by (simp add: ranked_def ev_partition_def ev_rank_def newEvaluation_def Let_def)

lemma ranked_order:
  "ev_order (ranked lib g p env) =
     rank_order (ev_metrics (newEvaluation lib g p env)) (map f_version (g_files g))"
  "ev_pos (ranked lib g p env) =
     rank_pos (ev_metrics (newEvaluation lib g p env)) (map f_version (g_files g))"
  by (simp_all add: ranked_def ev_partition_def ev_rank_def newEvaluation_def Let_def
      rank_order_def rank_pos_def)

lemma ranked_members:
  "ev_partMembers (ranked lib g p env) =
     group_by (\<lambda>i. fst (KeepPartition (pf_keepPer p) (map f_version (g_files g) ! i)))
       (ev_order (ranked lib g p env))"
  by (simp add: ranked_def ev_partition_def ev_rank_def newEvaluation_def Let_def KeepPartition_def
      vat_def[abs_def] part_key_def)

end
