(* ===== verification/Decide.thy ===== *)
theory Decide
  imports Evaluation
begin

text \<open>
  The decisions of \<open>evaluate.go\<close> and \<open>crossserver.go\<close>: protections, the keepers chosen by rank, the
  passes that add keepers (\<open>keepPlayable\<close>, \<open>protectSameFile\<close>, \<open>protectOtherServers\<close>), the user's
  overrides, and \<open>decide\<close>, which composes them. The interface \<open>keeper_pass\<close> states what every pass
  promises: it only adds keepers and protections, and it keeps what it protects.
\<close>

section \<open>Protections\<close>

definition matchProtection ::
  "golib \<Rightarrow> Protection \<Rightarrow> MediaVersion \<Rightarrow> (int \<rightharpoonup> Library) \<Rightarrow> string option" where
  "matchProtection lib pr v libs =
     (let val = TrimSpace (pr_value pr); t = ToLower (TrimSpace (pr_type pr)) in
      if val = [] then None
      else if t = ProtectPathGlob then
        (if protectionGlobMatch lib val (versionPaths v) then Some (''path matches '' @ val) else None)
      else if t = ProtectLibrary then
        (let label = libraryLabel v libs in
         case ParseInt val of
           Some i \<Rightarrow> if i = v_libraryID v then Some (''in library '' @ label) else None
         | None \<Rightarrow> if EqualFold val label then Some (''in library '' @ label) else None)
      else if t = ProtectArrInstance then
        (case v_arr v of
           Some a \<Rightarrow> if arrMatches (Some a) val then Some (''tracked by '' @ arrName a) else None
         | None \<Rightarrow> None)
      else if t = ProtectArrTag then
        (case v_arr v of
           Some a \<Rightarrow> if \<exists>x\<in>set (a_tags a). EqualFold (TrimSpace x) val then Some (''*arr tag '' @ val) else None
         | None \<Rightarrow> None)
      else None)"

definition protection_of :: "golib \<Rightarrow> MediaVersion \<Rightarrow> (int \<rightharpoonup> Library) \<Rightarrow> Protection \<Rightarrow> string option" where
  "protection_of lib v libs pr = matchProtection lib pr v libs"

definition protectionReasons :: "golib \<Rightarrow> evaluation \<Rightarrow> nat \<Rightarrow> string list" where
  "protectionReasons lib ev i =
     (let v = ev_vs ev ! i in
      (if isOptimized v then [''Plex optimized version (never touched)''] else []) @
      (if isUnavailable v \<and> readOnlyVersion v then [''the file is missing on disk (not acted on)'']
       else if isUnavailable v then [''the media server reports the file as missing (not acted on)'']
       else []) @
      multiEpisodeReasons v @
      shortcutReasons v @
      discProtectionReasons (g_mediaType (ev_g ev)) v (env_AllowDiscRemoval (ev_env ev)) @
      (if discMemberPath v \<noteq> [] then
         [''its file '' @ discMemberPath v @
          '' lies inside a full-disc backup (a disc is only ever removed as a whole)''] else []) @
      (case v_arr v of
         Some a \<Rightarrow>
           if ev_intentional ev \<and> a_instanceID a \<noteq> 0 then
             [''tracked by '' @ arrName a @ '' '' @ emdash @
              '' versions tracked by different *arr instances are treated as intentional''] else []
       | None \<Rightarrow> []) @
      List.map_filter (protection_of lib v (env_Libraries (ev_env ev))) (pf_protections (ev_p ev)))"

definition addProtection :: "nat \<Rightarrow> string \<Rightarrow> marks \<Rightarrow> marks" where
  "addProtection i reason mk =
     mk \<lparr> mk_protected := (mk_protected mk)(i := True),
          mk_protReasons := (mk_protReasons mk)(i := add_new reason (mk_protReasons mk i)) \<rparr>"

definition add_note :: "nat \<Rightarrow> string \<Rightarrow> marks \<Rightarrow> marks" where
  "add_note i s mk = mk \<lparr> mk_notes := (mk_notes mk)(i := mk_notes mk i @ [s]) \<rparr>"

definition set_keep :: "nat \<Rightarrow> bool \<Rightarrow> marks \<Rightarrow> marks" where
  "set_keep i b mk = mk \<lparr> mk_keep := (mk_keep mk)(i := b) \<rparr>"

definition set_applied :: "nat \<Rightarrow> bool \<Rightarrow> marks \<Rightarrow> marks" where
  "set_applied i b mk = mk \<lparr> mk_overrideApplied := (mk_overrideApplied mk)(i := b) \<rparr>"

lemma marks_simps [simp]:
  "mk_keep (addProtection i r mk) = mk_keep mk"
  "mk_protected (addProtection i r mk) = (mk_protected mk)(i := True)"
  "mk_overrideApplied (addProtection i r mk) = mk_overrideApplied mk"
  "mk_notes (addProtection i r mk) = mk_notes mk"
  "mk_protReasons (addProtection i r mk) = (mk_protReasons mk)(i := add_new r (mk_protReasons mk i))"
  "mk_keep (add_note i s mk) = mk_keep mk" "mk_protected (add_note i s mk) = mk_protected mk"
  "mk_overrideApplied (add_note i s mk) = mk_overrideApplied mk"
  "mk_protReasons (add_note i s mk) = mk_protReasons mk"
  "mk_keep (set_keep i b mk) = (mk_keep mk)(i := b)" "mk_protected (set_keep i b mk) = mk_protected mk"
  "mk_overrideApplied (set_keep i b mk) = mk_overrideApplied mk"
  "mk_protReasons (set_keep i b mk) = mk_protReasons mk"
  "mk_keep (set_applied i b mk) = mk_keep mk" "mk_protected (set_applied i b mk) = mk_protected mk"
  "mk_overrideApplied (set_applied i b mk) = (mk_overrideApplied mk)(i := b)"
  "mk_protReasons (set_applied i b mk) = mk_protReasons mk"
  by (simp_all add: addProtection_def add_note_def set_keep_def set_applied_def)

section \<open>Other servers (crossserver.go)\<close>

definition survivor :: "OtherListing \<Rightarrow> string list \<Rightarrow> bool" where
  "survivor e removed \<longleftrightarrow>
     (\<exists>ot\<in>set (o_others e). \<forall>r\<in>set removed. r \<notin> set (om_same ot) \<and> r \<in> set (om_distinct ot))"

definition removedKeys :: "MediaVersion list \<Rightarrow> bool array \<Rightarrow> string list" where
  "removedKeys vs keep = map (vat v_key vs) (filter (\<lambda>i. \<not> keep i) [0..<length vs])"

definition serverLabel :: "OtherListing \<Rightarrow> string" where
  "serverLabel e =
     (if TrimSpace (o_serverName e) \<noteq> [] then TrimSpace (o_serverName e)
      else ''media server #'' @ Itoa (o_serverID e))"

definition onlyCopyReason :: "OtherListing \<Rightarrow> string" where
  "onlyCopyReason e =
     (let title = (if TrimSpace (o_itemTitle e) = [] then ''item '' @ o_ratingKey e else TrimSpace (o_itemTitle e));
          lb = (if TrimSpace (o_libraryTitle e) = [] then ''library #'' @ Itoa (o_libraryID e)
                else TrimSpace (o_libraryTitle e))
      in ''the only copy of '' @ Quote title @ '' on '' @ serverLabel e @ '' ('' @ lb @ '')'' @
         (if o_others e \<noteq> [] then '': its other versions cannot be proven a different file'' else []) @
         (if TrimSpace (o_hint e) \<noteq> [] then '' '' @ emdash @ '' '' @ TrimSpace (o_hint e) else []))"

text \<open>The first listing that needs the version: the same file, and the item keeps no survivor.\<close>

definition needs :: "string list \<Rightarrow> OtherListing \<Rightarrow> bool" where
  "needs removed e \<longleftrightarrow> o_match e = OtherSameFile \<and> \<not> survivor e removed"

definition needed_by :: "string list \<Rightarrow> MediaVersion \<Rightarrow> OtherListing option" where
  "needed_by removed v =
     find (needs removed) (v_otherServers v)"

definition override_of :: "evaluation \<Rightarrow> nat \<Rightarrow> string" where
  "override_of ev i = TrimSpace (f_override (g_files (ev_g ev) ! i))"

definition wants_remove :: "evaluation \<Rightarrow> nat \<Rightarrow> bool" where
  "wants_remove ev i \<longleftrightarrow> EqualFold (override_of ev i) DecisionRemove"

definition other_step :: "evaluation \<Rightarrow> bool \<Rightarrow> string list \<Rightarrow> nat \<Rightarrow> bool \<times> marks \<Rightarrow> bool \<times> marks" where
  "other_step ev afterOverrides removed i st =
     (let mk = snd st; v = ev_vs ev ! i in
      if mk_keep mk i \<or> v_otherServers v = [] then st
      else case needed_by removed v of
             None \<Rightarrow> st
           | Some e \<Rightarrow>
               let mk1 = (if afterOverrides \<and> wants_remove ev i then
                            add_note i (''Override ignored '' @ emdash @ '' removing it would leave '' @ serverLabel e @
                                    '' without a copy'') (set_applied i False mk)
                          else mk)
               in (True, addProtection i (onlyCopyReason e) (set_keep i True mk1)))"

definition protectOtherServers :: "evaluation \<Rightarrow> bool \<Rightarrow> marks \<Rightarrow> bool \<times> marks" where
  "protectOtherServers ev afterOverrides mk =
     fold (other_step ev afterOverrides (removedKeys (ev_vs ev) (mk_keep mk)))
       [0..<length (ev_vs ev)] (False, mk)"

section \<open>A playable copy, and same files\<close>

definition playableReason :: string where
  "playableReason = ''kept so Plex has a playable copy (the best version is a full disc, which Plex cannot play; Settings '' @
     rarrow @ '' Media Management '' @ rarrow @ '' Always Keep a Plex-Playable Copy)''"

definition plexPlayable :: "MediaVersion \<Rightarrow> bool" where
  "plexPlayable v \<longleftrightarrow> v_disc v = None \<and> discMemberPath v = []"

definition kept_eligible :: "evaluation \<Rightarrow> marks \<Rightarrow> nat \<Rightarrow> bool" where
  "kept_eligible ev mk i \<longleftrightarrow> mk_keep mk i \<and> ev_eligible ev i"

definition playable_at :: "evaluation \<Rightarrow> nat \<Rightarrow> bool" where
  "playable_at ev i \<longleftrightarrow> plexPlayable (ev_vs ev ! i)"

definition playable_candidate :: "evaluation \<Rightarrow> marks \<Rightarrow> nat \<Rightarrow> bool" where
  "playable_candidate ev mk i \<longleftrightarrow> ev_eligible ev i \<and> playable_at ev i \<and> \<not> mk_keep mk i"

definition playable_step :: "evaluation \<Rightarrow> bool \<Rightarrow> nat list \<Rightarrow> marks \<Rightarrow> marks" where
  "playable_step ev afterOverrides members mk =
     (let kept = filter (kept_eligible ev mk) members in
      if kept = [] \<or> list_ex (playable_at ev) kept then mk
      else case find (playable_candidate ev mk) members of
             None \<Rightarrow> mk
           | Some i \<Rightarrow>
               let mk1 = (if afterOverrides \<and> mk_overrideApplied mk i then
                            add_note i (''Override ignored '' @ emdash @
                                    '' it would leave only a full disc, which Plex cannot play'') (set_applied i False mk)
                          else mk)
               in addProtection i playableReason (set_keep i True mk1))"

definition playable_part :: "evaluation \<Rightarrow> bool \<Rightarrow> string \<Rightarrow> marks \<Rightarrow> marks" where
  "playable_part ev afterOverrides k = playable_step ev afterOverrides (members_of (ev_partMembers ev) k)"

definition keepPlayable :: "evaluation \<Rightarrow> bool \<Rightarrow> marks \<Rightarrow> marks" where
  "keepPlayable ev afterOverrides mk =
     (if \<not> env_KeepPlayableCopy (ev_env ev) then mk
      else fold (playable_part ev afterOverrides)
             (sort (map fst (ev_partMembers ev))) mk)"

text \<open>The best-ranked kept member of a component.\<close>

definition better_keeper :: "nat array \<Rightarrow> bool array \<Rightarrow> nat \<Rightarrow> nat option \<Rightarrow> nat option" where
  "better_keeper pos keep i keeper =
     (if keep i \<and> (case keeper of None \<Rightarrow> True | Some k \<Rightarrow> pos i < pos k) then Some i else keeper)"

definition best_kept :: "nat array \<Rightarrow> bool array \<Rightarrow> nat list \<Rightarrow> nat option" where
  "best_kept pos keep members = fold (better_keeper pos keep) members None"

definition same_member :: "evaluation \<Rightarrow> bool \<Rightarrow> nat \<Rightarrow> nat \<Rightarrow> marks \<Rightarrow> marks" where
  "same_member ev afterOverrides keeper i mk =
     (if i = keeper then mk
      else let mk1 = (if afterOverrides \<and> \<not> mk_keep mk i \<and> wants_remove ev i then
                        add_note i (''Override ignored '' @ emdash @ '' same file as a kept version'') (set_applied i False mk)
                      else mk)
           in addProtection i (''same file as '' @ v_key (ev_vs ev ! keeper) @ '' (kept)'') (set_keep i True mk1))"

definition same_step :: "evaluation \<Rightarrow> bool \<Rightarrow> nat list \<Rightarrow> marks \<Rightarrow> marks" where
  "same_step ev afterOverrides members mk =
     (case best_kept (ev_pos ev) (mk_keep mk) members of
        None \<Rightarrow> mk
      | Some keeper \<Rightarrow> fold (same_member ev afterOverrides keeper) members mk)"

definition same_part_step :: "evaluation \<Rightarrow> bool \<Rightarrow> nat \<Rightarrow> marks \<Rightarrow> marks" where
  "same_part_step ev afterOverrides c = same_step ev afterOverrides (members_of (ev_sameMembers ev) c)"

definition protectSameFile :: "evaluation \<Rightarrow> bool \<Rightarrow> marks \<Rightarrow> marks" where
  "protectSameFile ev afterOverrides mk =
     fold (same_part_step ev afterOverrides) (sort (map fst (ev_sameMembers ev))) mk"

section \<open>The contract of a pass\<close>

locale keeper_pass =
  fixes pass :: "marks \<Rightarrow> marks"
  assumes keep_mono: "mk_keep mk i \<Longrightarrow> mk_keep (pass mk) i"
    and prot_mono: "mk_protected mk i \<Longrightarrow> mk_protected (pass mk) i"
    and prot_new: "mk_protected (pass mk) i \<Longrightarrow> mk_protected mk i \<or> mk_keep (pass mk) i"
    and keep_new: "mk_keep (pass mk) i \<Longrightarrow> mk_keep mk i \<or> mk_protected (pass mk) i"
begin

text \<open>A pass preserves "every protected version is kept".\<close>

lemma protected_kept:
  "(\<And>i. mk_protected mk i \<Longrightarrow> mk_keep mk i) \<Longrightarrow> mk_protected (pass mk) i \<Longrightarrow> mk_keep (pass mk) i"
  using prot_new keep_mono by blast

lemma removed_before: "\<not> mk_keep (pass mk) i \<Longrightarrow> \<not> mk_keep mk i"
  using keep_mono by blast

end

lemma keeper_pass_id: "keeper_pass (\<lambda>mk. mk)"
  by unfold_locales auto

text \<open>A pass may choose among passes by looking at the marks.\<close>

lemma keeper_pass_pick:
  assumes "\<And>mk. \<exists>f. keeper_pass f \<and> pass mk = f mk"
  shows "keeper_pass pass"
proof
  fix mk i
  obtain f where f: "keeper_pass f" "pass mk = f mk" using assms by blast
  show "mk_keep mk i \<Longrightarrow> mk_keep (pass mk) i" using keeper_pass.keep_mono[OF f(1)] f(2) by simp
  show "mk_protected mk i \<Longrightarrow> mk_protected (pass mk) i" using keeper_pass.prot_mono[OF f(1)] f(2) by simp
  show "mk_protected (pass mk) i \<Longrightarrow> mk_protected mk i \<or> mk_keep (pass mk) i"
    using keeper_pass.prot_new[OF f(1), of mk i] f(2) by simp
  show "mk_keep (pass mk) i \<Longrightarrow> mk_keep mk i \<or> mk_protected (pass mk) i"
    using keeper_pass.keep_new[OF f(1), of mk i] f(2) by simp
qed

lemma keeper_pass_comp:
  assumes f: "keeper_pass f" and h: "keeper_pass h"
  shows "keeper_pass (\<lambda>mk. h (f mk))"
proof
  fix mk i
  show "mk_keep mk i \<Longrightarrow> mk_keep (h (f mk)) i"
    using keeper_pass.keep_mono[OF f] keeper_pass.keep_mono[OF h] by blast
  show "mk_protected mk i \<Longrightarrow> mk_protected (h (f mk)) i"
    using keeper_pass.prot_mono[OF f] keeper_pass.prot_mono[OF h] by blast
  show "mk_protected (h (f mk)) i \<Longrightarrow> mk_protected mk i \<or> mk_keep (h (f mk)) i"
    using keeper_pass.prot_new[OF f] keeper_pass.prot_new[OF h] keeper_pass.keep_mono[OF h] by blast
  show "mk_keep (h (f mk)) i \<Longrightarrow> mk_keep mk i \<or> mk_protected (h (f mk)) i"
    using keeper_pass.keep_new[OF f] keeper_pass.keep_new[OF h] keeper_pass.prot_mono[OF h] by blast
qed

lemma keeper_pass_fold: "(\<And>x. x \<in> set xs \<Longrightarrow> keeper_pass (f x)) \<Longrightarrow> keeper_pass (fold f xs)"
proof (induction xs)
  case Nil
  then show ?case using keeper_pass_id by (simp add: id_def)
next
  case (Cons x xs)
  have "keeper_pass (f x)" "keeper_pass (fold f xs)" using Cons by simp_all
  then have "keeper_pass (\<lambda>mk. fold f xs (f x mk))" by (rule keeper_pass_comp)
  then show ?case by (simp add: comp_def)
qed

lemma keeper_pass_protect:
  assumes "\<And>mk. mk_keep (h mk) = mk_keep mk" and "\<And>mk. mk_protected (h mk) = mk_protected mk"
  shows "keeper_pass (\<lambda>mk. addProtection i r (set_keep i True (h mk)))"
  by unfold_locales (simp_all add: assms)

lemma keeper_pass_playable_step: "keeper_pass (playable_step ev a ms)"
proof (rule keeper_pass_pick)
  fix mk :: marks
  let ?kept = "filter (kept_eligible ev mk) ms"
  let ?f = "find (playable_candidate ev mk) ms"
  define h where "h i mk = (if a \<and> mk_overrideApplied mk i then
      add_note i (''Override ignored '' @ emdash @
        '' it would leave only a full disc, which Plex cannot play'') (set_applied i False mk) else mk)" for i mk
  have h: "keeper_pass (\<lambda>mk. addProtection i playableReason (set_keep i True (h i mk)))" for i
    by (rule keeper_pass_protect) (auto simp: h_def)
  have "playable_step ev a ms mk =
      (if ?kept = [] \<or> list_ex (playable_at ev) ?kept then mk
       else case ?f of None \<Rightarrow> mk | Some i \<Rightarrow> addProtection i playableReason (set_keep i True (h i mk)))"
    by (simp only: playable_step_def Let_def h_def)
  then show "\<exists>f. keeper_pass f \<and> playable_step ev a ms mk = f mk"
    using h keeper_pass_id by (cases ?f) (auto split: if_splits)
qed

lemma keeper_pass_same_member: "keeper_pass (same_member ev a k i)"
  by unfold_locales (auto simp: same_member_def Let_def split: if_splits)

lemma keeper_pass_same_step: "keeper_pass (same_step ev a ms)"
proof (rule keeper_pass_pick)
  fix mk :: marks
  have "keeper_pass (fold (same_member ev a k) ms)" for k
    by (intro keeper_pass_fold keeper_pass_same_member)
  then show "\<exists>f. keeper_pass f \<and> same_step ev a ms mk = f mk"
    using keeper_pass_id by (cases "best_kept (ev_pos ev) (mk_keep mk) ms") (auto simp: same_step_def)
qed

lemma keeper_pass_other_step:
  "keeper_pass (\<lambda>mk. snd (other_step ev a rm i (b, mk)))"
  by unfold_locales (auto simp: other_step_def Let_def split: option.splits if_splits)

lemma keeper_pass_keepPlayable: "keeper_pass (keepPlayable ev a)"
proof (rule keeper_pass_pick)
  fix mk :: marks
  have "keeper_pass (fold (playable_part ev a) (sort (map fst (ev_partMembers ev))))"
    unfolding playable_part_def[abs_def] by (intro keeper_pass_fold keeper_pass_playable_step)
  then show "\<exists>f. keeper_pass f \<and> keepPlayable ev a mk = f mk"
    using keeper_pass_id by (cases "env_KeepPlayableCopy (ev_env ev)") (auto simp: keepPlayable_def)
qed

lemma keeper_pass_protectSameFile: "keeper_pass (protectSameFile ev a)"
proof -
  have "protectSameFile ev a = fold (same_part_step ev a) (sort (map fst (ev_sameMembers ev)))"
    by (simp add: protectSameFile_def fun_eq_iff)
  then show ?thesis by (simp add: keeper_pass_fold keeper_pass_same_step same_part_step_def)
qed

text \<open>\<open>protectOtherServers\<close> carries the flag \<open>changed\<close> along; it does not influence the marks.\<close>

lemma snd_other_fold:
  "snd (fold (other_step ev a rm) is (b, mk)) =
     fold (\<lambda>i mk. snd (other_step ev a rm i (False, mk))) is mk"
proof (induction "is" arbitrary: b mk)
  case (Cons i "is")
  obtain c mk' where st: "other_step ev a rm i (b, mk) = (c, mk')" by fastforce
  then have "mk' = snd (other_step ev a rm i (False, mk))"
    by (auto simp: other_step_def Let_def split: option.splits if_splits)
  then show ?case using Cons[of c mk'] st by simp
qed simp

lemma keeper_pass_protectOtherServers: "keeper_pass (\<lambda>mk. snd (protectOtherServers ev a mk))"
proof (rule keeper_pass_pick)
  fix mk :: marks
  let ?rm = "removedKeys (ev_vs ev) (mk_keep mk)"
  have "keeper_pass (fold (\<lambda>i mk. snd (other_step ev a ?rm i (False, mk))) [0..<length (ev_vs ev)])"
    by (intro keeper_pass_fold keeper_pass_other_step)
  moreover have "snd (protectOtherServers ev a mk) =
      fold (\<lambda>i mk. snd (other_step ev a ?rm i (False, mk))) [0..<length (ev_vs ev)] mk"
    by (simp only: protectOtherServers_def snd_other_fold)
  ultimately show "\<exists>f. keeper_pass f \<and> snd (protectOtherServers ev a mk) = f mk" by blast
qed

interpretation kp: keeper_pass "keepPlayable ev a" for ev a
  by (rule keeper_pass_keepPlayable)

interpretation sf: keeper_pass "protectSameFile ev a" for ev a
  by (rule keeper_pass_protectSameFile)

interpretation os: keeper_pass "\<lambda>mk. snd (protectOtherServers ev a mk)" for ev a
  by (rule keeper_pass_protectOtherServers)

section \<open>The loop over other servers ends\<close>

lemma other_step_changed:
  "fst (other_step ev a rm i (b, mk)) \<Longrightarrow> b \<or> (\<not> mk_keep mk i \<and> mk_keep (snd (other_step ev a rm i (b, mk))) i)"
  by (auto simp: other_step_def Let_def split: option.splits if_splits)

lemma other_fold_changed:
  "fst (fold (other_step ev a rm) is (b, mk)) \<Longrightarrow>
     b \<or> (\<exists>i\<in>set is. \<not> mk_keep mk i \<and> mk_keep (snd (fold (other_step ev a rm) is (b, mk))) i)"
proof (induction "is" arbitrary: b mk)
  case (Cons i "is")
  obtain c mk' where st: "other_step ev a rm i (b, mk) = (c, mk')" by fastforce
  have m1: "mk_keep mk j \<Longrightarrow> mk_keep mk' j" for j
    using keeper_pass.keep_mono[OF keeper_pass_other_step, of mk j ev a rm i b] st by simp
  have m2: "mk_keep mk' j \<Longrightarrow> mk_keep (snd (fold (other_step ev a rm) is (c, mk'))) j" for j
    unfolding snd_other_fold
    by (rule keeper_pass.keep_mono[OF keeper_pass_fold]) (rule keeper_pass_other_step)
  from Cons.prems have "c \<or> (\<exists>j\<in>set is. \<not> mk_keep mk' j \<and> mk_keep (snd (fold (other_step ev a rm) is (c, mk'))) j)"
    using Cons.IH[of c mk'] st by simp
  then show ?case
    using other_step_changed[of ev a rm i b mk] st m1 m2 by auto
qed simp

definition still_removed :: "evaluation \<Rightarrow> marks \<Rightarrow> nat" where
  "still_removed ev mk = length (filter (\<lambda>i. \<not> mk_keep mk i) [0..<length (ev_vs ev)])"

lemma still_removed_less:
  assumes ch: "fst (protectOtherServers ev a mk)"
  shows "still_removed ev (protectSameFile ev b (snd (protectOtherServers ev a mk))) < still_removed ev mk"
proof -
  let ?mk = "protectSameFile ev b (snd (protectOtherServers ev a mk))" and ?n = "[0..<length (ev_vs ev)]"
  obtain i where i: "i \<in> set ?n" "\<not> mk_keep mk i" "mk_keep (snd (protectOtherServers ev a mk)) i"
    using other_fold_changed ch unfolding protectOtherServers_def by blast
  have mono: "mk_keep mk j \<Longrightarrow> mk_keep ?mk j" for j by (intro sf.keep_mono os.keep_mono)
  have "mk_keep ?mk i" using i(3) by (rule sf.keep_mono)
  then have "{j \<in> set ?n. \<not> mk_keep ?mk j} \<subset> {j \<in> set ?n. \<not> mk_keep mk j}"
    using mono i(1,2) by auto
  then have "card {j \<in> set ?n. \<not> mk_keep ?mk j} < card {j \<in> set ?n. \<not> mk_keep mk j}"
    by (intro psubset_card_mono) simp_all
  moreover have "still_removed ev m = card {j \<in> set ?n. \<not> mk_keep m j}" for m :: marks
    unfolding still_removed_def using distinct_card[of "filter (\<lambda>j. \<not> mk_keep m j) ?n"] by simp
  ultimately show ?thesis by simp
qed

text \<open>\<open>for ev.protectOtherServers(keep, after) { ev.protectSameFile(keep, after) }\<close>\<close>

function protect_loop :: "evaluation \<Rightarrow> bool \<Rightarrow> marks \<Rightarrow> marks" where
  "protect_loop ev afterOverrides mk =
     (if fst (protectOtherServers ev afterOverrides mk)
      then protect_loop ev afterOverrides
             (protectSameFile ev afterOverrides (snd (protectOtherServers ev afterOverrides mk)))
      else snd (protectOtherServers ev afterOverrides mk))"
  by pat_completeness auto
termination
  by (relation "measure (\<lambda>(ev, a, mk). still_removed ev mk)") (simp_all add: still_removed_less)

declare protect_loop.simps [simp del]

lemma keeper_pass_protect_loop: "keeper_pass (protect_loop ev a)"
proof (rule keeper_pass_pick)
  fix mk :: marks
  show "\<exists>f. keeper_pass f \<and> protect_loop ev a mk = f mk"
  proof (induction ev a mk rule: protect_loop.induct)
    case (1 ev a mk)
    let ?o = "\<lambda>mk. snd (protectOtherServers ev a mk)"
    show ?case
    proof (cases "fst (protectOtherServers ev a mk)")
      case True
      obtain f where f: "keeper_pass f"
          "protect_loop ev a (protectSameFile ev a (?o mk)) = f (protectSameFile ev a (?o mk))"
        using "1.IH"[OF True] by blast
      have "keeper_pass (\<lambda>mk. f (protectSameFile ev a (?o mk)))"
        by (rule keeper_pass_comp[OF keeper_pass_comp[OF keeper_pass_protectOtherServers
              keeper_pass_protectSameFile] f(1)])
      then show ?thesis using f(2) True protect_loop.simps[of ev a mk] by auto
    next
      case False
      then show ?thesis using keeper_pass_protectOtherServers protect_loop.simps[of ev a mk] by auto
    qed
  qed
qed

interpretation pl: keeper_pass "protect_loop ev a" for ev a
  by (rule keeper_pass_protect_loop)

section \<open>Overrides and the whole decision\<close>

definition override_step :: "evaluation \<Rightarrow> nat \<Rightarrow> marks \<times> nat list \<Rightarrow> marks \<times> nat list" where
  "override_step ev i st =
     (let mk = fst st; raw = override_of ev i; d = ToLower raw in
      if d = [] then st
      else if d = DecisionKeep then
        (if \<not> mk_keep mk i then (set_applied i True (set_keep i True mk), snd st)
         else (add_note i ''Manual override: keep (same as the profile)'' mk, snd st))
      else if d = DecisionRemove then
        (if mk_protected mk i then
           (add_note i (''Override ignored '' @ emdash @ '' the version is protected ('' @
              Join (mk_protReasons mk i) ''; '' @ '')'') mk, snd st)
         else if mk_keep mk i then (set_applied i True (set_keep i False mk), snd st @ [i])
         else (add_note i ''Manual override: remove (same as the profile)'' mk, snd st))
      else (add_note i (''Override ignored '' @ emdash @ '' invalid value '' @ Quote raw) mk, snd st))"

definition apply_overrides :: "evaluation \<Rightarrow> marks \<Rightarrow> marks \<times> nat list" where
  "apply_overrides ev mk = fold (override_step ev) [0..<length (ev_vs ev)] (mk, [])"

definition countEligibleKept :: "evaluation \<Rightarrow> marks \<Rightarrow> nat" where
  "countEligibleKept ev mk = length (filter (kept_eligible ev mk) [0..<length (ev_vs ev)])"

definition restore_one :: "evaluation \<Rightarrow> nat \<Rightarrow> marks \<Rightarrow> marks" where
  "restore_one ev i mk =
     (if ev_eligible ev i then
        add_note i (''Override ignored '' @ emdash @ '' it would leave no version to keep'')
          (set_applied i False (set_keep i True mk))
      else mk)"

definition restore_keepers :: "evaluation \<Rightarrow> marks \<times> nat list \<Rightarrow> marks" where
  "restore_keepers ev st =
     (if countEligibleKept ev (fst st) = 0 then fold (restore_one ev) (snd st) (fst st) else fst st)"

text \<open>The best \<open>keepCount\<close> eligible members of a partition, in rank order.\<close>

fun keep_top :: "bool array \<Rightarrow> int \<Rightarrow> int \<Rightarrow> nat list \<Rightarrow> bool array \<Rightarrow> bool array" where
  "keep_top eligible cnt k [] rk = rk"
| "keep_top eligible cnt k (i # is) rk =
     (if eligible i \<and> k < cnt then keep_top eligible cnt (k + 1) is (rk(i := True))
      else keep_top eligible cnt k is rk)"

definition protect_version :: "golib \<Rightarrow> evaluation \<Rightarrow> string \<Rightarrow> nat \<Rightarrow> marks \<Rightarrow> marks" where
  "protect_version lib ev reportOnly i mk =
     (let mk1 = fold (addProtection i) (protectionReasons lib ev i) mk;
          mk2 = (if reportOnly \<noteq> [] then addProtection i reportOnly mk1 else mk1)
      in set_keep i (ev_rankKeep ev i \<or> mk_protected mk2 i) mk2)"

definition report_only_text :: "MediaVersion list \<Rightarrow> string" where
  "report_only_text vs =
     (if reportOnlyReasons vs \<noteq> [] then ''report only: '' @ Join (reportOnlyReasons vs) ''; '' else [])"

definition keep_part :: "bool array \<Rightarrow> int \<Rightarrow> string \<times> nat list \<Rightarrow> bool array \<Rightarrow> bool array" where
  "keep_part eligible cnt km = keep_top eligible cnt 0 (snd km)"

text \<open>The keepers by rank, the instances and the same-file components.\<close>

definition prepare :: "evaluation \<Rightarrow> evaluation" where
  "prepare ev =
     (let ids = arrInstanceIDs (ev_vs ev) in
      ev \<lparr> ev_arrNames := map (arrInstanceName (ev_vs ev)) ids,
           ev_intentional := (env_DifferentArrInstancesIntentional (ev_env ev) \<and> length ids \<ge> 2),
           ev_rankKeep := fold (keep_part (ev_eligible ev) (ev_keepCount ev)) (ev_partMembers ev) (ev_rankKeep ev),
           ev_sameComp := fst (sameFileComponents (ev_vs ev)),
           ev_sameMembers := snd (sameFileComponents (ev_vs ev)) \<rparr>)"

text \<open>The engine's decisions, before the overrides.\<close>

definition initial_marks :: "golib \<Rightarrow> evaluation \<Rightarrow> marks" where
  "initial_marks lib ev =
     fold (protect_version lib ev (report_only_text (ev_vs ev))) [0..<length (ev_vs ev)] (ev_marks ev)"

definition engine_marks :: "golib \<Rightarrow> evaluation \<Rightarrow> marks" where
  "engine_marks lib ev =
     protect_loop ev False (protectSameFile ev False (keepPlayable ev False (initial_marks lib ev)))"

definition final_marks :: "golib \<Rightarrow> evaluation \<Rightarrow> marks" where
  "final_marks lib ev =
     protect_loop ev True (protectSameFile ev True (keepPlayable ev True
       (restore_keepers ev (apply_overrides ev (engine_marks lib ev)))))"

definition decide :: "golib \<Rightarrow> evaluation \<Rightarrow> evaluation" where
  "decide lib ev0 =
     (let ev = prepare ev0
      in ev \<lparr> ev_engineKeep := mk_keep (engine_marks lib ev), ev_marks := final_marks lib ev \<rparr>)"

end
