(* ===== verification/Explain.thy ===== *)
theory Explain
  imports Decide
begin

text \<open>
  The texts of an evaluation (\<open>evaluate.go\<close>): \<open>annotate\<close> adds the warnings that depend on the final
  decisions and looks for versions that are too young, \<open>explain\<close> writes rank, decisions, reasons,
  deciding criterion, protection and values of every file.
\<close>

section \<open>Annotations\<close>

definition note_ev :: "nat \<Rightarrow> string \<Rightarrow> evaluation \<Rightarrow> evaluation" where
  "note_ev i s ev = ev \<lparr> ev_marks := add_note i s (ev_marks ev) \<rparr>"

abbreviation ev_keep :: "evaluation \<Rightarrow> nat \<Rightarrow> bool" where
  "ev_keep ev i \<equiv> mk_keep (ev_marks ev) i"

definition pair_warning :: "evaluation \<Rightarrow> nat \<Rightarrow> string" where
  "pair_warning ev other =
     ''Warning '' @ emdash @ '' same file name and size as '' @ v_key (ev_vs ev ! other) @
     '' in another folder: make sure they are '' @
     ''separate copies before approving (removing one path of a single file deletes both)''"

definition annotate_pairs :: "evaluation \<Rightarrow> evaluation" where
  "annotate_pairs ev =
     fold (\<lambda>(i, j) e. if ev_keep e i = ev_keep e j then e
                      else note_ev j (pair_warning e i) (note_ev i (pair_warning e j) e))
       (ev_samePairs ev) ev"

definition keptTrackedBy :: "evaluation \<Rightarrow> int \<Rightarrow> bool" where
  "keptTrackedBy ev inst \<longleftrightarrow>
     (\<exists>j\<in>set [0..<length (ev_vs ev)]. ev_keep ev j \<and> ev_eligible ev j \<and>
        (case v_arr (ev_vs ev ! j) of Some w \<Rightarrow> a_instanceID w = inst | None \<Rightarrow> False))"

definition annotate_untracked :: "nat \<Rightarrow> evaluation \<Rightarrow> evaluation" where
  "annotate_untracked i ev =
     (case v_arr (ev_vs ev ! i) of
        Some a \<Rightarrow>
          if \<not> ev_keep ev i \<and> \<not> keptTrackedBy ev (a_instanceID a) then
            note_ev i (''Warning '' @ emdash @ '' tracked by '' @ arrName a @
              '' but no kept version is: the *arr may re-download it'') ev
          else ev
      | None \<Rightarrow> ev)"

definition annotate_keeper :: "nat \<Rightarrow> evaluation \<Rightarrow> evaluation" where
  "annotate_keeper i ev =
     (let v = ev_vs ev ! i; kept = ev_keep ev i \<and> ev_eligible ev i;
          ev1 = (case v_arr v of
                   Some a \<Rightarrow>
                     if kept \<and> a_qualityCutoffNotMet a then
                       note_ev i (''Warning '' @ emdash @ '' quality cutoff not met in '' @ arrName a @
                         '': it may upgrade and recreate the duplicate'') ev
                     else ev
                 | None \<Rightarrow> ev)
      in if kept \<and> isInaccessible v then
           note_ev i (''Warning '' @ emdash @ '' kept version is not accessible to the media server'') ev1
         else ev1)"

definition annotate_age :: "nat \<Rightarrow> evaluation \<Rightarrow> evaluation" where
  "annotate_age i ev =
     (let minAge = env_MinAge (ev_env ev); t = newestAdded (ev_vs ev ! i); age = Sub (ev_now ev) t in
      if ev_keep ev i then ev
      else if IsZero t then
        note_ev i (''Waiting '' @ emdash @ '' date added unknown (minimum age '' @ humanDuration minAge @ '')'')
          (ev \<lparr> ev_youngUnknown := True \<rparr>)
      else if age < 0 then
        note_ev i (''Waiting '' @ emdash @ '' date added is in the future (minimum age '' @ humanDuration minAge @ '')'')
          (ev \<lparr> ev_youngFuture := True \<rparr>)
      else if age < minAge then
        note_ev i (''Waiting '' @ emdash @ '' added '' @ humanDuration age @ '' ago (minimum age '' @ humanDuration minAge @ '')'')
          (if ev_youngestAge ev = 0 \<or> age < ev_youngestAge ev
           then ev \<lparr> ev_youngestAge := max age Nanosecond \<rparr> else ev)
      else ev)"

definition annotate :: "evaluation \<Rightarrow> evaluation" where
  "annotate ev0 =
     (let ix = [0..<length (ev_vs ev0)];
          ev1 = annotate_pairs (ev0 \<lparr> ev_samePairs := likelySameFilePairs (ev_vs ev0) (ev_sameComp ev0) \<rparr>);
          ev2 = fold annotate_untracked ix ev1;
          ev3 = fold annotate_keeper ix ev2
      in if env_MinAge (ev_env ev0) > 0 then fold annotate_age ix ev3 else ev3)"

section \<open>Why a version ranks below another\<close>

definition metricID :: "evaluation \<Rightarrow> nat \<Rightarrow> string" where
  "metricID ev mi = (if mi \<ge> length (ev_metrics ev) then TiebreakKey else m_id (ev_metrics ev ! mi))"

text \<open>The first metric that separates two versions: whether it favours the first one.\<close>

fun first_decider :: "nat \<Rightarrow> metric list \<Rightarrow> nat \<Rightarrow> nat \<Rightarrow> (nat \<times> bool) option" where
  "first_decider k [] b x = None"
| "first_decider k (m # ms) b x =
     (if beats m b x then Some (k, True)
      else if beats m x b then Some (k, False)
      else first_decider (Suc k) ms b x)"

definition round_elimination :: "evaluation \<Rightarrow> nat \<Rightarrow> nat \<Rightarrow> nat \<times> nat" where
  "round_elimination ev b x =
     (let r = ev_pos ev b; n = length (ev_metrics ev) in
      if r < length (ev_rounds ev) then
        (case (ev_rounds ev ! r) x of Some e \<Rightarrow> (e_metric e, e_by e) | None \<Rightarrow> (n, b))
      else (n, b))"

definition versus :: "evaluation \<Rightarrow> nat \<Rightarrow> nat \<Rightarrow> nat \<times> nat" where
  "versus ev b x =
     (case first_decider 0 (ev_metrics ev) b x of
        Some (k, True) \<Rightarrow> (k, b)
      | Some (k, False) \<Rightarrow> round_elimination ev b x
      | None \<Rightarrow> if v_key (ev_vs ev ! b) < v_key (ev_vs ev ! x) then (length (ev_metrics ev), b)
                else round_elimination ev b x)"

definition lossText :: "evaluation \<Rightarrow> nat \<Rightarrow> nat \<Rightarrow> nat \<Rightarrow> string" where
  "lossText ev mi loser winner =
     (if mi \<ge> length (ev_metrics ev) then
        ''tied on every criterion with '' @ v_key (ev_vs ev ! winner) @ ''; ordered by version key''
      else
        let m = ev_metrics ev ! mi;
            s = (if m_special m = SpecialHealth then ''unhealthy: '' @ Join (ev_health ev loser) '', ''
                 else if m_special m = SpecialArr \<and> m_subject m \<noteq> [] \<and> \<not> m_tiebreak m then
                   ''not tracked by *arr instance '' @ m_subject m
                 else if m_special m = SpecialArr then
                   ''not managed by an *arr ('' @ m_display m winner @ '' tracks the other version)''
                 else if m_special m = SpecialLang \<and> m_present m loser then ''no '' @ m_subject m @ '' audio track''
                 else if m_special m = SpecialPlayed \<or> m_special m = SpecialLastPlayed then
                   watchLossText m (ev_vs ev ! loser) (ev_vs ev ! winner)
                 else if \<not> m_present m loser then m_label m @ '' unknown (vs '' @ m_display m winner @ '')''
                 else m_worse m @ '' '' @ m_label m @ '': '' @ m_display m loser @ '' vs '' @ m_display m winner)
        in if m_tiebreak m then ''tied on all profile criteria; tiebreak: '' @ s else s)"

definition bestLine :: "evaluation \<Rightarrow> nat \<Rightarrow> nat \<Rightarrow> string \<Rightarrow> string \<times> string" where
  "bestLine ev b r part =
     (let mw = versus ev b r; mi = fst mw; w = snd mw; decider = metricID ev mi;
          inn = (if part \<noteq> [] then '' '' @ part @ '' version'' else []);
          hd = ''Keep '' @ emdash @ '' best'' @ inn
      in (decider,
          if w \<noteq> b then hd @ '' (ranked first; the runner-up lost on '' @ lossText ev mi r w @ '')''
          else if mi \<ge> length (ev_metrics ev) then
            hd @ '': tied on every criterion with '' @ v_key (ev_vs ev ! r) @ ''; first by version key''
          else let m = ev_metrics ev ! mi in
            if m_tiebreak m then
              hd @ '': tied on all profile criteria; won the tiebreak on '' @ m_label m @ '' ('' @
              m_display m b @ '' vs '' @ m_display m r @ '')''
            else hd @ '' by '' @ m_label m @ '' ('' @ m_display m b @ '' vs '' @ m_display m r @ '')''))"

section \<open>The explanation of a file\<close>

definition runner_up :: "bool array \<Rightarrow> nat \<Rightarrow> nat list \<Rightarrow> nat option" where
  "runner_up eligible best members =
     fold (\<lambda>j r. if j \<noteq> best \<and> (case r of None \<Rightarrow> True | Some k \<Rightarrow> eligible j \<and> \<not> eligible k)
                 then Some j else r) members None"

definition not_considered :: "evaluation \<Rightarrow> nat \<Rightarrow> string" where
  "not_considered ev i = ''Not considered as a keeper (ranked #'' @ Itoa (int (ev_pos ev i) + 1) @ '')''"

text \<open>The deciding criterion, the line about the rank, and the loss against the best version.\<close>

definition rank_line :: "evaluation \<Rightarrow> nat \<Rightarrow> string \<times> string \<times> string" where
  "rank_line ev i =
     (let k = ev_part ev i; members = members_of (ev_partMembers ev) k;
          best = (case ev_partBest ev k of Some b \<Rightarrow> b | None \<Rightarrow> 0);
          label = (if ev_keepPer ev \<noteq> KeepPerNone
                   then (case ev_partLabel ev k of Some l \<Rightarrow> l | None \<Rightarrow> []) else [])
      in if i = best then
           (let dl = (case runner_up (ev_eligible ev) best members of
                        None \<Rightarrow> ([], if label \<noteq> [] then ''Keep '' @ emdash @ '' only '' @ label @ '' version''
                                    else ''Keep '' @ emdash @ '' only version'')
                      | Some r \<Rightarrow> bestLine ev best r label)
            in (fst dl, if \<not> ev_eligible ev i then not_considered ev i else snd dl, []))
         else
           (let mw = versus ev best i; decider = metricID ev (fst mw); loss = lossText ev (fst mw) i (snd mw)
            in if \<not> ev_eligible ev i then
                 (if ev_pos ev i < ev_pos ev best then ([], not_considered ev i, [])
                  else (decider, not_considered ev i, loss))
               else if ev_rankKeep ev i then
                 (decider,
                  ''Keep '' @ emdash @ '' ranked #'' @
                  Itoa (1 + int (length (filter (ev_eligible ev) (takeWhile (\<lambda>j. j \<noteq> i) members)))) @
                  (if label \<noteq> [] then '' among '' @ label @ '' versions'' else []) @
                  '' (keep count '' @ Itoa (ev_keepCount ev) @ '')'', loss)
               else
                 (decider, ''Remove '' @ emdash @ '' '' @ loss @
                  (if label \<noteq> [] then '' (within '' @ label @ '')'' else []), loss)))"

definition values_of :: "evaluation \<Rightarrow> nat \<Rightarrow> (string \<rightharpoonup> string)" where
  "values_of ev i =
     (let v = ev_vs ev ! i;
          base = map_of (map (\<lambda>t. (t, DisplayValue t v)) criterionTypes);
          m1 = base(CritHealth \<mapsto> health_display (ev_health ev i), CritLibrary \<mapsto> libraryLabel v (env_Libraries (ev_env ev)))
      in if ev_fnScores ev \<noteq> [] then
           m1(CritFilenameScore \<mapsto> Join (map (\<lambda>m. m_display m i) (ev_fnScores ev)) '' / '')
         else m1)"

definition decision_of :: "bool \<Rightarrow> string" where
  "decision_of keep = (if keep then DecisionKeep else DecisionRemove)"

definition reason_lines :: "evaluation \<Rightarrow> nat \<Rightarrow> string list" where
  "reason_lines ev i =
     (let mk = ev_marks ev; rl = rank_line ev i; rankLine = fst (snd rl); loss = snd (snd rl);
          prot = map (\<lambda>r. ''Protected '' @ emdash @ '' '' @ r) (mk_protReasons mk i)
      in (if mk_overrideApplied mk i then
            [titleCase (decision_of (ev_keep ev i)) @ '' '' @ emdash @ '' manual override'',
             ''Profile decision: '' @ rankLine]
          else if mk_protected mk i \<and> \<not> ev_rankKeep ev i then
            prot @ (if ev_eligible ev i \<and> loss \<noteq> []
                    then [''Would otherwise be removed '' @ emdash @ '' '' @ loss] else [rankLine])
          else rankLine # prot) @
         (if \<not> healthy (ev_health ev i)
          then [''Health '' @ emdash @ '' '' @ Join (ev_health ev i) '', ''] else []) @
         mk_notes mk i)"

definition explain_file :: "evaluation \<Rightarrow> nat \<Rightarrow> GroupFile \<Rightarrow> GroupFile" where
  "explain_file ev i f =
     f \<lparr> f_rank := int (ev_pos ev i) + 1,
         f_engineDecision := decision_of (ev_engineKeep ev i),
         f_decision := decision_of (ev_keep ev i),
         f_reasons := reason_lines ev i,
         f_decidingCriterion := fst (rank_line ev i),
         f_protected := mk_protected (ev_marks ev) i,
         f_protectedReason := Join (mk_protReasons (ev_marks ev) i) ''; '',
         f_values := values_of ev i \<rparr>"

definition explain :: "evaluation \<Rightarrow> evaluation" where
  "explain ev =
     ev \<lparr> ev_g := (ev_g ev) \<lparr> g_files :=
       map (\<lambda>(i, f). explain_file ev i f) (List.enumerate 0 (g_files (ev_g ev))) \<rparr> \<rparr>"

section \<open>What annotations leave alone\<close>

definition same_core :: "evaluation \<Rightarrow> evaluation \<Rightarrow> bool" where
  "same_core e ev \<longleftrightarrow> ev_g e = ev_g ev \<and> ev_p e = ev_p ev \<and> ev_env e = ev_env ev \<and> ev_now e = ev_now ev \<and>
     ev_vs e = ev_vs ev \<and> ev_eligible e = ev_eligible ev \<and> ev_pos e = ev_pos ev \<and>
     ev_intentional e = ev_intentional ev \<and> ev_engineKeep e = ev_engineKeep ev \<and>
     ev_sameComp e = ev_sameComp ev \<and> ev_sameMembers e = ev_sameMembers ev \<and>
     ev_watchLabels e = ev_watchLabels ev \<and> ev_arrNames e = ev_arrNames ev \<and> ev_rankKeep e = ev_rankKeep ev \<and>
     mk_keep (ev_marks e) = mk_keep (ev_marks ev) \<and>
     mk_protected (ev_marks e) = mk_protected (ev_marks ev) \<and>
     mk_protReasons (ev_marks e) = mk_protReasons (ev_marks ev) \<and>
     mk_overrideApplied (ev_marks e) = mk_overrideApplied (ev_marks ev)"

lemma same_core_refl [simp]: "same_core ev ev"
  by (simp add: same_core_def)

lemma same_core_trans: "same_core a b \<Longrightarrow> same_core b c \<Longrightarrow> same_core a c"
  by (simp add: same_core_def)

lemma same_core_note [simp]: "same_core (note_ev i s e) ev = same_core e ev"
  by (simp add: same_core_def note_ev_def)

lemma same_core_young [simp]:
  "same_core (e \<lparr> ev_youngUnknown := b \<rparr>) ev = same_core e ev"
  "same_core (e \<lparr> ev_youngFuture := b \<rparr>) ev = same_core e ev"
  "same_core (e \<lparr> ev_youngestAge := d \<rparr>) ev = same_core e ev"
  "same_core (e \<lparr> ev_samePairs := ps \<rparr>) ev = same_core e ev"
  by (simp_all add: same_core_def)

lemma same_core_steps:
  "same_core (annotate_untracked i e) ev = same_core e ev"
  "same_core (annotate_keeper i e) ev = same_core e ev"
  "same_core (annotate_age i e) ev = same_core e ev"
  by (simp_all add: annotate_untracked_def annotate_keeper_def annotate_age_def Let_def split: option.split)

lemma same_core_fold:
  assumes "\<And>i e. same_core (f i e) ev = same_core e ev"
  shows "same_core (fold f is e) ev = same_core e ev"
  using assms by (induction "is" arbitrary: e) simp_all

lemma same_core_pairs: "same_core (annotate_pairs e) ev = same_core e ev"
proof -
  have "same_core ((\<lambda>(i, j) e. if ev_keep e i = ev_keep e j then e
      else note_ev j (pair_warning e i) (note_ev i (pair_warning e j) e)) p e') ev = same_core e' ev" for p e'
    by (cases p) simp
  then show ?thesis unfolding annotate_pairs_def by (rule same_core_fold)
qed

lemma annotate_core: "same_core (annotate ev) ev"
  by (simp add: annotate_def Let_def same_core_fold[OF same_core_steps(1)] same_core_fold[OF same_core_steps(2)]
      same_core_fold[OF same_core_steps(3)] same_core_pairs)

section \<open>Versions that are too young\<close>

text \<open>A version to remove waits while its newest date is unknown or less than the minimum age ago.\<close>

definition too_young :: "evaluation \<Rightarrow> nat \<Rightarrow> bool" where
  "too_young ev i \<longleftrightarrow> \<not> ev_keep ev i \<and>
     (IsZero (newestAdded (ev_vs ev ! i)) \<or> Sub (ev_now ev) (newestAdded (ev_vs ev ! i)) < env_MinAge (ev_env ev))"

definition young :: "evaluation \<Rightarrow> bool" where
  "young ev \<longleftrightarrow> ev_youngestAge ev > 0 \<or> ev_youngUnknown ev \<or> ev_youngFuture ev"

definition no_young :: "evaluation \<Rightarrow> bool" where
  "no_young ev \<longleftrightarrow> ev_youngestAge ev = 0 \<and> \<not> ev_youngUnknown ev \<and> \<not> ev_youngFuture ev"

lemma too_young_core: "same_core e ev \<Longrightarrow> too_young e i = too_young ev i"
  by (simp add: same_core_def too_young_def)

lemma annotate_age_young:
  assumes "0 < env_MinAge (ev_env e)" and "0 \<le> ev_youngestAge e"
  shows "young (annotate_age i e) \<longleftrightarrow> young e \<or> too_young e i" and "0 \<le> ev_youngestAge (annotate_age i e)"
  using assms by (auto simp: annotate_age_def Let_def young_def too_young_def note_ev_def)

lemma fold_age_young:
  assumes "0 < env_MinAge (ev_env e)" and "0 \<le> ev_youngestAge e"
  shows "young (fold annotate_age is e) \<longleftrightarrow> young e \<or> (\<exists>i\<in>set is. too_young e i)"
  using assms
proof (induction "is" arbitrary: e)
  case (Cons i "is")
  have core: "same_core (annotate_age i e) e" by (simp add: same_core_steps)
  then have "0 < env_MinAge (ev_env (annotate_age i e))" using Cons.prems by (simp add: same_core_def)
  then show ?case
    using Cons.IH annotate_age_young[OF Cons.prems, of i] too_young_core[OF core] by (auto simp: disj_assoc)
qed simp

lemma no_young_steps:
  "no_young (note_ev i s e) = no_young e" "no_young (e \<lparr> ev_samePairs := ps \<rparr>) = no_young e"
  "no_young (annotate_untracked i e) = no_young e" "no_young (annotate_keeper i e) = no_young e"
  by (auto simp: no_young_def note_ev_def annotate_untracked_def annotate_keeper_def Let_def split: option.split)

lemma no_young_fold: "(\<And>i e. no_young (f i e) = no_young e) \<Longrightarrow> no_young (fold f is e) = no_young e"
  by (induction "is" arbitrary: e) simp_all

lemma no_young_pairs: "no_young (annotate_pairs e) = no_young e"
  unfolding annotate_pairs_def by (rule no_young_fold) (auto simp: no_young_steps split: if_splits)

lemma annotate_young:
  assumes "no_young ev"
  shows "young (annotate ev) \<longleftrightarrow>
    0 < env_MinAge (ev_env ev) \<and> (\<exists>i < length (ev_vs ev). too_young ev i)"
proof -
  let ?ix = "[0..<length (ev_vs ev)]"
  define e where "e = fold annotate_keeper ?ix (fold annotate_untracked ?ix
    (annotate_pairs (ev \<lparr> ev_samePairs := likelySameFilePairs (ev_vs ev) (ev_sameComp ev) \<rparr>)))"
  have core: "same_core e ev"
    by (simp add: e_def same_core_fold[OF same_core_steps(1)] same_core_fold[OF same_core_steps(2)] same_core_pairs)
  have "no_young e"
    using assms by (simp add: e_def no_young_fold[OF no_young_steps(3)] no_young_fold[OF no_young_steps(4)]
        no_young_pairs no_young_steps(2))
  then have y: "\<not> young e" "0 \<le> ev_youngestAge e" by (simp_all add: no_young_def young_def)
  have env: "ev_env e = ev_env ev" using core by (simp add: same_core_def)
  have an: "annotate ev = (if 0 < env_MinAge (ev_env ev) then fold annotate_age ?ix e else e)"
    by (simp add: annotate_def Let_def e_def)
  show ?thesis
  proof (cases "0 < env_MinAge (ev_env ev)")
    case True
    then show ?thesis
      using fold_age_young[of e ?ix] y env too_young_core[OF core] by (auto simp: an)
  qed (simp add: an y)
qed

end
