(* ===== verification/Safety.thy ===== *)
theory Safety
  imports Decide
begin

text \<open>
  What \<open>decide\<close> guarantees about the final decisions: protected versions are kept, an available version
  is kept whenever one is removed, a removed version never shares a file with a kept one and is never
  the only copy another server's item has. One lemma per pass, then the composition.
\<close>

section \<open>Protections are kept\<close>

definition prot_kept :: "marks \<Rightarrow> bool" where
  "prot_kept mk \<longleftrightarrow> (\<forall>i. mk_protected mk i \<longrightarrow> mk_keep mk i)"

lemma fold_addProtection [simp]:
  "mk_keep (fold (addProtection i) rs mk) = mk_keep mk"
  "mk_protected (fold (addProtection i) rs mk) = (mk_protected mk)(i := mk_protected mk i \<or> rs \<noteq> [])"
  by (induction rs arbitrary: mk) (auto simp: fun_eq_iff)

lemma protect_version_simps:
  "mk_protected (protect_version lib ev ro i mk) =
     (mk_protected mk)(i := mk_protected mk i \<or> protectionReasons lib ev i \<noteq> [] \<or> ro \<noteq> [])"
  "mk_keep (protect_version lib ev ro i mk) = (mk_keep mk)(i :=
     ev_rankKeep ev i \<or> mk_protected mk i \<or> protectionReasons lib ev i \<noteq> [] \<or> ro \<noteq> [])"
  by (auto simp: protect_version_def Let_def fun_eq_iff)

lemma fold_protect_version:
  assumes "distinct is"
  shows "mk_protected (fold (protect_version lib ev ro) is mk) i =
      (mk_protected mk i \<or> (i \<in> set is \<and> (protectionReasons lib ev i \<noteq> [] \<or> ro \<noteq> [])))"
    and "mk_keep (fold (protect_version lib ev ro) is mk) i =
      (if i \<in> set is then ev_rankKeep ev i \<or> mk_protected mk i \<or> protectionReasons lib ev i \<noteq> [] \<or> ro \<noteq> []
       else mk_keep mk i)"
  using assms by (induction "is" arbitrary: mk) (auto simp: protect_version_simps)

lemma report_only_text_Nil [simp]: "report_only_text vs = [] \<longleftrightarrow> reportOnlyReasons vs = []"
  by (simp add: report_only_text_def)

lemma initial_protected:
  assumes "ev_marks ev = no_marks"
  shows "mk_protected (initial_marks lib ev) i \<longleftrightarrow>
     i < length (ev_vs ev) \<and> (protectionReasons lib ev i \<noteq> [] \<or> reportOnlyReasons (ev_vs ev) \<noteq> [])"
  using fold_protect_version(1)[of "[0..<length (ev_vs ev)]" lib ev "report_only_text (ev_vs ev)" no_marks i]
  by (auto simp: initial_marks_def assms no_marks_def)

lemma initial_keep:
  assumes "ev_marks ev = no_marks"
  shows "mk_keep (initial_marks lib ev) i \<longleftrightarrow>
     i < length (ev_vs ev) \<and> (ev_rankKeep ev i \<or> mk_protected (initial_marks lib ev) i)"
  using fold_protect_version(2)[of "[0..<length (ev_vs ev)]" lib ev "report_only_text (ev_vs ev)" no_marks i]
    initial_protected[OF assms, of lib i]
  by (auto simp: initial_marks_def assms no_marks_def)

lemma prot_kept_pass: "keeper_pass f \<Longrightarrow> prot_kept mk \<Longrightarrow> prot_kept (f mk)"
  unfolding prot_kept_def using keeper_pass.protected_kept by blast

lemma override_step_simps:
  "mk_protected (fst (override_step ev i st)) = mk_protected (fst st)"
  "mk_protReasons (fst (override_step ev i st)) = mk_protReasons (fst st)"
  by (auto simp: override_step_def Let_def)

text \<open>What an override does to the keepers, and which keepers it drops.\<close>

lemma override_step_keep:
  "mk_keep (fst (override_step ev i st)) j =
     (if j = i \<and> ToLower (override_of ev i) = DecisionKeep then True
      else if j = i \<and> ToLower (override_of ev i) = DecisionRemove \<and> \<not> mk_protected (fst st) i then False
      else mk_keep (fst st) j)"
  "set (snd (override_step ev i st)) = set (snd st) \<union>
     {j. j = i \<and> mk_keep (fst st) i \<and> ToLower (override_of ev i) = DecisionRemove \<and> \<not> mk_protected (fst st) i}"
  by (auto simp: override_step_def Let_def)

lemma fold_override:
  assumes "distinct is"
  shows "mk_protected (fst (fold (override_step ev) is st)) = mk_protected (fst st)"
    and "mk_keep (fst (fold (override_step ev) is st)) j =
      (if j \<in> set is \<and> ToLower (override_of ev j) = DecisionKeep then True
       else if j \<in> set is \<and> ToLower (override_of ev j) = DecisionRemove \<and> \<not> mk_protected (fst st) j then False
       else mk_keep (fst st) j)"
    and "set (snd (fold (override_step ev) is st)) = set (snd st) \<union>
      {j. j \<in> set is \<and> mk_keep (fst st) j \<and> ToLower (override_of ev j) = DecisionRemove \<and> \<not> mk_protected (fst st) j}"
  using assms
  by (induction "is" arbitrary: st)
     (auto simp: override_step_simps override_step_keep fun_eq_iff split: if_splits)

lemma apply_overrides_protected [simp]:
  "mk_protected (fst (apply_overrides ev mk)) = mk_protected mk"
  by (simp add: apply_overrides_def fold_override(1))

lemma apply_overrides_keep:
  "mk_keep (fst (apply_overrides ev mk)) j =
     (if j < length (ev_vs ev) \<and> ToLower (override_of ev j) = DecisionKeep then True
      else if j < length (ev_vs ev) \<and> ToLower (override_of ev j) = DecisionRemove \<and> \<not> mk_protected mk j then False
      else mk_keep mk j)"
  by (simp add: apply_overrides_def fold_override(2))

lemma apply_overrides_dropped:
  "set (snd (apply_overrides ev mk)) =
     {j. j < length (ev_vs ev) \<and> mk_keep mk j \<and> ToLower (override_of ev j) = DecisionRemove \<and> \<not> mk_protected mk j}"
  by (simp add: apply_overrides_def fold_override(3))

lemma restore_keep:
  "mk_keep (restore_keepers ev st) j \<longleftrightarrow>
     mk_keep (fst st) j \<or> (countEligibleKept ev (fst st) = 0 \<and> j \<in> set (snd st) \<and> ev_eligible ev j)"
proof -
  have "mk_keep (fold (restore_one ev) is mk) j \<longleftrightarrow> mk_keep mk j \<or> (j \<in> set is \<and> ev_eligible ev j)" for "is" mk
    by (induction "is" arbitrary: mk) (auto simp: restore_one_def)
  then show ?thesis by (simp add: restore_keepers_def)
qed

lemma restore_protected [simp]: "mk_protected (restore_keepers ev st) = mk_protected (fst st)"
proof -
  have "mk_protected (fold (restore_one ev) is mk) = mk_protected mk" for "is" mk
    by (induction "is" arbitrary: mk) (auto simp: restore_one_def)
  then show ?thesis by (simp add: restore_keepers_def)
qed

lemma prot_kept_overrides:
  "prot_kept mk \<Longrightarrow> prot_kept (restore_keepers ev (apply_overrides ev mk))"
  by (auto simp: prot_kept_def restore_keep apply_overrides_keep)

lemmas prot_kept_passes =
  prot_kept_pass[OF keeper_pass_protect_loop] prot_kept_pass[OF keeper_pass_protectSameFile]
  prot_kept_pass[OF keeper_pass_keepPlayable]

lemma prot_kept_engine:
  assumes "ev_marks ev = no_marks"
  shows "prot_kept (engine_marks lib ev)"
proof -
  have "prot_kept (initial_marks lib ev)"
    using initial_keep[OF assms, of lib] initial_protected[OF assms, of lib] by (auto simp: prot_kept_def)
  then show ?thesis unfolding engine_marks_def by (intro prot_kept_passes)
qed

lemma prot_kept_final: "ev_marks ev = no_marks \<Longrightarrow> prot_kept (final_marks lib ev)"
  unfolding final_marks_def by (intro prot_kept_passes prot_kept_overrides prot_kept_engine)

section \<open>Protections of the engine stay\<close>

lemma engine_after_initial:
  "mk_keep (initial_marks lib ev) i \<Longrightarrow> mk_keep (engine_marks lib ev) i"
  "mk_protected (initial_marks lib ev) i \<Longrightarrow> mk_protected (engine_marks lib ev) i"
  unfolding engine_marks_def
  by (intro pl.keep_mono sf.keep_mono kp.keep_mono, simp)
     (intro pl.prot_mono sf.prot_mono kp.prot_mono, simp)

lemma final_after_overrides:
  "mk_keep (restore_keepers ev (apply_overrides ev (engine_marks lib ev))) i \<Longrightarrow> mk_keep (final_marks lib ev) i"
  "mk_protected (engine_marks lib ev) i \<Longrightarrow> mk_protected (final_marks lib ev) i"
  unfolding final_marks_def
  by (intro pl.keep_mono sf.keep_mono kp.keep_mono, simp)
     (intro pl.prot_mono sf.prot_mono kp.prot_mono, simp)

lemma final_protected_initial:
  "mk_protected (initial_marks lib ev) i \<Longrightarrow> mk_protected (final_marks lib ev) i"
  by (intro final_after_overrides(2) engine_after_initial(2))

section \<open>An available version is kept\<close>

lemma eligible_kept_restored:
  assumes i: "i < length (ev_vs ev)" "ev_eligible ev i" "mk_keep (engine_marks lib ev) i"
  shows "\<exists>j < length (ev_vs ev). ev_eligible ev j \<and>
    mk_keep (restore_keepers ev (apply_overrides ev (engine_marks lib ev))) j"
proof -
  let ?o = "apply_overrides ev (engine_marks lib ev)"
  show ?thesis
  proof (cases "countEligibleKept ev (fst ?o) = 0")
    case True
    then have "\<not> mk_keep (fst ?o) i"
      using i(1,2) by (auto simp: countEligibleKept_def kept_eligible_def filter_empty_conv)
    then have "i \<in> set (snd ?o)"
      using i by (auto simp: apply_overrides_keep apply_overrides_dropped split: if_splits)
    then have "mk_keep (restore_keepers ev ?o) i" using True i(2) by (simp add: restore_keep)
    then show ?thesis using i by blast
  next
    case False
    then obtain j where "j < length (ev_vs ev)" "ev_eligible ev j" "mk_keep (fst ?o) j"
      by (auto simp: countEligibleKept_def kept_eligible_def filter_empty_conv)
    then show ?thesis using restore_keep by blast
  qed
qed

lemma eligible_kept_final:
  assumes i: "i < length (ev_vs ev)" "ev_eligible ev i" "mk_keep (engine_marks lib ev) i"
  shows "\<exists>j < length (ev_vs ev). ev_eligible ev j \<and> mk_keep (final_marks lib ev) j"
  using eligible_kept_restored[OF assms] final_after_overrides(1) by blast

section \<open>The same-file pass closes the components\<close>

lemma best_kept_fold:
  "fold (better_keeper pos keep) ms acc = r \<Longrightarrow>
     (r = None \<longleftrightarrow> acc = None \<and> (\<forall>i\<in>set ms. \<not> keep i)) \<and> (\<forall>k. r = Some k \<longrightarrow> acc = Some k \<or> (k \<in> set ms \<and> keep k))"
  by (induction ms arbitrary: acc r) (auto simp: better_keeper_def split: option.splits if_splits)

lemma best_kept_None: "best_kept pos keep ms = None \<longleftrightarrow> (\<forall>i\<in>set ms. \<not> keep i)"
  using best_kept_fold[of pos keep ms None] by (simp add: best_kept_def)

lemma best_kept_Some: "best_kept pos keep ms = Some k \<Longrightarrow> k \<in> set ms \<and> keep k"
  using best_kept_fold[of pos keep ms None "Some k"] by (simp add: best_kept_def)

lemma fold_same_member:
  "mk_keep (fold (same_member ev a k) ms mk) i \<longleftrightarrow> mk_keep mk i \<or> (i \<in> set ms \<and> i \<noteq> k)"
proof (induction ms arbitrary: mk)
  case (Cons j ms)
  have "mk_keep (same_member ev a k j mk) i \<longleftrightarrow> mk_keep mk i \<or> (i = j \<and> i \<noteq> k)"
    by (auto simp: same_member_def Let_def)
  then show ?case using Cons by auto
qed simp

lemma same_step_keep:
  "mk_keep (same_step ev a ms mk) i \<longleftrightarrow> mk_keep mk i \<or> (i \<in> set ms \<and> (\<exists>j\<in>set ms. mk_keep mk j))"
proof (cases "best_kept (ev_pos ev) (mk_keep mk) ms")
  case None
  moreover have "\<forall>j\<in>set ms. \<not> mk_keep mk j" using None best_kept_None by metis
  ultimately show ?thesis by (simp add: same_step_def)
next
  case (Some k)
  then show ?thesis using best_kept_Some[OF Some] by (auto simp: same_step_def fold_same_member)
qed

text \<open>Members are disjoint for different components; folding over the components closes each.\<close>

lemma fold_same_step:
  assumes dist: "distinct cs"
    and disj: "\<And>c c'. c \<in> set cs \<Longrightarrow> c' \<in> set cs \<Longrightarrow> c \<noteq> c' \<Longrightarrow> set (ms c) \<inter> set (ms c') = {}"
  shows "mk_keep (fold (\<lambda>c. same_step ev a (ms c)) cs mk) i \<longleftrightarrow>
     mk_keep mk i \<or> (\<exists>c\<in>set cs. i \<in> set (ms c) \<and> (\<exists>j\<in>set (ms c). mk_keep mk j))"
  using assms
proof (induction cs arbitrary: mk)
  case (Cons c cs)
  let ?mk = "same_step ev a (ms c) mk"
  have same: "mk_keep ?mk j = mk_keep mk j" if "c' \<in> set cs" "j \<in> set (ms c')" for c' j
  proof -
    have "c' \<noteq> c" using Cons.prems(1) that by auto
    then have "j \<notin> set (ms c)" using Cons.prems(2)[of c' c] that by auto
    then show ?thesis by (simp add: same_step_keep)
  qed
  have "mk_keep (fold (\<lambda>c. same_step ev a (ms c)) cs ?mk) i \<longleftrightarrow>
      mk_keep ?mk i \<or> (\<exists>c\<in>set cs. i \<in> set (ms c) \<and> (\<exists>j\<in>set (ms c). mk_keep ?mk j))"
    using Cons.prems by (intro Cons.IH) auto
  also have "\<dots> \<longleftrightarrow> mk_keep ?mk i \<or> (\<exists>c\<in>set cs. i \<in> set (ms c) \<and> (\<exists>j\<in>set (ms c). mk_keep mk j))"
    using same by blast
  finally show ?case using same_step_keep[of ev a "ms c" mk i] by auto
qed simp

text \<open>The components of \<open>sameFileComponents\<close>, as \<open>decide\<close> uses them.\<close>

lemma map_of_filter_distinct:
  assumes "distinct (map fst m)"
  shows "map_of (filter P m) k = (case map_of m k of Some v \<Rightarrow> if P (k, v) then Some v else None | None \<Rightarrow> None)"
  using assms
proof (induction m)
  case (Cons a m)
  have "fst a \<notin> fst ` set m" using Cons.prems by simp
  then have "map_of (filter P m) (fst a) = None" by (auto simp: map_of_eq_None_iff)
  then show ?case using Cons by (cases a) (auto split: option.splits)
qed simp

lemma same_members:
  "members_of (snd (sameFileComponents vs)) c =
     (let ms = filter (\<lambda>i. comp_of vs i = c) [0..<length vs] in if length ms > 1 then ms else [])"
proof -
  have m: "members_of (group_by (comp_of vs) [0..<length vs]) c = filter (\<lambda>i. comp_of vs i = c) [0..<length vs]"
    by (rule members_group_by)
  show ?thesis
    using m map_of_filter_distinct[OF distinct_group_by, of "\<lambda>(c, m). length m > 1" "comp_of vs" "[0..<length vs]" c]
    by (auto simp: sameFileComponents_def members_of_def Let_def split: option.splits)
qed

lemma keys_same_members: "distinct (map fst (snd (sameFileComponents vs)))"
  using distinct_group_by[of "comp_of vs" "[0..<length vs]"]
  by (simp add: sameFileComponents_def distinct_map_filter)

lemma in_same_keys:
  assumes "i < length vs" "j < length vs" "i \<noteq> j" "comp_of vs i = comp_of vs j"
  shows "comp_of vs i \<in> fst ` set (snd (sameFileComponents vs))"
    and "i \<in> set (members_of (snd (sameFileComponents vs)) (comp_of vs i))"
proof -
  let ?ms = "filter (\<lambda>k. comp_of vs k = comp_of vs i) [0..<length vs]"
  have "card {i, j} \<le> card (set ?ms)" using assms by (intro card_mono) auto
  then have len: "length ?ms > 1" using assms(3) distinct_card[of ?ms] by simp
  then show mem: "i \<in> set (members_of (snd (sameFileComponents vs)) (comp_of vs i))"
    using assms(1) by (simp add: same_members Let_def)
  show "comp_of vs i \<in> fst ` set (snd (sameFileComponents vs))"
  proof (rule ccontr)
    assume "comp_of vs i \<notin> fst ` set (snd (sameFileComponents vs))"
    then have "members_of (snd (sameFileComponents vs)) (comp_of vs i) = []"
      by (simp add: members_of_def map_of_eq_None_iff[symmetric])
    with mem show False by simp
  qed
qed

definition closed_same :: "MediaVersion list \<Rightarrow> marks \<Rightarrow> bool" where
  "closed_same vs mk \<longleftrightarrow>
     (\<forall>i < length vs. \<forall>j < length vs. comp_of vs i = comp_of vs j \<and> mk_keep mk i \<longrightarrow> mk_keep mk j)"

lemma protectSameFile_keep:
  assumes "ev_sameMembers ev = snd (sameFileComponents (ev_vs ev))"
  shows "mk_keep (protectSameFile ev a mk) i \<longleftrightarrow> mk_keep mk i \<or>
     (\<exists>c\<in>fst ` set (ev_sameMembers ev).
        i \<in> set (members_of (ev_sameMembers ev) c) \<and> (\<exists>j\<in>set (members_of (ev_sameMembers ev) c). mk_keep mk j))"
proof -
  have disj: "set (members_of (ev_sameMembers ev) c) \<inter> set (members_of (ev_sameMembers ev) c') = {}"
    if "c \<noteq> c'" for c c'
    using that by (auto simp: assms same_members Let_def)
  show ?thesis
    unfolding protectSameFile_def same_part_step_def[abs_def]
    by (subst fold_same_step) (use keys_same_members[of "ev_vs ev"] disj assms in auto)
qed

lemma closed_protectSameFile:
  assumes sm: "ev_sameMembers ev = snd (sameFileComponents (ev_vs ev))"
  shows "closed_same (ev_vs ev) (protectSameFile ev a mk)"
  unfolding closed_same_def
proof (intro allI impI)
  fix i j assume ij: "i < length (ev_vs ev)" "j < length (ev_vs ev)"
    "comp_of (ev_vs ev) i = comp_of (ev_vs ev) j \<and> mk_keep (protectSameFile ev a mk) i"
  show "mk_keep (protectSameFile ev a mk) j"
  proof (cases "i = j")
    case False
    let ?c = "comp_of (ev_vs ev) i"
    have c: "?c \<in> fst ` set (ev_sameMembers ev)" "i \<in> set (members_of (ev_sameMembers ev) ?c)"
      using in_same_keys[of i "ev_vs ev" j] ij False sm by auto
    have j: "j \<in> set (members_of (ev_sameMembers ev) ?c)"
      using in_same_keys(2)[of j "ev_vs ev" i] ij False sm by auto
    have "\<exists>k\<in>set (members_of (ev_sameMembers ev) ?c). mk_keep mk k"
    proof -
      have "mk_keep mk i \<or> (\<exists>c\<in>fst ` set (ev_sameMembers ev). i \<in> set (members_of (ev_sameMembers ev) c) \<and>
          (\<exists>k\<in>set (members_of (ev_sameMembers ev) c). mk_keep mk k))"
        using ij(3) protectSameFile_keep[OF sm] by simp
      then show ?thesis
      proof
        assume "\<exists>c\<in>fst ` set (ev_sameMembers ev). i \<in> set (members_of (ev_sameMembers ev) c) \<and>
          (\<exists>k\<in>set (members_of (ev_sameMembers ev) c). mk_keep mk k)"
        then obtain c' where c': "i \<in> set (members_of (ev_sameMembers ev) c')"
          "\<exists>k\<in>set (members_of (ev_sameMembers ev) c'). mk_keep mk k" by blast
        have "c' = ?c" using c'(1) by (auto simp: sm same_members Let_def split: if_splits)
        then show ?thesis using c'(2) by simp
      qed (use c(2) in blast)
    qed
    then show ?thesis unfolding protectSameFile_keep[OF sm] using c(1) j by (intro disjI2 bexI[of _ ?c]) simp_all
  qed (use ij in simp)
qed

section \<open>No removed version is another server's only copy\<close>

lemma other_fold_unchanged:
  "\<not> fst (fold (other_step ev a rm) is (b, mk)) \<Longrightarrow>
     snd (fold (other_step ev a rm) is (b, mk)) = mk \<and> \<not> b \<and>
     (\<forall>i\<in>set is. mk_keep mk i \<or> needed_by rm (ev_vs ev ! i) = None)"
proof (induction "is" arbitrary: b mk)
  case (Cons i "is")
  obtain c mk' where st: "other_step ev a rm i (b, mk) = (c, mk')" by fastforce
  have u: "snd (fold (other_step ev a rm) is (c, mk')) = mk'" "\<not> c"
    "\<forall>i\<in>set is. mk_keep mk' i \<or> needed_by rm (ev_vs ev ! i) = None"
    using Cons.IH[of c mk'] Cons.prems st by auto
  have "mk' = mk" "\<not> b" "mk_keep mk i \<or> needed_by rm (ev_vs ev ! i) = None"
    using st u(2) by (auto simp: other_step_def Let_def needed_by_def needs_def split: option.splits if_splits)
  then show ?case using u st by simp
qed simp

definition none_needed :: "MediaVersion list \<Rightarrow> marks \<Rightarrow> bool" where
  "none_needed vs mk \<longleftrightarrow>
     (\<forall>i < length vs. \<not> mk_keep mk i \<longrightarrow> needed_by (removedKeys vs (mk_keep mk)) (vs ! i) = None)"

lemma protect_loop_result:
  assumes "ev_sameMembers ev = snd (sameFileComponents (ev_vs ev))" and "closed_same (ev_vs ev) mk"
  shows "closed_same (ev_vs ev) (protect_loop ev a mk) \<and> none_needed (ev_vs ev) (protect_loop ev a mk)"
  using assms
proof (induction ev a mk rule: protect_loop.induct)
  case (1 ev a mk)
  show ?case
  proof (cases "fst (protectOtherServers ev a mk)")
    case True
    then show ?thesis
      using "1.IH"[OF True "1.prems"(1) closed_protectSameFile[OF "1.prems"(1)]]
      by (simp add: protect_loop.simps[of ev a mk])
  next
    case False
    then have "snd (protectOtherServers ev a mk) = mk" "none_needed (ev_vs ev) mk"
      using other_fold_unchanged[of ev a "removedKeys (ev_vs ev) (mk_keep mk)" "[0..<length (ev_vs ev)]" False mk]
      by (auto simp: protectOtherServers_def none_needed_def)
    then show ?thesis using False "1.prems" by (simp add: protect_loop.simps[of ev a mk])
  qed
qed

lemma final_closed:
  assumes "ev_sameMembers ev = snd (sameFileComponents (ev_vs ev))"
  shows "closed_same (ev_vs ev) (final_marks lib ev)" "none_needed (ev_vs ev) (final_marks lib ev)"
  using protect_loop_result[OF assms closed_protectSameFile[OF assms]] by (simp_all add: final_marks_def)

section \<open>A playable copy is kept\<close>

text \<open>After \<open>keepPlayable\<close> a partition that keeps an eligible version and has a playable one keeps a playable one.\<close>

lemma playable_step_result:
  assumes "j \<in> set ms" "ev_eligible ev j" "playable_at ev j" "k \<in> set ms" "kept_eligible ev mk k"
  shows "\<exists>i\<in>set ms. kept_eligible ev (playable_step ev a ms mk) i \<and> playable_at ev i"
proof (cases "list_ex (playable_at ev) (filter (kept_eligible ev mk) ms)")
  case True
  then show ?thesis by (auto simp: playable_step_def Let_def list_ex_iff)
next
  case False
  then have nk: "\<not> mk_keep mk j" using assms by (auto simp: list_ex_iff kept_eligible_def)
  obtain i where i: "find (playable_candidate ev mk) ms = Some i"
    using assms(1-3) nk by (cases "find (playable_candidate ev mk) ms") (auto simp: find_None_iff playable_candidate_def)
  then have "i \<in> set ms" "playable_candidate ev mk i" by (auto simp: find_Some_iff)
  moreover have "filter (kept_eligible ev mk) ms \<noteq> []" using assms(4,5) by (auto simp: filter_empty_conv)
  ultimately show ?thesis
    using False i by (auto simp: playable_step_def Let_def playable_candidate_def kept_eligible_def intro!: bexI[of _ i])
qed

lemma keeper_pass_playable_part: "keeper_pass (playable_part ev a k)"
  by (simp add: playable_part_def keeper_pass_playable_step)

lemma keepPlayable_result:
  assumes on: "env_KeepPlayableCopy (ev_env ev)" and part: "(k, ms) \<in> set (ev_partMembers ev)"
    and dist: "distinct (map fst (ev_partMembers ev))"
    and j: "j \<in> set ms" "ev_eligible ev j" "playable_at ev j" and c: "c \<in> set ms" "kept_eligible ev mk c"
  shows "\<exists>i\<in>set ms. kept_eligible ev (keepPlayable ev a mk) i \<and> playable_at ev i"
proof -
  have mem: "members_of (ev_partMembers ev) k = ms" using part dist by (simp add: members_of_def)
  have "k \<in> set (sort (map fst (ev_partMembers ev)))" using part by force
  then obtain xs ys where s: "sort (map fst (ev_partMembers ev)) = xs @ k # ys" by (meson split_list)
  let ?m1 = "fold (playable_part ev a) xs mk"
  have kp: "keeper_pass (fold (playable_part ev a) zs)" for zs by (rule keeper_pass_fold) (rule keeper_pass_playable_part)
  have "kept_eligible ev ?m1 c" using c(2) keeper_pass.keep_mono[OF kp] by (simp add: kept_eligible_def)
  then obtain i where i: "i \<in> set ms" "kept_eligible ev (playable_part ev a k ?m1) i" "playable_at ev i"
    using playable_step_result[OF j c(1)] mem by (auto simp: playable_part_def)
  have "kept_eligible ev (fold (playable_part ev a) ys (playable_part ev a k ?m1)) i"
    using i(2) keeper_pass.keep_mono[OF kp] by (simp add: kept_eligible_def)
  then show ?thesis using i on by (auto simp: keepPlayable_def s)
qed

end
