(* ===== verification/Evaluate.thy ===== *)
theory Evaluate
  imports Explain Safety GroupChecks Hashes
begin

text \<open>
  The end of an evaluation: \<open>finish\<close> of \<open>evaluate.go\<close> with the flags, the reclaimable bytes, the
  signature and the status, the cross-server flags and review reasons of \<open>crossserver.go\<close>, and
  \<open>Evaluate\<close> itself, which composes all steps.
\<close>

section \<open>Cross-server flags\<close>

definition listing_flags :: "OtherListing \<Rightarrow> string list \<Rightarrow> string list" where
  "listing_flags e flags =
     addFlagIf (o_keptByGroup e = Some True) FlagOtherServerKeeps
       (if o_match e = OtherSameFile then addFlag flags FlagOtherServerListing
        else if o_match e = OtherPossiblySame then addFlag flags FlagOtherServerPossible
        else flags)"

definition cross_flags :: "evaluation \<Rightarrow> nat \<Rightarrow> string list \<Rightarrow> string list" where
  "cross_flags ev i flags =
     (if ev_keep ev i then flags else fold listing_flags (v_otherServers (ev_vs ev ! i)) flags)"

text \<open>\<open>ItemKeepsAnother\<close> is filled on the listings of removed versions and cleared on kept ones.\<close>

definition mark_listing :: "bool \<Rightarrow> string list \<Rightarrow> OtherListing \<Rightarrow> OtherListing" where
  "mark_listing keep removed e =
     e \<lparr> o_itemKeepsAnother := (if keep then None else Some (survivor e removed)) \<rparr>"

definition mark_file :: "evaluation \<Rightarrow> nat \<Rightarrow> GroupFile \<Rightarrow> GroupFile" where
  "mark_file ev i f =
     f \<lparr> f_version := (f_version f) \<lparr> v_otherServers :=
       map (mark_listing (ev_keep ev i) (removedKeys (ev_vs ev) (mk_keep (ev_marks ev))))
         (v_otherServers (f_version f)) \<rparr> \<rparr>"

definition crossServerFlags :: "evaluation \<Rightarrow> nat \<Rightarrow> string list \<Rightarrow> string list" where
  "crossServerFlags ev removals flags =
     (let fl = fold (cross_flags ev) [0..<length (ev_vs ev)] flags in
      addFlagIf (case g_crossServer (ev_g ev) of
                   Some cs \<Rightarrow> \<not> cr_complete cs \<and> removals > 0 | None \<Rightarrow> False) FlagOtherServerUnread fl)"

definition firstRemovedListing :: "evaluation \<Rightarrow> string \<Rightarrow> bool \<Rightarrow> OtherListing option" where
  "firstRemovedListing ev match keptByGroup =
     find (\<lambda>e. \<not> (match \<noteq> [] \<and> o_match e \<noteq> match) \<and> \<not> (keptByGroup \<and> o_keptByGroup e \<noteq> Some True))
       (concat (map (\<lambda>i. if ev_keep ev i then [] else v_otherServers (ev_vs ev ! i)) [0..<length (ev_vs ev)]))"

definition crossServerReview :: "evaluation \<Rightarrow> DuplicateGroup \<Rightarrow> string list" where
  "crossServerReview ev g =
     (if HasFlag g FlagOtherServerPossible then
        (case firstRemovedListing ev OtherPossiblySame False of
           Some e \<Rightarrow> [serverLabel e @ '' lists a file with the same name and size ('' @ o_path e @ '' in '' @
             o_libraryTitle e @ ''); if it is the same file, removing it takes '' @ serverLabel e @ [CHR 0x27] @ ''s copy'']
         | None \<Rightarrow> [''another media server lists a file with the same name and size; if it is the same file, removing it takes that server'' @
             [CHR 0x27] @ ''s copy''])
      else []) @
     (if HasFlag g FlagOtherServerKeeps then
        (case firstRemovedListing ev [] True of
           Some e \<Rightarrow> [''a duplicate group of '' @ serverLabel e @ '' keeps this file ('' @ o_path e @ '' in '' @
             o_libraryTitle e @ ''); change one of the two decisions'']
         | None \<Rightarrow> [''a duplicate group of another media server keeps this file; change one of the two decisions''])
      else []) @
     (if HasFlag g FlagOtherServerUnread then
        (let names = (case g_crossServer g of
                        Some cs \<Rightarrow> sort (filter (\<lambda>u. u \<noteq> []) (map cs_unread (cr_servers cs))) | None \<Rightarrow> [])
         in [''a media server that may list these files could not be read'' @
             (if names \<noteq> [] then '' ('' @ Join names ''; '' @ '')'' else []) @
             ''; make it reachable, disable it or declare it separate storage, then re-scan''])
      else [])"

section \<open>Flags of the group\<close>

definition engineOwnedFlag :: "string \<Rightarrow> bool" where
  "engineOwnedFlag f \<longleftrightarrow>
     f \<in> {FlagMinAge, FlagArrUntrackedKeeper, FlagArrCutoffUnmet, FlagMissingKeeperFile, FlagIntentionalArr,
          FlagWatchUnreadable, FlagOtherServerListing, FlagOtherServerKeeps, FlagOtherServerPossible,
          FlagOtherServerUnread}"

definition file_flags :: "evaluation \<Rightarrow> nat \<Rightarrow> string list \<Rightarrow> string list" where
  "file_flags ev i flags =
     (let v = ev_vs ev ! i in
      if \<not> ev_keep ev i then
        addFlagIf (case v_arr v of Some a \<Rightarrow> \<not> keptTrackedBy ev (a_instanceID a) | None \<Rightarrow> False)
          FlagArrUntrackedKeeper flags
      else if \<not> ev_eligible ev i then flags
      else addFlagIf (isInaccessible v) FlagMissingKeeperFile
             (addFlagIf (case v_arr v of Some a \<Rightarrow> a_qualityCutoffNotMet a | None \<Rightarrow> False) FlagArrCutoffUnmet flags))"

definition removals_of :: "evaluation \<Rightarrow> nat" where
  "removals_of ev = length (filter (\<lambda>i. \<not> ev_keep ev i) [0..<length (ev_vs ev)])"

definition group_flags :: "evaluation \<Rightarrow> string list" where
  "group_flags ev =
     (let g = ev_g ev; removals = removals_of ev;
          f1 = fold (\<lambda>f fl. addFlag fl f) (filter (\<lambda>f. \<not> engineOwnedFlag f) (g_flags g)) [];
          f2 = fold (\<lambda>f fl. addFlag fl f) (versionFlags (g_mediaType g) (ev_vs ev)) f1;
          f3 = addFlagIf (ev_intentional ev) FlagIntentionalArr f2;
          f4 = fold (file_flags ev) [0..<length (ev_vs ev)] f3;
          f5 = addFlagIf (ev_youngestAge ev > 0 \<or> ev_youngUnknown ev \<or> ev_youngFuture ev) FlagMinAge f4;
          f6 = addFlagIf (fst (watchFailure (ev_vs ev)) \<and> ev_watchLabels ev \<noteq> [] \<and> removals > 0 \<and>
                          watchCanDecide (ev_vs ev)) FlagWatchUnreadable f5
      in sortedUnique (crossServerFlags ev removals f6))"

section \<open>Reclaimable bytes\<close>

text \<open>The total so far and the keys of the files already counted.\<close>

definition reclaim_part :: "MediaPart \<Rightarrow> int \<times> string list \<Rightarrow> int \<times> string list" where
  "reclaim_part p st =
     (if p_linkCount p > 1 \<or> p_size p \<le> 0 then st
      else let keys = part_keys p; seen = snd st in
        (if \<exists>k\<in>set keys. k \<in> set seen then fst st else fst st + p_size p, keys @ seen))"

definition reclaim_version :: "MediaVersion \<Rightarrow> int \<times> string list \<Rightarrow> int \<times> string list" where
  "reclaim_version v st =
     (case v_disc v of
        Some d \<Rightarrow>
          if d_totalBytes d > 0 then
            (let k = ''d:'' @ v_key v in
             if k \<in> set (snd st) then st else (fst st + max (d_freedBytes d) 0, k # snd st))
          else fold reclaim_part (v_parts v) st
      | None \<Rightarrow> fold reclaim_part (v_parts v) st)"

definition reclaimable :: "evaluation \<Rightarrow> int" where
  "reclaimable ev =
     fst (fold (\<lambda>i st. if ev_keep ev i then st else reclaim_version (ev_vs ev ! i) st)
            [0..<length (ev_vs ev)] (0, []))"

section \<open>Signature\<close>

definition hash_field :: "string \<Rightarrow> string list \<Rightarrow> string" where
  "hash_field name vals =
     name @ '':'' @ Itoa (int (length vals)) @ [CHR 0x00] @
     concat (map (\<lambda>v. Itoa (int (length v)) @ '':'' @ v @ [CHR 0x00]) vals)"

text \<open>\<open>filepath.Clean\<close> is \<open>path.Clean\<close> on the Unix builds; the empty path gives ".".\<close>

definition sortedClean :: "string list \<Rightarrow> string list" where
  "sortedClean paths = sort (map path_Clean paths)"

definition disc_fields :: "DiscInfo \<Rightarrow> string" where
  "disc_fields d =
     hash_field ''root'' [d_root d] @
     hash_field ''localRoot'' [path_Clean (d_localRoot d)] @
     hash_field ''roots'' (sortedClean (d_roots d)) @
     hash_field ''localRoots'' (sortedClean (d_localRoots d)) @
     hash_field ''owned'' (sortedClean (d_ownedEntries d)) @
     hash_field ''size'' [Itoa (d_fileCount d), Itoa (d_totalBytes d)] @
     hash_field ''fingerprint'' [d_fingerprint d]"

definition discContent :: "DiscInfo \<Rightarrow> string" where
  "discContent d = sha256_hex (disc_fields d)"

definition signature_line :: "GroupFile \<Rightarrow> string" where
  "signature_line f =
     v_key (f_version f) @ ''='' @ f_decision f @
     (case v_disc (f_version f) of Some d \<Rightarrow> ''|'' @ discContent d | None \<Rightarrow> [])"

definition signature :: "GroupFile list \<Rightarrow> string" where
  "signature files = sha1_hex (Join (sort (map signature_line files)) [CHR 0x0A])"

section \<open>Status\<close>

definition queue_entry :: "ArrItemRef \<Rightarrow> ArrQueueEntry \<Rightarrow> string" where
  "queue_entry it e =
     (let t = CleanArrText (q_title e) 120;
          label = CleanArrText (if q_label e = [] then q_status e else q_label e) 64;
          msg = CleanArrText (case q_messages e of [] \<Rightarrow> q_errorMessage e | m # _ \<Rightarrow> m) 160
      in arr_label (ai_instanceName it) (ai_kind it) (ai_instanceID it) @ '':'' @
         (if t \<noteq> [] then '' '' @ quote @ t @ quote else []) @
         (if label \<noteq> [] then '' '' @ label else []) @
         (if msg \<noteq> [] then '' '' @ emdash @ '' '' @ msg else []))"

definition queueBusyReason :: "DuplicateGroup \<Rightarrow> string" where
  "queueBusyReason g =
     (let generic = ''the *arr has an active download or import for this title'';
          parts = take 2 (concat (map (\<lambda>it. map (queue_entry it) (ai_queue it)) (g_arrItems g)));
          total = sum_list (map (\<lambda>it. max (ai_queueCount it) (int (length (ai_queue it)))) (g_arrItems g));
          more = total - int (length parts)
      in if parts = [] then generic
         else generic @ '' ('' @
           CleanArrText (Join (parts @ (if more = 1 then [''1 more queue entry'']
              else if more > 1 then [Itoa more @ '' more queue entries''] else [])) ('' '' @ middot @ '' '')) 400 @ '')'')"

definition review_suspect :: "evaluation \<Rightarrow> DuplicateGroup \<Rightarrow> string list" where
  "review_suspect ev g =
     (if HasFlag g FlagSuspectMerge then
        (let details = suspectReasons (ev_vs ev) (env_MaxGroupSize (ev_env ev)) in
         [''possible mismatched merge: '' @
          Join (if details = [] then [''versions may belong to different titles''] else details) ''; ''])
      else [])"

definition review_same_file :: "evaluation \<Rightarrow> DuplicateGroup \<Rightarrow> string list" where
  "review_same_file ev g =
     (if HasFlag g FlagSameFile then
        (if ev_sameMembers ev = [] \<and> ev_samePairs ev \<noteq> [] then
           (let pr = hd (ev_samePairs ev) in
            [''versions '' @ v_key (ev_vs ev ! fst pr) @ '' and '' @ v_key (ev_vs ev ! snd pr) @
             '' have the same file name and size in different folders '' @
             ''(possibly one file reached through two paths)''])
         else [''two or more versions point to the same file''])
      else [])"

definition review_unanalyzed :: "evaluation \<Rightarrow> DuplicateGroup \<Rightarrow> string list" where
  "review_unanalyzed ev g =
     (if HasFlag g FlagUnanalyzed then
        (let bad = filter (\<lambda>v. unanalyzedProblems v \<noteq> []) (ev_vs ev);
             discUnknown = (\<exists>v\<in>set bad. v_disc v \<noteq> None); plexUnanalyzed = (\<exists>v\<in>set bad. v_disc v = None)
         in (if plexUnanalyzed \<or> \<not> discUnknown then
               (if \<exists>v\<in>set bad. v_disc v = None \<and> readOnlyVersion v then
                  [''some versions are not analyzed by the media server (refresh their metadata in Jellyfin)'']
                else [''some versions are not analyzed by the media server (analyze them in Plex)''])
             else []) @
            (if discUnknown then
               [''the quality of a full-disc backup is unknown (a disc image, or disc metadata that could not be read)'']
             else []))
      else [])"

definition review_disc :: "evaluation \<Rightarrow> DuplicateGroup \<Rightarrow> string list" where
  "review_disc ev g =
     (if HasFlag g FlagDiscUnreadable then
        (case find (\<lambda>d. TrimSpace (d_problem d) \<noteq> []) (List.map_filter v_disc (ev_vs ev)) of
           Some d \<Rightarrow> [''a full-disc backup could not be read or verified ('' @ d_problem d @ ''); it is kept'']
         | None \<Rightarrow> [''a full-disc backup could not be read or verified; it is kept''])
      else [])"

definition review_duration :: "evaluation \<Rightarrow> DuplicateGroup \<Rightarrow> string list" where
  "review_duration ev g =
     (if HasFlag g FlagDurationMismatch then
        (case durationSpread (g_mediaType g) (ev_vs ev) 0 0 of
           (lo, hi, _) \<Rightarrow>
             if hi > 0 then [''durations differ ('' @ humanDuration (msDuration lo) @ '' vs '' @ humanDuration (msDuration hi) @ '')'']
             else [''durations differ''])
      else [])"

definition review_watch :: "evaluation \<Rightarrow> DuplicateGroup \<Rightarrow> string list" where
  "review_watch ev g =
     (if HasFlag g FlagWatchUnreadable then
        (case watchFailure (ev_vs ev) of
           (_, why, source0) \<Rightarrow>
             [''the play history could not be read'' @ (if why \<noteq> [] then '' ('' @ why @ '')'' else []) @ ''; '' @
              Join (ev_watchLabels ev) '' / '' @ '' cannot decide: re-scan once '' @
              (if source0 = [] then ''the play-history source'' else source0) @ '' is reachable''])
      else [])"

definition review_reasons :: "evaluation \<Rightarrow> DuplicateGroup \<Rightarrow> string list" where
  "review_reasons ev g =
     review_suspect ev g @ review_same_file ev g @ review_unanalyzed ev g @ review_disc ev g @ review_duration ev g @
     (if HasFlag g FlagMissingKeeperFile then [''a kept version is not accessible to the media server''] else []) @
     review_watch ev g @ crossServerReview ev g"

definition deferred_reasons :: "evaluation \<Rightarrow> DuplicateGroup \<Rightarrow> string list" where
  "deferred_reasons ev g =
     (if HasFlag g FlagMinAge then
        [if ev_youngestAge ev > 0 then
           ''minimum age not reached (a version to remove was added '' @ humanDuration (ev_youngestAge ev) @
           '' ago; minimum '' @ humanDuration (env_MinAge (ev_env ev)) @ '')''
         else if ev_youngFuture ev then ''minimum age not reached (date added is in the future)''
         else ''minimum age not reached (date added unknown)''] else []) @
     (if HasFlag g FlagArrQueueBusy then [queueBusyReason g] else []) @
     (if HasFlag g FlagPlaying then [''a version is currently playing''] else [])"

definition status :: "evaluation \<Rightarrow> DuplicateGroup \<Rightarrow> nat \<Rightarrow> string \<times> string \<times> bool" where
  "status ev g removals =
     (let review = review_reasons ev g; ro = reportOnlyReasons (ev_vs ev); deferred = deferred_reasons ev g in
      if ro \<noteq> [] then
        (GroupProtected, ''Report only: '' @ Join ro ''; '' @
           (if review \<noteq> [] then ''; '' @ Join review ''; '' else []), False)
      else if review \<noteq> [] then (GroupReview, titleCase (Join review ''; ''), False)
      else if removals = 0 \<and> ev_intentional ev then
        (GroupProtected, ''Versions are tracked by different *arr instances ('' @ Join (ev_arrNames ev) '', '' @ '') '' @
           emdash @ '' treated as intentional'', False)
      else if removals = 0 then
        (GroupProtected, ''Nothing to remove '' @ emdash @ '' every version is kept or protected'', False)
      else if deferred \<noteq> [] then
        (GroupDeferred, titleCase (Join deferred ''; ''), HasFlag g FlagPlaying \<and> length deferred = 1)
      else (GroupPending, [], False))"

section \<open>Finishing\<close>

definition mark_files :: "evaluation \<Rightarrow> GroupFile list" where
  "mark_files ev = map (\<lambda>(i, f). mark_file ev i f) (List.enumerate 0 (g_files (ev_g ev)))"

definition updated_group :: "evaluation \<Rightarrow> DuplicateGroup" where
  "updated_group ev =
     (let g = ev_g ev; files = mark_files ev in
      g \<lparr> g_files := files,
          g_flags := group_flags ev,
          g_libraryIDs := (case g_libraryIDs g of Some ids \<Rightarrow> Some ids | None \<Rightarrow> Some (libraryIDsOf (ev_vs ev))),
          g_externalIDs := (case g_externalIDs g of Some m \<Rightarrow> Some m | None \<Rightarrow> Some Map.empty),
          g_profileID := pf_id (ev_p ev),
          g_reclaimableBytes := reclaimable ev,
          g_signature := signature files \<rparr>)"

definition finish :: "evaluation \<Rightarrow> DuplicateGroup" where
  "finish ev =
     (let g = updated_group ev; r = status ev g (removals_of ev) in
      if g_status g = GroupIgnored then g
      else if g_status g = GroupQueued \<and> (fst r = GroupPending \<or> snd (snd r)) then g
      else g \<lparr> g_status := fst r, g_statusReason := fst (snd r) \<rparr>)"

definition evaluated :: "golib \<Rightarrow> DuplicateGroup \<Rightarrow> Profile \<Rightarrow> EvalEnv \<Rightarrow> evaluation" where
  "evaluated lib g p env = explain (annotate (decide lib (ranked lib g p env)))"

definition Evaluate :: "golib \<Rightarrow> DuplicateGroup option \<Rightarrow> Profile \<Rightarrow> EvalEnv \<Rightarrow> eval_error + DuplicateGroup" where
  "Evaluate lib g p env =
     (case checkEvaluable g of
        Some err \<Rightarrow> Inl err
      | None \<Rightarrow> Inr (finish (evaluated lib (the g) p env)))"

end
