(* ===== verification/Guarantees.thy ===== *)
theory Guarantees
  imports Validate
begin

text \<open>
  The guarantees of \<open>Evaluate\<close> as a whole: what the files and the group look like afterwards, how the
  flags and the status follow from the decisions, and the main results, on the group it returns.
\<close>

section \<open>Flags\<close>

lemma set_addFlag [simp]: "set (addFlag fl f) = insert f (set fl)"
  by (simp add: addFlag_def)

definition flag_if :: "bool \<Rightarrow> string \<Rightarrow> string set" where
  "flag_if b f = (if b then {f} else {})"

lemma in_flag_if [simp]: "x \<in> flag_if b f \<longleftrightarrow> b \<and> x = f"
  by (simp add: flag_if_def)

lemma flag_if_subset: "f \<in> S \<Longrightarrow> flag_if b f \<subseteq> S"
  by (simp add: flag_if_def)

lemma set_addFlagIf [simp]: "set (addFlagIf b f fl) = flag_if b f \<union> set fl"
  by (simp add: addFlagIf_def flag_if_def)

lemma set_sortedUnique [simp]: "set (sortedUnique xs) = set xs - {[]}"
  by (auto simp: sortedUnique_def)

lemma set_fold_addFlag [simp]: "set (fold (\<lambda>f fl. addFlag fl f) fs acc) = set fs \<union> set acc"
  by (induction fs arbitrary: acc) auto

text \<open>A fold of steps that add a set of flags each.\<close>

lemma set_fold_adds:
  assumes "\<And>i fl. set (f i fl) = A i \<union> set fl"
  shows "set (fold f is fl) = (\<Union>i\<in>set is. A i) \<union> set fl"
  using assms by (induction "is" arbitrary: fl) auto

definition version_flags_at :: "string \<Rightarrow> MediaVersion list \<Rightarrow> nat \<Rightarrow> string set" where
  "version_flags_at mt vs i = set (version_flag_step mt vs i [])"

definition version_flag_set :: "string set" where
  "version_flag_set = {FlagReportOnly, FlagManualOnly, FlagDiscTracked, FlagDiscUnreadable, FlagFullDisc,
     FlagUnavailableVersion, FlagStacked, FlagHardlinked, FlagMultiEpisode, FlagSample, FlagUnanalyzed, FlagSameFile}"

lemma version_flag_names: "version_flags_at mt vs i \<subseteq> version_flag_set"
  unfolding version_flag_set_def version_flags_at_def version_flag_step_def Let_def set_addFlagIf
  by (intro Un_least flag_if_subset) (simp_all only: insert_iff simp_thms set_simps empty_subsetI)

lemma set_version_flag_step: "set (version_flag_step mt vs i fl) = version_flags_at mt vs i \<union> set fl"
  unfolding version_flags_at_def version_flag_step_def Let_def set_addFlagIf by (simp only: Un_assoc set_simps Un_empty_right)

lemma set_versionFlags:
  "set (versionFlags mt vs) \<subseteq> (\<Union>i<length vs. version_flags_at mt vs i) \<union> {FlagSameFile}"
proof -
  have "set (fold (version_flag_step mt vs) [0..<length vs] []) = (\<Union>i<length vs. version_flags_at mt vs i)"
    by (subst set_fold_adds[of "version_flag_step mt vs", OF set_version_flag_step]) (simp add: lessThan_atLeast0)
  then show ?thesis
    unfolding versionFlags_def Let_def
    by (cases "sameFileComponents vs") (simp only: prod.case set_addFlagIf, auto simp: flag_if_def split: if_splits)
qed

definition listing_flag_set :: "OtherListing \<Rightarrow> string set" where
  "listing_flag_set e = set (listing_flags e [])"

lemma listing_flag_names:
  "listing_flag_set e \<subseteq> {FlagOtherServerKeeps, FlagOtherServerListing, FlagOtherServerPossible}"
  by (auto simp: listing_flag_set_def listing_flags_def)

lemma set_listing_flags: "set (listing_flags e fl) = listing_flag_set e \<union> set fl"
  by (simp add: listing_flag_set_def listing_flags_def)

definition file_flag_set :: "evaluation \<Rightarrow> nat \<Rightarrow> string set" where
  "file_flag_set ev i = set (file_flags ev i [])"

lemma set_file_flags: "set (file_flags ev i fl) = file_flag_set ev i \<union> set fl"
  by (simp add: file_flag_set_def file_flags_def Let_def Un_assoc)

lemma file_flag_names: "file_flag_set ev i \<subseteq> {FlagArrUntrackedKeeper, FlagMissingKeeperFile, FlagArrCutoffUnmet}"
  by (simp add: file_flag_set_def file_flags_def Let_def flag_if_subset)

lemma missing_keeper_flag:
  "FlagMissingKeeperFile \<in> file_flag_set ev i \<longleftrightarrow> ev_keep ev i \<and> ev_eligible ev i \<and> isInaccessible (ev_vs ev ! i)"
  by (simp add: file_flag_set_def file_flags_def Let_def)

lemma set_crossServerFlags:
  "\<exists>A. A \<subseteq> {FlagOtherServerKeeps, FlagOtherServerListing, FlagOtherServerPossible, FlagOtherServerUnread} \<and>
     (\<forall>fl. set (crossServerFlags ev n fl) = A \<union> set fl)"
proof -
  define B where "B i = (if ev_keep ev i then {} else \<Union>e\<in>set (v_otherServers (ev_vs ev ! i)). listing_flag_set e)" for i
  have "set (cross_flags ev i fl) = B i \<union> set fl" for i fl
    by (simp add: cross_flags_def B_def set_fold_adds[of listing_flags, OF set_listing_flags])
  then have f: "set (fold (cross_flags ev) is fl) = (\<Union>i\<in>set is. B i) \<union> set fl" for "is" fl
    by (rule set_fold_adds)
  have B: "B i \<subseteq> {FlagOtherServerKeeps, FlagOtherServerListing, FlagOtherServerPossible}" for i
    using listing_flag_names by (auto simp: B_def)
  let ?u = "case g_crossServer (ev_g ev) of Some cs \<Rightarrow> \<not> cr_complete cs \<and> n > 0 | None \<Rightarrow> False"
  let ?A = "(\<Union>i<length (ev_vs ev). B i) \<union> flag_if ?u FlagOtherServerUnread"
  have "set (crossServerFlags ev n fl) = ?A \<union> set fl" for fl
    by (simp only: crossServerFlags_def Let_def f set_addFlagIf set_upt lessThan_atLeast0 Un_ac)
  moreover have "(\<Union>i<length (ev_vs ev). B i) \<subseteq> {FlagOtherServerKeeps, FlagOtherServerListing, FlagOtherServerPossible}"
    using B by blast
  then have "?A \<subseteq> {FlagOtherServerKeeps, FlagOtherServerListing, FlagOtherServerPossible, FlagOtherServerUnread}"
    by (intro Un_least flag_if_subset) blast+
  ultimately show ?thesis by blast
qed

text \<open>The flags the evaluation owns say exactly what it found.\<close>

lemma group_flags_cases:
  fixes ev
  assumes "f \<noteq> []"
  obtains A where "A \<subseteq> {FlagOtherServerKeeps, FlagOtherServerListing, FlagOtherServerPossible, FlagOtherServerUnread}"
    and "f \<in> set (group_flags ev) \<longleftrightarrow>
      f \<in> A \<or> (f \<in> set (g_flags (ev_g ev)) \<and> \<not> engineOwnedFlag f) \<or>
      f \<in> set (versionFlags (g_mediaType (ev_g ev)) (ev_vs ev)) \<or>
      (f = FlagIntentionalArr \<and> ev_intentional ev) \<or>
      (\<exists>i < length (ev_vs ev). f \<in> file_flag_set ev i) \<or>
      (f = FlagMinAge \<and> (ev_youngestAge ev > 0 \<or> ev_youngUnknown ev \<or> ev_youngFuture ev)) \<or>
      (f = FlagWatchUnreadable \<and> fst (watchFailure (ev_vs ev)) \<and> ev_watchLabels ev \<noteq> [] \<and> removals_of ev > 0 \<and>
        watchCanDecide (ev_vs ev))"
proof -
  obtain A where A: "A \<subseteq> {FlagOtherServerKeeps, FlagOtherServerListing, FlagOtherServerPossible, FlagOtherServerUnread}"
    "\<forall>fl. set (crossServerFlags ev (removals_of ev) fl) = A \<union> set fl"
    using set_crossServerFlags[of ev "removals_of ev"] by blast
  have ff: "set (fold (file_flags ev) is fl) = (\<Union>i\<in>set is. file_flag_set ev i) \<union> set fl" for "is" fl
    by (rule set_fold_adds) (rule set_file_flags)
  show ?thesis
    by (rule that[OF A(1)])
       (use assms in \<open>simp only: group_flags_def Let_def set_sortedUnique A(2) ff set_addFlagIf set_fold_addFlag
          Un_iff Diff_iff insert_iff empty_iff in_flag_if set_filter mem_Collect_eq set_upt UN_iff set_simps
          atLeastLessThan_iff le0 simp_thms Bex_def, blast\<close>)
qed

lemma engine_flag_not_version:
  assumes "engineOwnedFlag f"
  shows "f \<notin> set (versionFlags mt vs)"
proof -
  have "\<forall>x\<in>version_flag_set. \<not> engineOwnedFlag x"
    by (simp add: engineOwnedFlag_def version_flag_set_def)
  moreover have "FlagSameFile \<in> version_flag_set" by (simp add: version_flag_set_def)
  then have "set (versionFlags mt vs) \<subseteq> version_flag_set"
    using set_versionFlags[of mt vs] version_flag_names[of mt vs] by blast
  ultimately show ?thesis using assms by blast
qed

lemma flag_intentional: "FlagIntentionalArr \<in> set (group_flags ev) \<longleftrightarrow> ev_intentional ev"
proof -
  have o: "engineOwnedFlag FlagIntentionalArr" by (simp add: engineOwnedFlag_def)
  have n: "FlagIntentionalArr \<notin> file_flag_set ev i" for i using file_flag_names[of ev i] by auto
  obtain A where A: "A \<subseteq> {FlagOtherServerKeeps, FlagOtherServerListing, FlagOtherServerPossible, FlagOtherServerUnread}"
    and "FlagIntentionalArr \<in> set (group_flags ev) \<longleftrightarrow>
      FlagIntentionalArr \<in> A \<or> ev_intentional ev"
    using group_flags_cases[of FlagIntentionalArr ev] o n engine_flag_not_version[OF o] by simp metis
  moreover have "FlagIntentionalArr \<notin> A" using A by auto
  ultimately show ?thesis by simp
qed

lemma flag_missing_keeper:
  "FlagMissingKeeperFile \<in> set (group_flags ev) \<longleftrightarrow>
     (\<exists>i < length (ev_vs ev). ev_keep ev i \<and> ev_eligible ev i \<and> isInaccessible (ev_vs ev ! i))"
proof -
  have o: "engineOwnedFlag FlagMissingKeeperFile" by (simp add: engineOwnedFlag_def)
  obtain A where A: "A \<subseteq> {FlagOtherServerKeeps, FlagOtherServerListing, FlagOtherServerPossible, FlagOtherServerUnread}"
    and "FlagMissingKeeperFile \<in> set (group_flags ev) \<longleftrightarrow>
      FlagMissingKeeperFile \<in> A \<or> (\<exists>i < length (ev_vs ev). FlagMissingKeeperFile \<in> file_flag_set ev i)"
    using group_flags_cases[of FlagMissingKeeperFile ev] o engine_flag_not_version[OF o] by simp metis
  moreover have "FlagMissingKeeperFile \<notin> A" using A by auto
  ultimately show ?thesis using missing_keeper_flag[of ev] by simp
qed

lemma flag_min_age:
  "FlagMinAge \<in> set (group_flags ev) \<longleftrightarrow> ev_youngestAge ev > 0 \<or> ev_youngUnknown ev \<or> ev_youngFuture ev"
proof -
  have o: "engineOwnedFlag FlagMinAge" by (simp add: engineOwnedFlag_def)
  have n: "FlagMinAge \<notin> file_flag_set ev i" for i using file_flag_names[of ev i] by auto
  obtain A where A: "A \<subseteq> {FlagOtherServerKeeps, FlagOtherServerListing, FlagOtherServerPossible, FlagOtherServerUnread}"
    and "FlagMinAge \<in> set (group_flags ev) \<longleftrightarrow>
      FlagMinAge \<in> A \<or> (ev_youngestAge ev > 0 \<or> ev_youngUnknown ev \<or> ev_youngFuture ev)"
    using group_flags_cases[of FlagMinAge ev] o n engine_flag_not_version[OF o] by simp metis
  moreover have "FlagMinAge \<notin> A" using A by auto
  ultimately show ?thesis by simp
qed

text \<open>A group with nothing to report has no flags.\<close>

lemma group_flags_none:
  assumes "g_flags (ev_g ev) = []" "versionFlags (g_mediaType (ev_g ev)) (ev_vs ev) = []" "\<not> ev_intentional ev"
    "\<not> young ev" "ev_watchLabels ev = []" "g_crossServer (ev_g ev) = None"
    "\<And>i. i < length (ev_vs ev) \<Longrightarrow> v_arr (ev_vs ev ! i) = None \<and> \<not> isInaccessible (ev_vs ev ! i) \<and>
       v_otherServers (ev_vs ev ! i) = []"
  shows "group_flags ev = []"
proof -
  have ff: "fold (file_flags ev) is fl = fl" if "\<forall>i\<in>set is. i < length (ev_vs ev)" for "is" fl
    using that assms(7) by (induction "is") (auto simp: file_flags_def Let_def addFlagIf_def)
  have cf: "fold (cross_flags ev) is fl = fl" if "\<forall>i\<in>set is. i < length (ev_vs ev)" for "is" fl
    using that assms(7) by (induction "is") (auto simp: cross_flags_def)
  show ?thesis
    using assms(1-6) ff[of "[0..<length (ev_vs ev)]" "[]"] cf[of "[0..<length (ev_vs ev)]" "[]"]
    by (simp add: group_flags_def Let_def addFlagIf_def crossServerFlags_def young_def sortedUnique_def)
qed

section \<open>Status\<close>

lemma status_clear:
  assumes "g_flags g = []" "reportOnlyReasons (ev_vs ev) = []" "removals > 0"
  shows "status ev g removals = (GroupPending, [], False)"
  using assms by (simp add: status_def Let_def review_reasons_def review_suspect_def review_same_file_def
      review_unanalyzed_def review_disc_def review_duration_def review_watch_def crossServerReview_def
      deferred_reasons_def HasFlag_def)


lemma review_missing_keeper: "HasFlag g FlagMissingKeeperFile \<Longrightarrow> review_reasons ev g \<noteq> []"
  by (simp add: review_reasons_def)

lemma deferred_min_age: "HasFlag g FlagMinAge \<Longrightarrow> deferred_reasons ev g \<noteq> []"
  by (simp add: deferred_reasons_def)

lemma deferred_busy: "HasFlag g FlagArrQueueBusy \<Longrightarrow> deferred_reasons ev g \<noteq> []"
  by (simp add: deferred_reasons_def)

lemma deferred_only_playing:
  "HasFlag g FlagPlaying \<Longrightarrow> length (deferred_reasons ev g) = 1 \<Longrightarrow>
     \<not> HasFlag g FlagMinAge \<and> \<not> HasFlag g FlagArrQueueBusy"
  by (auto simp: deferred_reasons_def split: if_splits)

text \<open>A group that is pending, or deferred only by playback, needs no review and may act now.\<close>

definition actionable :: "evaluation \<Rightarrow> DuplicateGroup \<Rightarrow> nat \<Rightarrow> bool" where
  "actionable ev g removals \<longleftrightarrow> fst (status ev g removals) = GroupPending \<or> snd (snd (status ev g removals))"

lemma actionableD:
  assumes "actionable ev g removals"
  shows "review_reasons ev g = []" "removals > 0" "reportOnlyReasons (ev_vs ev) = []"
    "\<not> HasFlag g FlagMinAge" "\<not> HasFlag g FlagArrQueueBusy" "\<not> HasFlag g FlagMissingKeeperFile"
proof -
  have r: "review_reasons ev g = [] \<and> removals > 0 \<and> reportOnlyReasons (ev_vs ev) = [] \<and>
      (deferred_reasons ev g = [] \<or> (HasFlag g FlagPlaying \<and> length (deferred_reasons ev g) = 1))"
    using assms by (simp add: actionable_def status_def Let_def split: if_splits)
  then show "review_reasons ev g = []" "removals > 0" "reportOnlyReasons (ev_vs ev) = []" by simp_all
  show "\<not> HasFlag g FlagMissingKeeperFile" using r review_missing_keeper by metis
  have "\<not> HasFlag g FlagMinAge \<and> \<not> HasFlag g FlagArrQueueBusy"
  proof (cases "deferred_reasons ev g = []")
    case True
    then show ?thesis using deferred_min_age deferred_busy by metis
  next
    case False
    then show ?thesis using r deferred_only_playing by blast
  qed
  then show "\<not> HasFlag g FlagMinAge" "\<not> HasFlag g FlagArrQueueBusy" by simp_all
qed

text \<open>Only an actionable evaluation leaves a group pending or queued.\<close>

lemma finish_actionable:
  assumes "g_status (finish ev) = GroupPending \<or> g_status (finish ev) = GroupQueued"
  shows "actionable ev (updated_group ev) (removals_of ev)"
proof -
  let ?r = "status ev (updated_group ev) (removals_of ev)"
  have "fst ?r \<noteq> GroupQueued"
    by (simp add: status_def Let_def)
  then show ?thesis
    using assms by (auto simp: finish_def Let_def actionable_def split: if_splits)
qed

end
