(* ===== verification/ScanGroups.thy ===== *)
theory ScanGroups
  imports Grouping Guarantees "HOL-Library.Multiset"
begin

text \<open>
  What \<open>BuildGroups\<close> guarantees about the groups of a scan: where their files come from, that their keys are
  unique, that variants of a title are split into a partition which never mixes editions, 3D or languages,
  and when items of different libraries are merged.
\<close>

section \<open>Partitions by a key\<close>

lemma mset_filter_classes:
  assumes "distinct ks" and "f ` set xs \<subseteq> set ks"
  shows "mset (concat (map (\<lambda>k. filter (\<lambda>x. f x = k) xs) ks)) = mset xs"
  using assms(2)
proof (induction xs)
  case (Cons x xs)
  have "mset (concat (map (\<lambda>k. filter (\<lambda>y. f y = k) (x # xs)) ls)) =
      mset (concat (map (\<lambda>k. filter (\<lambda>y. f y = k) xs) ls)) + (if f x \<in> set ls then {#x#} else {#})"
    if "distinct ls" for ls
    using that by (induction ls) auto
  from this[OF assms(1)] show ?case using Cons by simp
qed simp

lemma group_by_keys_sorted:
  "distinct (sort (map fst (group_by f xs)))" "set (sort (map fst (group_by f xs))) = f ` set xs"
  using distinct_group_by[of f xs] keys_group_by[of f xs] by auto

lemma mset_group_by:
  "mset (concat (map (\<lambda>k. filter (\<lambda>x. f x = k) xs) (sort (map fst (group_by f xs))))) = mset xs"
  using mset_filter_classes[of "sort (map fst (group_by f xs))" f xs] group_by_keys_sorted[of f xs] by simp

section \<open>Candidates\<close>

abbreviation cand_key :: "candidate \<Rightarrow> string" where "cand_key c \<equiv> v_key (cd_v c)"

text \<open>A candidate is a version of an item that no exclusion covers, with its attributes.\<close>

definition cand_of :: "exclusionSet \<Rightarrow> MediaItem \<Rightarrow> candidate \<Rightarrow> bool" where
  "cand_of ex it c \<longleftrightarrow>
     \<not> itemExcluded ex it \<and> cd_v c \<in> (\<lambda>v. fillVersionIdentity v it) ` set (it_versions it) \<and>
     cand_key c \<noteq> [] \<and> \<not> isOptimized (cd_v c) \<and> \<not> isUnavailable (cd_v c) \<and> \<not> versionExcluded ex (cd_v c) \<and>
     cd_edition c = versionEditionKey (cd_v c) (it_editionTitle it) \<and>
     cd_is3D c = isVersion3D (cd_v c) (cd_edition c) \<and> cd_langs c = audioLangs (cd_v c)"

definition cands_ok :: "exclusionSet \<Rightarrow> MediaItem list \<Rightarrow> candidate list \<Rightarrow> bool" where
  "cands_ok ex items cs \<longleftrightarrow> (\<forall>c\<in>set cs. \<exists>it\<in>set items. cand_of ex it c)"

text \<open>
  Two listings of one item; the scope group of an item's library; and an entry: the item it was made
  from, and its candidates, which come from that item or from other listings of it.
\<close>

definition same_item :: "MediaItem \<Rightarrow> MediaItem \<Rightarrow> bool" where
  "same_item a b \<longleftrightarrow> a = b \<or> (item_identity a \<noteq> [] \<and> item_identity a = item_identity b)"

definition scope_of :: "GroupOptions \<Rightarrow> MediaItem \<Rightarrow> string" where
  "scope_of opts it =
     (case go_Libraries opts (it_libraryID it) of Some l \<Rightarrow> ToLower (TrimSpace (l_scopeGroup l)) | None \<Rightarrow> [])"

definition entry_ok :: "GroupOptions \<Rightarrow> exclusionSet \<Rightarrow> MediaItem list \<Rightarrow> MediaItem \<Rightarrow> itemEntry \<Rightarrow> bool" where
  "entry_ok opts ex items it e \<longleftrightarrow>
     it \<in> set items \<and> \<not> itemExcluded ex it \<and>
     (\<exists>m. e_item e = it\<lparr>it_versions := [], it_externalIDs := m\<rparr>) \<and> e_scope e = scope_of opts it \<and>
     (\<forall>c\<in>set (e_cands e). \<exists>b\<in>set items. same_item it b \<and> cand_of ex b c) \<and>
     distinct (map cand_key (e_cands e)) \<and> set (e_seen e) = cand_key ` set (e_cands e)"

lemma cands_ok_mono: "cands_ok ex items cs \<Longrightarrow> set items \<subseteq> set items' \<Longrightarrow> set cs' \<subseteq> set cs \<Longrightarrow> cands_ok ex items' cs'"
  by (fastforce simp: cands_ok_def)

lemma entry_ok_cands: "entry_ok opts ex items it e \<Longrightarrow> cands_ok ex items (e_cands e)"
  by (auto simp: entry_ok_def cands_ok_def)

lemma add_version_ok:
  assumes "\<not> itemExcluded ex b" "b \<in> set items" "v \<in> set (it_versions b)" "same_item it b" "entry_ok opts ex items it e"
  shows "entry_ok opts ex items it (add_version ex b v e)"
proof -
  let ?v = "fillVersionIdentity v b"
  let ?ed = "versionEditionKey ?v (it_editionTitle b)"
  let ?c = "\<lparr>cd_v = ?v, cd_edition = ?ed, cd_is3D = isVersion3D ?v ?ed, cd_langs = audioLangs ?v\<rparr>"
  have "cand_of ex b ?c" if "v_key ?v \<noteq> []" "\<not> isOptimized ?v" "\<not> isUnavailable ?v" "\<not> versionExcluded ex ?v"
    using assms that by (auto simp: cand_of_def)
  then show ?thesis
    using assms(2,4,5) by (auto simp: add_version_def Let_def entry_ok_def)
qed

lemma add_versions_ok:
  assumes "\<not> itemExcluded ex b" "b \<in> set items" "same_item it b" "entry_ok opts ex items it e"
  shows "entry_ok opts ex items it (add_versions ex b e)"
  unfolding add_versions_def
  using assms by (intro fold_invariant[of "entry_ok opts ex items it"] add_version_ok) (auto simp: set_ids_def entry_ok_def)

definition entries_ok :: "GroupOptions \<Rightarrow> exclusionSet \<Rightarrow> MediaItem list \<Rightarrow> (string \<times> itemEntry) list \<Rightarrow> bool" where
  "entries_ok opts ex items es \<longleftrightarrow>
     (\<forall>(i, e)\<in>set es. \<exists>it. i = item_identity it \<and> entry_ok opts ex items it e)"

lemma collect_item_ok:
  assumes "b \<in> set items" "entries_ok opts ex items es"
  shows "entries_ok opts ex items (collect_item opts ex b es)"
proof (cases "itemExcluded ex b")
  case False
  have old: "\<exists>it. i = item_identity it \<and> entry_ok opts ex items it e" if "(i, e) \<in> set es" for i e
    using assms(2) that by (auto simp: entries_ok_def)
  have new: "entry_ok opts ex items b (add_versions ex b (new_entry opts b))"
    using assms(1) False
    by (intro add_versions_ok) (auto simp: entry_ok_def new_entry_def scope_of_def same_item_def intro: exI[of _ "it_externalIDs b"])
  have add: "\<exists>it. item_identity b = item_identity it \<and> entry_ok opts ex items it (add_versions ex b (merge_item b e))"
    if mem: "(item_identity b, e) \<in> set es" "item_identity b \<noteq> []" for e
  proof -
    obtain it where it: "item_identity b = item_identity it" "entry_ok opts ex items it e" using old[OF mem(1)] by blast
    then have "entry_ok opts ex items it (merge_item b e)" by (auto simp: merge_item_def entry_ok_def)
    moreover have "same_item it b" using it(1) mem(2) by (simp add: same_item_def)
    ultimately show ?thesis using add_versions_ok False assms(1) it(1) by blast
  qed
  have app: "\<exists>it. item_identity b = item_identity it \<and> entry_ok opts ex items it (add_versions ex b (new_entry opts b))"
    using new by blast
  show ?thesis
  proof (cases "item_identity b \<noteq> [] \<and> item_identity b \<in> fst ` set es")
    case True
    show ?thesis
      unfolding entries_ok_def
    proof clarify
      fix i e
      assume "(i, e) \<in> set (collect_item opts ex b es)"
      then obtain j d where m: "(j, d) \<in> set es"
        "(i, e) = (if j = item_identity b then (j, add_versions ex b (merge_item b d)) else (j, d))"
        using True False by (auto simp: collect_item_def Let_def)
      show "\<exists>it. i = item_identity it \<and> entry_ok opts ex items it e"
        using m(2) old[OF m(1)] add[of d] m(1) True by (cases "j = item_identity b") auto
    qed
  next
    case neq: False
    have "collect_item opts ex b es = es @ [(item_identity b, add_versions ex b (new_entry opts b))]"
      using neq False by (auto simp: collect_item_def Let_def)
    then show ?thesis using app old by (auto simp: entries_ok_def)
  qed
qed (use assms in \<open>simp add: collect_item_def\<close>)

lemma collectItems_ok:
  assumes "e \<in> set (collectItems items opts ex)"
  shows "\<exists>it. entry_ok opts ex items it e"
proof -
  have "entries_ok opts ex items (fold (collect_item opts ex) items [])"
    by (intro fold_invariant[of "entries_ok opts ex items"] collect_item_ok) (auto simp: entries_ok_def)
  then show ?thesis using assms unfolding collectItems_def entries_ok_def by fastforce
qed

section \<open>Units\<close>

lemma add_cands_ok:
  "set (fold add_cand cs ds) \<subseteq> set cs \<union> set ds"
  "distinct (map cand_key ds) \<Longrightarrow> distinct (map cand_key (fold add_cand cs ds))"
proof (induction cs arbitrary: ds)
  case (Cons c cs)
  {
    case 1
    have "set (add_cand c ds) \<subseteq> insert c (set ds)" by (auto simp: add_cand_def)
    then show ?case using Cons.IH(1)[of "add_cand c ds"] by auto
  next
    case 2
    then show ?case using Cons.IH(2) by (auto simp: add_cand_def)
  }
qed auto

lemma newUnit_cands:
  "set (u_cands (newUnit es)) \<subseteq> (\<Union>e\<in>set es. set (e_cands e))"
  "distinct (map cand_key (u_cands (newUnit es)))"
  using add_cands_ok(1)[of "concat (map e_cands (sort_by entryLess es))" "[]"]
    add_cands_ok(2)[of "[]" "concat (map e_cands (sort_by entryLess es))"]
  by (auto simp: newUnit_def Let_def)

lemma newUnit_entries [simp]: "u_entries (newUnit es) = sort_by entryLess es"
  by (simp add: newUnit_def Let_def)

text \<open>The clusters that become one unit keep the entries of their bucket.\<close>

lemma componentsOf_subset: "cs \<in> set (componentsOf es uf) \<Longrightarrow> set cs \<subseteq> set es"
  by (auto simp: componentsOf_def Let_def)

lemma componentsOf_nonempty: "cs \<in> set (componentsOf es uf) \<Longrightarrow> cs \<noteq> []"
  using group_by_keys_sorted(2)[of "\<lambda>i. snd (uf_find uf i)" "[0..<length es]"]
  by (fastforce simp: componentsOf_def Let_def filter_empty_conv)

lemma splitConflicting_subset: "cs \<in> set (splitConflicting es) \<Longrightarrow> set cs \<subseteq> set es"
  by (auto simp: splitConflicting_def Let_def split: if_splits)

text \<open>How a unit was made: one entry, or a cluster of one bucket with at least two libraries.\<close>

definition merged :: "itemEntry list \<Rightarrow> bool" where
  "merged es \<longleftrightarrow>
     (\<forall>e\<in>set es. \<not> unscoped e \<and> bucket_key e = bucket_key (hd es)) \<and> 2 \<le> distinctLibraries es \<and>
     (readOnlyCluster es \<longrightarrow> distinctLibraries es = length es)"

lemma cluster_units_cases:
  assumes "u \<in> set (cluster_units cs)"
  obtains (single) e where "e \<in> set cs" "u = newUnit [e]"
  | (cluster) "u = newUnit cs" "2 \<le> distinctLibraries cs" "readOnlyCluster cs \<longrightarrow> distinctLibraries cs = length cs"
  using assms by (auto simp: cluster_units_def split: if_splits)

lemma bucket_cluster:
  assumes "cs \<in> set (concat (map splitConflicting (idComponents (members_of (group_by bucket_key es) bk))))"
  shows "set cs \<subseteq> {e \<in> set es. bucket_key e = bk}"
  using assms splitConflicting_subset componentsOf_subset
  by (fastforce simp: idComponents_def Let_def)

lemma buildUnits_cases:
  assumes "u \<in> set (buildUnits entries)"
  obtains es where "u = newUnit es" "es \<noteq> []" "set es \<subseteq> set entries" "(\<exists>e. es = [e]) \<or> merged es"
proof -
  let ?es = "filter (\<lambda>e. e_cands e \<noteq> []) entries"
  let ?sc = "filter (\<lambda>e. \<not> unscoped e) ?es"
  consider e where "e \<in> set ?es" "u = newUnit [e]"
    | bk cs where "cs \<in> set (concat (map splitConflicting (idComponents (members_of (group_by bucket_key ?sc) bk))))"
        "u \<in> set (cluster_units cs)"
    using assms unfolding buildUnits_def Let_def by fastforce
  then show thesis
  proof cases
    case 1
    then show ?thesis by (intro that[of "[e]"]) auto
  next
    case 2
    from bucket_cluster[OF 2(1)] have sub: "set cs \<subseteq> {e \<in> set ?sc. bucket_key e = bk}" .
    from 2(2) show ?thesis
    proof (cases rule: cluster_units_cases)
      case (single e)
      then show ?thesis using sub by (intro that[of "[e]"]) auto
    next
      case cluster
      then have "cs \<noteq> []" by (auto simp: distinctLibraries_def)
      moreover from this have "bucket_key (hd cs) = bk" using sub hd_in_set by blast
      ultimately show ?thesis using cluster sub by (intro that[of cs]) (auto simp: merged_def)
    qed
  qed
qed

lemma disambiguateKeys_cases:
  assumes "u \<in> set (disambiguateKeys us)"
  obtains u0 where "u0 \<in> set us" "\<exists>k. u = u0\<lparr>u_key := k\<rparr>"
proof -
  from assms obtain u0 where u0: "u0 \<in> set us" "u = disambiguate us u0" by (auto simp: disambiguateKeys_def)
  have "u = u0\<lparr>u_key := u_key u\<rparr>" using u0(2) by (auto simp: disambiguate_def Let_def)
  then show thesis using u0(1) that by blast
qed

section \<open>Variants\<close>

lemma mset_split_group: "mset (concat (map vg_cands (split_group f s fl g))) = mset (vg_cands g)"
  using mset_group_by[of f "vg_cands g"] by (simp add: split_group_def Let_def comp_def)

lemma mset_concat_map_split:
  assumes "\<And>g. mset (concat (map vg_cands (f g))) = mset (vg_cands g)"
  shows "mset (concat (map vg_cands (concat (map f gs)))) = mset (concat (map vg_cands gs))"
  using assms by (induction gs) auto

lemma length_languageParts [simp]: "length (languageParts cs) = length cs"
  by (simp add: languageParts_def Let_def)

lemma mset_split_language: "mset (concat (map vg_cands (split_language g))) = mset (vg_cands g)"
proof -
  let ?zs = "zip (languageParts (vg_cands g)) (vg_cands g)"
  let ?cls = "\<lambda>s. filter (\<lambda>pc. lang_suffix (fst pc) = s) ?zs"
  let ?ks = "sort (map fst (group_by (\<lambda>pc. lang_suffix (fst pc)) ?zs))"
  have "mset (concat (map (\<lambda>s. map snd (?cls s)) ?ks)) = image_mset snd (mset (concat (map ?cls ?ks)))"
    by (simp add: map_concat comp_def flip: mset_map)
  also have "\<dots> = mset (map snd ?zs)" by (simp only: mset_group_by mset_map)
  also have "map snd ?zs = vg_cands g" by simp
  finally show ?thesis by (simp add: split_language_def Let_def comp_def)
qed

lemma mset_splitVariants: "mset (concat (map vg_cands (splitVariants cands opts))) = mset cands"
  by (simp add: splitVariants_def Let_def splitBy_def splitLanguages_def
    mset_concat_map_split[OF mset_split_group] mset_concat_map_split[OF mset_split_language] mset_split_group del: mset_concat)

text \<open>Every variant is part of one group of the split before it.\<close>

definition refines :: "variantGroup list \<Rightarrow> variantGroup list \<Rightarrow> bool" where
  "refines gs' gs \<longleftrightarrow> (\<forall>g'\<in>set gs'. \<exists>g\<in>set gs. set (vg_cands g') \<subseteq> set (vg_cands g))"

lemma refines_refl: "refines gs gs"
  by (auto simp: refines_def)

lemma refines_split:
  assumes "\<And>g. \<Union> (set ` vg_cands ` set (f g)) \<subseteq> set (vg_cands g)"
  shows "refines (concat (map f gs)) gs"
proof -
  have "set (vg_cands g') \<subseteq> set (vg_cands g)" if "g' \<in> set (f g)" for g g'
    using assms[of g] that by blast
  then show ?thesis unfolding refines_def set_concat set_map by blast
qed

lemma split_subset:
  assumes "mset (concat (map vg_cands gs)) = mset (vg_cands g)"
  shows "\<Union> (set ` vg_cands ` set gs) \<subseteq> set (vg_cands g)"
  using mset_eq_setD[OF assms] by auto

lemma refines_splitBy: "refines (splitBy gs f s fl) gs"
  unfolding splitBy_def by (rule refines_split[OF split_subset[OF mset_split_group]])

lemma refines_splitLanguages: "refines (splitLanguages gs) gs"
  unfolding splitLanguages_def by (rule refines_split[OF split_subset[OF mset_split_language]])

lemma splitBy_homogeneous:
  assumes "g \<in> set (splitBy gs f s fl)" "c \<in> set (vg_cands g)" "d \<in> set (vg_cands g)"
  shows "f c = f d"
  using assms by (auto simp: splitBy_def split_group_def Let_def)

section \<open>Language variants\<close>

lemma Split_Join:
  assumes "xs \<noteq> []" "\<forall>x\<in>set xs. sep \<notin> set x"
  shows "Split sep (Join xs [sep]) = xs"
  using assms
proof (induction xs "[sep]" rule: Join.induct)
  case (2 x)
  then show ?case using Split_single[of sep x] by simp
next
  case (3 x y xs)
  then show ?case using Split_append_sep[of sep x] Split_single[of sep x] by simp
qed simp

definition plain_langs :: "candidate \<Rightarrow> bool" where
  "plain_langs c \<longleftrightarrow> (\<forall>l\<in>set (cd_langs c). l \<noteq> [] \<and> CHR ''+'' \<notin> set l)"

lemma code_inj:
  assumes "Join (sortedUnique xs) ''+'' = Join (sortedUnique ys) ''+''" "xs \<noteq> []" "ys \<noteq> []"
    "\<forall>x\<in>set xs. x \<noteq> [] \<and> CHR ''+'' \<notin> set x" "\<forall>y\<in>set ys. y \<noteq> [] \<and> CHR ''+'' \<notin> set y"
  shows "set xs = set ys"
proof -
  have nil: "[] \<notin> set xs" "[] \<notin> set ys" using assms by auto
  have "set (sortedUnique xs) \<noteq> {}" "set (sortedUnique ys) \<noteq> {}"
    using assms(2,3) nil by (auto simp: neq_Nil_conv)
  then have "sortedUnique xs \<noteq> []" "sortedUnique ys \<noteq> []" by (metis set_empty)+
  then have "sortedUnique xs = sortedUnique ys"
    using arg_cong[OF assms(1), of "Split (CHR ''+'')"] assms(4,5) by (simp add: Split_Join)
  then have "set xs - {[]} = set ys - {[]}" using set_sortedUnique by metis
  then show ?thesis using nil by blast
qed

lemma pairs_after_Nil:
  fixes x y :: "'a :: linorder"
  assumes "pairs_after P xs = []" "sorted_wrt (<) xs" "x < y" "x \<in> set xs" "y \<in> set xs"
  shows "\<not> P x y"
  using assms by (induction xs) (auto simp: filter_empty_conv)

lemma stringsIntersect_sym: "stringsIntersect a b = stringsIntersect b a"
  by (auto simp: stringsIntersect_def)

text \<open>Root and members of a language cluster, and the set of languages behind a part code.\<close>

definition lang_root :: "candidate list \<Rightarrow> nat \<Rightarrow> nat" where
  "lang_root cs i = snd (uf_find (lang_uf cs) i)"

definition lang_members :: "candidate list \<Rightarrow> nat \<Rightarrow> nat list" where
  "lang_members cs i = filter (\<lambda>j. cd_langs (cs ! j) \<noteq> [] \<and> lang_root cs j = lang_root cs i) [0..<length cs]"

lemma languageParts_nth:
  assumes "i < length cs" "cd_langs (cs ! i) \<noteq> []"
  shows "languageParts cs ! i = part_code cs (lang_members cs i) i"
  using assms by (simp add: languageParts_def Let_def lang_members_def lang_root_def conj_commute)

lemma shared_language_root:
  assumes "i < length cs" "j < length cs" "l \<in> set (cd_langs (cs ! i))" "l \<in> set (cd_langs (cs ! j))"
  shows "lang_root cs i = lang_root cs j"
proof -
  have "(i, j) \<in> shares (owned (vat cd_langs cs) (length cs))"
    using assms by (auto simp: shares_def owned_def)
  then have "(i, j) \<in> (shares (owned (vat cd_langs cs) (length cs)))\<^sup>*" by blast
  then show ?thesis unfolding lang_root_def lang_uf_def using link_find_iff assms(1,2) by blast
qed

text \<open>The languages a code stands for: those of the version, or of all versions of its cluster.\<close>

definition code_langs :: "candidate list \<Rightarrow> nat \<Rightarrow> string list" where
  "code_langs cs i =
     (if pairs_after (\<lambda>i j. \<not> stringsIntersect (cd_langs (cs ! i)) (cd_langs (cs ! j))) (lang_members cs i) \<noteq> []
      then cd_langs (cs ! i)
      else concat (map (\<lambda>j. cd_langs (cs ! j)) (lang_members cs i)))"

lemma part_code_Join: "part_code cs (lang_members cs i) i = Join (sortedUnique (code_langs cs i)) ''+''"
  by (simp add: part_code_def code_langs_def Let_def)

lemma code_langs_props:
  assumes "i < length cs" "cd_langs (cs ! i) \<noteq> []"
  shows "set (cd_langs (cs ! i)) \<subseteq> set (code_langs cs i)" "code_langs cs i \<noteq> []"
    "l \<in> set (code_langs cs i) \<Longrightarrow> \<exists>j<length cs. l \<in> set (cd_langs (cs ! j)) \<and> lang_root cs j = lang_root cs i"
proof -
  have i: "i \<in> set (lang_members cs i)" using assms by (simp add: lang_members_def)
  then show sub: "set (cd_langs (cs ! i)) \<subseteq> set (code_langs cs i)" by (auto simp: code_langs_def)
  then show "code_langs cs i \<noteq> []" using assms(2) by auto
  show "\<exists>j<length cs. l \<in> set (cd_langs (cs ! j)) \<and> lang_root cs j = lang_root cs i" if "l \<in> set (code_langs cs i)"
    using that assms(1) by (auto simp: code_langs_def lang_members_def split: if_splits)
qed

lemma same_part_intersect:
  assumes ij: "i < length cs" "j < length cs" and ne: "cd_langs (cs ! i) \<noteq> []" "cd_langs (cs ! j) \<noteq> []"
    and plain: "\<forall>c\<in>set cs. plain_langs c" and eq: "languageParts cs ! i = languageParts cs ! j"
  shows "stringsIntersect (cd_langs (cs ! i)) (cd_langs (cs ! j))"
proof -
  note pi = code_langs_props[OF ij(1) ne(1)] and pj = code_langs_props[OF ij(2) ne(2)]
  have pl: "l \<noteq> [] \<and> CHR ''+'' \<notin> set l" if "k < length cs" "l \<in> set (cd_langs (cs ! k))" for k l
    using plain that by (auto simp: plain_langs_def)
  have "Join (sortedUnique (code_langs cs i)) ''+'' = Join (sortedUnique (code_langs cs j)) ''+''"
    using eq languageParts_nth[OF ij(1) ne(1)] languageParts_nth[OF ij(2) ne(2)] by (simp add: part_code_Join)
  then have codes: "set (code_langs cs i) = set (code_langs cs j)"
    using pi(2,3) pj(2,3) pl by (intro code_inj) blast+
  obtain l where l: "l \<in> set (cd_langs (cs ! i))" using ne(1) by (cases "cd_langs (cs ! i)") auto
  then obtain k where k: "k < length cs" "l \<in> set (cd_langs (cs ! k))" "lang_root cs k = lang_root cs j"
    using pi(1) pj(3) codes by blast
  then have root: "lang_root cs i = lang_root cs j" using shared_language_root[OF ij(1) k(1) l k(2)] by simp
  then have ms: "lang_members cs i = lang_members cs j" by (simp add: lang_members_def)
  let ?P = "\<lambda>i j. \<not> stringsIntersect (cd_langs (cs ! i)) (cd_langs (cs ! j))"
  show ?thesis
  proof (cases "pairs_after ?P (lang_members cs i) = []")
    case True
    have mem: "i \<in> set (lang_members cs i)" "j \<in> set (lang_members cs i)"
      using ij ne root by (auto simp: lang_members_def)
    have "sorted_wrt (<) (lang_members cs i)" by (simp add: lang_members_def sorted_wrt_filter)
    then have "\<not> ?P x y" if "x < y" "x \<in> set (lang_members cs i)" "y \<in> set (lang_members cs i)" for x y
      using pairs_after_Nil[OF True] that by blast
    then have "i < j \<Longrightarrow> ?thesis" "j < i \<Longrightarrow> ?thesis" using mem stringsIntersect_sym by blast+
    moreover have "i = j \<Longrightarrow> ?thesis" using l by (auto simp: stringsIntersect_def)
    ultimately show ?thesis by linarith
  next
    case False
    then have "set (cd_langs (cs ! i)) = set (cd_langs (cs ! j))" using codes ms by (simp add: code_langs_def)
    then show ?thesis using l by (auto simp: stringsIntersect_def)
  qed
qed

lemma part_nonempty:
  assumes "i < length cs" "cd_langs (cs ! i) \<noteq> []" "plain_langs (cs ! i)"
  shows "languageParts cs ! i \<noteq> []"
proof -
  obtain l where l: "l \<in> set (cd_langs (cs ! i))" using assms(2) by (cases "cd_langs (cs ! i)") auto
  then have "l \<in> set (sortedUnique (code_langs cs i))"
    using code_langs_props(1)[OF assms(1,2)] assms(3) by (auto simp: plain_langs_def)
  moreover have "Join xs s \<noteq> []" if "l \<in> set xs" "l \<noteq> []" for xs s
    using that by (induction xs s rule: Join.induct) auto
  moreover have "l \<noteq> []" using l assms(3) by (auto simp: plain_langs_def)
  ultimately show ?thesis using languageParts_nth[OF assms(1,2)] by (simp add: part_code_Join)
qed

lemma length_dedup_less_2:
  assumes "length (dedup xs) < 2" "x \<in> set xs" "y \<in> set xs"
  shows "x = y"
proof -
  have "x \<in> set (dedup xs)" "y \<in> set (dedup xs)" using assms(2,3) by auto
  then show ?thesis using assms(1) by (cases "dedup xs") auto
qed

lemma split_language_intersect:
  assumes vg: "vg \<in> set (split_language g)" and c: "c \<in> set (vg_cands vg)" "cd_langs c \<noteq> []"
    and d: "d \<in> set (vg_cands vg)" "cd_langs d \<noteq> []" and plain: "\<forall>c\<in>set (vg_cands g). plain_langs c"
  shows "stringsIntersect (cd_langs c) (cd_langs d)"
proof -
  let ?cs = "vg_cands g" and ?P = "languageParts (vg_cands g)"
  have "\<exists>i<length ?cs. \<exists>j<length ?cs. c = ?cs ! i \<and> d = ?cs ! j \<and> ?P ! i = ?P ! j"
  proof (cases "length (dedup (filter (\<lambda>p. p \<noteq> []) ?P)) < 2")
    case True
    then have "vg = g" using vg by (simp add: split_language_def Let_def)
    then obtain i j where ij: "i < length ?cs" "j < length ?cs" "c = ?cs ! i" "d = ?cs ! j"
      using c d by (metis in_set_conv_nth)
    then have "?P ! i \<in> set (filter (\<lambda>p. p \<noteq> []) ?P)" "?P ! j \<in> set (filter (\<lambda>p. p \<noteq> []) ?P)"
      using part_nonempty c d plain by auto
    then show ?thesis using length_dedup_less_2[OF True] ij by blast
  next
    case False
    then obtain s where "vg_cands vg = map snd (filter (\<lambda>pc. lang_suffix (fst pc) = s) (zip ?P ?cs))"
      using vg by (auto simp: split_language_def Let_def)
    then obtain p q where "(p, c) \<in> set (zip ?P ?cs)" "(q, d) \<in> set (zip ?P ?cs)" "lang_suffix p = lang_suffix q"
      using c d by auto
    then obtain i j where ij: "i < length ?cs" "j < length ?cs" "c = ?cs ! i" "d = ?cs ! j"
      "lang_suffix (?P ! i) = lang_suffix (?P ! j)" by (auto simp: in_set_zip)
    then have "?P ! i \<noteq> []" "?P ! j \<noteq> []" using part_nonempty c d plain by auto
    then show ?thesis using ij by (auto simp: lang_suffix_def)
  qed
  then show ?thesis using same_part_intersect c(2) d(2) plain by blast
qed

section \<open>Groups\<close>

text \<open>How a group was made.\<close>

definition made_by :: "GroupOptions \<Rightarrow> content list \<Rightarrow> DuplicateGroup \<Rightarrow> bool" where
  "made_by opts us g \<longleftrightarrow>
     (\<exists>u\<in>set us. \<exists>vg\<in>set (splitVariants (u_cands u) opts).
        2 \<le> length (vg_cands vg) \<and> g = newGroup u vg (g_key g) opts)"

lemma fresh_key_unused: "fresh_key used base n key \<notin> set used"
  by (induction used base n key rule: fresh_key.induct) (subst fresh_key.simps, simp)

lemma newGroup_key [simp]: "g_key (newGroup u vg k opts) = k"
  by (simp add: newGroup_def Let_def)

lemma newGroup_files [simp]: "g_files (newGroup u vg k opts) = map new_file (vg_cands vg)"
  by (simp add: newGroup_def Let_def)

lemma new_file_version [simp]: "f_version (new_file c) = cd_v c"
  by (simp add: new_file_def)

lemma made_byI:
  "u \<in> set us \<Longrightarrow> vg \<in> set (splitVariants (u_cands u) opts) \<Longrightarrow> 2 \<le> length (vg_cands vg) \<Longrightarrow>
   made_by opts us (newGroup u vg k opts)"
  unfolding made_by_def newGroup_key by blast

definition groups_ok :: "GroupOptions \<Rightarrow> exclusionSet \<Rightarrow> content list \<Rightarrow> DuplicateGroup list \<times> string list \<Rightarrow> bool" where
  "groups_ok opts ex us st \<longleftrightarrow>
     (\<forall>g\<in>set (fst st). made_by opts us g) \<and> distinct (map g_key (fst st)) \<and> g_key ` set (fst st) = set (snd st)"

lemma add_group_ok:
  assumes "groups_ok opts ex us st" "u \<in> set us" "vg \<in> set (splitVariants (u_cands u) opts)"
  shows "groups_ok opts ex us (add_group opts ex u vg st)"
proof -
  obtain groups used where st: "st = (groups, used)" by (cases st)
  let ?b = "u_key u @ vg_suffix vg"
  have "fresh_key used ?b 2 ?b \<notin> set used" by (rule fresh_key_unused)
  then show ?thesis
    using assms unfolding st groups_ok_def add_group_def Let_def by (auto intro: made_byI)
qed

lemma group_units_ok: "groups_ok opts ex us (group_units opts ex us ([], []))"
  unfolding group_units_def
  by (intro fold_invariant[of "groups_ok opts ex us"] add_group_ok) (auto simp: groups_ok_def)

lemma normalized_exclusions: "go_Exclusions (normalized opts) = go_Exclusions opts"
  by (simp add: normalized_def Let_def)

lemma normalized_scope: "scope_of (normalized opts) it = scope_of opts it"
  by (simp add: normalized_def Let_def scope_of_def)

lemma BuildGroups_made:
  assumes "g \<in> set (BuildGroups lib items opts)"
  defines "o' \<equiv> normalized opts" and "ex \<equiv> compileExclusions lib (go_Exclusions (normalized opts))"
  shows "made_by o' (disambiguateKeys (buildUnits (collectItems items o' ex))) g"
  using assms(1) group_units_ok[of o' ex] unfolding BuildGroups_def Let_def o'_def ex_def groups_ok_def by auto

text \<open>A unit of a scan: the entries it was made from, its candidates and their keys.\<close>

lemma unit_of_scan:
  assumes "u \<in> set (disambiguateKeys (buildUnits (collectItems items opts ex)))"
  obtains es where "es \<noteq> []" "set es \<subseteq> set (collectItems items opts ex)" "(\<exists>e. es = [e]) \<or> merged es"
    "u_entries u = sort_by entryLess es" "set (u_cands u) \<subseteq> (\<Union>e\<in>set es. set (e_cands e))"
    "distinct (map cand_key (u_cands u))" "cands_ok ex items (u_cands u)" "u_meta u = u_meta (newUnit es)"
proof -
  obtain u0 where u0: "u0 \<in> set (buildUnits (collectItems items opts ex))" "\<exists>k. u = u0\<lparr>u_key := k\<rparr>"
    using assms by (rule disambiguateKeys_cases)
  from u0(1) obtain es where es: "u0 = newUnit es" "es \<noteq> []" "set es \<subseteq> set (collectItems items opts ex)"
    "(\<exists>e. es = [e]) \<or> merged es" by (rule buildUnits_cases)
  have "cands_ok ex items (u_cands u0)"
    using newUnit_cands(1)[of es] es(1,3) collectItems_ok entry_ok_cands unfolding cands_ok_def by blast
  then show thesis using that[of es] es newUnit_cands[of es] u0(2) by auto
qed

lemma splitVariants_cands:
  assumes "vg \<in> set (splitVariants cs opts)"
  shows "set (vg_cands vg) \<subseteq> set cs" "distinct (map f cs) \<Longrightarrow> distinct (map f (vg_cands vg))"
proof -
  have "set (concat (map vg_cands (splitVariants cs opts))) = set cs"
    using mset_splitVariants mset_eq_setD by blast
  then show "set (vg_cands vg) \<subseteq> set cs" using assms by auto
  have "mset (map f (concat (map vg_cands (splitVariants cs opts)))) = mset (map f cs)"
    by (simp only: mset_map mset_splitVariants)
  then have "distinct (map f cs) \<longleftrightarrow> distinct (map f (concat (map vg_cands (splitVariants cs opts))))"
    by (metis mset_eq_imp_distinct_iff)
  then show "distinct (map f cs) \<Longrightarrow> distinct (map f (vg_cands vg))"
    using assms by (auto simp: map_concat distinct_concat_iff)
qed

lemma made_by_files:
  assumes "made_by opts (disambiguateKeys (buildUnits (collectItems items opts ex))) g"
  obtains es cs where "es \<noteq> []" "set es \<subseteq> set (collectItems items opts ex)" "(\<exists>e. es = [e]) \<or> merged es"
    "g_files g = map new_file cs" "2 \<le> length cs" "set cs \<subseteq> (\<Union>e\<in>set es. set (e_cands e))"
    "distinct (map cand_key cs)" "cands_ok ex items cs"
    "\<exists>u vg. vg \<in> set (splitVariants u opts) \<and> cs = vg_cands vg \<and> cands_ok ex items u"
proof -
  from assms obtain u vg where u: "u \<in> set (disambiguateKeys (buildUnits (collectItems items opts ex)))"
    and vg: "vg \<in> set (splitVariants (u_cands u) opts)" "2 \<le> length (vg_cands vg)" and g: "g = newGroup u vg (g_key g) opts"
    by (auto simp: made_by_def)
  from u obtain es where es: "es \<noteq> []" "set es \<subseteq> set (collectItems items opts ex)" "(\<exists>e. es = [e]) \<or> merged es"
    "set (u_cands u) \<subseteq> (\<Union>e\<in>set es. set (e_cands e))" "distinct (map cand_key (u_cands u))" "cands_ok ex items (u_cands u)"
    by (rule unit_of_scan)
  have files: "g_files g = map new_file (vg_cands vg)" by (subst g) simp
  note sub = splitVariants_cands[OF vg(1)]
  show thesis
  proof (rule that[OF es(1-3) files vg(2)])
    show "set (vg_cands vg) \<subseteq> (\<Union>e\<in>set es. set (e_cands e))" using sub(1) es(4) by (rule order_trans)
    show "distinct (map cand_key (vg_cands vg))" using sub(2) es(5) .
    show "cands_ok ex items (vg_cands vg)" using cands_ok_mono[OF es(6) order_refl sub(1)] .
    show "\<exists>u vg'. vg' \<in> set (splitVariants u opts) \<and> vg_cands vg = vg_cands vg' \<and> cands_ok ex items u"
      using vg(1) es(6) by blast
  qed
qed

text \<open>Server, scope and media type of the entries of one bucket.\<close>

lemma bucket_key_inj:
  assumes "bucket_key a = bucket_key b" "CHR ''|'' \<notin> set (it_mediaType (e_item a))" "CHR ''|'' \<notin> set (it_mediaType (e_item b))"
  shows "it_serverID (e_item a) = it_serverID (e_item b) \<and> e_scope a = e_scope b \<and> it_mediaType (e_item a) = it_mediaType (e_item b)"
proof -
  let ?S = "\<lambda>e. Split (CHR ''|'') (bucket_key e)"
  have bar: "CHR ''|'' \<notin> set (Itoa i)" for i
  proof -
    have "\<not> is_digit (CHR ''|'')" by (simp add: is_digit_def byte_def)
    then show ?thesis using digits_all_digit unfolding Itoa_def list_all_iff by auto
  qed
  have S: "?S e = Itoa (it_serverID (e_item e)) # Split (CHR ''|'') (e_scope e) @ [it_mediaType (e_item e)]"
    if "CHR ''|'' \<notin> set (it_mediaType (e_item e))" for e
    using that bar by (simp add: bucket_key_def Split_append_sep Split_single)
  have "?S a = ?S b" using assms(1) by simp
  then have eq: "Itoa (it_serverID (e_item a)) = Itoa (it_serverID (e_item b))"
    "Split (CHR ''|'') (e_scope a) = Split (CHR ''|'') (e_scope b)" "it_mediaType (e_item a) = it_mediaType (e_item b)"
    unfolding S[OF assms(2)] S[OF assms(3)] by auto
  then have "e_scope a = e_scope b" using Join_Split by metis
  then show ?thesis using eq Itoa_inj by blast
qed

text \<open>A file of a group comes from a listing of item \<open>a\<close>.\<close>

definition file_of :: "MediaItem list \<Rightarrow> MediaItem \<Rightarrow> GroupFile \<Rightarrow> bool" where
  "file_of items a f \<longleftrightarrow>
     (\<exists>it\<in>set items. same_item a it \<and> f_version f \<in> (\<lambda>v. fillVersionIdentity v it) ` set (it_versions it))"

lemma entry_ok_file:
  assumes "entry_ok opts ex items it e" "c \<in> set (e_cands e)"
  shows "file_of items it (new_file c)"
proof -
  obtain b where "b \<in> set items" "same_item it b" "cand_of ex b c" using assms by (auto simp: entry_ok_def)
  then show ?thesis unfolding file_of_def cand_of_def new_file_version by blast
qed

end
