(* ===== verification/ExecGuards.thy ===== *)
theory ExecGuards
  imports Grouping Decide
begin

text \<open>
  The checks of \<open>internal/engine/execguards.go\<close> that the executor repeats right before it acts on an
  approved group: the flags that keep a group out of automatic approval, whether an exclusion covers a
  stored group, and whether the profile protects a version.
\<close>

definition autoBlockingFlags :: "string list" where
  "autoBlockingFlags =
     [FlagSuspectMerge, FlagSameFile, FlagUnanalyzed, FlagDurationMismatch, FlagMissingKeeperFile,
      FlagUnavailableVersion, FlagSample, FlagArrUntrackedKeeper, FlagMultiEpisode, FlagStacked, FlagMinAge,
      FlagArrQueueBusy, FlagPlaying, FlagFullDisc, FlagDiscUnreadable, FlagDiscTracked, FlagWatchUnreadable,
      FlagOtherServerPossible, FlagOtherServerKeeps, FlagOtherServerUnread, FlagManualOnly, FlagReportOnly]"

definition BlocksAutoApproval :: "string \<Rightarrow> bool" where
  "BlocksAutoApproval flag \<longleftrightarrow> flag \<in> set autoBlockingFlags"

definition keyForms :: "string \<Rightarrow> string list" where
  "keyForms key0 =
     (let key = TrimSpace key0
      in case DisambiguationIndex key of
           None \<Rightarrow> [key]
         | Some (i, n) \<Rightarrow>
             let rest = drop (i + n) key
             in case IndexAny rest ''#~'' of
                  None \<Rightarrow> [key, take i key]
                | Some j \<Rightarrow> [key, take i key @ drop j rest])"

definition key_covers :: "DuplicateGroup \<Rightarrow> string \<Rightarrow> bool" where
  "key_covers g k \<longleftrightarrow> (\<exists>a\<in>set (keyForms k). a \<in> set (keyForms (g_key g)))"

text \<open>The first title expression that matches one of the titles, with the title it matches.\<close>

definition title_cover :: "exclusionSet \<Rightarrow> string list \<Rightarrow> string \<times> (string \<Rightarrow> bool) \<Rightarrow> (string \<times> string) option" where
  "title_cover s ts re = map_option (\<lambda>t. (fst re, t)) (find (\<lambda>t. t \<noteq> [] \<and> snd re t) ts)"

definition title_reason :: "string \<times> string \<Rightarrow> string" where
  "title_reason pt = ''the title exclusion '' @ Quote (fst pt) @ '' covers '' @ Quote (snd pt)"

definition version_cover :: "exclusionSet \<Rightarrow> MediaVersion \<Rightarrow> string option" where
  "version_cover s v =
     (if versionExcluded s v then
        Some (if v_libraryID v \<in> set (xs_libraries s)
              then ''the exclusion of library '' @ Itoa (v_libraryID v) @ '' covers '' @ primaryPath v
              else ''a path exclusion covers '' @ primaryPath v)
      else map_option title_reason (first_some (title_cover s [v_itemTitle v]) (xs_titles s)))"

text \<open>
  The code walks the excluded keys in the order of a Go map; which of several covering keys the text
  names is not determined. Here it is the first.
\<close>

definition ExclusionReason :: "golib \<Rightarrow> Exclusion list \<Rightarrow> DuplicateGroup option \<Rightarrow> string" where
  "ExclusionReason lib ex g0 =
     (case g0 of
        None \<Rightarrow> []
      | Some g \<Rightarrow>
          let s = compileExclusions lib ex;
              libs = (case g_libraryIDs g of Some ids \<Rightarrow> ids | None \<Rightarrow> [])
          in if ex = [] then []
             else case find (key_covers g) (xs_groupKeys s) of
               Some k \<Rightarrow> ''the exclusion of group '' @ Quote k @ '' covers it''
             | None \<Rightarrow>
                 (case find (\<lambda>i. i \<in> set (xs_libraries s)) libs of
                    Some i \<Rightarrow> ''the exclusion of library '' @ Itoa i @ '' covers it''
                  | None \<Rightarrow>
                      (case first_some (title_cover s [g_title g, g_showTitle g]) (xs_titles s) of
                         Some pt \<Rightarrow> title_reason pt
                       | None \<Rightarrow>
                           (case first_some (\<lambda>f. version_cover s (f_version f)) (g_files g) of
                              Some r \<Rightarrow> r | None \<Rightarrow> []))))"

definition ProtectionReason :: "golib \<Rightarrow> Profile \<Rightarrow> MediaVersion option \<Rightarrow> (int \<rightharpoonup> Library) \<Rightarrow> string" where
  "ProtectionReason lib p v0 libs =
     (case v0 of
        None \<Rightarrow> []
      | Some v \<Rightarrow>
          (case first_some (\<lambda>pr. matchProtection lib pr v libs) (pf_protections p) of Some r \<Rightarrow> r | None \<Rightarrow> []))"

section \<open>When a group is covered\<close>

lemma first_some_None_iff: "first_some f xs = None \<longleftrightarrow> (\<forall>x\<in>set xs. f x = None)"
  by (induction xs) (auto split: option.splits)

lemma first_some_SomeD: "first_some f xs = Some y \<Longrightarrow> \<exists>x\<in>set xs. f x = Some y"
  by (induction xs) (auto split: option.splits)

lemma title_cover_None: "first_some (title_cover s ts) (xs_titles s) = None \<longleftrightarrow> \<not> (\<exists>t\<in>set ts. title_excluded s t)"
  by (auto simp: first_some_None_iff title_cover_def title_excluded_def find_None_iff)

lemma version_cover_None: "version_cover s v = None \<longleftrightarrow> \<not> versionExcluded s v \<and> \<not> title_excluded s (v_itemTitle v)"
  using title_cover_None[of s "[v_itemTitle v]"] by (simp add: version_cover_def)

lemma version_cover_text: "version_cover s v = Some r \<Longrightarrow> r \<noteq> []"
  by (auto simp: version_cover_def title_reason_def split: if_splits)

text \<open>What an exclusion covers, without the texts.\<close>

definition covered :: "exclusionSet \<Rightarrow> DuplicateGroup \<Rightarrow> bool" where
  "covered s g \<longleftrightarrow>
     (\<exists>k\<in>set (xs_groupKeys s). key_covers g k) \<or>
     (\<exists>i\<in>set (case g_libraryIDs g of Some ids \<Rightarrow> ids | None \<Rightarrow> []). i \<in> set (xs_libraries s)) \<or>
     title_excluded s (g_title g) \<or> title_excluded s (g_showTitle g) \<or>
     (\<exists>f\<in>set (g_files g). versionExcluded s (f_version f) \<or> title_excluded s (v_itemTitle (f_version f)))"

lemma compile_nothing: "compileExclusions lib [] = \<lparr>xs_groupKeys = [], xs_pathPrefixes = [], xs_libraries = [], xs_titles = []\<rparr>"
  by (simp add: compileExclusions_def)

lemma not_covered_nothing: "\<not> covered (compileExclusions lib []) g"
  by (simp add: covered_def compile_nothing title_excluded_def versionExcluded_def)

lemma ExclusionReason_iff: "ExclusionReason lib ex (Some g) \<noteq> [] \<longleftrightarrow> covered (compileExclusions lib ex) g"
proof (cases "ex = []")
  case True
  then show ?thesis by (simp add: ExclusionReason_def not_covered_nothing)
next
  case False
  let ?s = "compileExclusions lib ex"
  let ?libs = "case g_libraryIDs g of Some ids \<Rightarrow> ids | None \<Rightarrow> []"
  have lib: "find (\<lambda>i. i \<in> set (xs_libraries ?s)) ?libs = None \<longleftrightarrow> \<not> (\<exists>i\<in>set ?libs. i \<in> set (xs_libraries ?s))"
    by (auto simp: find_None_iff)
  have key: "find (key_covers g) (xs_groupKeys ?s) = None \<longleftrightarrow> \<not> (\<exists>k\<in>set (xs_groupKeys ?s). key_covers g k)"
    by (auto simp: find_None_iff)
  have ti: "first_some (title_cover ?s [g_title g, g_showTitle g]) (xs_titles ?s) = None \<longleftrightarrow>
      \<not> title_excluded ?s (g_title g) \<and> \<not> title_excluded ?s (g_showTitle g)"
    using title_cover_None[of ?s "[g_title g, g_showTitle g]"] by auto
  have ve: "first_some (\<lambda>f. version_cover ?s (f_version f)) (g_files g) = None \<longleftrightarrow>
      \<not> (\<exists>f\<in>set (g_files g). versionExcluded ?s (f_version f) \<or> title_excluded ?s (v_itemTitle (f_version f)))"
    by (auto simp: first_some_None_iff version_cover_None)
  have ne: "first_some (\<lambda>f. version_cover ?s (f_version f)) (g_files g) = Some r \<Longrightarrow> r \<noteq> []" for r
    using first_some_SomeD version_cover_text by metis
  show ?thesis
    using False lib key ti ve ne
    by (auto simp: covered_def ExclusionReason_def Let_def title_reason_def split: option.splits)
qed

end
