(* ===== verification/Invariants.thy ===== *)
theory Invariants
  imports Guarantees
begin

text \<open>
  The safety invariants of the decision core, on the group \<open>Evaluate\<close> returns: its documented promises
  ("Safety invariants enforced here") hold for every group, profile, setting, clock and library, and
  every group it leaves pending or queued passes the independent check \<open>ValidateDecisions\<close>.
\<close>

section \<open>What a filled-in listing leaves alone\<close>

definition listed :: "OtherListing list \<Rightarrow> MediaVersion \<Rightarrow> MediaVersion" where
  "listed os v = v \<lparr> v_otherServers := os \<rparr>"

lemma versionPaths_listed [simp]: "versionPaths (listed os v) = versionPaths v"
  by (simp add: versionPaths_def listed_def)

lemma listed_sel [simp]:
  "v_key (listed os v) = v_key v" "v_arr (listed os v) = v_arr v" "v_disc (listed os v) = v_disc v"
  "v_parts (listed os v) = v_parts v" "v_otherServers (listed os v) = os"
  by (simp_all add: listed_def)

lemma listed_props [simp]:
  "isOptimized (listed os v) = isOptimized v" "isUnavailable (listed os v) = isUnavailable v"
  "isInaccessible (listed os v) = isInaccessible v" "isShared (listed os v) = isShared v"
  "discMemberPath (listed os v) = discMemberPath v" "disc_removable mt (listed os v) = disc_removable mt v"
  "sameFileKeys (listed os v) = sameFileKeys v"
  by (simp_all add: isOptimized_def isUnavailable_def isInaccessible_def isShared_def multiEpisodeReasons_def
      discMemberPath_def disc_removable_def sameFileKeys_def discRootKeys_def sharedWith_def readOnlyVersion_def
      multi_episode_name_def listed_def versionPaths_def split: option.split)

lemma same_uf_cong:
  assumes "map sameFileKeys vs = map sameFileKeys ws"
  shows "same_uf vs = same_uf ws"
proof -
  have l: "length vs = length ws" using assms by (metis length_map)
  have k: "sameFileKeys (vs ! i) = sameFileKeys (ws ! i)" if "i < length vs" for i
    using assms l that by (metis nth_map)
  have "fold (\<lambda>i. fold (link_key uf_union i) (sameFileKeys (vs ! i))) [0..<length vs] s =
      fold (\<lambda>i. fold (link_key uf_union i) (sameFileKeys (ws ! i))) [0..<length vs] s" for s
    by (rule fold_cong) (simp_all add: k)
  then show ?thesis by (simp add: same_uf_def link_all_def l)
qed

lemma comp_of_cong: "map sameFileKeys vs = map sameFileKeys ws \<Longrightarrow> comp_of vs = comp_of ws"
  by (rule ext) (simp add: comp_of_def same_uf_cong[of vs ws])

section \<open>The evaluated group\<close>

definition decided :: "golib \<Rightarrow> DuplicateGroup \<Rightarrow> Profile \<Rightarrow> EvalEnv \<Rightarrow> evaluation" where
  "decided lib g p env = decide lib (ranked lib g p env)"

definition prepared :: "golib \<Rightarrow> DuplicateGroup \<Rightarrow> Profile \<Rightarrow> EvalEnv \<Rightarrow> evaluation" where
  "prepared lib g p env = prepare (ranked lib g p env)"

lemma prepared_simps [simp]:
  "ev_g (prepared lib g p env) = g" "ev_p (prepared lib g p env) = p" "ev_env (prepared lib g p env) = env"
  "ev_vs (prepared lib g p env) = map f_version (g_files g)"
  "ev_marks (prepared lib g p env) = no_marks"
  "ev_eligible (prepared lib g p env) = vat eligible_version (map f_version (g_files g))"
  "ev_sameMembers (prepared lib g p env) = snd (sameFileComponents (map f_version (g_files g)))"
  by (simp_all add: prepared_def prepare_def Let_def ranked_eligible)

lemma decided_simps [simp]:
  "ev_g (decided lib g p env) = g" "ev_p (decided lib g p env) = p" "ev_env (decided lib g p env) = env"
  "ev_vs (decided lib g p env) = map f_version (g_files g)"
  "ev_eligible (decided lib g p env) = vat eligible_version (map f_version (g_files g))"
  "ev_intentional (decided lib g p env) = ev_intentional (prepared lib g p env)"
  "ev_marks (decided lib g p env) = final_marks lib (prepared lib g p env)"
  "ev_engineKeep (decided lib g p env) = mk_keep (engine_marks lib (prepared lib g p env))"
  by (simp_all add: decided_def decide_def prepared_def Let_def prepare_def ranked_eligible)

lemma evaluated_core:
  "ev_vs (evaluated lib g p env) = map f_version (g_files g)"
  "ev_env (evaluated lib g p env) = env"
  "ev_p (evaluated lib g p env) = p"
  "ev_eligible (evaluated lib g p env) = vat eligible_version (map f_version (g_files g))"
  "ev_intentional (evaluated lib g p env) = ev_intentional (prepared lib g p env)"
  "mk_keep (ev_marks (evaluated lib g p env)) = mk_keep (final_marks lib (prepared lib g p env))"
  "mk_protected (ev_marks (evaluated lib g p env)) = mk_protected (final_marks lib (prepared lib g p env))"
  "ev_engineKeep (evaluated lib g p env) = mk_keep (engine_marks lib (prepared lib g p env))"
  using annotate_core[of "decide lib (ranked lib g p env)"] decided_simps[of lib g p env]
  by (simp_all add: evaluated_def explain_def same_core_def decided_def[symmetric])

abbreviation final_keep :: "golib \<Rightarrow> DuplicateGroup \<Rightarrow> Profile \<Rightarrow> EvalEnv \<Rightarrow> nat \<Rightarrow> bool" where
  "final_keep lib g p env \<equiv> mk_keep (final_marks lib (prepared lib g p env))"

lemma evaluated_files:
  "g_files (ev_g (evaluated lib g p env)) =
     map (\<lambda>(i, f). explain_file (annotate (decided lib g p env)) i f) (List.enumerate 0 (g_files g))"
  using annotate_core[of "decided lib g p env"]
  by (simp add: evaluated_def explain_def decided_def[symmetric] same_core_def)

lemma length_mark_files [simp]: "length (mark_files (evaluated lib g p env)) = length (g_files g)"
  by (simp add: mark_files_def evaluated_files)

text \<open>File \<open>i\<close> of the result: its decisions, its protection and its version.\<close>

lemma mark_files_nth:
  assumes "i < length (g_files g)"
  shows "f_decision (mark_files (evaluated lib g p env) ! i) = decision_of (final_keep lib g p env i)"
    and "f_engineDecision (mark_files (evaluated lib g p env) ! i) =
      decision_of (mk_keep (engine_marks lib (prepared lib g p env)) i)"
    and "f_protected (mark_files (evaluated lib g p env) ! i) = mk_protected (final_marks lib (prepared lib g p env)) i"
    and "f_rank (mark_files (evaluated lib g p env) ! i) = int (ev_pos (ranked lib g p env) i) + 1"
    and "f_override (mark_files (evaluated lib g p env) ! i) = f_override (g_files g ! i)"
    and "f_version (mark_files (evaluated lib g p env) ! i) =
      listed (map (mark_listing (final_keep lib g p env i)
          (removedKeys (map f_version (g_files g)) (final_keep lib g p env)))
        (v_otherServers (f_version (g_files g ! i)))) (f_version (g_files g ! i))"
proof -
  have c: "same_core (annotate (decided lib g p env)) (decided lib g p env)" by (rule annotate_core)
  have pos: "ev_pos (decided lib g p env) = ev_pos (ranked lib g p env)"
    by (simp add: decided_def decide_def prepare_def Let_def)
  have f: "mark_files (evaluated lib g p env) ! i =
      mark_file (evaluated lib g p env) i (explain_file (annotate (decided lib g p env)) i (g_files g ! i))"
    using assms by (simp add: mark_files_def evaluated_files nth_enumerate_eq)
  show "f_decision (mark_files (evaluated lib g p env) ! i) = decision_of (final_keep lib g p env i)"
    "f_engineDecision (mark_files (evaluated lib g p env) ! i) =
      decision_of (mk_keep (engine_marks lib (prepared lib g p env)) i)"
    "f_protected (mark_files (evaluated lib g p env) ! i) = mk_protected (final_marks lib (prepared lib g p env)) i"
    "f_rank (mark_files (evaluated lib g p env) ! i) = int (ev_pos (ranked lib g p env) i) + 1"
    "f_override (mark_files (evaluated lib g p env) ! i) = f_override (g_files g ! i)"
    using c pos unfolding f by (simp_all add: mark_file_def explain_file_def same_core_def)
  show "f_version (mark_files (evaluated lib g p env) ! i) =
      listed (map (mark_listing (final_keep lib g p env i)
          (removedKeys (map f_version (g_files g)) (final_keep lib g p env)))
        (v_otherServers (f_version (g_files g ! i)))) (f_version (g_files g ! i))"
    unfolding f by (simp add: mark_file_def explain_file_def listed_def evaluated_core)
qed

lemma g_files_finish [simp]: "g_files (finish ev) = mark_files ev"
  by (simp add: finish_def updated_group_def Let_def)

lemma finish_flags [simp]: "g_flags (finish ev) = group_flags ev" "g_mediaType (finish ev) = g_mediaType (ev_g ev)"
  by (simp_all add: finish_def updated_group_def Let_def)

lemma EvaluateD:
  assumes "Evaluate lib g p env = Inr g'"
  obtains h where "g = Some h" "h = the g" "checkEvaluable (Some h) = None" "g_files h \<noteq> []"
    "g' = finish (evaluated lib h p env)"
  using assms that by (cases g) (auto simp: Evaluate_def checkEvaluable_def split: option.splits if_splits)

section \<open>The keepers chosen by rank\<close>

lemma keep_top_iff:
  "keep_top el cnt k ms rk i \<longleftrightarrow> rk i \<or> i \<in> set (take (nat (cnt - k)) (filter el ms))"
proof (induction ms arbitrary: k rk)
  case (Cons j ms)
  show ?case
  proof (cases "el j \<and> k < cnt")
    case True
    then have "nat (cnt - k) = Suc (nat (cnt - (k + 1)))" by arith
    then show ?thesis using True Cons.IH[of "k + 1" "rk(j := True)"] by (auto simp: fun_upd_def)
  next
    case False
    then show ?thesis using Cons.IH[of k rk] by (cases "el j") auto
  qed
qed simp

lemma fold_keep_top:
  "fold (keep_part el cnt) pm rk i \<longleftrightarrow>
     rk i \<or> (\<exists>km\<in>set pm. i \<in> set (take (nat cnt) (filter el (snd km))))"
  by (induction pm arbitrary: rk) (auto simp: keep_top_iff keep_part_def)

abbreviation partition_key :: "Profile \<Rightarrow> DuplicateGroup \<Rightarrow> nat \<Rightarrow> string" where
  "partition_key p g i \<equiv> fst (KeepPartition (pf_keepPer p) (f_version (g_files g ! i)))"

lemma take_filter_cong:
  "(\<And>x. x \<in> set xs \<Longrightarrow> P x = Q x) \<Longrightarrow> take n (filter P xs) = take n (filter Q xs)"
  by (metis filter_cong)

lemma ranked_part_keys:
  assumes "i < length (g_files g)"
  shows "(partition_key p g i, filter (\<lambda>j. partition_key p g j = partition_key p g i) (ev_order (ranked lib g p env)))
      \<in> set (ev_partMembers (ranked lib g p env))"
proof -
  let ?key = "\<lambda>i. fst (KeepPartition (pf_keepPer p) (map f_version (g_files g) ! i))"
  let ?o = "ev_order (ranked lib g p env)"
  have o: "set ?o = {0..<length (g_files g)}" by (simp add: ranked_order)
  have k: "?key j = partition_key p g j" if "j \<in> set ?o" for j using that o by simp
  have "?key i \<in> fst ` set (group_by ?key ?o)" using assms o by (subst keys_group_by) auto
  then obtain ms where ms: "(?key i, ms) \<in> set (group_by ?key ?o)" by (auto simp del: keys_group_by)
  have "ms = filter (\<lambda>j. ?key j = ?key i) ?o" by (rule group_by_entry[OF ms])
  also have "\<dots> = filter (\<lambda>j. partition_key p g j = partition_key p g i) ?o"
    using k assms by (intro filter_cong) auto
  finally show ?thesis using ms assms by (simp add: ranked_members)
qed

lemma rankKeep_iff:
  assumes "i < length (g_files g)"
  shows "ev_rankKeep (prepared lib g p env) i \<longleftrightarrow>
    i \<in> set (take (nat (max (pf_keepCount p) 1))
      (filter (\<lambda>j. eligible_version (f_version (g_files g ! j)) \<and> partition_key p g j = partition_key p g i)
        (ev_order (ranked lib g p env))))" (is "_ \<longleftrightarrow> ?R")
proof -
  let ?o = "ev_order (ranked lib g p env)" and ?c = "nat (max (pf_keepCount p) 1)"
  let ?pm = "ev_partMembers (ranked lib g p env)"
  let ?ms = "\<lambda>i. filter (\<lambda>j. partition_key p g j = partition_key p g i) ?o"
  let ?el = "vat eligible_version (map f_version (g_files g))"
  have o: "set ?o = {0..<length (g_files g)}" by (simp add: ranked_order)
  have rk: "ev_rankKeep (prepared lib g p env) i \<longleftrightarrow> (\<exists>km\<in>set ?pm. i \<in> set (take ?c (filter ?el (snd km))))"
    by (simp add: prepared_def prepare_def Let_def fold_keep_top ranked_eligible)
  have el: "filter ?el (?ms i) = filter (\<lambda>j. eligible_version (f_version (g_files g ! j)) \<and>
      partition_key p g j = partition_key p g i) ?o"
    using o by (auto simp: intro!: filter_cong)
  show ?thesis
  proof
    assume "ev_rankKeep (prepared lib g p env) i"
    then obtain k ms where km: "(k, ms) \<in> set ?pm" "i \<in> set (take ?c (filter ?el ms))"
      using rk by auto
    have ms: "ms = filter (\<lambda>j. fst (KeepPartition (pf_keepPer p) (map f_version (g_files g) ! j)) = k) ?o"
      using km(1) unfolding ranked_members by (rule group_by_entry)
    have "i \<in> set ms" using in_set_takeD[OF km(2)] by simp
    then have "k = partition_key p g i" using ms assms by simp
    then have "ms = ?ms i" unfolding ms using o by (intro filter_cong) auto
    then show ?R using km(2) el by simp
  next
    assume ?R
    then have "i \<in> set (take ?c (filter ?el (?ms i)))" using el by simp
    then show "ev_rankKeep (prepared lib g p env) i"
      unfolding rk by (intro bexI[OF _ ranked_part_keys[OF assms]]) simp
  qed
qed

text \<open>Membership in the first \<open>c\<close> elements, by counting the better ones.\<close>

lemma take_filter_pos:
  assumes "distinct xs" and "\<And>q. q < length xs \<Longrightarrow> pos (xs ! q) = q"
  shows "i \<in> set (take c (filter P xs)) \<longleftrightarrow>
    i \<in> set xs \<and> P i \<and> card {j \<in> set xs. P j \<and> pos j < pos i} < c"
  using assms
proof (induction xs rule: rev_induct)
  case (snoc x xs)
  have px: "pos x = length xs" using snoc.prems(2)[of "length xs"] by simp
  have pj: "pos j < length xs" if j: "j \<in> set xs" for j
  proof -
    obtain q where "q < length xs" "xs ! q = j" using j by (metis in_set_conv_nth)
    then show ?thesis using snoc.prems(2)[of q] by (simp add: nth_append)
  qed
  have IH: "i \<in> set (take c (filter P xs)) \<longleftrightarrow>
      i \<in> set xs \<and> P i \<and> card {j \<in> set xs. P j \<and> pos j < pos i} < c"
  proof (rule snoc.IH)
    show "pos (xs ! q) = q" if "q < length xs" for q
      using snoc.prems(2)[of q] that by (simp add: nth_append)
  qed (use snoc.prems(1) in simp)
  have cnt: "card {j \<in> set xs. P j} = length (filter P xs)"
    using snoc.prems(1) distinct_card[of "filter P xs"] by simp
  have new: "{j \<in> set (xs @ [x]). P j \<and> pos j < pos x} = {j \<in> set xs. P j}"
    using px pj by auto
  have old: "{j \<in> set (xs @ [x]). P j \<and> pos j < pos i} = {j \<in> set xs. P j \<and> pos j < pos i}" if "i \<in> set xs"
    using px pj[OF that] by auto
  have x: "x \<notin> set xs" using snoc.prems(1) by simp
  show ?case
  proof (cases "i = x")
    case True
    have "x \<in> set (take c (filter P (xs @ [x]))) \<longleftrightarrow> P x \<and> length (filter P xs) < c"
      using x by (auto simp: take_Cons' dest: in_set_takeD)
    then show ?thesis unfolding True new cnt by simp
  next
    case False
    have "i \<in> set (take c (filter P (xs @ [x]))) \<longleftrightarrow> i \<in> set (take c (filter P xs))"
      using False by (auto simp: take_Cons')
    moreover have "i \<in> set (xs @ [x]) \<longleftrightarrow> i \<in> set xs" using False by simp
    ultimately show ?thesis using IH old by (cases "i \<in> set xs") (simp_all only: simp_thms)
  qed
qed simp

section \<open>What a removed version is not\<close>

lemma removed_not_protected:
  assumes "\<not> final_keep lib g p env i"
  shows "\<not> mk_protected (final_marks lib (prepared lib g p env)) i"
  using prot_kept_final[of "prepared lib g p env" lib] assms by (auto simp: prot_kept_def)

lemma removed_no_reasons:
  assumes "i < length (g_files g)" and "\<not> final_keep lib g p env i"
  shows "protectionReasons lib (prepared lib g p env) i = []" "reportOnlyReasons (map f_version (g_files g)) = []"
  using removed_not_protected[OF assms(2)] final_protected_initial[of lib "prepared lib g p env" i] assms(1)
    initial_protected[of "prepared lib g p env" lib i] by auto

lemma disc_reasons_Nil: "discProtectionReasons mt v allow = [] \<Longrightarrow> disc_removable mt v"
  by (auto simp: discProtectionReasons_def disc_removable_def split: option.splits if_splits)

lemma removed_version:
  assumes "i < length (g_files g)" and "\<not> final_keep lib g p env i"
  defines "v \<equiv> f_version (g_files g ! i)"
  shows "eligible_version v" "\<not> isShared v" "discMemberPath v = []" "disc_removable (g_mediaType g) v"
    "ev_intentional (prepared lib g p env) \<Longrightarrow> (case v_arr v of Some a \<Rightarrow> a_instanceID a = 0 | None \<Rightarrow> True)"
    "\<forall>pr\<in>set (pf_protections p). matchProtection lib pr v (env_Libraries env) = None"
    "shortcutReasons v = []"
proof -
  have r: "protectionReasons lib (prepared lib g p env) i = []" by (rule removed_no_reasons[OF assms(1,2)])
  then have v: "ev_vs (prepared lib g p env) ! i = v" using assms(1) by (simp add: v_def)
  note r' = r[unfolded protectionReasons_def Let_def append_is_Nil_conv v]
  show "eligible_version v" using r' by (auto simp: eligible_version_def split: if_splits)
  show "\<not> isShared v" using r' by (simp add: isShared_def)
  show "discMemberPath v = []" using r' by (simp split: if_splits)
  show "disc_removable (g_mediaType g) v" using r' disc_reasons_Nil[of "g_mediaType g" v "env_AllowDiscRemoval env"] by simp
  show "ev_intentional (prepared lib g p env) \<Longrightarrow> (case v_arr v of Some a \<Rightarrow> a_instanceID a = 0 | None \<Rightarrow> True)"
    using r' by (simp split: option.splits if_splits)
  show "\<forall>pr\<in>set (pf_protections p). matchProtection lib pr v (env_Libraries env) = None"
    using r' by (auto simp: List.map_filter_def filter_empty_conv protection_of_def)
  show "shortcutReasons v = []" using r' by simp
qed

section \<open>An available version is kept\<close>

lemma rank_keeps_eligible:
  assumes "i < length (g_files g)" and "eligible_version (f_version (g_files g ! i))"
  shows "\<exists>j < length (g_files g). eligible_version (f_version (g_files g ! j)) \<and>
     partition_key p g j = partition_key p g i \<and> ev_rankKeep (prepared lib g p env) j"
proof -
  let ?o = "ev_order (ranked lib g p env)" and ?c = "nat (max (pf_keepCount p) 1)"
  let ?xs = "filter (\<lambda>j. eligible_version (f_version (g_files g ! j)) \<and> partition_key p g j = partition_key p g i) ?o"
  have "i \<in> set ?xs" using assms by (simp add: ranked_order)
  then obtain j ys where j: "?xs = j # ys" by (cases ?xs) auto
  then have jx: "j \<in> set ?xs" by simp
  then have jn: "j < length (g_files g)" "eligible_version (f_version (g_files g ! j))"
      "partition_key p g j = partition_key p g i"
    by (simp_all add: ranked_order)
  have "j \<in> set (take ?c ?xs)" unfolding j by (cases ?c) auto
  then have "ev_rankKeep (prepared lib g p env) j" using jn by (simp add: rankKeep_iff[OF jn(1)])
  with jn show ?thesis by blast
qed

lemma engine_keeps_rank:
  "i < length (g_files g) \<Longrightarrow> ev_rankKeep (prepared lib g p env) i \<Longrightarrow> mk_keep (engine_marks lib (prepared lib g p env)) i"
  using initial_keep[of "prepared lib g p env" lib i] by (intro engine_after_initial(1)) simp

lemma removal_leaves_eligible:
  assumes "i < length (g_files g)" and "\<not> final_keep lib g p env i"
  shows "\<exists>j < length (g_files g). eligible_version (f_version (g_files g ! j)) \<and> final_keep lib g p env j"
proof -
  obtain j where j: "j < length (g_files g)" "eligible_version (f_version (g_files g ! j))"
      "ev_rankKeep (prepared lib g p env) j"
    using rank_keeps_eligible[OF assms(1) removed_version(1)[OF assms], where p = p] by blast
  then have "\<exists>k < length (ev_vs (prepared lib g p env)). ev_eligible (prepared lib g p env) k \<and> final_keep lib g p env k"
    by (intro eligible_kept_final[of j]) (simp_all add: engine_keeps_rank)
  then show ?thesis by auto
qed

section \<open>The result passes the independent check\<close>

lemma removedKeys_final:
  "removedKeys (map f_version (g_files g)) (final_keep lib g p env) =
     map (\<lambda>i. v_key (f_version (mark_files (evaluated lib g p env) ! i))) (removed_files (mark_files (evaluated lib g p env)))"
proof -
  let ?fs = "mark_files (evaluated lib g p env)"
  have "removed_files ?fs = filter (\<lambda>i. \<not> final_keep lib g p env i) [0..<length (g_files g)]"
    unfolding removed_files_def by (rule filter_cong) (auto simp: mark_files_nth decision_of_def)
  then show ?thesis
    by (auto simp: removedKeys_def mark_files_nth intro!: map_cong)
qed

lemma survivor_mark [simp]: "survivor (mark_listing b rm e) removed = survivor e removed"
  by (simp add: survivor_def mark_listing_def)

lemma comp_of_final: "comp_of (map f_version (mark_files (evaluated lib g p env))) = comp_of (map f_version (g_files g))"
proof (rule comp_of_cong)
  show "map sameFileKeys (map f_version (mark_files (evaluated lib g p env))) = map sameFileKeys (map f_version (g_files g))"
    by (rule nth_equalityI) (simp_all add: mark_files_nth)
qed

lemma final_safe_removal:
  assumes i: "i < length (g_files g)" and rm: "\<not> final_keep lib g p env i"
  shows "safe_removal (finish (evaluated lib g p env)) i"
proof -
  let ?fs = "mark_files (evaluated lib g p env)" and ?ev = "prepared lib g p env"
  have cl: "closed_same (map f_version (g_files g)) (final_marks lib ?ev)"
    and nn: "none_needed (map f_version (g_files g)) (final_marks lib ?ev)"
    using final_closed[of ?ev lib] by simp_all
  have int: "HasFlag (finish (evaluated lib g p env)) FlagIntentionalArr \<longleftrightarrow> ev_intentional ?ev"
    by (simp add: HasFlag_def flag_intentional evaluated_core)
  have mt: "g_mediaType (finish (evaluated lib g p env)) = g_mediaType g"
    using annotate_core[of "decided lib g p env"]
    by (simp add: evaluated_def explain_def decided_def[symmetric] same_core_def)
  have same: "comp_of (map f_version (g_files g)) k \<noteq> comp_of (map f_version (g_files g)) i"
    if "k < length (g_files g)" "final_keep lib g p env k" for k
    using cl that i rm by (auto simp: closed_same_def)
  have srv: "\<forall>e\<in>set (v_otherServers (f_version (g_files g ! i))). o_match e = OtherSameFile \<longrightarrow>
      survivor e (removedKeys (map f_version (g_files g)) (final_keep lib g p env))"
    using nn i rm by (simp add: none_needed_def needed_by_None)
  show ?thesis
    unfolding safe_removal_def Let_def g_files_finish mt int comp_of_final removedKeys_final[symmetric] length_mark_files
    using removed_version[OF i rm] removed_not_protected[OF rm] same srv i
    by (auto simp: mark_files_nth decision_of_def eligible_version_def mark_listing_def survivor_def)
qed

lemma actionable_safe:
  assumes ne: "g_files g \<noteq> []" and act: "actionable (evaluated lib g p env) (updated_group (evaluated lib g p env)) (removals_of (evaluated lib g p env))"
  shows "safe_decisions (finish (evaluated lib g p env))"
proof -
  let ?ev = "evaluated lib g p env" and ?n = "length (g_files g)"
  let ?fs = "mark_files ?ev"
  have fl: "g_flags (updated_group ?ev) = group_flags ?ev" by (simp add: updated_group_def Let_def)
  note a = actionableD[OF act, unfolded HasFlag_def fl]
  obtain r where r: "r < ?n" "\<not> final_keep lib g p env r"
    using a(2) by (auto simp: removals_of_def evaluated_core filter_empty_conv)
  obtain j where j: "j < ?n" "eligible_version (f_version (g_files g ! j))" "final_keep lib g p env j"
    using removal_leaves_eligible[OF r] by blast
  have "\<not> isInaccessible (f_version (g_files g ! j))"
    using a(6) j by (auto simp: flag_missing_keeper evaluated_core)
  then have av: "f_decision (?fs ! j) = DecisionKeep \<and> \<not> isOptimized (f_version (?fs ! j)) \<and>
      \<not> isUnavailable (f_version (?fs ! j)) \<and> \<not> isInaccessible (f_version (?fs ! j))"
    using j by (simp add: mark_files_nth decision_of_def eligible_version_def)
  have jm: "?fs ! j \<in> set ?fs" using j(1) by simp
  have dec: "f_decision f = DecisionKeep \<or> f_decision f = DecisionRemove" if "f \<in> set ?fs" for f
    using that by (auto simp: in_set_conv_nth mark_files_nth decision_of_def split: if_splits)
  have safe: "safe_removal (finish ?ev) i" if "i < ?n" "f_decision (?fs ! i) = DecisionRemove" for i
  proof (rule final_safe_removal[OF that(1)])
    show "\<not> final_keep lib g p env i" using that by (simp add: mark_files_nth decision_of_def split: if_splits)
  qed
  have fs: "?fs \<noteq> []" using ne length_mark_files[of lib g p env] by (metis length_0_conv)
  show ?thesis
    unfolding safe_decisions_def Let_def g_files_finish HasFlag_def finish_flags length_mark_files
    using fs dec safe a(4,5) av jm by blast
qed

section \<open>Versions that are too young\<close>

lemma evaluated_young:
  "young (evaluated lib g p env) \<longleftrightarrow> 0 < env_MinAge env \<and>
     (\<exists>i < length (g_files g). \<not> final_keep lib g p env i \<and>
       (let t = newestAdded (f_version (g_files g ! i)) in
        IsZero t \<or> Sub (if IsZero (env_Now env) then time_now lib else env_Now env) t < env_MinAge env))"
proof -
  have now: "ev_now (decided lib g p env) = (if IsZero (env_Now env) then time_now lib else env_Now env)"
    by (simp add: decided_def decide_def prepare_def Let_def ranked_def ev_partition_def ev_rank_def newEvaluation_def)
  have "no_young (decided lib g p env)"
    by (simp add: no_young_def decided_def decide_def prepare_def Let_def ranked_def ev_partition_def ev_rank_def newEvaluation_def)
  moreover have "young (evaluated lib g p env) = young (annotate (decided lib g p env))"
    by (simp add: evaluated_def explain_def young_def decided_def)
  ultimately show ?thesis using annotate_young[of "decided lib g p env"] now
    by (auto simp: too_young_def Let_def)
qed

section \<open>Groups without special cases\<close>

text \<open>
  No override, no two versions with a common file, no disc, and no item of another server that could lose
  its last copy: then the decision is the rank and the protections alone.
\<close>

definition plain_versions :: "DuplicateGroup \<Rightarrow> bool" where
  "plain_versions g \<longleftrightarrow>
     (\<forall>f\<in>set (g_files g). plexPlayable (f_version f) \<and>
        list_all (\<lambda>e. survivor e (map (\<lambda>f. v_key (f_version f)) (g_files g))) (v_otherServers (f_version f))) \<and>
     snd (sameFileComponents (map f_version (g_files g))) = []"

definition plain_group :: "DuplicateGroup \<Rightarrow> bool" where
  "plain_group g \<longleftrightarrow> plain_versions g \<and> (\<forall>f\<in>set (g_files g). TrimSpace (f_override f) = [])"

lemma survivor_mono: "survivor e ks \<Longrightarrow> set rs \<subseteq> set ks \<Longrightarrow> survivor e rs"
  by (auto simp: survivor_def)

lemma other_fold_none:
  "(\<And>i. i \<in> set is \<Longrightarrow> needed_by rm (ev_vs ev ! i) = None) \<Longrightarrow> fold (other_step ev a rm) is st = st"
  by (induction "is") (simp_all add: other_step_def Let_def)

lemma playable_step_none:
  assumes "\<And>i. i \<in> set ms \<Longrightarrow> plexPlayable (ev_vs ev ! i)"
  shows "playable_step ev a ms mk = mk"
proof (cases "filter (kept_eligible ev mk) ms")
  case (Cons j js)
  have "j \<in> set (filter (kept_eligible ev mk) ms)" by (simp add: Cons)
  then have "j \<in> set ms" by simp
  then show ?thesis using assms Cons by (simp add: playable_step_def playable_at_def)
qed (simp add: playable_step_def)

lemma keepPlayable_none:
  assumes "\<And>k i. i \<in> set (members_of (ev_partMembers ev) k) \<Longrightarrow> plexPlayable (ev_vs ev ! i)"
  shows "keepPlayable ev a mk = mk"
proof -
  have "fold (playable_part ev a) ks mk = mk" for ks
    by (induction ks) (simp_all add: playable_part_def playable_step_none assms)
  then show ?thesis by (simp add: keepPlayable_def)
qed

lemma protect_loop_none:
  assumes "\<And>i. i < length (ev_vs ev) \<Longrightarrow> list_all (\<lambda>e. survivor e (map v_key (ev_vs ev))) (v_otherServers (ev_vs ev ! i))"
  shows "protect_loop ev a mk = mk"
proof -
  let ?rm = "removedKeys (ev_vs ev) (mk_keep mk)"
  have "set ?rm \<subseteq> set (map v_key (ev_vs ev))" by (auto simp: removedKeys_def)
  then have "needed_by ?rm (ev_vs ev ! i) = None" if "i < length (ev_vs ev)" for i
    using assms[OF that] survivor_mono by (auto simp: needed_by_None list_all_iff)
  then show ?thesis
    using other_fold_none[of "[0..<length (ev_vs ev)]" ?rm ev a "(False, mk)"]
    by (simp add: protect_loop.simps[of ev a mk] protectOtherServers_def)
qed

lemma apply_overrides_none:
  assumes "\<And>i. i < length (ev_vs ev) \<Longrightarrow> override_of ev i = []"
  shows "apply_overrides ev mk = (mk, [])"
proof -
  have "(\<And>i. i \<in> set is \<Longrightarrow> override_of ev i = []) \<Longrightarrow> fold (override_step ev) is st = st" for "is" st
    by (induction "is") (simp_all add: override_step_def Let_def)
  from this[of "[0..<length (ev_vs ev)]" "(mk, [])"] show ?thesis using assms by (simp add: apply_overrides_def)
qed

text \<open>The passes add nothing to a plain group.\<close>

lemma passes_plain:
  assumes "plain_versions g"
  shows "keepPlayable (prepared lib g p env) a mk = mk" "protectSameFile (prepared lib g p env) a mk = mk"
    "protect_loop (prepared lib g p env) a mk = mk"
proof -
  let ?ev = "prepared lib g p env"
  have each: "list_all (\<lambda>e. survivor e (map v_key (map f_version (g_files g)))) (v_otherServers (f_version (g_files g ! i)))"
    "plexPlayable (f_version (g_files g ! i))" if "i < length (g_files g)" for i
    using assms nth_mem[OF that] by (auto simp: plain_versions_def comp_def)
  show "protectSameFile ?ev a mk = mk" using assms by (simp add: protectSameFile_def plain_versions_def)
  have mem: "ev_partMembers ?ev = ev_partMembers (ranked lib g p env)"
    by (simp add: prepared_def prepare_def Let_def)
  have part: "plexPlayable (ev_vs ?ev ! i)" if "i \<in> set (members_of (ev_partMembers ?ev) k)" for i k
  proof -
    have "i < length (g_files g)" using that by (simp add: mem ranked_members ranked_order)
    then show ?thesis using each(2) by simp
  qed
  show "keepPlayable ?ev a mk = mk" by (rule keepPlayable_none) (rule part)
  show "protect_loop ?ev a mk = mk" using each(1) by (intro protect_loop_none) simp
qed

lemma engine_plain:
  "plain_versions g \<Longrightarrow> engine_marks lib (prepared lib g p env) = initial_marks lib (prepared lib g p env)"
  by (simp add: engine_marks_def passes_plain)

lemma final_plain:
  assumes "plain_group g"
  shows "final_marks lib (prepared lib g p env) = initial_marks lib (prepared lib g p env)"
proof -
  have "apply_overrides (prepared lib g p env) mk = (mk, [])" for mk
    using assms by (intro apply_overrides_none) (simp add: override_of_def plain_group_def)
  then show ?thesis
    using assms by (simp add: final_marks_def engine_plain passes_plain plain_group_def restore_keepers_def)
qed

lemma engine_keep_plain:
  assumes "plain_versions g" and "i < length (g_files g)"
  shows "mk_keep (engine_marks lib (prepared lib g p env)) i \<longleftrightarrow>
    protectionReasons lib (prepared lib g p env) i \<noteq> [] \<or> reportOnlyReasons (map f_version (g_files g)) \<noteq> [] \<or>
    (eligible_version (f_version (g_files g ! i)) \<and>
     card {j \<in> {0..<length (g_files g)}. eligible_version (f_version (g_files g ! j)) \<and>
        partition_key p g j = partition_key p g i \<and>
        ev_pos (ranked lib g p env) j < ev_pos (ranked lib g p env) i} < nat (max (pf_keepCount p) 1))"
proof -
  let ?ev = "prepared lib g p env" and ?r = "ranked lib g p env"
  let ?P = "\<lambda>j. eligible_version (f_version (g_files g ! j)) \<and> partition_key p g j = partition_key p g i"
  have o: "set (ev_order ?r) = {0..<length (g_files g)}" "distinct (ev_order ?r)"
    by (simp_all add: ranked_order)
  have pos: "ev_pos ?r (ev_order ?r ! q) = q" if "q < length (ev_order ?r)" for q
    using that by (simp add: ranked_order rank_pos_nth)
  have "ev_rankKeep ?ev i \<longleftrightarrow> eligible_version (f_version (g_files g ! i)) \<and>
      card {j \<in> {0..<length (g_files g)}. ?P j \<and> ev_pos ?r j < ev_pos ?r i} < nat (max (pf_keepCount p) 1)"
    using rankKeep_iff[OF assms(2), of lib p env] assms(2) o(1)
      take_filter_pos[of "ev_order ?r" "ev_pos ?r" i "nat (max (pf_keepCount p) 1)" ?P, OF o(2) pos]
    by simp
  then show ?thesis
    using initial_keep[of ?ev lib i] initial_protected[of ?ev lib i] assms(2)
    by (auto simp: engine_plain[OF assms(1)] conj_assoc)
qed

lemma final_keep_engine:
  "plain_group g \<Longrightarrow> final_keep lib g p env = mk_keep (engine_marks lib (prepared lib g p env))"
  by (simp add: final_plain engine_plain plain_group_def)

end
