(* ===== verification/Examples.thy ===== *)
theory Examples
  imports Invariants
begin

text \<open>
  A small concrete group, the instances the properties are applied to: a film with two copies of different
  size on one Plex server, and a profile without criteria, so that the file size breaks the tie. The glob and expression libraries are instantiated
  with literal matching.
\<close>

definition lib0 :: golib where
  "lib0 = \<lparr> ds_validate = (\<lambda>_. True), ds_match = (\<lambda>p s. p = s), re_compile = (\<lambda>_. None), time_now = 1 \<rparr>"

definition part0 :: "string \<Rightarrow> int \<Rightarrow> MediaPart" where
  "part0 path sz = \<lparr> p_id = 1, p_path = path, p_localPath = [], p_size = sz, p_duration = 0,
     p_exists = Some True, p_accessible = Some True, p_sharedWith = [], p_itemID = [], p_shortcutOf = [],
     p_linkCount = 1, p_inode = [] \<rparr>"

definition version0 :: "string \<Rightarrow> int \<Rightarrow> string \<Rightarrow> MediaVersion" where
  "version0 key sz path = \<lparr> v_key = key, v_serverID = 1, v_libraryID = 1, v_libraryTitle = ''Films'',
     v_sectionKey = ''1'', v_ratingKey = ''7'', v_mediaID = 0, v_itemTitle = ''Film'', v_displayTitle = ''Film'',
     v_optimizedVersion = False, v_itemKeyID = [], v_sourceID = [], v_episodeEnd = 0, v_reportOnly = [],
     v_parts = [part0 path sz], v_container = ''mkv'', v_durationMs = 600000, v_bitrateKbps = 100,
     v_videoBitrate = 90, v_width = 1920, v_height = 1080, v_resolution = ''1080'', v_videoCodec = ''h264'',
     v_videoProfile = [], v_bitDepth = 8, v_frameRate = [], v_dynamicRange = ''sdr'', v_dvProfile = 0,
     v_audioTracks = [], v_subtitleTracks = [], v_source = [], v_edition = [], v_addedAt = 1,
     v_arr = None, v_disc = None, v_watch = None, v_otherServers = [] \<rparr>"

definition file0 :: "MediaVersion \<Rightarrow> GroupFile" where
  "file0 v = \<lparr> f_id = 1, f_groupID = 1, f_version = v, f_decision = [], f_engineDecision = [], f_override = [],
     f_rank = 0, f_reasons = [], f_decidingCriterion = [], f_protected = False, f_protectedReason = [],
     f_values = Map.empty \<rparr>"

definition group0 :: "MediaVersion list \<Rightarrow> DuplicateGroup" where
  "group0 vs = \<lparr> g_id = 1, g_key = ''k'', g_mediaType = MediaTypeMovie, g_title = ''Film'', g_year = 2000,
     g_showTitle = [], g_season = 0, g_episode = 0, g_serverID = 1, g_libraryIDs = None, g_externalIDs = None,
     g_thumb = [], g_status = [], g_statusReason = [], g_flags = [], g_profileID = 0, g_files = map file0 vs,
     g_reclaimableBytes = 0, g_firstSeenAt = 0, g_lastSeenAt = 0, g_updatedAt = 0, g_lastScanID = 0,
     g_signature = [], g_stableCount = 0, g_crossServer = None, g_arrItems = [] \<rparr>"

definition profile0 :: Profile where
  "profile0 = \<lparr> pf_id = 3, pf_name = ''p'', pf_isDefault = True,
     pf_criteria = [],
     pf_keepCount = 1, pf_keepPer = [], pf_protections = [], pf_createdAt = 0, pf_updatedAt = 0 \<rparr>"

definition env0 :: EvalEnv where
  "env0 = \<lparr> env_Now = 5 * Hour, env_MinAge = 0, env_Libraries = Map.empty,
     env_DifferentArrInstancesIntentional = False, env_MaxGroupSize = 0, env_AllowDiscRemoval = False,
     env_KeepPlayableCopy = True \<rparr>"

definition vs0 :: "MediaVersion list" where
  "vs0 = [version0 ''a'' 1 ''/a'', version0 ''b'' 2 ''/b'']"

lemma file0_sel [simp]: "f_version (file0 v) = v" "f_override (file0 v) = []"
  by (simp_all add: file0_def)

lemma file0_comp [simp]: "f_version \<circ> file0 = id"
  by (simp add: fun_eq_iff)

lemma TrimSpace_Nil [simp]: "TrimSpace [] = []"
  by (simp add: TrimSpace_def TrimRightFunc_def)

definition ex0 :: DuplicateGroup where
  "ex0 = group0 vs0"

lemma ex0_sel [simp]:
  "g_files ex0 = map file0 vs0" "g_mediaType ex0 = MediaTypeMovie" "g_flags ex0 = []" "g_crossServer ex0 = None"
  "g_status ex0 = []"
  by (simp_all add: ex0_def group0_def)

lemma length_vs0 [simp]: "length vs0 = 2"
  by (simp add: vs0_def)

lemma vs0_no_same_file: "(case sameFileComponents vs0 of (cmp, members) \<Rightarrow> members = [] \<and> likelySameFilePairs vs0 cmp = [])"
  by code_simp

lemma vs0_no_flag_step: "fold (version_flag_step MediaTypeMovie vs0) [0..<length vs0] [] = []"
  by code_simp

lemma vs0_flags: "versionFlags MediaTypeMovie vs0 = []"
  using vs0_no_same_file vs0_no_flag_step by (simp add: versionFlags_def addFlagIf_def split: prod.splits)

lemma vs0_same: "snd (sameFileComponents vs0) = []"
  using vs0_no_same_file by (simp split: prod.splits)

lemma vs0_order: "rank_order (tiebreakMetrics vs0) vs0 = [1, 0]"
  by code_simp

lemma vs0_clean:
  "list_all (\<lambda>v. multiEpisodeReasons v = [] \<and> \<not> isOptimized v \<and> \<not> isUnavailable v \<and> discMemberPath v = []) vs0"
  by code_simp

end
