(* ===== verification/ExampleRun.thy ===== *)
theory ExampleRun
  imports Examples
begin

text \<open>
  The example of \<open>Examples\<close> through the whole evaluation: which copy is kept, the flags and the status of
  the group \<open>Evaluate\<close> returns. The witnesses of the properties rest on these facts.
\<close>

lemma profile0_metrics [simp]:
  "ev_metrics (newEvaluation lib g profile0 env) = tiebreakMetrics (map f_version (g_files g))"
  "ev_watchLabels (newEvaluation lib g profile0 env) = []"
  by (simp_all add: newEvaluation_def profile0_def Let_def profile_metrics_def List.map_filter_def)

lemma vs0_parts:
  "v \<in> set vs0 \<Longrightarrow> v_disc v = None \<and> v_arr v = None \<and> v_otherServers v = [] \<and> v_reportOnly v = [] \<and>
     shortcutReasons v = [] \<and> \<not> isInaccessible v"
  by (auto simp: vs0_def version0_def shortcutReasons_def part0_def isInaccessible_def Let_def)

lemma vs0_version:
  assumes "i < 2"
  shows "multiEpisodeReasons (vs0 ! i) = []" "\<not> isOptimized (vs0 ! i)" "\<not> isUnavailable (vs0 ! i)"
    "discMemberPath (vs0 ! i) = []" "v_disc (vs0 ! i) = None" "v_arr (vs0 ! i) = None" "v_otherServers (vs0 ! i) = []"
    "shortcutReasons (vs0 ! i) = []" "\<not> isInaccessible (vs0 ! i)" "eligible_version (vs0 ! i)"
  using vs0_clean vs0_parts[of "vs0 ! i"] assms by (simp_all add: list_all_length eligible_version_def)

lemma vs0_report: "reportOnlyReasons vs0 = []"
  by (simp add: reportOnlyReasons_def vs0_def version0_def setKeys_def)

lemma vs0_plain_versions: "map f_version (g_files g) = vs0 \<Longrightarrow> plain_versions g"
proof -
  assume g: "map f_version (g_files g) = vs0"
  have "v_disc v = None \<and> discMemberPath v = [] \<and> v_otherServers v = []" if "v \<in> set vs0" for v
    using vs0_parts[OF that] vs0_clean that by (simp add: list_all_iff)
  moreover have "f_version f \<in> set vs0" if "f \<in> set (g_files g)" for f using that g by (metis imageI list.set_map)
  ultimately show ?thesis using g vs0_same by (simp add: plain_versions_def plexPlayable_def)
qed

lemma ex0_plain_versions: "plain_versions ex0"
  by (rule vs0_plain_versions) simp

lemma ex0_plain: "plain_group ex0"
  by (simp add: plain_group_def ex0_plain_versions)

lemma ex0_arr: "arrInstanceIDs vs0 = []"
  by (simp add: arrInstanceIDs_def vs0_def version0_def tracked_def List.map_filter_def)

lemma ex0_not_intentional: "\<not> ev_intentional (prepared lib0 ex0 profile0 env0)"
  by (simp add: prepared_def prepare_def Let_def env0_def)

lemma vs0_no_reasons:
  assumes "map f_version (g_files g) = vs0" and "i < 2"
  shows "protectionReasons lib0 (prepared lib0 g profile0 env0) i = []"
proof -
  have "ev_vs (prepared lib0 g profile0 env0) ! i = vs0 ! i" by (simp add: assms(1))
  then show ?thesis
    using vs0_version[OF assms(2)] by (simp add: protectionReasons_def Let_def discProtectionReasons_def profile0_def)
qed

lemma ex0_no_reasons: "i < 2 \<Longrightarrow> protectionReasons lib0 (prepared lib0 ex0 profile0 env0) i = []"
  by (rule vs0_no_reasons) simp_all

text \<open>Two plain copies and no criterion: the second one ranks first and is kept, the first is removed.\<close>

lemma profile0_partition: "partition_key profile0 g i = []"
proof -
  have "normKeepPer (pf_keepPer profile0) = []" by (simp add: normKeepPer_def profile0_def ToLower_def Let_def)
  then show ?thesis by (simp add: KeepPartition_def partitionOf_def)
qed

lemma profile0_sel [simp]: "pf_keepCount profile0 = 1" "pf_protections profile0 = []"
  by (simp_all add: profile0_def)

lemma card_range_filter: "x \<in> {j \<in> {0..<n}. P j} \<Longrightarrow> card {j \<in> {0..<n :: nat}. P j} \<noteq> 0"
  by (auto simp: card_eq_0_iff)

lemma two_copies:
  assumes plain: "plain_versions g" and vs: "map f_version (g_files g) = vs" and two: "length vs = 2"
    and order: "rank_order (tiebreakMetrics vs) vs = [1, 0]"
    and el: "\<And>i. i < 2 \<Longrightarrow> eligible_version (vs ! i)"
    and clear: "\<And>i. i < 2 \<Longrightarrow> protectionReasons lib0 (prepared lib0 g profile0 env) i = []"
    and ro: "reportOnlyReasons vs = []"
  shows "mk_keep (engine_marks lib0 (prepared lib0 g profile0 env)) 1" "\<not> mk_keep (engine_marks lib0 (prepared lib0 g profile0 env)) 0"
proof -
  let ?pos = "ev_pos (ranked lib0 g profile0 env)"
  have n: "length (g_files g) = 2" using vs two by auto
  have v: "f_version (g_files g ! i) = vs ! i" if "i < 2" for i using vs n that by auto
  have pos: "?pos 1 = 0" "?pos 0 = 1"
    using rank_pos_nth[of 0 vs "tiebreakMetrics vs"] rank_pos_nth[of 1 vs "tiebreakMetrics vs"] order two
    by (simp_all add: ranked_order vs)
  show "mk_keep (engine_marks lib0 (prepared lib0 g profile0 env)) 1"
    using engine_keep_plain[OF plain, of 1 lib0 profile0 env] el[of 1] v[of 1] pos n by simp
  let ?S = "{j \<in> {0..<length (g_files g)}. eligible_version (f_version (g_files g ! j)) \<and>
      partition_key profile0 g j = partition_key profile0 g 0 \<and> ?pos j < ?pos 0}"
  have "1 \<in> ?S" using el[of 1] v[of 1] pos n profile0_partition[of g 1] profile0_partition[of g 0] by simp
  then have "card ?S \<noteq> 0" by (rule card_range_filter)
  then show "\<not> mk_keep (engine_marks lib0 (prepared lib0 g profile0 env)) 0"
    using engine_keep_plain[OF plain, of 0 lib0 profile0 env] clear[of 0] ro n vs by simp
qed

lemma ex0_keep: "final_keep lib0 ex0 profile0 env0 1" "\<not> final_keep lib0 ex0 profile0 env0 0"
  using two_copies[OF ex0_plain_versions, of vs0 env0] vs0_order vs0_version(10) ex0_no_reasons vs0_report
  by (simp_all add: final_keep_engine[OF ex0_plain])

text \<open>The evaluated example: pending, the smaller copy removed, the larger one kept.\<close>

definition out0 :: DuplicateGroup where
  "out0 = finish (evaluated lib0 ex0 profile0 env0)"

lemma vs0_names: "vs0 \<noteq> []" "\<forall>v\<in>set vs0. TrimSpace (v_key v) \<noteq> []"
  "distinct (map ((\<lambda>f. TrimSpace (v_key (f_version f))) \<circ> file0) vs0)"
  by code_simp+

lemma ex0_checkEvaluable: "checkEvaluable (Some ex0) = None"
  by (simp add: checkEvaluable_def check_files_None vs0_names)

lemma out0_Evaluate: "Evaluate lib0 (Some ex0) profile0 env0 = Inr out0"
  by (simp add: Evaluate_def ex0_checkEvaluable out0_def)

lemma out0_length: "length (g_files out0) = 2"
  by (simp add: out0_def)

lemma out0_decisions:
  "f_decision (g_files out0 ! 0) = DecisionRemove" "f_decision (g_files out0 ! 1) = DecisionKeep"
  "f_protected (g_files out0 ! 0) = False"
  using ex0_keep removed_not_protected[of lib0 ex0 profile0 env0 0]
  by (simp_all add: out0_def mark_files_nth decision_of_def)

lemma ex0_group_flags: "group_flags (evaluated lib0 ex0 profile0 env0) = []"
proof (rule group_flags_none)
  let ?ev = "evaluated lib0 ex0 profile0 env0"
  have core: "same_core (annotate (decided lib0 ex0 profile0 env0)) (decided lib0 ex0 profile0 env0)" by (rule annotate_core)
  have g: "ev_g ?ev = ex0 \<lparr> g_files := g_files (ev_g ?ev) \<rparr>" "ev_watchLabels ?ev = []"
    using core by (simp_all add: evaluated_def explain_def decided_def[symmetric] same_core_def)
       (simp add: decided_def decide_def prepare_def Let_def ranked_def ev_partition_def ev_rank_def)
  show "ev_watchLabels ?ev = []" by (rule g(2))
  show "g_flags (ev_g ?ev) = []" "g_crossServer (ev_g ?ev) = None" by (subst g(1), simp)+
  show "versionFlags (g_mediaType (ev_g ?ev)) (ev_vs ?ev) = []"
    by (subst g(1)) (simp add: evaluated_core vs0_flags)
  show "\<not> ev_intentional ?ev" using ex0_not_intentional by (simp add: evaluated_core)
  show "\<not> young ?ev" by (simp add: evaluated_young env0_def)
  show "v_arr (ev_vs ?ev ! i) = None \<and> \<not> isInaccessible (ev_vs ?ev ! i) \<and> v_otherServers (ev_vs ?ev ! i) = []"
    if "i < length (ev_vs ?ev)" for i
    using that vs0_version[of i] by (simp add: evaluated_core)
qed

lemma out0_status: "g_status out0 = GroupPending"
proof -
  let ?ev = "evaluated lib0 ex0 profile0 env0"
  have r: "removals_of ?ev > 0"
    using ex0_keep(2) by (auto simp: removals_of_def evaluated_core filter_empty_conv length_greater_0_conv)
  have st: "g_status (updated_group ?ev) = []" 
    using annotate_core[of "decided lib0 ex0 profile0 env0"]
    by (simp add: updated_group_def Let_def evaluated_def explain_def decided_def[symmetric] same_core_def)
  have fl: "g_flags (updated_group ?ev) = []" by (simp add: updated_group_def Let_def ex0_group_flags)
  have "status ?ev (updated_group ?ev) (removals_of ?ev) = (GroupPending, [], False)"
    by (rule status_clear[OF fl]) (simp_all add: r evaluated_core vs0_report)
  then show ?thesis using st by (simp add: out0_def finish_def Let_def)
qed

text \<open>With a protection rule for the library of the copies, both are protected.\<close>

definition profile1 :: Profile where
  "profile1 = profile0 \<lparr> pf_protections := [\<lparr> pr_type = ProtectLibrary, pr_value = ''1'' \<rparr>] \<rparr>"

definition out1 :: DuplicateGroup where
  "out1 = finish (evaluated lib0 ex0 profile1 env0)"

lemma out1_Evaluate: "Evaluate lib0 (Some ex0) profile1 env0 = Inr out1"
  by (simp add: Evaluate_def ex0_checkEvaluable out1_def)

lemma out1_length: "length (g_files out1) = 2"
  by (simp add: out1_def)

lemma vs0_library: "list_all (\<lambda>v. matchProtection lib0 \<lparr> pr_type = ProtectLibrary, pr_value = ''1'' \<rparr> v Map.empty \<noteq> None) vs0"
  by code_simp

lemma out1_protected: "i < 2 \<Longrightarrow> f_protected (g_files out1 ! i)"
proof -
  assume i: "i < 2"
  have "protectionReasons lib0 (prepared lib0 ex0 profile1 env0) i \<noteq> []"
    using vs0_library i by (auto simp: protectionReasons_def Let_def profile1_def protection_of_def env0_def
        list_all_length List.map_filter_def)
  then show ?thesis
    using i by (simp add: out1_def mark_files_nth final_plain[OF ex0_plain] initial_protected)
qed

text \<open>Any two copies with these keys can be evaluated.\<close>

lemma group0_Evaluate:
  assumes "map v_key vs = map v_key vs0"
  shows "Evaluate lib (Some (group0 vs)) p env = Inr (finish (evaluated lib (group0 vs) p env))"
proof -
  have k: "map (\<lambda>f. TrimSpace (v_key (f_version f))) (map file0 vs) = map TrimSpace (map v_key vs)" for vs
    by (simp add: comp_def)
  have a: "(\<forall>f\<in>set (map file0 vs). TrimSpace (v_key (f_version f)) \<noteq> []) \<longleftrightarrow> [] \<notin> set (map TrimSpace (map v_key vs))" for vs
    by (force simp: image_iff)
  have "distinct (map TrimSpace (map v_key vs0)) \<and> [] \<notin> set (map TrimSpace (map v_key vs0))" by code_simp
  then have "check_files key 0 [] (map file0 vs) = None" for key
    using k[of vs] a[of vs] assms unfolding check_files_None by simp
  moreover have "vs \<noteq> []" using assms by (auto simp: vs0_def)
  moreover have "g_files (group0 vs) = map file0 vs" by (simp add: group0_def)
  ultimately show ?thesis by (simp add: Evaluate_def checkEvaluable_def)
qed

text \<open>The smaller copy is also listed on another server, whose item has a different file as well.\<close>

definition listing2 :: OtherListing where
  "listing2 = \<lparr> o_serverID = 2, o_serverName = ''two'', o_libraryID = 5, o_libraryTitle = ''Films'', o_ratingKey = ''9'',
     o_mediaID = 0, o_versionKey = ''c'', o_itemTitle = ''Film'', o_path = ''/a'', o_match = OtherSameFile,
     o_partItemIDs = [], o_itemKeepsAnother = None, o_keptByGroup = None,
     o_others = [\<lparr> om_mediaID = 4, om_versionKey = ''d'', om_path = ''/d'', om_same = [], om_distinct = [''a'', ''b''] \<rparr>], o_hint = [] \<rparr>"

definition vs2 :: "MediaVersion list" where
  "vs2 = [listed [listing2] (vs0 ! 0), vs0 ! 1]"

lemma vs2_keys: "map v_key vs2 = map v_key vs0" "map sameFileKeys vs2 = map sameFileKeys vs0"
  by (simp_all add: vs2_def) (simp_all add: vs0_def)

lemma vs2_order: "rank_order (tiebreakMetrics vs2) vs2 = [1, 0]"
  by code_simp

lemma nth_vs2: "vs2 ! 0 = listed [listing2] (vs0 ! 0)" "vs2 ! 1 = vs0 ! 1" "length vs2 = 2"
  by (simp_all add: vs2_def)

lemma eligible_listed [simp]: "eligible_version (listed os v) = eligible_version v"
  by (simp add: eligible_version_def)

lemma vs2_plain: "plain_group (group0 vs2)"
proof -
  have "snd (sameFileComponents vs2) = []"
    using vs0_same comp_of_cong[OF vs2_keys(2)] by (simp add: sameFileComponents_def nth_vs2)
  moreover have "survivor listing2 (map v_key vs2)"
    by (simp add: survivor_def listing2_def vs2_keys vs0_def version0_def)
  ultimately show ?thesis
    using vs0_version[of 0] vs0_version[of 1] by (simp add: plain_group_def plain_versions_def group0_def comp_def plexPlayable_def vs2_def)
qed

definition out2 :: DuplicateGroup where
  "out2 = finish (evaluated lib0 (group0 vs2) profile0 env0)"

lemma out2_Evaluate: "Evaluate lib0 (Some (group0 vs2)) profile0 env0 = Inr out2"
  by (simp add: group0_Evaluate vs2_keys out2_def)

lemma out2_files: "length (g_files out2) = 2" "f_decision (g_files out2 ! 0) = DecisionRemove"
  "v_otherServers (f_version (g_files out2 ! 0)) = [mark_listing False (removedKeys vs2 (final_keep lib0 (group0 vs2) profile0 env0)) listing2]"
proof -
  have g: "g_files (group0 vs2) = map file0 vs2" "g_mediaType (group0 vs2) = MediaTypeMovie" by (simp_all add: group0_def)
  have i01: "i = 0 \<or> i = 1" if "i < 2" for i :: nat using that by auto
  have el: "eligible_version (vs2 ! i)" if "i < 2" for i using i01[OF that] vs0_version(10)[of i] that nth_vs2 by auto
  have sr: "shortcutReasons (listed os v) = shortcutReasons v" "multiEpisodeReasons (listed os v) = multiEpisodeReasons v" for os v
    by (simp_all add: shortcutReasons_def multiEpisodeReasons_def sharedWith_def readOnlyVersion_def
        multi_episode_name_def listed_def versionPaths_def)
  have pr: "protectionReasons lib0 (prepared lib0 (group0 vs2) profile0 env0) i = []" if "i < 2" for i
    using i01[OF that] vs0_version[of i] that nth_vs2
    by (auto simp: protectionReasons_def Let_def discProtectionReasons_def g sr)
  have ro: "reportOnlyReasons vs2 = []"
    by (simp add: reportOnlyReasons_def vs2_def vs0_def version0_def setKeys_def listed_def)
  have k: "\<not> final_keep lib0 (group0 vs2) profile0 env0 0"
    using two_copies[OF _ _ nth_vs2(3) vs2_order el pr ro] vs2_plain final_keep_engine[OF vs2_plain]
    by (simp add: g comp_def plain_group_def)
  show "length (g_files out2) = 2" by (simp add: out2_def g nth_vs2)
  show "f_decision (g_files out2 ! 0) = DecisionRemove"
    using k by (simp add: out2_def mark_files_nth g nth_vs2 decision_of_def)
  show "v_otherServers (f_version (g_files out2 ! 0)) = [mark_listing False (removedKeys vs2 (final_keep lib0 (group0 vs2) profile0 env0)) listing2]"
    using k by (simp add: out2_def mark_files_nth g nth_vs2 comp_def)
qed

text \<open>The two copies tracked by two Radarr instances, and a copy that can only be reported.\<close>

definition arr0 :: "int \<Rightarrow> ArrFileInfo" where
  "arr0 inst = \<lparr> a_instanceID = inst, a_instanceName = ''r'', a_kind = ''radarr'', a_fileID = inst, a_itemID = 1,
     a_episodeIDs = [], a_itemPath = [], a_monitored = True, a_qualityName = [], a_qualitySource = [],
     a_qualityResolution = 0, a_qualityModifier = [], a_customFormats = [], a_customFormatScore = None,
     a_releaseGroup = [], a_edition = [], a_languages = [], a_dynamicRangeType = [], a_tags = [],
     a_qualityCutoffNotMet = False, a_sceneName = [], a_dateAdded = 1 \<rparr>"

definition vs3 :: "MediaVersion list" where
  "vs3 = [(vs0 ! 0) \<lparr> v_arr := Some (arr0 1) \<rparr>, (vs0 ! 1) \<lparr> v_arr := Some (arr0 2) \<rparr>]"

definition env3 :: EvalEnv where
  "env3 = env0 \<lparr> env_DifferentArrInstancesIntentional := True \<rparr>"

lemma vs3_instances: "length (arrInstanceIDs vs3) = 2"
  by (simp add: arrInstanceIDs_def vs3_def tracked_def List.map_filter_def arr0_def dedup_def add_new_def)

lemma vs3_keys: "map v_key vs3 = map v_key vs0"
  by (simp add: vs3_def vs0_def)

definition vs4 :: "MediaVersion list" where
  "vs4 = [(vs0 ! 0) \<lparr> v_reportOnly := [''x''] \<rparr>, vs0 ! 1]"

lemma vs4_report: "reportOnlyReasons vs4 \<noteq> []"
  by code_simp

lemma vs4_keys: "map v_key vs4 = map v_key vs0"
  by (simp add: vs4_def vs0_def)

text \<open>The user overrides the removal of the smaller copy.\<close>

definition ex5 :: DuplicateGroup where
  "ex5 = ex0 \<lparr> g_files := [(file0 (vs0 ! 0)) \<lparr> f_override := DecisionKeep \<rparr>, file0 (vs0 ! 1)] \<rparr>"

lemma ex5_vs [simp]: "map f_version (g_files ex5) = vs0" "length (g_files ex5) = 2"
  by (simp_all add: ex5_def vs0_def)

lemma ex5_Evaluate: "Evaluate lib0 (Some ex5) profile0 env0 = Inr (finish (evaluated lib0 ex5 profile0 env0))"
proof -
  have "checkEvaluable (Some ex5) = None" by code_simp
  then show ?thesis by (simp add: Evaluate_def)
qed

lemma ex5_engine: "\<not> mk_keep (engine_marks lib0 (prepared lib0 ex5 profile0 env0)) 0"
proof (rule two_copies(2)[of ex5 vs0])
  show "plain_versions ex5" by (rule vs0_plain_versions) simp
  show "protectionReasons lib0 (prepared lib0 ex5 profile0 env0) i = []" if "i < 2" for i
    by (rule vs0_no_reasons[OF _ that]) simp
qed (simp_all add: vs0_order vs0_version vs0_report)

lemma ex5_decisions:
  "f_engineDecision (g_files (finish (evaluated lib0 ex5 profile0 env0)) ! 0) = DecisionRemove"
  "f_decision (g_files (finish (evaluated lib0 ex5 profile0 env0)) ! 0) = DecisionKeep"
proof -
  let ?ev = "prepared lib0 ex5 profile0 env0"
  have "ToLower (override_of ?ev 0) = DecisionKeep" unfolding override_of_def by (simp add: ex5_def) code_simp
  then have "final_keep lib0 ex5 profile0 env0 0"
    by (intro final_after_overrides(1)) (simp add: restore_keep apply_overrides_keep)
  then show "f_decision (g_files (finish (evaluated lib0 ex5 profile0 env0)) ! 0) = DecisionKeep"
    by (simp add: mark_files_nth decision_of_def)
  show "f_engineDecision (g_files (finish (evaluated lib0 ex5 profile0 env0)) ! 0) = DecisionRemove"
    using ex5_engine by (simp add: mark_files_nth decision_of_def)
qed

end
