(* ===== verification/ScanProperties.thy ===== *)
theory ScanProperties
  imports ScanGroups ExecGuards ExampleRun
begin

text \<open>
  The properties of the grouping of a scan, on its own and together with the evaluation and the guards of
  the executor, with a small concrete scan as their witness.
\<close>

section \<open>A small scan\<close>

text \<open>One film with two copies, the default settings, and an exclusion that names the group with another item's suffix.\<close>

definition item1 :: "MediaVersion list \<Rightarrow> MediaItem" where
  "item1 vs =
     \<lparr>it_serverID = 1, it_libraryID = 1, it_libraryTitle = ''Films'', it_sectionKey = ''1'', it_ratingKey = ''7'',
      it_mediaType = MediaTypeMovie, it_title = ''Film'', it_year = 2000, it_showTitle = [], it_season = 0,
      it_episode = 0, it_externalIDs = Map.empty, it_showIDs = Map.empty, it_editionTitle = [],
      it_thumb = [], it_addedAt = 1, it_versions = vs, it_guid = [], it_serverKind = MediaServerPlex, it_keyID = []\<rparr>"

definition exclusions1 :: "Exclusion list" where
  "exclusions1 = [\<lparr>x_id = 1, x_kind = ExcludeGroupKey, x_value = ''plex:1:7@plex:1:9'', x_title = [], x_reason = [], x_createdAt = 0\<rparr>]"

definition opts1 :: GroupOptions where
  "opts1 = GroupOptionsFromSettings DefaultSettings exclusions1 Map.empty"

definition items1 :: "MediaItem list" where
  "items1 = [item1 [version0 ''a'' 1 [], version0 ''b'' 2 []]]"

definition exset1 :: exclusionSet where
  "exset1 = \<lparr>xs_groupKeys = [''plex:1:7@plex:1:9''], xs_pathPrefixes = [], xs_libraries = [], xs_titles = []\<rparr>"

lemma exset1_compile: "compileExclusions lib0 exclusions1 = exset1"
proof -
  have "TrimSpace ''plex:1:7@plex:1:9'' = ''plex:1:7@plex:1:9''" by code_simp
  then show ?thesis by (simp add: compileExclusions_def compile_exclusion_def exclusions1_def exset1_def)
qed

definition units1 :: "content list" where
  "units1 = disambiguateKeys (buildUnits (collectItems items1 (normalized opts1) exset1))"

lemma units1_shape:
  "map (\<lambda>u. (u_key u, map (\<lambda>vg. (vg_suffix vg, map cand_key (vg_cands vg))) (splitVariants (u_cands u) (normalized opts1)))) units1 =
    [(''plex:1:7'', [([], [''a'', ''b''])])]"
  by code_simp

definition group1 :: DuplicateGroup where
  "group1 = hd (BuildGroups lib0 items1 opts1)"

lemma opts1_exclusions [simp]: "go_Exclusions opts1 = exclusions1"
  by (simp add: opts1_def GroupOptionsFromSettings_def)

lemma group1_built:
  "group1 \<in> set (BuildGroups lib0 items1 opts1)" "g_key group1 = ''plex:1:7''"
  "map (\<lambda>f. v_key (f_version f)) (g_files group1) = [''a'', ''b'']"
proof -
  obtain u vg where u: "units1 = [u]" "u_key u = ''plex:1:7''" and vg: "splitVariants (u_cands u) (normalized opts1) = [vg]" "vg_suffix vg = []"
    and c: "map cand_key (vg_cands vg) = [''a'', ''b'']" using units1_shape by auto
  have len: "\<not> length (vg_cands vg) < 2" using arg_cong[OF c, of length] by simp
  have k: "BuildGroups lib0 items1 opts1 = [newGroup u vg ''plex:1:7'' (normalized opts1)]"
    unfolding BuildGroups_def Let_def normalized_exclusions opts1_exclusions exset1_compile units1_def[symmetric]
    using len by (simp add: u vg group_units_def add_group_def Let_def exset1_def fresh_key.simps)
  show "group1 \<in> set (BuildGroups lib0 items1 opts1)" "g_key group1 = ''plex:1:7''" using k by (simp_all add: group1_def)
  show "map (\<lambda>f. v_key (f_version f)) (g_files group1) = [''a'', ''b'']" using k c by (simp add: group1_def comp_def)
qed

lemma length_group1: "length (g_files group1) = 2"
  using arg_cong[OF group1_built(3), of length] by simp

text \<open>Two copies with a common audio language.\<close>

definition cand1 :: "string \<Rightarrow> string list \<Rightarrow> candidate" where
  "cand1 k ls = \<lparr>cd_v = version0 k 1 [], cd_edition = [], cd_is3D = False, cd_langs = ls\<rparr>"

definition cands1 :: "candidate list" where
  "cands1 = [cand1 ''a'' [''eng''], cand1 ''b'' [''eng'', ''ger'']]"

lemma cands1_variant: "splitVariants cands1 opts1 = [\<lparr>vg_suffix = [], vg_cands = cands1, vg_flags = []\<rparr>]"
  by code_simp

section \<open>What a scan groups\<close>

text \<open>
  Splitting a title into variants loses no version and duplicates none: whatever variants are told apart,
  the variants together hold exactly the candidates of the unit.
\<close>

theorem split_variants_partition: "mset (concat (map vg_cands (splitVariants cands opts))) = mset cands"
  by (rule mset_splitVariants)

text \<open>
  C33 Variants are never mixed: two versions of one variant have the same edition key and the same 3D
  attribute when these are told apart, and when languages are told apart two versions with known audio
  languages share one, so no copy can be removed in favour of copies that all lack its languages. (The
  languages of a scan are codes without a plus sign, which joins them in a suffix.)
\<close>

theorem variants_never_mixed:
  assumes "vg \<in> set (splitVariants cands opts)" and "c \<in> set (vg_cands vg)" and "d \<in> set (vg_cands vg)"
  shows "(go_TreatEditionsAsDistinct opts \<longrightarrow> cd_edition c = cd_edition d) \<and>
    (go_Treat3DAsDistinct opts \<longrightarrow> cd_is3D c = cd_is3D d) \<and>
    (go_LanguageVariantsAsDistinct opts \<and> (\<forall>c\<in>set cands. plain_langs c) \<and> cd_langs c \<noteq> [] \<and> cd_langs d \<noteq> [] \<longrightarrow>
       stringsIntersect (cd_langs c) (cd_langs d))"
proof -
  let ?g0 = "[\<lparr>vg_suffix = [], vg_cands = cands, vg_flags = []\<rparr>]"
  define g1 where "g1 = (if go_TreatEditionsAsDistinct opts then splitBy ?g0 cd_edition edition_suffix FlagEditionSplit else ?g0)"
  define g2 where "g2 = (if go_Treat3DAsDistinct opts then splitBy g1 is3D_key is3D_suffix FlagVariant3D else g1)"
  define g3 where "g3 = (if go_LanguageVariantsAsDistinct opts then splitLanguages g2 else g2)"
  have vg: "vg \<in> set g3" using assms(1) unfolding splitVariants_def Let_def g1_def g2_def g3_def .
  have r: "refines g1 ?g0" "refines g2 g1" "refines g3 g2"
    unfolding g1_def g2_def g3_def by (auto simp: refines_splitBy refines_splitLanguages refines_refl)
  obtain h2 where h2: "h2 \<in> set g2" "set (vg_cands vg) \<subseteq> set (vg_cands h2)" using r(3) vg by (auto simp: refines_def)
  obtain h1 where h1: "h1 \<in> set g1" "set (vg_cands h2) \<subseteq> set (vg_cands h1)" using r(2) h2(1) by (auto simp: refines_def)
  have h0: "set (vg_cands h1) \<subseteq> set cands" using r(1) h1(1) by (auto simp: refines_def)
  have cd1: "c \<in> set (vg_cands h1)" "d \<in> set (vg_cands h1)" and cd2: "c \<in> set (vg_cands h2)" "d \<in> set (vg_cands h2)"
    using assms(2,3) h1 h2 by auto
  have "cd_edition c = cd_edition d" if "go_TreatEditionsAsDistinct opts"
    using splitBy_homogeneous[OF _ cd1] h1(1) that by (simp add: g1_def)
  moreover have "cd_is3D c = cd_is3D d" if "go_Treat3DAsDistinct opts"
  proof -
    have "is3D_key c = is3D_key d" using splitBy_homogeneous[OF _ cd2] h2(1) that by (simp add: g2_def)
    then show ?thesis by (simp add: is3D_key_def split: if_splits)
  qed
  moreover have "stringsIntersect (cd_langs c) (cd_langs d)"
    if "go_LanguageVariantsAsDistinct opts" "\<forall>c\<in>set cands. plain_langs c" "cd_langs c \<noteq> []" "cd_langs d \<noteq> []"
  proof -
    have "vg \<in> set (splitLanguages g2)" using vg that(1) by (simp add: g3_def)
    then obtain g where g: "g \<in> set g2" "vg \<in> set (split_language g)" by (auto simp: g3_def splitLanguages_def)
    obtain k where "k \<in> set g1" "set (vg_cands g) \<subseteq> set (vg_cands k)" using r(2) g(1) by (auto simp: refines_def)
    then have "set (vg_cands g) \<subseteq> set cands" using r(1) by (fastforce simp: refines_def)
    then show ?thesis using split_language_intersect[OF g(2) assms(2) that(3) assms(3) that(4)] that(2) by blast
  qed
  ultimately show ?thesis by blast
qed

theorem variants_never_mixed_witness: "stringsIntersect (cd_langs (cands1 ! 0)) (cd_langs (cands1 ! 1))"
  using variants_never_mixed[of "\<lparr>vg_suffix = [], vg_cands = cands1, vg_flags = []\<rparr>" cands1 opts1 "cands1 ! 0" "cands1 ! 1"] cands1_variant
  by (simp add: cands1_def cand1_def plain_langs_def opts1_def GroupOptionsFromSettings_def DefaultSettings_def)

lemma build_groups_facts:
  assumes "g \<in> set (BuildGroups lib items opts)"
  defines "ex \<equiv> compileExclusions lib (go_Exclusions opts)"
  shows "2 \<le> length (g_files g)" and "distinct (map (\<lambda>f. v_key (f_version f)) (g_files g))"
    and "f \<in> set (g_files g) \<Longrightarrow>
      \<exists>it\<in>set items. \<not> itemExcluded ex it \<and> f_version f \<in> (\<lambda>w. fillVersionIdentity w it) ` set (it_versions it)"
    and "f \<in> set (g_files g) \<Longrightarrow> v_key (f_version f) \<noteq> []"
    and "f \<in> set (g_files g) \<Longrightarrow>
      \<not> versionExcluded ex (f_version f) \<and> \<not> isOptimized (f_version f) \<and> \<not> isUnavailable (f_version f)"
proof -
  have ex: "ex = compileExclusions lib (go_Exclusions (normalized opts))"
    by (simp add: ex_def normalized_exclusions)
  from BuildGroups_made[OF assms(1)] obtain cs where cs: "g_files g = map new_file cs" "2 \<le> length cs"
    "distinct (map cand_key cs)" "cands_ok ex items cs"
    unfolding ex by (rule made_by_files)
  have c: "\<exists>it\<in>set items. \<exists>c. f_version f = cd_v c \<and> cand_of ex it c" if f: "f \<in> set (g_files g)" for f
  proof -
    obtain d where "d \<in> set cs" "f_version f = cd_v d" using f cs(1) by auto
    then show ?thesis using cs(4) unfolding cands_ok_def by blast
  qed
  show "2 \<le> length (g_files g)" "distinct (map (\<lambda>f. v_key (f_version f)) (g_files g))"
    using cs by (simp_all add: comp_def)
  show "\<exists>it\<in>set items. \<not> itemExcluded ex it \<and> f_version f \<in> (\<lambda>w. fillVersionIdentity w it) ` set (it_versions it)"
    and "v_key (f_version f) \<noteq> []"
    and "\<not> versionExcluded ex (f_version f) \<and> \<not> isOptimized (f_version f) \<and> \<not> isUnavailable (f_version f)"
    if "f \<in> set (g_files g)"
    using c[OF that] by (auto simp: cand_of_def)
qed

text \<open>
  C34 Every group that \<open>BuildGroups\<close> returns has at least two files, whose version keys are distinct and not
  empty; every one of them is a version of an item of the scan that no exclusion covers, neither itself nor
  its item, and is neither an optimized copy nor a version whose files are missing.
\<close>

theorem build_groups_sound:
  assumes "g \<in> set (BuildGroups lib items opts)"
  shows "2 \<le> length (g_files g) \<and> distinct (map (\<lambda>f. v_key (f_version f)) (g_files g)) \<and>
    (\<forall>v\<in>f_version ` set (g_files g). v_key v \<noteq> [] \<and> \<not> isOptimized v \<and> \<not> isUnavailable v \<and>
       \<not> versionExcluded (compileExclusions lib (go_Exclusions opts)) v \<and>
       (\<exists>it\<in>set items. \<not> itemExcluded (compileExclusions lib (go_Exclusions opts)) it \<and>
          v \<in> (\<lambda>w. fillVersionIdentity w it) ` set (it_versions it)))"
  using build_groups_facts[OF assms] by auto

theorem build_groups_sound_witness:
  "2 \<le> length (g_files group1) \<and> distinct (map (\<lambda>f. v_key (f_version f)) (g_files group1))"
  using build_groups_sound[OF group1_built(1)] by blast

text \<open>
  The groups come out in strictly increasing order of their keys: no two groups share a key, however many
  titles collide.
\<close>

theorem build_groups_keys_increasing: "sorted_wrt (<) (map g_key (BuildGroups lib items opts))"
proof -
  let ?o = "normalized opts"
  let ?ex = "compileExclusions lib (go_Exclusions ?o)"
  let ?us = "disambiguateKeys (buildUnits (collectItems items ?o ?ex))"
  let ?gs = "fst (group_units ?o ?ex ?us ([], []))"
  have B: "BuildGroups lib items opts = sort_by groupLess ?gs" by (simp add: BuildGroups_def Let_def)
  have "sorted_wrt (\<lambda>x y. \<not> groupLess y x) (sort_by groupLess ?gs)"
    by (rule sorted_sort_by) (auto simp: groupLess_def)
  then have "sorted_wrt (\<lambda>x y. g_key x \<le> g_key y) (BuildGroups lib items opts)"
    unfolding B by (rule sorted_wrt_mono_rel[rotated]) (auto simp: groupLess_def not_less)
  then have "sorted (map g_key (BuildGroups lib items opts))" by (simp add: sorted_wrt_map)
  moreover have "distinct (map g_key (BuildGroups lib items opts))"
    unfolding B distinct_map_sort_by using group_units_ok[of ?o ?ex ?us] by (simp add: groups_ok_def)
  ultimately show ?thesis by (simp add: strict_sorted_iff)
qed

text \<open>
  C35 Two files end up in one group only when they belong to one item, or to items of one server and one
  media type whose libraries share a non-empty scope group: separate libraries are never merged unasked.
  (A media type contains no bar, which separates the parts of a bucket's key.)
\<close>

theorem build_groups_merge_only_scoped:
  assumes "g \<in> set (BuildGroups lib items opts)" and "f1 \<in> set (g_files g)" and "f2 \<in> set (g_files g)"
    and "\<forall>it\<in>set items. CHR ''|'' \<notin> set (it_mediaType it)"
  shows "\<exists>a\<in>set items. \<exists>b\<in>set items. file_of items a f1 \<and> file_of items b f2 \<and>
    (a = b \<or> it_serverID a = it_serverID b \<and> it_mediaType a = it_mediaType b \<and>
             scope_of opts a = scope_of opts b \<and> scope_of opts a \<noteq> [])"
proof -
  let ?o = "normalized opts"
  let ?ex = "compileExclusions lib (go_Exclusions ?o)"
  from BuildGroups_made[OF assms(1)] obtain es cs where es: "es \<noteq> []" "set es \<subseteq> set (collectItems items ?o ?ex)"
    "(\<exists>e. es = [e]) \<or> merged es" and cs: "g_files g = map new_file cs" "set cs \<subseteq> (\<Union>e\<in>set es. set (e_cands e))"
    by (rule made_by_files)
  obtain c1 c2 where c: "c1 \<in> set cs" "c2 \<in> set cs" "f1 = new_file c1" "f2 = new_file c2"
    using assms(2,3) cs(1) by auto
  then obtain e1 e2 where e: "e1 \<in> set es" "e2 \<in> set es" "c1 \<in> set (e_cands e1)" "c2 \<in> set (e_cands e2)"
    using cs(2) by blast
  obtain a where a: "entry_ok ?o ?ex items a e1" using collectItems_ok e(1) es(2) by blast
  show ?thesis
  proof (cases "e1 = e2")
    case True
    then have "file_of items a f1" "file_of items a f2" using entry_ok_file[OF a] e(3,4) c(3,4) by auto
    moreover have "a \<in> set items" using a by (simp add: entry_ok_def)
    ultimately show ?thesis by blast
  next
    case False
    obtain b where b: "entry_ok ?o ?ex items b e2" using collectItems_ok e(2) es(2) by blast
    have ab: "a \<in> set items" "b \<in> set items" "file_of items a f1" "file_of items b f2"
      using a b entry_ok_file[OF a e(3)] entry_ok_file[OF b e(4)] c(3,4) by (simp_all add: entry_ok_def)
    have "merged es" using False e(1,2) es(3) by auto
    then have m: "bucket_key e1 = bucket_key e2" "\<not> unscoped e1" using e(1,2) by (auto simp: merged_def)
    have it: "it_serverID (e_item e1) = it_serverID a" "it_mediaType (e_item e1) = it_mediaType a"
      "it_serverID (e_item e2) = it_serverID b" "it_mediaType (e_item e2) = it_mediaType b"
      using a b by (auto simp: entry_ok_def)
    have sc: "e_scope e1 = scope_of opts a" "e_scope e2 = scope_of opts b"
      using a b by (auto simp: entry_ok_def normalized_scope)
    have "scope_of opts a \<noteq> []" using m(2) sc by (simp add: unscoped_def)
    moreover have "it_serverID a = it_serverID b \<and> scope_of opts a = scope_of opts b \<and> it_mediaType a = it_mediaType b"
      using bucket_key_inj[OF m(1)] ab(1,2) assms(4) unfolding it sc by blast
    ultimately show ?thesis using ab by blast
  qed
qed

theorem build_groups_merge_only_scoped_witness:
  "\<exists>a\<in>set items1. \<exists>b\<in>set items1. file_of items1 a (g_files group1 ! 0) \<and> file_of items1 b (g_files group1 ! 1)"
proof -
  have "g_files group1 ! 0 \<in> set (g_files group1)" "g_files group1 ! 1 \<in> set (g_files group1)"
    using length_group1 by simp_all
  moreover have "\<forall>it\<in>set items1. CHR ''|'' \<notin> set (it_mediaType it)" by (simp add: items1_def item1_def)
  ultimately show ?thesis using build_groups_merge_only_scoped[OF group1_built(1)] by blast
qed

section \<open>From a scan to an evaluation\<close>

lemma TrimSpace_id:
  assumes "xs \<noteq> []" "\<not> is_space (hd xs)" "\<not> is_space (last xs)"
  shows "TrimSpace xs = xs"
proof -
  have "dropWhile is_space xs = xs" using assms(1,2) by (cases xs) auto
  moreover have "dropWhile is_space (rev xs) = rev xs" using assms(1,3) by (cases "rev xs") (auto simp: hd_rev[symmetric] simp flip: hd_rev)
  ultimately show ?thesis by (simp add: TrimSpace_def TrimRightFunc_def)
qed

lemma TrimSpace_last:
  assumes "TrimSpace xs = xs" "xs \<noteq> []"
  shows "\<not> is_space (last xs)"
proof -
  have "TrimRightFunc is_space (dropWhile is_space xs) = xs" using assms(1) by (simp add: TrimSpace_def)
  then show ?thesis using TrimRightFunc_last assms(2) by metis
qed

lemma ServerVersionID_trimmed: "ServerVersionID v \<noteq> [] \<Longrightarrow> \<not> is_space (last (ServerVersionID v))"
proof (cases "v_mediaID v > 0")
  case True
  have "last (digits n) \<in> set (digits n)" for n by simp
  then have "is_digit (last (digits n))" for n using digits_all_digit[of n] unfolding list_all_iff by blast
  moreover have "is_digit c \<Longrightarrow> \<not> is_space c" for c by (auto simp: is_digit_def is_space_def)
  ultimately show ?thesis using True by (simp add: ServerVersionID_def Itoa_def)
next
  case False
  assume "ServerVersionID v \<noteq> []"
  then show ?thesis using False TrimSpace_last[of "TrimSpace (v_sourceID v)"] by (simp add: ServerVersionID_def)
qed

lemma fill_fields_key: "v_key (fill_fields v it) = TrimSpace (v_key v)"
  by (simp add: fill_fields_def)

lemma built_key_trimmed:
  assumes "it_serverKind it \<in> set SupportedMediaServerKinds"
  shows "TrimSpace (v_key (fillVersionIdentity v it)) = v_key (fillVersionIdentity v it)"
proof -
  have "TrimSpace (VersionKey (it_serverKind it) s i) = VersionKey (it_serverKind it) s i"
    if "i \<noteq> []" "\<not> is_space (last i)" for s i
  proof (rule TrimSpace_id)
    have "KeyPrefix (it_serverKind it) \<in> {''plex'', ''jellyfin''}"
      using assms by (auto simp: SupportedMediaServerKinds_def KeyPrefix_def)
    then show "\<not> is_space (hd (VersionKey (it_serverKind it) s i))"
      by (auto simp: VersionKey_def is_space_def byte_def)
  qed (use that in \<open>auto simp: VersionKey_def\<close>)
  then show ?thesis
    using ServerVersionID_trimmed[of "fill_fields v it"] by (simp add: fillVersionIdentity_def Let_def fill_fields_key)
qed

text \<open>
  C36 Every group that a scan builds from the supported kinds of servers can be evaluated: \<open>Evaluate\<close> accepts
  it whatever the profile and the environment, so a scan never stops on a group it made itself.
\<close>

theorem built_groups_evaluable:
  assumes "g \<in> set (BuildGroups lib items opts)"
    and "\<forall>it\<in>set items. it_serverKind it \<in> set SupportedMediaServerKinds"
  shows "\<exists>g'. Evaluate lib (Some g) p env = Inr g'"
proof -
  let ?key = "\<lambda>f. v_key (f_version f)"
  note s = build_groups_facts[OF assms(1)]
  have trim: "TrimSpace (?key f) = ?key f" if "f \<in> set (g_files g)" for f
    using s(3)[OF that] built_key_trimmed assms(2) by auto
  then have eq: "map (\<lambda>f. TrimSpace (?key f)) (g_files g) = map ?key (g_files g)" by simp
  have "check_files (g_key g) 0 [] (g_files g) = None"
    unfolding check_files_None eq using s(2) s(4) trim by simp
  moreover have "g_files g \<noteq> []" using s(1) by auto
  ultimately show ?thesis by (simp add: Evaluate_def checkEvaluable_def)
qed

lemma items1_kind: "\<forall>it\<in>set items1. it_serverKind it \<in> set SupportedMediaServerKinds"
  by (simp add: items1_def item1_def SupportedMediaServerKinds_def)

theorem built_groups_evaluable_witness: "\<exists>g'. Evaluate lib0 (Some group1) profile0 env0 = Inr g'"
  by (rule built_groups_evaluable[OF group1_built(1) items1_kind])

section \<open>The guards before a removal\<close>




text \<open>The titles of a unit are titles of items that no exclusion covers.\<close>

lemma unit_titles:
  assumes "es \<noteq> []" "\<And>e. e \<in> set es \<Longrightarrow> \<not> title_excluded ex (it_title (e_item e)) \<and> \<not> title_excluded ex (it_showTitle (e_item e))"
  shows "\<not> title_excluded ex (it_title (u_meta (newUnit es)))" "\<not> title_excluded ex (it_showTitle (u_meta (newUnit es)))"
proof -
  let ?P = "\<lambda>m. \<not> title_excluded ex (it_title m) \<and> \<not> title_excluded ex (it_showTitle m)"
  have "hd (sort_by entryLess es) \<in> set es" using assms(1) by (metis hd_in_set length_0_conv length_sort_by set_sort_by)
  then have "?P ((e_item (hd (sort_by entryLess es)))\<lparr>it_externalIDs := Map.empty, it_showIDs := Map.empty\<rparr>)"
    using assms(2) by simp
  then have "?P (u_meta (newUnit es))"
    unfolding newUnit_def Let_def content.simps
    by (rule fold_invariant) (use assms(2) in \<open>auto simp: merge_meta_def or_if_def\<close>)
  then show "\<not> title_excluded ex (it_title (u_meta (newUnit es)))" "\<not> title_excluded ex (it_showTitle (u_meta (newUnit es)))"
    by blast+
qed

text \<open>
  C38 A scan and the executor read the exclusions the same way: when the executor's check \<open>ExclusionReason\<close>
  covers a group that a scan has just built under the same exclusions, it is because of an excluded group
  key; libraries, title expressions and path prefixes have already been applied by the scan. (A version
  carries no item title of its own, or the title of its item.)
\<close>

theorem scan_applies_exclusions:
  assumes "g \<in> set (BuildGroups lib items opts)"
    and "\<forall>it\<in>set items. \<forall>v\<in>set (it_versions it). v_itemTitle v = [] \<or> v_itemTitle v = it_title it"
    and "ExclusionReason lib (go_Exclusions opts) (Some g) \<noteq> []"
  shows "\<exists>k\<in>set (xs_groupKeys (compileExclusions lib (go_Exclusions opts))). key_covers g k"
proof -
  let ?ex = "compileExclusions lib (go_Exclusions opts)"
  let ?o = "normalized opts"
  have "made_by ?o (disambiguateKeys (buildUnits (collectItems items ?o ?ex))) g"
    using BuildGroups_made[OF assms(1)] by (simp add: normalized_exclusions)
  then obtain u vg where u: "u \<in> set (disambiguateKeys (buildUnits (collectItems items ?o ?ex)))"
    and g: "g = newGroup u vg (g_key g) ?o" by (auto simp: made_by_def)
  from u obtain es where es: "es \<noteq> []" "set es \<subseteq> set (collectItems items ?o ?ex)" "u_meta u = u_meta (newUnit es)"
    by (rule unit_of_scan)
  have "\<not> itemExcluded ?ex (e_item e)" if "e \<in> set es" for e
    using collectItems_ok es(2) that by (fastforce simp: entry_ok_def itemExcluded_def)
  then have t: "\<not> title_excluded ?ex (it_title (u_meta u))" "\<not> title_excluded ?ex (it_showTitle (u_meta u))"
    using unit_titles[OF es(1), of ?ex] es(3) by (auto simp: itemExcluded_def)
  have titles: "\<not> title_excluded ?ex (g_title g)" "\<not> title_excluded ?ex (g_showTitle g)"
    using t by (subst g, simp add: newGroup_def Let_def title_excluded_def[of _ "[]"])+
  note s = build_groups_facts[OF assms(1)]
  have ver: "\<not> versionExcluded ?ex (f_version f) \<and> \<not> title_excluded ?ex (v_itemTitle (f_version f))"
    if f: "f \<in> set (g_files g)" for f
  proof -
    obtain it v where it: "it \<in> set items" "\<not> itemExcluded ?ex it" "v \<in> set (it_versions it)" "f_version f = fillVersionIdentity v it"
      using s(3)[OF f] by blast
    have "v_itemTitle (fillVersionIdentity v it) = it_title it"
      using assms(2) it(1,3) by (auto simp: fillVersionIdentity_def fill_fields_def Let_def or_if_def)
    then show ?thesis using s(5)[OF f] it by (simp add: itemExcluded_def)
  qed
  have "g_libraryIDs g = Some (libraryIDsOf (map f_version (g_files g)))" by (subst (1 2) g) (simp add: newGroup_def Let_def)
  then have "\<forall>i\<in>set (case g_libraryIDs g of Some ids \<Rightarrow> ids | None \<Rightarrow> []). i \<notin> set (xs_libraries ?ex)"
    using ver by (auto simp: libraryIDsOf_def versionExcluded_def)
  then show ?thesis using assms(3) titles ver unfolding ExclusionReason_iff covered_def by blast
qed

lemma group1_covered: "key_covers group1 ''plex:1:7@plex:1:9''"
proof -
  have "list_ex (\<lambda>a. a \<in> set (keyForms ''plex:1:7'')) (keyForms ''plex:1:7@plex:1:9'')" by code_simp
  then show ?thesis by (auto simp: key_covers_def group1_built(2) list_ex_iff)
qed

theorem scan_applies_exclusions_witness: "\<exists>k\<in>set (xs_groupKeys (compileExclusions lib0 exclusions1)). key_covers group1 k"
proof -
  have "covered exset1 group1" using group1_covered by (simp add: covered_def exset1_def)
  then have "ExclusionReason lib0 (go_Exclusions opts1) (Some group1) \<noteq> []"
    by (simp add: ExclusionReason_iff exset1_compile)
  then show ?thesis
    using scan_applies_exclusions[OF group1_built(1)] by (simp add: items1_def item1_def version0_def)
qed

end
