(* ===== verification/Profiles.thy ===== *)
theory Profiles
  imports Grouping Evaluation
begin

text \<open>
  Profiles and options: \<open>internal/engine/schema.go\<close> (the criteria schema of the profile editor, the
  built-in templates, \<open>ValidateProfile\<close>) and \<open>EvalEnvFromSettings\<close> of \<open>internal/engine/engine.go\<close>. The
  validation functions return the problems they append to the list of \<open>ValidateProfile\<close>, in order. The
  text of a regular-expression error is the parameter \<open>re_error\<close>.
\<close>

section \<open>The environment of an evaluation\<close>

definition EvalEnvFromSettings :: "Settings \<Rightarrow> time \<Rightarrow> (int \<rightharpoonup> Library) \<Rightarrow> EvalEnv" where
  "EvalEnvFromSettings s now libraries =
     \<lparr> env_Now = now, env_MinAge = wrap64 (s_MinAgeHours s * Hour), env_Libraries = libraries,
       env_DifferentArrInstancesIntentional = s_DifferentArrInstancesIntentional s,
       env_MaxGroupSize = s_MaxGroupSize s, env_AllowDiscRemoval = s_AllowDiscRemoval s,
       env_KeepPlayableCopy = s_KeepPlayableCopy s \<rparr>"

section \<open>The schema\<close>

record CriterionSchema =
  cs_type :: string
  cs_label :: string
  cs_description :: string
  cs_kind :: kind
  cs_options :: "SchemaOption list"
  cs_defaultOrder :: "string list"
  cs_defaultDirection :: string
  cs_supportsTolerance :: bool
  cs_requiresArr :: bool
  cs_requiresWatchHistory :: bool
  cs_minDeltaUnit :: string

text \<open>Go reads the zero \<open>criterionInfo\<close> for an unknown type; no type of \<open>criterionTypes\<close> is unknown.\<close>

definition criterion_schema :: "string \<Rightarrow> CriterionSchema" where
  "criterion_schema t =
     (let info = (case criterionInfoFor t of Some i \<Rightarrow> i | None \<Rightarrow> no_info)
      in \<lparr> cs_type = t, cs_label = ci_label info, cs_description = ci_description info,
           cs_kind = ci_kind info, cs_options = ci_options info, cs_defaultOrder = ci_defaultOrder info,
           cs_defaultDirection = ci_defaultDirection info, cs_supportsTolerance = ci_supportsTolerance info,
           cs_requiresArr = ci_requiresArr info, cs_requiresWatchHistory = ci_requiresWatch info,
           cs_minDeltaUnit = ci_minDeltaUnit info \<rparr>)"

definition CriteriaSchema :: "CriterionSchema list" where
  "CriteriaSchema = map criterion_schema criterionTypes"

section \<open>Templates\<close>

definition DefaultKeepTag :: string where "DefaultKeepTag = ''dupearr-keep''"

definition zero_criterion :: Criterion where
  "zero_criterion = \<lparr> c_type = [], c_enabled = False, c_direction = [], c_order = [],
     c_tolerancePercent = Fin 0, c_minDelta = Fin 0, c_patterns = [], c_value = [] \<rparr>"

definition orderedCrit :: "string \<Rightarrow> string list \<Rightarrow> Criterion" where
  "orderedCrit t order = zero_criterion \<lparr> c_type := t, c_enabled := True, c_order := order \<rparr>"

definition numericCrit :: "string \<Rightarrow> string \<Rightarrow> f64 \<Rightarrow> f64 \<Rightarrow> Criterion" where
  "numericCrit t dir tolPct minDelta =
     zero_criterion \<lparr> c_type := t, c_enabled := True, c_direction := dir, c_tolerancePercent := tolPct,
       c_minDelta := minDelta \<rparr>"

definition boolCrit :: "string \<Rightarrow> Criterion" where
  "boolCrit t = zero_criterion \<lparr> c_type := t, c_enabled := True \<rparr>"

definition highestQualityChain :: "Criterion list" where
  "highestQualityChain =
     [boolCrit CritHealth,
      orderedCrit CritResolution defaultResolutionOrder,
      orderedCrit CritDynamicRange defaultDynamicRangeOrder,
      orderedCrit CritSource defaultSourceOrder,
      numericCrit CritCustomFormatScore DirectionHigher (Fin 0) (Fin 10),
      numericCrit CritVideoBitrate DirectionHigher (Fin 15) (Fin 0),
      orderedCrit CritAudioFormat defaultAudioFormatOrder,
      numericCrit CritAudioChannels DirectionHigher (Fin 0) (Fin 0),
      boolCrit CritArrManaged,
      orderedCrit CritContainer defaultContainerOrder,
      numericCrit CritFileSize DirectionHigher (Fin 5) (Fin 0),
      numericCrit CritDateAdded DirectionHigher (Fin 0) (Fin 0)]"

definition keepTagProtection :: "Protection list" where
  "keepTagProtection = [\<lparr> pr_type = ProtectArrTag, pr_value = DefaultKeepTag \<rparr>]"

definition trustArr :: "Criterion list" where
  "trustArr =
     [boolCrit CritHealth, boolCrit CritArrManaged,
      numericCrit CritCustomFormatScore DirectionHigher (Fin 0) (Fin 10)] @
     filter (\<lambda>c. c_type c \<notin> {CritHealth, CritArrManaged, CritCustomFormatScore}) highestQualityChain"

definition template :: "string \<Rightarrow> bool \<Rightarrow> Criterion list \<Rightarrow> string \<Rightarrow> Profile" where
  "template name isDefault criteria keepPer =
     \<lparr> pf_id = 0, pf_name = name, pf_isDefault = isDefault, pf_criteria = criteria, pf_keepCount = 1,
       pf_keepPer = keepPer, pf_protections = keepTagProtection, pf_createdAt = 0, pf_updatedAt = 0 \<rparr>"

definition ProfileTemplates :: "Profile list" where
  "ProfileTemplates =
     [template ''Keep Highest Quality'' True highestQualityChain KeepPerNone,
      template ''Keep One Per Resolution'' False highestQualityChain KeepPerResolution,
      template ''Save Space'' False
        [boolCrit CritHealth,
         orderedCrit CritResolution [Res1080, Res1440, Res2160, Res720, Res576, Res480, ResSD],
         orderedCrit CritVideoCodec [VCodecAV1, VCodecHEVC, VCodecH264, VCodecVC1, VCodecMPEG2,
           VCodecMPEG4, VCodecVP9, VCodecOther],
         numericCrit CritFileSize DirectionLower (Fin 0) (Fin 0)] KeepPerNone,
      template ''Maximum Compatibility'' False
        [boolCrit CritHealth,
         orderedCrit CritVideoCodec [VCodecH264, VCodecHEVC, VCodecAV1, VCodecVC1, VCodecMPEG2,
           VCodecMPEG4, VCodecVP9, VCodecOther],
         orderedCrit CritDynamicRange [DRSDR, DRDolbyVisionHDR10, DRHDR10, DRHDR10Plus, DRHLG, DRDolbyVision],
         orderedCrit CritAudioFormat [AudioEAC3Atmos, AudioEAC3, AudioAC3, AudioAAC, AudioMP3, AudioOpus,
           AudioDTS, AudioFLAC, AudioPCM, AudioDTSHDHRA, AudioDTSHDMA, AudioDTSX, AudioTrueHD,
           AudioTrueHDAtmos, AudioOther],
         orderedCrit CritContainer [''mp4'', ''mkv'', ''m4v'', ''m2ts'', ''other'', ''avi'', ''ts''],
         orderedCrit CritResolution defaultResolutionOrder,
         orderedCrit CritSource defaultSourceOrder,
         numericCrit CritFileSize DirectionHigher (Fin 5) (Fin 0)] KeepPerNone,
      template ''Trust My *arr'' False trustArr KeepPerNone]"

section \<open>Validation\<close>

record ValidationError =
  PropertyName :: string
  ErrorMessage :: string

definition problem :: "bool \<Rightarrow> string \<Rightarrow> string \<Rightarrow> ValidationError list" where
  "problem bad prop msg = (if bad then [\<lparr> PropertyName = prop, ErrorMessage = msg \<rparr>] else [])"

definition maxProfileNameLength :: nat where "maxProfileNameLength = 100"

definition indexed :: "string \<Rightarrow> nat \<Rightarrow> string" where
  "indexed prop i = prop @ ''['' @ Itoa (int i) @ '']''"

definition validate_name :: "Profile \<Rightarrow> ValidationError list" where
  "validate_name p =
     (let name = TrimSpace (pf_name p) in
      if name = [] then problem True ''name'' ''Name is required''
      else problem (length (runes name) > maxProfileNameLength) ''name''
             (''Name must be at most '' @ Itoa (int maxProfileNameLength) @ '' characters''))"

definition validate_keep :: "Profile \<Rightarrow> ValidationError list" where
  "validate_keep p =
     problem (pf_keepCount p < 1) ''keepCount'' ''Keep count must be at least 1'' @
     problem (pf_keepPer p \<notin> {KeepPerNone, KeepPerResolution, KeepPerDynamicRange}) ''keepPer''
       (''Keep per must be empty, '' @ Quote KeepPerResolution @ '' or '' @ Quote KeepPerDynamicRange)"

definition badFloat :: "f64 \<Rightarrow> bool" where
  "badFloat f = (case f of Fin _ \<Rightarrow> False | _ \<Rightarrow> True)"

definition fin :: "f64 \<Rightarrow> rat" where
  "fin f = (case f of Fin q \<Rightarrow> q | _ \<Rightarrow> 0)"

definition validate_percent :: "string \<Rightarrow> Criterion \<Rightarrow> criterionInfo \<Rightarrow> ValidationError list" where
  "validate_percent prop c info =
     (if badFloat (c_tolerancePercent c) \<or> fin (c_tolerancePercent c) < 0 \<or> fin (c_tolerancePercent c) > 100
      then problem True (prop @ ''.tolerancePercent'') ''Tolerance must be between 0 and 100''
      else problem (fin (c_tolerancePercent c) \<noteq> 0 \<and> \<not> ci_supportsTolerance info)
             (prop @ ''.tolerancePercent'') (ci_label info @ '' does not support a tolerance''))"

definition validate_delta :: "string \<Rightarrow> Criterion \<Rightarrow> criterionInfo \<Rightarrow> ValidationError list" where
  "validate_delta prop c info =
     (if badFloat (c_minDelta c) \<or> fin (c_minDelta c) < 0
      then problem True (prop @ ''.minDelta'') ''Minimum delta must be 0 or more''
      else if fin (c_minDelta c) \<noteq> 0 \<and> \<not> ci_supportsTolerance info \<and> ci_minDeltaUnit info = []
      then problem True (prop @ ''.minDelta'') (ci_label info @ '' does not support a minimum delta'')
      else problem (ci_minDeltaUnit info = minDeltaDays \<and> fin (c_minDelta c) > maxLastPlayedMinDeltaDays)
             (prop @ ''.minDelta'') ''Minimum difference must be at most 3650 days'')"

definition validateTolerance :: "string \<Rightarrow> Criterion \<Rightarrow> criterionInfo \<Rightarrow> ValidationError list" where
  "validateTolerance prop c info = validate_percent prop c info @ validate_delta prop c info"

definition order_value :: "string \<Rightarrow> string \<Rightarrow> string" where
  "order_value t x =
     (let v = ToLower (TrimSpace x) in if t = CritDynamicRange then normDynamicRange v else v)"

definition library_id :: "string \<Rightarrow> bool" where
  "library_id v = (case ParseInt v of Some i \<Rightarrow> i > 0 | None \<Rightarrow> False)"

text \<open>One value of an order: the problem it has by itself, if any.\<close>

definition order_problem :: "string \<Rightarrow> Criterion \<Rightarrow> criterionInfo \<Rightarrow> string \<Rightarrow> ValidationError option" where
  "order_problem oprop c info x =
     (let v = order_value (c_type c) x; err = (\<lambda>m. Some \<lparr> PropertyName = oprop, ErrorMessage = m \<rparr>) in
      if v = [] then err ''Order values must not be empty''
      else if c_type c = CritLibrary then
        (if library_id v then None else err (Quote x @ '' is not a library id''))
      else if v \<notin> set (map so_value (ci_options info)) then
        err (''Unknown '' @ ci_label info @ '' value '' @ Quote x)
      else None)"

fun validate_order :: "string \<Rightarrow> Criterion \<Rightarrow> criterionInfo \<Rightarrow> nat \<Rightarrow> string list \<Rightarrow> string list \<Rightarrow> ValidationError list" where
  "validate_order prop c info k dup [] = []"
| "validate_order prop c info k dup (x # xs) =
     (let oprop = indexed (prop @ ''.order'') k; v = order_value (c_type c) x in
      case order_problem oprop c info x of
        Some e \<Rightarrow> e # validate_order prop c info (Suc k) dup xs
      | None \<Rightarrow> problem (v \<in> set dup) oprop (Quote x @ '' is listed more than once'') @
                validate_order prop c info (Suc k) (v # dup) xs)"

definition validateOrder :: "string \<Rightarrow> Criterion \<Rightarrow> criterionInfo \<Rightarrow> ValidationError list" where
  "validateOrder prop c info = validate_order prop c info 0 [] (c_order c)"

definition validate_pattern :: "golib \<Rightarrow> (string \<Rightarrow> string) \<Rightarrow> string \<Rightarrow> PatternScore \<Rightarrow> ValidationError list" where
  "validate_pattern lib re_error pp pt =
     (let pat = TrimSpace (ps_pattern pt) in
      if pat = [] then problem True pp ''Pattern is required''
      else if ps_regex pt then
        problem (re_compile lib pat = None) pp (''Invalid regular expression: '' @ re_error pat)
      else problem (\<not> ds_validate lib (slashes pat)) pp (''Invalid glob pattern '' @ Quote pat))"

definition validatePatterns :: "golib \<Rightarrow> (string \<Rightarrow> string) \<Rightarrow> string \<Rightarrow> PatternScore list \<Rightarrow> ValidationError list" where
  "validatePatterns lib re_error prop ps =
     problem (ps = []) (prop @ ''.patterns'') ''At least one pattern is required'' @
     concat (map (\<lambda>(k, pt). validate_pattern lib re_error (indexed (prop @ ''.patterns'') k @ ''.pattern'') pt)
               (List.enumerate 0 ps))"

definition validate_direction :: "string \<Rightarrow> Criterion \<Rightarrow> criterionInfo \<Rightarrow> ValidationError list" where
  "validate_direction prop c info =
     (let d = TrimSpace (c_direction c) in
      if d \<noteq> [] \<and> d \<noteq> DirectionHigher \<and> d \<noteq> DirectionLower
      then problem True (prop @ ''.direction'')
             (''Direction must be '' @ Quote DirectionHigher @ '' or '' @ Quote DirectionLower)
      else problem (d = DirectionLower \<and> ci_requiresWatch info) (prop @ ''.direction'')
             (ci_label info @ '' always prefers the played (or more recently played) copy''))"

definition validate_value :: "golib \<Rightarrow> (string \<Rightarrow> string) \<Rightarrow> string \<Rightarrow> Criterion \<Rightarrow> ValidationError list" where
  "validate_value lib re_error prop c =
     (if c_type c = CritFilenameScore then validatePatterns lib re_error prop (c_patterns c)
      else if c_type c = CritAudioLanguage then
        problem (c_enabled c \<and> normLang (c_value c) (c_value c) = []) (prop @ ''.value'')
          (''A language code (e.g. '' @ quote @ ''eng'' @ quote @ '' or '' @ quote @ ''en'' @ quote @ '') is required'')
      else [])"

text \<open>The checks of one criterion of a known type, after the check for a repeated type.\<close>

definition validate_criterion ::
  "golib \<Rightarrow> (string \<Rightarrow> string) \<Rightarrow> string \<Rightarrow> Criterion \<Rightarrow> criterionInfo \<Rightarrow> ValidationError list" where
  "validate_criterion lib re_error prop c info =
     validate_direction prop c info @ validateTolerance prop c info @
     (if ci_kind info = kindOrdered then validateOrder prop c info else []) @
     validate_value lib re_error prop c"

fun validate_criteria ::
  "golib \<Rightarrow> (string \<Rightarrow> string) \<Rightarrow> nat \<Rightarrow> (string \<rightharpoonup> nat) \<Rightarrow> Criterion list \<Rightarrow> ValidationError list" where
  "validate_criteria lib re_error i seen [] = []"
| "validate_criteria lib re_error i seen (c # cs) =
     (let prop = indexed ''criteria'' i; t = c_type c in
      case criterionInfoFor t of
        None \<Rightarrow> problem True (prop @ ''.type'') (''Unknown criterion type '' @ Quote t) @
                validate_criteria lib re_error (Suc i) seen cs
      | Some info \<Rightarrow>
          (case (if t = CritFilenameScore then None else seen t) of
             Some j \<Rightarrow> problem True (prop @ ''.type'')
                         (ci_label info @ '' is already used by '' @ indexed ''criteria'' j)
           | None \<Rightarrow> []) @
          validate_criterion lib re_error prop c info @
          validate_criteria lib re_error (Suc i)
            (if t = CritFilenameScore \<or> seen t \<noteq> None then seen else seen(t \<mapsto> i)) cs)"

definition validate_protection :: "golib \<Rightarrow> string \<Rightarrow> Protection \<Rightarrow> ValidationError list" where
  "validate_protection lib prop pr =
     (let val = TrimSpace (pr_value pr) in
      if pr_type pr = ProtectPathGlob then
        (if val = [] then problem True (prop @ ''.value'') ''A path or glob pattern is required''
         else problem (\<not> ds_validate lib (slashes val)) (prop @ ''.value'') (''Invalid glob pattern '' @ Quote val))
      else if pr_type pr = ProtectLibrary then problem (val = []) (prop @ ''.value'') ''A library id is required''
      else if pr_type pr = ProtectArrInstance then problem (val = []) (prop @ ''.value'') ''An *arr instance id is required''
      else if pr_type pr = ProtectArrTag then problem (val = []) (prop @ ''.value'') ''A tag is required''
      else problem True (prop @ ''.type'') (''Unknown protection type '' @ Quote (pr_type pr)))"

definition ValidateProfile :: "golib \<Rightarrow> (string \<Rightarrow> string) \<Rightarrow> Profile \<Rightarrow> ValidationError list" where
  "ValidateProfile lib re_error p =
     validate_name p @ validate_keep p @
     validate_criteria lib re_error 0 Map.empty (pf_criteria p) @
     concat (map (\<lambda>(i, pr). validate_protection lib (indexed ''protections'' i) pr)
               (List.enumerate 0 (pf_protections p)))"

section \<open>What a valid profile is\<close>

definition valid_percent :: "Criterion \<Rightarrow> criterionInfo \<Rightarrow> bool" where
  "valid_percent c info \<longleftrightarrow>
     (\<exists>q. c_tolerancePercent c = Fin q \<and> 0 \<le> q \<and> q \<le> 100 \<and> (q = 0 \<or> ci_supportsTolerance info))"

definition valid_delta :: "Criterion \<Rightarrow> criterionInfo \<Rightarrow> bool" where
  "valid_delta c info \<longleftrightarrow>
     (\<exists>q. c_minDelta c = Fin q \<and> 0 \<le> q \<and> (q = 0 \<or> ci_supportsTolerance info \<or> ci_minDeltaUnit info \<noteq> []) \<and>
        (ci_minDeltaUnit info = minDeltaDays \<longrightarrow> q \<le> maxLastPlayedMinDeltaDays))"

definition valid_direction :: "Criterion \<Rightarrow> criterionInfo \<Rightarrow> bool" where
  "valid_direction c info \<longleftrightarrow>
     TrimSpace (c_direction c) \<in> {[], DirectionHigher, DirectionLower} \<and>
     (ci_requiresWatch info \<longrightarrow> TrimSpace (c_direction c) \<noteq> DirectionLower)"

definition valid_order_value :: "Criterion \<Rightarrow> criterionInfo \<Rightarrow> string \<Rightarrow> bool" where
  "valid_order_value c info v \<longleftrightarrow>
     v \<noteq> [] \<and> (if c_type c = CritLibrary then library_id v else v \<in> so_value ` set (ci_options info))"

definition valid_order :: "Criterion \<Rightarrow> criterionInfo \<Rightarrow> bool" where
  "valid_order c info \<longleftrightarrow>
     (let vs = map (order_value (c_type c)) (c_order c)
      in list_all (valid_order_value c info) vs \<and> distinct vs)"

definition valid_pattern :: "golib \<Rightarrow> PatternScore \<Rightarrow> bool" where
  "valid_pattern lib pt \<longleftrightarrow>
     (let pat = TrimSpace (ps_pattern pt) in
      pat \<noteq> [] \<and> (if ps_regex pt then re_compile lib pat \<noteq> None else ds_validate lib (slashes pat)))"

definition valid_criterion :: "golib \<Rightarrow> Criterion \<Rightarrow> bool" where
  "valid_criterion lib c \<longleftrightarrow>
     (case criterionInfoFor (c_type c) of
        None \<Rightarrow> False
      | Some info \<Rightarrow>
          valid_direction c info \<and> valid_percent c info \<and> valid_delta c info \<and>
          (ci_kind info = kindOrdered \<longrightarrow> valid_order c info) \<and>
          (c_type c = CritFilenameScore \<longrightarrow> c_patterns c \<noteq> [] \<and> list_all (valid_pattern lib) (c_patterns c)) \<and>
          (c_type c = CritAudioLanguage \<and> c_enabled c \<longrightarrow> normLang (c_value c) (c_value c) \<noteq> []))"

definition valid_protection :: "golib \<Rightarrow> Protection \<Rightarrow> bool" where
  "valid_protection lib pr \<longleftrightarrow>
     pr_type pr \<in> {ProtectPathGlob, ProtectLibrary, ProtectArrInstance, ProtectArrTag} \<and>
     TrimSpace (pr_value pr) \<noteq> [] \<and>
     (pr_type pr = ProtectPathGlob \<longrightarrow> ds_validate lib (slashes (TrimSpace (pr_value pr))))"

definition single_types :: "Criterion list \<Rightarrow> string list" where
  "single_types cs = filter (\<lambda>t. t \<noteq> CritFilenameScore) (map c_type cs)"

definition valid_profile :: "golib \<Rightarrow> Profile \<Rightarrow> bool" where
  "valid_profile lib p \<longleftrightarrow>
     TrimSpace (pf_name p) \<noteq> [] \<and> length (runes (TrimSpace (pf_name p))) \<le> maxProfileNameLength \<and>
     pf_keepCount p \<ge> 1 \<and> pf_keepPer p \<in> {KeepPerNone, KeepPerResolution, KeepPerDynamicRange} \<and>
     list_all (valid_criterion lib) (pf_criteria p) \<and> distinct (single_types (pf_criteria p)) \<and>
     list_all (valid_protection lib) (pf_protections p)"

section \<open>Validation finds exactly the valid profiles\<close>

lemma problem_Nil [simp]: "problem bad prop msg = [] \<longleftrightarrow> \<not> bad"
  by (simp add: problem_def)

lemma concat_enumerate_Nil:
  "concat (map (\<lambda>(k, x). f k x) (List.enumerate n xs)) = [] \<longleftrightarrow> (\<forall>x\<in>set xs. \<exists>k. f k x = [])"
  if "\<And>k j x. f k x = [] \<longleftrightarrow> f j x = []" for f :: "nat \<Rightarrow> 'a \<Rightarrow> 'b list"
proof (induction xs arbitrary: n)
  case (Cons x xs)
  have "f n x = [] \<longleftrightarrow> (\<exists>k. f k x = [])" using that by blast
  then show ?case using Cons.IH by simp
qed simp

lemma validate_percent_Nil: "validate_percent prop c info = [] \<longleftrightarrow> valid_percent c info"
  by (cases "c_tolerancePercent c")
    (auto simp: validate_percent_def valid_percent_def badFloat_def fin_def)

lemma validate_delta_Nil: "validate_delta prop c info = [] \<longleftrightarrow> valid_delta c info"
  by (cases "c_minDelta c") (auto simp: validate_delta_def valid_delta_def badFloat_def fin_def)

lemma validate_direction_Nil: "validate_direction prop c info = [] \<longleftrightarrow> valid_direction c info"
  by (auto simp: validate_direction_def valid_direction_def Let_def)

lemma order_problem_None:
  "order_problem oprop c info x = None \<longleftrightarrow> valid_order_value c info (order_value (c_type c) x)"
  by (auto simp: order_problem_def valid_order_value_def Let_def)

lemma validate_order_Nil:
  "validate_order prop c info k dup xs = [] \<longleftrightarrow>
     (let vs = map (order_value (c_type c)) xs
      in list_all (valid_order_value c info) vs \<and> distinct vs \<and> set vs \<inter> set dup = {})"
proof (induction xs arbitrary: k dup)
  case (Cons x xs)
  show ?case
  proof (cases "order_problem (indexed (prop @ ''.order'') k) c info x")
    case None
    then have "valid_order_value c info (order_value (c_type c) x)" by (simp add: order_problem_None)
    then show ?thesis using None Cons.IH[of "Suc k" "order_value (c_type c) x # dup"]
      by (auto simp: Let_def)
  next
    case (Some e)
    then have "\<not> valid_order_value c info (order_value (c_type c) x)"
      using order_problem_None[of "indexed (prop @ ''.order'') k" c info x] by simp
    then show ?thesis using Some by (simp add: Let_def)
  qed
qed (simp add: Let_def)

lemma validateOrder_Nil: "validateOrder prop c info = [] \<longleftrightarrow> valid_order c info"
  by (simp add: validateOrder_def valid_order_def validate_order_Nil Let_def)

lemma validate_pattern_Nil: "validate_pattern lib re_error pp pt = [] \<longleftrightarrow> valid_pattern lib pt"
  by (simp add: validate_pattern_def valid_pattern_def Let_def)

lemma validatePatterns_Nil:
  "validatePatterns lib re_error prop ps = [] \<longleftrightarrow> ps \<noteq> [] \<and> list_all (valid_pattern lib) ps"
  by (simp add: validatePatterns_def concat_enumerate_Nil validate_pattern_Nil list_all_iff del: concat_eq_Nil_conv)

lemma validate_value_Nil:
  "validate_value lib re_error prop c = [] \<longleftrightarrow>
     (c_type c = CritFilenameScore \<longrightarrow> c_patterns c \<noteq> [] \<and> list_all (valid_pattern lib) (c_patterns c)) \<and>
     (c_type c = CritAudioLanguage \<and> c_enabled c \<longrightarrow> normLang (c_value c) (c_value c) \<noteq> [])"
  by (simp add: validate_value_def validatePatterns_Nil)

lemmas validate_Nil = validate_percent_Nil validate_delta_Nil validate_direction_Nil validateOrder_Nil validate_value_Nil

lemma validate_criterion_Nil:
  "criterionInfoFor (c_type c) = Some info \<Longrightarrow>
   validate_criterion lib re_error prop c info = [] \<longleftrightarrow> valid_criterion lib c"
  by (simp add: validate_criterion_def valid_criterion_def validateTolerance_def validate_Nil)

lemma validate_criteria_Nil:
  "validate_criteria lib re_error i seen cs = [] \<longleftrightarrow>
     list_all (valid_criterion lib) cs \<and> distinct (single_types cs) \<and>
     (\<forall>t\<in>set (single_types cs). seen t = None)"
proof (induction cs arbitrary: i seen)
  case (Cons c cs)
  show ?case
  proof (cases "criterionInfoFor (c_type c)")
    case None
    then show ?thesis by (simp add: valid_criterion_def)
  next
    case (Some info)
    then show ?thesis
      by (auto simp: Let_def Cons.IH validate_criterion_Nil single_types_def split: option.splits)
  qed
qed (simp add: single_types_def)

lemma validate_protection_Nil: "validate_protection lib prop pr = [] \<longleftrightarrow> valid_protection lib pr"
  by (auto simp: validate_protection_def valid_protection_def Let_def)

lemma ValidateProfile_iff: "ValidateProfile lib re_error p = [] \<longleftrightarrow> valid_profile lib p"
  by (simp add: ValidateProfile_def valid_profile_def validate_name_def validate_keep_def Let_def
        validate_criteria_Nil concat_enumerate_Nil validate_protection_Nil list_all_iff not_less
        del: concat_eq_Nil_conv)

lemma valid_criterionD:
  assumes "valid_criterion lib c"
  obtains info where "criterionInfoFor (c_type c) = Some info"
    and "ci_kind info = kindOrdered \<Longrightarrow> valid_order c info"
    and "c_type c = CritFilenameScore \<Longrightarrow> c_patterns c \<noteq> [] \<and> list_all (valid_pattern lib) (c_patterns c)"
    and "c_type c = CritAudioLanguage \<Longrightarrow> c_enabled c \<Longrightarrow> normLang (c_value c) (c_value c) \<noteq> []"
  using assms unfolding valid_criterion_def by (auto split: option.splits)

lemma info_kinds:
  assumes "criterionInfoFor t = Some info"
  shows "ci_kind info = kindBoolean \<Longrightarrow> t \<in> {CritHealth, CritArrManaged, CritAudioLanguage, CritPlayed}"
    and "ci_kind info = kindPatterns \<Longrightarrow> t = CritFilenameScore"
  using assms unfolding criterionInfoFor_def no_info_def by (auto split: if_splits)

lemma valid_order_used:
  assumes "valid_order c info" and "c_order c \<noteq> []"
  shows "normalizeOrder (c_type c) (c_order c) = map (order_value (c_type c)) (c_order c)"
proof -
  let ?low = "map ToLower (map TrimSpace (c_order c))"
  have ne: "order_value (c_type c) x \<noteq> []" if "x \<in> set (c_order c)" for x
    using assms(1) that by (auto simp: valid_order_def Let_def list_all_iff valid_order_value_def)
  have "normDynamicRange [] = []" by code_simp
  then have "ToLower (TrimSpace x) \<noteq> []" if "x \<in> set (c_order c)" for x
    using ne[OF that] by (auto simp: order_value_def Let_def split: if_splits)
  then have "filter (\<lambda>x. x \<noteq> []) ?low = ?low" by (auto simp: filter_id_conv)
  then show ?thesis using assms(2) by (auto simp: normalizeOrder_def Let_def order_value_def)
qed

lemma valid_patterns_compile:
  assumes "list_all (valid_pattern lib) ps"
    and "\<And>s. re_compile lib s \<noteq> None \<Longrightarrow> re_compile lib (''(?i)'' @ s) \<noteq> None"
    and "\<And>s. ds_validate lib s \<Longrightarrow> ds_validate lib (ToLower s)"
  shows "map cp_score (compilePatterns lib ps) = map ps_score ps"
proof -
  have "\<exists>cp. compile_pattern lib pt = Some cp \<and> cp_score cp = ps_score pt" if v: "valid_pattern lib pt" for pt
    using v assms(2,3)[of "TrimSpace (ps_pattern pt)"] assms(3)[of "slashes (TrimSpace (ps_pattern pt))"]
    by (auto simp: valid_pattern_def compile_pattern_def Let_def fold_case_def split: if_splits option.splits)
  then show ?thesis using assms(1)
    by (induction ps) (force simp: compilePatterns_def List.map_filter_simps split: option.splits)+
qed

lemma valid_criterion_metric:
  assumes "valid_criterion lib c"
    and "\<And>s. re_compile lib s \<noteq> None \<Longrightarrow> re_compile lib (''(?i)'' @ s) \<noteq> None"
    and "\<And>s. ds_validate lib s \<Longrightarrow> ds_validate lib (ToLower s)"
  shows "(buildMetric lib c vs health \<noteq> None) = c_enabled c"
proof -
  obtain info where i: "criterionInfoFor (c_type c) = Some info"
    and pat: "c_type c = CritFilenameScore \<Longrightarrow> c_patterns c \<noteq> [] \<and> list_all (valid_pattern lib) (c_patterns c)"
    and lang: "c_type c = CritAudioLanguage \<Longrightarrow> c_enabled c \<Longrightarrow> normLang (c_value c) (c_value c) \<noteq> []"
    using valid_criterionD[OF assms(1)] by metis
  have "patterns_metric lib c vs m \<noteq> None" if "ci_kind info = kindPatterns" for m
  proof -
    have "map cp_score (compilePatterns lib (c_patterns c)) \<noteq> []"
      using valid_patterns_compile[OF _ assms(2,3), of "c_patterns c"] pat info_kinds(2)[OF i that] by auto
    then show ?thesis by (auto simp: patterns_metric_def Let_def)
  qed
  moreover have "boolean_metric c vs health m \<noteq> None" if "ci_kind info = kindBoolean" "c_enabled c" for m
    using info_kinds(1)[OF i that(1)] lang that(2) by (auto simp: boolean_metric_def Let_def)
  ultimately show ?thesis using i by (auto simp: buildMetric_def Let_def split: kind.splits)
qed

text \<open>
  A profile that passes \<open>ValidateProfile\<close> is used as it is written: every enabled criterion takes part in
  the ranking, in its place, and no disabled one does; an order given for an ordered criterion is used value
  by value, without dropping or merging one; every filename pattern compiles and counts with its score.
  (Case-insensitive matching must not make a valid expression or glob invalid.)
\<close>

theorem valid_profile_used_as_written:
  assumes "ValidateProfile lib re_error p = []"
    and "\<And>s. re_compile lib s \<noteq> None \<Longrightarrow> re_compile lib (''(?i)'' @ s) \<noteq> None"
    and "\<And>s. ds_validate lib s \<Longrightarrow> ds_validate lib (ToLower s)"
  shows "map fst (profile_metrics lib (pf_criteria p) vs health) = filter c_enabled (pf_criteria p) \<and>
    (\<forall>c\<in>set (pf_criteria p). \<forall>info. criterionInfoFor (c_type c) = Some info \<longrightarrow>
       (ci_kind info = kindOrdered \<and> c_order c \<noteq> [] \<longrightarrow>
          normalizeOrder (c_type c) (c_order c) = map (order_value (c_type c)) (c_order c) \<and>
          distinct (normalizeOrder (c_type c) (c_order c))) \<and>
       (ci_kind info = kindPatterns \<longrightarrow>
          map cp_score (compilePatterns lib (c_patterns c)) = map ps_score (c_patterns c)))"
proof -
  have all: "valid_criterion lib c" if "c \<in> set (pf_criteria p)" for c
    using assms(1) that by (simp add: ValidateProfile_iff valid_profile_def list_all_iff)
  have "map fst (profile_metrics lib cs vs health) = filter c_enabled cs" if "set cs \<subseteq> set (pf_criteria p)" for cs
    using that
  proof (induction cs)
    case (Cons c cs)
    then show ?case using valid_criterion_metric[OF all assms(2,3), of c vs health]
      by (auto simp: profile_metrics_def profile_metric_def List.map_filter_simps split: option.splits)
  qed (simp add: profile_metrics_def List.map_filter_simps)
  then have "map fst (profile_metrics lib (pf_criteria p) vs health) = filter c_enabled (pf_criteria p)" by simp
  moreover have "normalizeOrder (c_type c) (c_order c) = map (order_value (c_type c)) (c_order c) \<and>
      distinct (normalizeOrder (c_type c) (c_order c))"
    if "c \<in> set (pf_criteria p)" "criterionInfoFor (c_type c) = Some info" "ci_kind info = kindOrdered" "c_order c \<noteq> []"
    for c info
  proof -
    have "valid_order c info" using valid_criterionD[OF all[OF that(1)]] that(2,3) by (metis option.inject)
    then show ?thesis using valid_order_used[of c info] that(4) by (simp add: valid_order_def Let_def)
  qed
  moreover have "map cp_score (compilePatterns lib (c_patterns c)) = map ps_score (c_patterns c)"
    if "c \<in> set (pf_criteria p)" "criterionInfoFor (c_type c) = Some info" "ci_kind info = kindPatterns" for c info
    using valid_criterionD[OF all[OF that(1)]] info_kinds(2)[OF that(2,3)]
      valid_patterns_compile[OF _ assms(2,3)] by metis
  ultimately show ?thesis by blast
qed

text \<open>An example: a library in which every expression and glob is well formed, and a profile with a disabled
  criterion, an order and two filename patterns.\<close>

definition lenient_lib :: golib where
  "lenient_lib = \<lparr> ds_validate = (\<lambda>_. True), ds_match = (\<lambda>p s. p = s), re_compile = (\<lambda>r. Some (\<lambda>s. s = r)), time_now = 1 \<rparr>"

definition pattern_profile :: Profile where
  "pattern_profile = template ''Patterns'' False
     [orderedCrit CritDynamicRange ['' HDR10'', ''sdr''],
      numericCrit CritFileSize DirectionHigher (Fin 5) (Fin 0) \<lparr> c_enabled := False \<rparr>,
      boolCrit CritFilenameScore \<lparr> c_patterns :=
        [\<lparr> ps_pattern = ''remux'', ps_score = 5, ps_regex = True, ps_caseSensitive = False \<rparr>,
         \<lparr> ps_pattern = ''*.mkv'', ps_score = 2, ps_regex = False, ps_caseSensitive = True \<rparr>] \<rparr>] KeepPerNone"

lemma pattern_profile_valid: "ValidateProfile lenient_lib id pattern_profile = []"
  by code_simp

theorem valid_profile_used_as_written_witness:
  "map fst (profile_metrics lenient_lib (pf_criteria pattern_profile) [] (\<lambda>_. [])) =
     filter c_enabled (pf_criteria pattern_profile) \<and>
   ValidateProfile lenient_lib id pattern_profile = []"
  using valid_profile_used_as_written[OF pattern_profile_valid, of "[]" "\<lambda>_. []"] pattern_profile_valid
  by (simp add: lenient_lib_def)

section \<open>The templates\<close>

lemma valid_zero [simp]:
  "valid_direction (zero_criterion \<lparr> c_type := t, c_enabled := b, c_order := order \<rparr>) info"
  "valid_percent (zero_criterion \<lparr> c_type := t, c_enabled := b, c_order := order \<rparr>) info"
  "valid_delta (zero_criterion \<lparr> c_type := t, c_enabled := b, c_order := order \<rparr>) info"
  by (simp_all add: valid_direction_def valid_percent_def valid_delta_def zero_criterion_def TrimSpace_def TrimRightFunc_def)

lemma valid_orderedCrit:
  assumes "criterionInfoFor t = Some info" and "ci_options info = schemaOptions t options"
    and "t \<notin> {CritLibrary, CritFilenameScore, CritAudioLanguage}"
    and "map (order_value t) order = order \<and> distinct order \<and> list_all (\<lambda>x. x \<noteq> [] \<and> x \<in> set options) order"
  shows "valid_criterion lib (orderedCrit t order)"
proof -
  have "so_value ` set (ci_options info) = set options"
    by (simp add: assms(2) schemaOptions_def schemaOption_def image_image)
  then show ?thesis using assms
    by (auto simp: valid_criterion_def orderedCrit_def valid_order_def valid_order_value_def list_all_iff Let_def)
qed

lemma valid_boolCrit:
  assumes "criterionInfoFor t = Some info" and "ci_kind info \<noteq> kindOrdered" and "t \<notin> {CritFilenameScore, CritAudioLanguage}"
  shows "valid_criterion lib (boolCrit t)"
proof -
  have "boolCrit t = zero_criterion \<lparr> c_type := t, c_enabled := True, c_order := [] \<rparr>"
    by (simp add: boolCrit_def zero_criterion_def)
  then show ?thesis using assms by (simp add: valid_criterion_def)
qed

lemma trimmed_directions: "TrimSpace DirectionHigher = DirectionHigher" "TrimSpace DirectionLower = DirectionLower"
  by code_simp+

lemma valid_numericCrit:
  assumes "criterionInfoFor t = Some info" and "ci_kind info = kindNumeric" and "t \<notin> {CritFilenameScore, CritAudioLanguage}"
    and "0 \<le> q \<and> q \<le> 100 \<and> 0 \<le> d \<and> (q = 0 \<and> d = 0 \<or> ci_supportsTolerance info)"
    and "\<not> ci_requiresWatch info" "ci_minDeltaUnit info = []" "dir \<in> {DirectionHigher, DirectionLower}"
  shows "valid_criterion lib (numericCrit t dir (Fin q) (Fin d))"
proof -
  have "TrimSpace dir = dir" using assms(7) trimmed_directions by (elim insertE) simp_all
  moreover have "minDeltaDays \<noteq> []" by (simp add: minDeltaDays_def)
  ultimately show ?thesis using assms
    by (auto simp: valid_criterion_def numericCrit_def zero_criterion_def valid_direction_def valid_percent_def valid_delta_def)
qed

lemma valid_ordered_templates [simp]:
  "valid_criterion lib (orderedCrit CritResolution defaultResolutionOrder)"
  "valid_criterion lib (orderedCrit CritResolution [Res1080, Res1440, Res2160, Res720, Res576, Res480, ResSD])"
  "valid_criterion lib (orderedCrit CritDynamicRange defaultDynamicRangeOrder)"
  "valid_criterion lib (orderedCrit CritDynamicRange
     [DRSDR, DRDolbyVisionHDR10, DRHDR10, DRHDR10Plus, DRHLG, DRDolbyVision])"
  "valid_criterion lib (orderedCrit CritSource defaultSourceOrder)"
  "valid_criterion lib (orderedCrit CritVideoCodec
     [VCodecAV1, VCodecHEVC, VCodecH264, VCodecVC1, VCodecMPEG2, VCodecMPEG4, VCodecVP9, VCodecOther])"
  "valid_criterion lib (orderedCrit CritVideoCodec
     [VCodecH264, VCodecHEVC, VCodecAV1, VCodecVC1, VCodecMPEG2, VCodecMPEG4, VCodecVP9, VCodecOther])"
  "valid_criterion lib (orderedCrit CritAudioFormat defaultAudioFormatOrder)"
  "valid_criterion lib (orderedCrit CritAudioFormat
     [AudioEAC3Atmos, AudioEAC3, AudioAC3, AudioAAC, AudioMP3, AudioOpus, AudioDTS, AudioFLAC, AudioPCM,
      AudioDTSHDHRA, AudioDTSHDMA, AudioDTSX, AudioTrueHD, AudioTrueHDAtmos, AudioOther])"
  "valid_criterion lib (orderedCrit CritContainer defaultContainerOrder)"
  "valid_criterion lib (orderedCrit CritContainer [''mp4'', ''mkv'', ''m4v'', ''m2ts'', ''other'', ''avi'', ''ts''])"
  by (rule valid_orderedCrit, simp add: criterionInfoFor_def, simp, simp, code_simp)+

lemma valid_numeric_templates [simp]:
  "valid_criterion lib (numericCrit CritCustomFormatScore DirectionHigher (Fin 0) (Fin 10))"
  "valid_criterion lib (numericCrit CritVideoBitrate DirectionHigher (Fin 15) (Fin 0))"
  "valid_criterion lib (numericCrit CritAudioChannels DirectionHigher (Fin 0) (Fin 0))"
  "valid_criterion lib (numericCrit CritFileSize DirectionHigher (Fin 5) (Fin 0))"
  "valid_criterion lib (numericCrit CritFileSize DirectionLower (Fin 0) (Fin 0))"
  "valid_criterion lib (numericCrit CritDateAdded DirectionHigher (Fin 0) (Fin 0))"
  by (rule valid_numericCrit, simp add: criterionInfoFor_def, simp_all add: no_info_def)+

lemma valid_bool_templates [simp]:
  "valid_criterion lib (boolCrit CritHealth)" "valid_criterion lib (boolCrit CritArrManaged)"
  by (rule valid_boolCrit, simp add: criterionInfoFor_def, simp_all add: no_info_def)+

lemma crit_types [simp]: "c_type (boolCrit t) = t" "c_type (orderedCrit t os) = t" "c_type (numericCrit t d q m) = t"
  by (simp_all add: boolCrit_def orderedCrit_def numericCrit_def)

lemma template_names:
  "list_all (\<lambda>p. TrimSpace (pf_name p) \<noteq> [] \<and> length (runes (TrimSpace (pf_name p))) \<le> maxProfileNameLength)
     ProfileTemplates"
  by (simp add: ProfileTemplates_def template_def) code_simp

lemma valid_keep_tag: "list_all (valid_protection lib) keepTagProtection"
proof -
  have "TrimSpace DefaultKeepTag \<noteq> []" by code_simp
  then show ?thesis by (simp add: keepTagProtection_def valid_protection_def)
qed

text \<open>
  Every built-in template passes \<open>ValidateProfile\<close>, whatever the pattern libraries do, and exactly the
  first template is the default.
\<close>

theorem templates_validate:
  "concat (map (ValidateProfile lib re_error) ProfileTemplates) = [] \<and>
   map pf_isDefault ProfileTemplates = [True, False, False, False, False]"
proof -
  have "list_all (valid_profile lib) ProfileTemplates"
    using template_names valid_keep_tag[of lib]
    by (simp add: ProfileTemplates_def valid_profile_def template_def highestQualityChain_def trustArr_def single_types_def)
  then show ?thesis
    by (simp add: ValidateProfile_iff list_all_iff) (simp add: ProfileTemplates_def template_def)
qed

end
