(* ===== verification/PathMap.thy ===== *)
theory PathMap
  imports Models Hashes DiscPaths
begin

text \<open>
  Path mapping (\<open>internal/pathmap/pathmap.go\<close>): the translation of paths between a media server or *arr
  and Dupearr. \<open>Stat\<close> reads the file system and is not modelled; \<open>filepath.FromSlash\<close> is the identity
  (POSIX hosts).
\<close>

section \<open>Paths\<close>

definition hasDrive :: "string \<Rightarrow> bool" where
  "hasDrive p =
     (case p of
        c # d # rest \<Rightarrow> d = CHR '':'' \<and> isASCIILetter c \<and> (rest = [] \<or> hd rest = CHR ''/'')
      | _ \<Rightarrow> False)"

definition Normalize :: "string \<Rightarrow> string" where
  "Normalize p0 =
     (if p0 = [] then []
      else let p = ReplaceChar (CHR 0x5C) ''/'' p0 in
        if HasPrefix p ''//'' then
          (let rest = path_Clean (CHR ''/'' # dropWhile (\<lambda>c. c = CHR ''/'') p)
           in if rest = ''/'' then ''/'' else CHR ''/'' # rest)
        else if hasDrive p then ToLower (take 1 p) @ '':'' @ path_Clean (CHR ''/'' # drop 2 p)
        else path_Clean p)"

definition isAbs :: "string \<Rightarrow> bool" where
  "isAbs p \<longleftrightarrow> HasPrefix p ''/'' \<or> hasDrive p"

definition isWindowsStyle :: "string \<Rightarrow> bool" where
  "isWindowsStyle p \<longleftrightarrow> hasDrive p \<or> HasPrefix p ''//''"

definition trimPrefix :: "string \<Rightarrow> string \<Rightarrow> string option" where
  "trimPrefix p pre =
     (if length p < length pre then None
      else let head = take (length pre) p; rest = drop (length pre) p in
        if (if isWindowsStyle pre then \<not> EqualFold head pre else head \<noteq> pre) then None
        else if rest = [] then Some []
        else if HasSuffix pre ''/'' then Some rest
        else if hd rest = CHR ''/'' then Some (tl rest)
        else None)"

definition path_join :: "string \<Rightarrow> string \<Rightarrow> string" where
  "path_join base rest =
     (if rest = [] then base else if HasSuffix base ''/'' then base @ rest else base @ ''/'' @ rest)"

definition keepDriveCase :: "string \<Rightarrow> string \<Rightarrow> string" where
  "keepDriveCase raw nrm = (if hasDrive nrm \<and> raw \<noteq> [] then take 1 raw @ drop 1 nrm else nrm)"

section \<open>Mappers\<close>

abbreviation PathSourceServer :: string where "PathSourceServer \<equiv> ''server''"
abbreviation PathSourceArr :: string where "PathSourceArr \<equiv> ''arr''"

record PathMapping =
  pm_id :: int
  pm_sourceType :: string
  pm_sourceID :: int
  pm_remotePath :: string
  pm_localPath :: string

record entry =
  e_sourceType :: string
  e_sourceID :: int
  e_remote :: string
  e_local :: string
  e_remoteOut :: string
  e_localOut :: string
  e_remoteBackslash :: bool

record Mapper =
  byRemote :: "entry list"
  byLocal :: "entry list"

definition map_entry :: "PathMapping \<Rightarrow> entry option" where
  "map_entry pm =
     (let r = Normalize (pm_remotePath pm); l = Normalize (pm_localPath pm) in
      if \<not> isAbs r \<or> \<not> isAbs l then None
      else Some \<lparr> e_sourceType = pm_sourceType pm, e_sourceID = pm_sourceID pm, e_remote = r, e_local = l,
             e_remoteOut = keepDriveCase (pm_remotePath pm) r, e_localOut = keepDriveCase (pm_localPath pm) l,
             e_remoteBackslash = (CHR 0x5C \<in> set (pm_remotePath pm) \<and> CHR ''/'' \<notin> set (pm_remotePath pm)) \<rparr>)"

definition New :: "PathMapping list \<Rightarrow> Mapper" where
  "New mappings =
     (let es = List.map_filter map_entry mappings
      in \<lparr> byRemote = sort_by (\<lambda>a b. length (e_remote a) > length (e_remote b)) es,
           byLocal = sort_by (\<lambda>a b. length (e_local a) > length (e_local b)) es \<rparr>)"

definition of_source :: "string \<Rightarrow> int \<Rightarrow> entry \<Rightarrow> bool" where
  "of_source st i e \<longleftrightarrow> e_sourceType e = st \<and> e_sourceID e = i"

text \<open>The first entry of a source whose prefix matches, and the rest of the path.\<close>

fun first_match :: "(entry \<Rightarrow> string) \<Rightarrow> string \<Rightarrow> int \<Rightarrow> string \<Rightarrow> entry list \<Rightarrow> (entry \<times> string) option" where
  "first_match pre st i p [] = None"
| "first_match pre st i p (e # es) =
     (if \<not> of_source st i e then first_match pre st i p es
      else case trimPrefix p (pre e) of
             Some rest \<Rightarrow> Some (e, rest)
           | None \<Rightarrow> first_match pre st i p es)"

definition ToLocal :: "Mapper option \<Rightarrow> string \<Rightarrow> int \<Rightarrow> string \<Rightarrow> string option" where
  "ToLocal m st i remote =
     (case m of
        None \<Rightarrow> None
      | Some mp \<Rightarrow>
          let p = Normalize remote in
          if \<not> isAbs p then None
          else map_option (\<lambda>(e, rest). path_join (e_localOut e) rest) (first_match e_remote st i p (byRemote mp)))"


definition Fingerprint :: "Mapper option \<Rightarrow> string \<Rightarrow> int \<Rightarrow> string" where
  "Fingerprint m st i =
     (case m of
        None \<Rightarrow> []
      | Some mp \<Rightarrow>
          let lines = map (\<lambda>e. e_remote e @ [CHR 0x00] @ e_local e) (filter (of_source st i) (byRemote mp)) in
          if lines = [] then []
          else take 16 (sha256_hex (Join (sort lines) [CHR 0x0A])))"

section \<open>Clean absolute paths\<close>

definition clean_segs :: "string list \<Rightarrow> bool" where
  "clean_segs segs \<longleftrightarrow> (\<forall>s\<in>set segs. s \<noteq> [] \<and> s \<noteq> ''.'' \<and> s \<noteq> ''..'' \<and> CHR ''/'' \<notin> set s)"

definition abs_path :: "string list \<Rightarrow> string" where
  "abs_path segs = CHR ''/'' # Join segs ''/''"








section \<open>Prefixes of whole segments\<close>





lemma clean_segs_append [simp]: "clean_segs (xs @ ys) \<longleftrightarrow> clean_segs xs \<and> clean_segs ys"
  by (auto simp: clean_segs_def)




lemma slash_no_letter [simp]: "\<not> isASCIILetter (CHR ''/'')"
  by code_simp





section \<open>Matching entries\<close>

lemma first_match_Some:
  "first_match pre st i p es = Some (e, rest) \<Longrightarrow>
     e \<in> set es \<and> of_source st i e \<and> trimPrefix p (pre e) = Some rest"
  by (induction es) (auto split: if_splits option.splits)


lemma first_match_longest:
  assumes "sorted_wrt (\<lambda>a b. \<not> length (pre b) > length (pre a)) es"
    and "first_match pre st i p es = Some (e, rest)"
    and "e' \<in> set es" and "of_source st i e'" and "trimPrefix p (pre e') \<noteq> None"
  shows "length (pre e') \<le> length (pre e)"
  using assms by (induction es) (auto split: if_splits option.splits)

lemma byRemote_set [simp]: "set (byRemote (New pms)) = set (List.map_filter map_entry pms)"
  and byLocal_set [simp]: "set (byLocal (New pms)) = set (List.map_filter map_entry pms)"
  by (simp_all add: New_def Let_def)


lemma ReplaceChar_absent [simp]: "c \<notin> set p \<Longrightarrow> ReplaceChar c r p = p"
  by (induction p) (auto simp: ReplaceChar_def)








lemma abs_path_isAbs [simp]: "isAbs (abs_path segs)"
  by (simp add: isAbs_def abs_path_def HasPrefix_def)

section \<open>Round trip\<close>





definition example_mappings :: "PathMapping list" where
  "example_mappings =
     [\<lparr>pm_id = 1, pm_sourceType = PathSourceServer, pm_sourceID = 1, pm_remotePath = ''/data/movies/'', pm_localPath = ''/mnt/movies''\<rparr>,
      \<lparr>pm_id = 2, pm_sourceType = PathSourceServer, pm_sourceID = 1, pm_remotePath = ''/data/movies/4k'', pm_localPath = ''/mnt/uhd''\<rparr>,
      \<lparr>pm_id = 3, pm_sourceType = PathSourceArr, pm_sourceID = 1, pm_remotePath = ''/movies'', pm_localPath = ''/mnt''\<rparr>]"


text \<open>
  The longest prefix wins: a server path that is mapped is mapped by a mapping of its source whose
  server folder contains it, and no mapping of the source with a longer server folder contains the path.
\<close>

theorem to_local_longest_prefix:
  assumes "ToLocal (Some (New pms)) st i p = Some l"
  shows "\<exists>e rest. e \<in> set (List.map_filter map_entry pms) \<and> of_source st i e \<and>
      trimPrefix (Normalize p) (e_remote e) = Some rest \<and> l = path_join (e_localOut e) rest \<and>
      (\<forall>e'\<in>set (List.map_filter map_entry pms). of_source st i e' \<and>
         trimPrefix (Normalize p) (e_remote e') \<noteq> None \<longrightarrow> length (e_remote e') \<le> length (e_remote e))"
proof -
  obtain e rest where m: "first_match e_remote st i (Normalize p) (byRemote (New pms)) = Some (e, rest)"
    and l: "l = path_join (e_localOut e) rest" using assms by (auto simp: ToLocal_def Let_def split: if_splits)
  have "sorted_wrt (\<lambda>a b. \<not> length (e_remote b) > length (e_remote a)) (byRemote (New pms))"
    unfolding New_def Let_def by (simp, rule sorted_sort_by) auto
  then show ?thesis using first_match_longest[OF _ m] first_match_Some[OF m] l by auto
qed

theorem to_local_longest_prefix_witness:
  "\<exists>e rest. e \<in> set (List.map_filter map_entry example_mappings) \<and> of_source PathSourceServer 1 e \<and>
      trimPrefix (Normalize ''/data/movies/4k/a.mkv'') (e_remote e) = Some rest \<and> ''/mnt/uhd/a.mkv'' = path_join (e_localOut e) rest \<and>
      (\<forall>e'\<in>set (List.map_filter map_entry example_mappings). of_source PathSourceServer 1 e' \<and>
         trimPrefix (Normalize ''/data/movies/4k/a.mkv'') (e_remote e') \<noteq> None \<longrightarrow> length (e_remote e') \<le> length (e_remote e))"
proof -
  have "ToLocal (Some (New example_mappings)) PathSourceServer 1 ''/data/movies/4k/a.mkv'' = Some ''/mnt/uhd/a.mkv''"
    by code_simp
  then show ?thesis by (rule to_local_longest_prefix)
qed

text \<open>
  Two mappings of a source whose server folders normalise to the same path: the first one is used, while
  the fingerprint does not depend on their order.
\<close>

definition same_folder_mappings :: "PathMapping list" where
  "same_folder_mappings =
     [\<lparr>pm_id = 1, pm_sourceType = PathSourceServer, pm_sourceID = 1, pm_remotePath = ''/data'', pm_localPath = ''/a''\<rparr>,
      \<lparr>pm_id = 2, pm_sourceType = PathSourceServer, pm_sourceID = 1, pm_remotePath = ''/data/'', pm_localPath = ''/b''\<rparr>]"

lemma fingerprint_ignores_order:
  "Fingerprint (Some (New same_folder_mappings)) PathSourceServer 1 = Fingerprint (Some (New (rev same_folder_mappings))) PathSourceServer 1"
proof -
  have "sort (map (\<lambda>e. e_remote e @ [CHR 0x00] @ e_local e) (filter (of_source PathSourceServer 1) (byRemote (New same_folder_mappings))))
      = sort (map (\<lambda>e. e_remote e @ [CHR 0x00] @ e_local e) (filter (of_source PathSourceServer 1) (byRemote (New (rev same_folder_mappings)))))"
    by code_simp
  moreover have "filter (of_source PathSourceServer 1) (byRemote (New same_folder_mappings)) \<noteq> []"
    "filter (of_source PathSourceServer 1) (byRemote (New (rev same_folder_mappings))) \<noteq> []" by code_simp+
  ultimately show ?thesis by (simp add: Fingerprint_def Let_def)
qed

theorem equal_fingerprints_may_differ:
  "Fingerprint (Some (New same_folder_mappings)) PathSourceServer 1 = Fingerprint (Some (New (rev same_folder_mappings))) PathSourceServer 1 \<and>
   ToLocal (Some (New same_folder_mappings)) PathSourceServer 1 ''/data/x'' \<noteq> ToLocal (Some (New (rev same_folder_mappings))) PathSourceServer 1 ''/data/x''"
proof
  show "ToLocal (Some (New same_folder_mappings)) PathSourceServer 1 ''/data/x'' \<noteq> ToLocal (Some (New (rev same_folder_mappings))) PathSourceServer 1 ''/data/x''"
    by code_simp
qed (rule fingerprint_ignores_order)

end
