(* ===== verification/ScanConfig.thy ===== *)
theory ScanConfig
  imports Profiles ExecGuards PathMap
begin

text \<open>
  The configuration a scan works with (\<open>internal/scanner/pipeline.go\<close>, the folders of
  \<open>internal/scanner/crossserver.go\<close>): the libraries it selects, the libraries it must list beside them, and
  the profile and environment a group is evaluated with. A Go map keyed by id is the list of its values
  (ids are primary keys, so they are distinct); where the code walks such a map the order has no effect
  on the result.
\<close>

section \<open>Configuration records\<close>

abbreviation ModeAuto :: string where "ModeAuto \<equiv> ''auto''"
abbreviation StorageSeparate :: string where "StorageSeparate \<equiv> ''separate''"
abbreviation ArrRadarr :: string where "ArrRadarr \<equiv> ''radarr''"
abbreviation ArrSonarr :: string where "ArrSonarr \<equiv> ''sonarr''"

record MediaServer =
  ms_id :: int
  ms_name :: string
  ms_kind :: string
  ms_url :: string
  ms_token :: string
  ms_machineIdentifier :: string
  ms_verifyTLS :: bool
  ms_enabled :: bool
  ms_storage :: string
  ms_createdAt :: time
  ms_updatedAt :: time

record ArrInstance =
  ar_id :: int
  ar_name :: string
  ar_kind :: string
  ar_url :: string
  ar_apiKey :: string
  ar_verifyTLS :: bool
  ar_enabled :: bool
  ar_tags :: "string list"
  ar_externalURL :: string
  ar_serverIDs :: "int list"
  ar_linksConfirmed :: bool
  ar_createdAt :: time
  ar_updatedAt :: time

record TautulliInstance =
  ta_id :: int
  ta_name :: string
  ta_serverID :: int
  ta_url :: string
  ta_apiKey :: string
  ta_verifyTLS :: bool
  ta_enabled :: bool
  ta_createdAt :: time
  ta_updatedAt :: time

text \<open>A library as its server reports it in a run.\<close>

record Section =
  se_key :: string
  se_type :: string
  se_title :: string
  se_uuid :: string
  se_locations :: "string list"
  se_refreshing :: bool
  se_scannedAt :: int
  se_contentChangedAt :: int
  se_otherVideo :: bool

record evalConfig =
  c_settings :: Settings
  c_libraries :: "Library list"
  c_profiles :: "Profile list"
  c_defaultProfile :: Profile
  c_exclusions :: "Exclusion list"

record scanConfig =
  sc_eval :: evalConfig
  sc_servers :: "MediaServer list"
  sc_mapper :: Mapper
  sc_arrs :: "ArrInstance list"
  sc_tautulli :: "int \<rightharpoonup> TautulliInstance"
  sc_multi :: bool
  sc_separate :: "int \<Rightarrow> bool"
  sc_links :: "int \<Rightarrow> int list"
  sc_confirmed :: "int \<Rightarrow> bool"

definition IsPlex :: "string \<Rightarrow> bool" where
  "IsPlex k \<longleftrightarrow> k = MediaServerPlex \<or> k = []"

definition Supported :: "string \<Rightarrow> bool" where
  "Supported k \<longleftrightarrow> k \<in> {MediaServerPlex, [], MediaServerJellyfin}"

definition lib_at :: "Library list \<Rightarrow> int \<rightharpoonup> Library" where
  "lib_at libs i = find (\<lambda>l. l_id l = i) libs"

definition server_at :: "MediaServer list \<Rightarrow> int \<rightharpoonup> MediaServer" where
  "server_at ss i = find (\<lambda>s. ms_id s = i) ss"

section \<open>Evaluation\<close>

definition library_ids :: "DuplicateGroup \<Rightarrow> int list" where
  "library_ids g = (case g_libraryIDs g of Some ids \<Rightarrow> ids | None \<Rightarrow> [])"

definition profileFor :: "evalConfig \<Rightarrow> DuplicateGroup \<Rightarrow> Profile" where
  "profileFor c g =
     (case library_ids g of
        [] \<Rightarrow> c_defaultProfile c
      | i # _ \<Rightarrow>
          (case lib_at (c_libraries c) i of
             None \<Rightarrow> c_defaultProfile c
           | Some l \<Rightarrow>
               (case l_profileID l of
                  None \<Rightarrow> c_defaultProfile c
                | Some pid \<Rightarrow>
                    (case find (\<lambda>p. pf_id p = pid) (c_profiles c) of
                       Some p \<Rightarrow> p | None \<Rightarrow> c_defaultProfile c))))"

definition evalEnv :: "evalConfig \<Rightarrow> time \<Rightarrow> EvalEnv" where
  "evalEnv c now = EvalEnvFromSettings (c_settings c) now (lib_at (c_libraries c))"

text \<open>
  The evaluation configuration from what the store holds. \<open>GetDefault\<close> is asked only when no profile is
  marked as the default one; without one the first built-in template is used.
\<close>

definition loadEvalConfig :: "Settings \<Rightarrow> Library list \<Rightarrow> Profile list \<Rightarrow> Profile option \<Rightarrow> Exclusion list \<Rightarrow> evalConfig" where
  "loadEvalConfig settings libs profiles getDefault exclusions =
     \<lparr> c_settings = settings, c_libraries = libs, c_profiles = profiles,
       c_defaultProfile =
         (case find pf_isDefault profiles of
            Some p \<Rightarrow> p
          | None \<Rightarrow> (case getDefault of Some p \<Rightarrow> p | None \<Rightarrow> hd ProfileTemplates)),
       c_exclusions = exclusions \<rparr>"

section \<open>Servers and instances\<close>

definition isSeparate :: "MediaServer \<Rightarrow> bool" where
  "isSeparate srv = EqualFold (TrimSpace (ms_storage srv)) StorageSeparate"

definition scanned_arr :: "ArrInstance \<Rightarrow> bool" where
  "scanned_arr a \<longleftrightarrow> ar_enabled a \<and> (ar_kind a = ArrRadarr \<or> ar_kind a = ArrSonarr)"

definition loadScanConfig ::
  "evalConfig \<Rightarrow> MediaServer list \<Rightarrow> PathMapping list \<Rightarrow> ArrInstance list \<Rightarrow> TautulliInstance list \<Rightarrow> scanConfig" where
  "loadScanConfig ec servers mappings arrs tautullis =
     (let on = filter (\<lambda>s. ms_enabled s \<and> Supported (ms_kind s)) servers;
          as = sort_by (\<lambda>a b. ar_id a < ar_id b) (filter scanned_arr arrs)
      in \<lparr> sc_eval = ec, sc_servers = on, sc_mapper = New mappings, sc_arrs = as,
           sc_tautulli = fold (\<lambda>t m. if ta_enabled t then m(ta_serverID t \<mapsto> t) else m) tautullis Map.empty,
           sc_multi = (length on \<ge> 2),
           sc_separate = (\<lambda>i. case server_at on i of Some s \<Rightarrow> isSeparate s | None \<Rightarrow> False),
           sc_links = (\<lambda>i. case find (\<lambda>a. ar_id a = i) as of Some a \<Rightarrow> ar_serverIDs a | None \<Rightarrow> []),
           sc_confirmed = (\<lambda>i. case find (\<lambda>a. ar_id a = i) as of
                                 Some a \<Rightarrow> ar_linksConfirmed a \<and> list_ex (\<lambda>sid. server_at on sid \<noteq> None) (ar_serverIDs a)
                               | None \<Rightarrow> False) \<rparr>)"

definition mediaTypeOf :: "string \<Rightarrow> string" where
  "mediaTypeOf sectionType =
     (let t = ToLower (TrimSpace sectionType) in
      if t = ''movie'' then MediaTypeMovie else if t = ''show'' then MediaTypeEpisode else [])"

definition normScope :: "string \<Rightarrow> string" where
  "normScope s = ToLower (TrimSpace s)"

section \<open>Folders\<close>

definition sharedKey :: "string \<Rightarrow> string" where
  "sharedKey p0 = (let p = TrimSpace p0 in if p = [] then [] else ToLower (Normalize p))"

definition normLocations :: "string list \<Rightarrow> string list" where
  "normLocations locs = filter (\<lambda>k. k \<noteq> []) (map sharedKey locs)"

definition pathWithin :: "string \<Rightarrow> string \<Rightarrow> bool" where
  "pathWithin p root0 \<longleftrightarrow>
     (let root = TrimSuffix root0 ''/'' in root = [] \<or> p = root \<or> HasPrefix p (root @ ''/''))"

definition foldersOverlap :: "string list \<Rightarrow> string list \<Rightarrow> bool" where
  "foldersOverlap a b \<longleftrightarrow> (\<exists>x\<in>set a. \<exists>y\<in>set b. pathWithin x y \<or> pathWithin y x)"

definition locationsOverlap :: "Library \<Rightarrow> Library \<Rightarrow> bool" where
  "locationsOverlap a b \<longleftrightarrow>
     (let la = normLocations (l_locations a); lb = normLocations (l_locations b)
      in la = [] \<or> lb = [] \<or> (\<exists>x\<in>set la. \<exists>y\<in>set lb. pathWithin x y \<or> pathWithin y x))"

definition mappedFolders :: "scanConfig \<Rightarrow> int \<Rightarrow> string list \<Rightarrow> string list" where
  "mappedFolders c i locations =
     filter (\<lambda>k. k \<noteq> [])
       (map sharedKey (List.map_filter (ToLocal (Some (sc_mapper c)) PathSourceServer i) locations))"

definition localFolders :: "scanConfig \<Rightarrow> Library \<Rightarrow> string list" where
  "localFolders c l = mappedFolders c (l_serverID l) (l_locations l)"

definition libraryFolders :: "scanConfig \<Rightarrow> (int \<Rightarrow> Section list) \<Rightarrow> Library \<Rightarrow> string list" where
  "libraryFolders c sections l =
     localFolders c l @
     concat (map (\<lambda>s. if TrimSpace (se_key s) = TrimSpace (l_sectionKey l)
                      then mappedFolders c (l_serverID l) (se_locations s) else [])
               (sections (l_serverID l)))"

definition serverFolders :: "scanConfig \<Rightarrow> (int \<Rightarrow> Section list) \<Rightarrow> int \<Rightarrow> string list" where
  "serverFolders c sections i =
     concat (map (localFolders c)
       (filter (\<lambda>l. l_serverID l = i \<and> mediaTypeOf (l_type l) \<noteq> []) (c_libraries (sc_eval c)))) @
     concat (map (\<lambda>s. if mediaTypeOf (se_type s) \<noteq> [] then mappedFolders c i (se_locations s) else []) (sections i))"

definition server_locations :: "scanConfig \<Rightarrow> int \<Rightarrow> string list" where
  "server_locations c i =
     concat (map l_locations
       (filter (\<lambda>l. l_serverID l = i \<and> mediaTypeOf (l_type l) \<noteq> []) (c_libraries (sc_eval c))))"

definition serverMapped :: "scanConfig \<Rightarrow> int \<Rightarrow> bool" where
  "serverMapped c i \<longleftrightarrow>
     (let locs = server_locations c i
      in locs \<noteq> [] \<and> list_all (\<lambda>l. ToLocal (Some (sc_mapper c)) PathSourceServer i l \<noteq> None) locs)"

section \<open>The libraries of a scan\<close>

definition scannable :: "scanConfig \<Rightarrow> Library \<Rightarrow> bool" where
  "scannable c l \<longleftrightarrow> l_enabled l \<and> mediaTypeOf (l_type l) \<noteq> [] \<and> server_at (sc_servers c) (l_serverID l) \<noteq> None"

definition sortedLibraries :: "Library list \<Rightarrow> Library list" where
  "sortedLibraries ls =
     sort_by (\<lambda>a b. l_serverID a < l_serverID b \<or> l_serverID a = l_serverID b \<and> l_id a < l_id b) ls"

definition has_lib :: "Library list \<Rightarrow> int \<Rightarrow> bool" where
  "has_lib ls i \<longleftrightarrow> i \<in> l_id ` set ls"

definition scope_partner :: "Library \<Rightarrow> Library \<Rightarrow> bool" where
  "scope_partner l other \<longleftrightarrow> l_serverID other = l_serverID l \<and> normScope (l_scopeGroup other) = normScope (l_scopeGroup l) \<and>
     mediaTypeOf (l_type other) = mediaTypeOf (l_type l)"

definition add_partners :: "scanConfig \<Rightarrow> Library \<Rightarrow> Library list \<Rightarrow> Library list" where
  "add_partners c l selected =
     (if normScope (l_scopeGroup l) = [] then selected
      else fold (\<lambda>other sel. if has_lib sel (l_id other) \<or> \<not> scannable c other then sel
                             else if scope_partner l other then sel @ [other] else sel)
             (c_libraries (sc_eval c)) selected)"

definition withScopePartners :: "scanConfig \<Rightarrow> Library list \<Rightarrow> Library list" where
  "withScopePartners c selected = fold (add_partners c) (sortedLibraries selected) selected"

definition scanLibraries :: "scanConfig \<Rightarrow> int list \<Rightarrow> Library list" where
  "scanLibraries c ids =
     sortedLibraries (withScopePartners c
       (filter (\<lambda>l. scannable c l \<and> (ids = [] \<or> l_id l \<in> set ids)) (c_libraries (sc_eval c))))"

definition overlap_partner :: "scanConfig \<Rightarrow> Library list \<Rightarrow> Library \<Rightarrow> bool" where
  "overlap_partner c selected other \<longleftrightarrow>
     \<not> has_lib selected (l_id other) \<and> mediaTypeOf (l_type other) \<noteq> [] \<and>
     server_at (sc_servers c) (l_serverID other) \<noteq> None \<and>
     list_ex (\<lambda>l. l_serverID other = l_serverID l \<and> locationsOverlap l other) selected"

definition overlapPartners :: "scanConfig \<Rightarrow> Library list \<Rightarrow> Library list" where
  "overlapPartners c selected = filter (overlap_partner c selected) (c_libraries (sc_eval c))"

definition cross_partner :: "scanConfig \<Rightarrow> (int \<Rightarrow> Section list) \<Rightarrow> Library list \<Rightarrow> Library \<Rightarrow> bool" where
  "cross_partner c sections selected l \<longleftrightarrow>
     \<not> has_lib selected (l_id l) \<and> mediaTypeOf (l_type l) \<noteq> [] \<and> server_at (sc_servers c) (l_serverID l) \<noteq> None \<and>
     list_ex (\<lambda>s. l_serverID s \<noteq> l_serverID l) selected \<and>
     (sc_separate c (l_serverID l) \<longrightarrow>
        foldersOverlap (libraryFolders c sections l) (concat (map (libraryFolders c sections) selected)))"

definition crossServerPartners :: "scanConfig \<Rightarrow> Library list \<Rightarrow> (int \<Rightarrow> Section list) \<Rightarrow> Library list" where
  "crossServerPartners c selected sections =
     (if \<not> sc_multi c \<or> selected = [] then []
      else filter (cross_partner c sections selected) (sortedLibraries (c_libraries (sc_eval c))))"

section \<open>Exclusions\<close>

definition libraryExcluded :: "scanConfig \<Rightarrow> int \<Rightarrow> bool" where
  "libraryExcluded c i \<longleftrightarrow>
     list_ex (\<lambda>e. x_kind e = ExcludeLibrary \<and> TrimSpace (x_value e) = Itoa i) (c_exclusions (sc_eval c))"

definition keyExcluded :: "scanConfig \<Rightarrow> string \<Rightarrow> bool" where
  "keyExcluded c key \<longleftrightarrow>
     list_ex (\<lambda>e. x_kind e = ExcludeGroupKey \<and> TrimSpace (x_value e) = key) (c_exclusions (sc_eval c))"

definition first_disabled :: "evalConfig \<Rightarrow> int list \<Rightarrow> Library option" where
  "first_disabled c ids = find (\<lambda>l. \<not> l_enabled l) (List.map_filter (lib_at (c_libraries c)) ids)"

text \<open>The libraries a stored group belongs to, in the order \<open>blockedReason\<close> walks them.\<close>

definition group_libraries :: "DuplicateGroup \<Rightarrow> int list" where
  "group_libraries g =
     sort (dedup (filter (\<lambda>i. i > 0) (library_ids g @ map (\<lambda>f. v_libraryID (f_version f)) (g_files g))))"

definition scope_at :: "evalConfig \<Rightarrow> int \<Rightarrow> string" where
  "scope_at c i = (case lib_at (c_libraries c) i of Some l \<Rightarrow> normScope (l_scopeGroup l) | None \<Rightarrow> [])"

definition blockedReason :: "golib \<Rightarrow> evalConfig \<Rightarrow> DuplicateGroup \<Rightarrow> string" where
  "blockedReason lib c g =
     (let reason = ExclusionReason lib (c_exclusions c) (Some g); ids = group_libraries g in
      if reason \<noteq> [] then
        ''Excluded from duplicate detection ('' @ reason @ ''); nothing is removed '' @ emdash @ '' the next scan updates this duplicate''
      else case first_disabled c ids of
        Some l \<Rightarrow> ''The library '' @ Quote (l_title l) @ '' is disabled; nothing is removed from it until it is enabled and scanned again''
      | None \<Rightarrow>
          if list_all (\<lambda>i. lib_at (c_libraries c) i \<noteq> None) ids \<and> length ids \<ge> 2 \<and>
             list_ex (\<lambda>i. scope_at c i = [] \<or> scope_at c i \<noteq> scope_at c (hd ids)) ids
          then ''The libraries of this duplicate no longer share a scope group; nothing is removed '' @ emdash @ '' the next scan regroups it''
          else [])"

end
