(* ===== verification/ArrItems.thy ===== *)
theory ArrItems
  imports Models
begin

text \<open>
  The *arr item summaries of \<open>internal/models/arritems.go\<close>: \<open>SanitizeArrItems\<close> bounds what a group stores
  about the items and queue entries of its *arr applications, on every write and on every read.
\<close>

section \<open>Definitions\<close>

definition MaxArrItems :: nat where "MaxArrItems = 20"
definition MaxArrQueueEntries :: nat where "MaxArrQueueEntries = 10"
definition MaxArrQueueMessages :: nat where "MaxArrQueueMessages = 5"
definition MaxArrQueueTitleRunes :: nat where "MaxArrQueueTitleRunes = 200"
definition MaxArrQueueTextRunes :: nat where "MaxArrQueueTextRunes = 300"
definition MaxArrSlugRunes :: nat where "MaxArrSlugRunes = 200"
definition maxArrNameRunes :: nat where "maxArrNameRunes = 100"
definition maxArrWordRunes :: nat where "maxArrWordRunes = 64"

fun sanitize_messages :: "string list \<Rightarrow> string list \<Rightarrow> string list" where
  "sanitize_messages out [] = out"
| "sanitize_messages out (m # ms) =
     (if length out = MaxArrQueueMessages then out
      else let c = CleanArrText m MaxArrQueueTextRunes
           in sanitize_messages (if c \<noteq> [] \<and> c \<notin> set out then out @ [c] else out) ms)"

definition sanitizeArrQueueEntry :: "ArrQueueEntry \<Rightarrow> ArrQueueEntry" where
  "sanitizeArrQueueEntry e =
     \<lparr> q_title = CleanArrText (q_title e) MaxArrQueueTitleRunes,
       q_status = CleanArrText (q_status e) maxArrWordRunes,
       q_trackedDownloadState = CleanArrText (q_trackedDownloadState e) maxArrWordRunes,
       q_trackedDownloadStatus = CleanArrText (q_trackedDownloadStatus e) maxArrWordRunes,
       q_label = CleanArrText (q_label e) maxArrWordRunes,
       q_messages = sanitize_messages [] (q_messages e),
       q_errorMessage = CleanArrText (q_errorMessage e) MaxArrQueueTextRunes \<rparr>"

definition sanitize_item :: "ArrItemRef \<Rightarrow> ArrItemRef" where
  "sanitize_item it =
     (let queue = map sanitizeArrQueueEntry (take MaxArrQueueEntries (ai_queue it))
      in it \<lparr> ai_instanceName := CleanArrText (ai_instanceName it) maxArrNameRunes,
              ai_kind := CleanArrText (ai_kind it) maxArrWordRunes,
              ai_titleSlug := CleanArrText (ai_titleSlug it) MaxArrSlugRunes,
              ai_queue := queue,
              ai_queueCount := max (ai_queueCount it) (int (length queue)) \<rparr>)"

definition SanitizeArrItems :: "ArrItemRef list \<Rightarrow> ArrItemRef list" where
  "SanitizeArrItems items =
     map sanitize_item (take MaxArrItems (filter (\<lambda>it. ai_instanceID it > 0 \<and> ai_itemID it > 0) items))"

section \<open>The caps hold\<close>

lemma length_sanitize_messages:
  "length out \<le> MaxArrQueueMessages \<Longrightarrow> length (sanitize_messages out ms) \<le> MaxArrQueueMessages"
  by (induction out ms rule: sanitize_messages.induct) (simp_all add: Let_def)

lemma sanitize_caps:
  "length (SanitizeArrItems items) \<le> MaxArrItems"
  "it \<in> set (SanitizeArrItems items) \<Longrightarrow>
     ai_instanceID it > 0 \<and> ai_itemID it > 0 \<and> length (ai_queue it) \<le> MaxArrQueueEntries \<and>
     int (length (ai_queue it)) \<le> ai_queueCount it"
  by (auto simp: SanitizeArrItems_def sanitize_item_def Let_def dest!: in_set_takeD)

end
