(* ===== verification/GroupStore.thy ===== *)
theory GroupStore
  imports ArrItems
begin

text \<open>
  The store of duplicate groups and removal actions (\<open>internal/database/repo_groups.go\<close>, the actions and
  exclusions of \<open>internal/database/repo_activity.go\<close>). The tables are lists of rows; a write transaction
  (\<open>DB.write\<close>, one writer connection) is one function from a database to a database and a result, and a
  transaction that returns an error leaves the database as it was. JSON columns hold the values themselves,
  \<open>AUTOINCREMENT\<close> ids come from the sequences in the state, and the clock is an argument. Error texts leave out the prefix that names the
  operation and its row.
\<close>

section \<open>State\<close>

abbreviation GroupResolved :: string where "GroupResolved \<equiv> ''resolved''"
abbreviation GroupFailed :: string where "GroupFailed \<equiv> ''failed''"

abbreviation ActionPending :: string where "ActionPending \<equiv> ''pending''"
abbreviation ActionRunning :: string where "ActionRunning \<equiv> ''running''"
abbreviation ActionSucceeded :: string where "ActionSucceeded \<equiv> ''succeeded''"
abbreviation ActionDryRun :: string where "ActionDryRun \<equiv> ''dry_run''"
abbreviation ActionSkipped :: string where "ActionSkipped \<equiv> ''skipped''"
abbreviation ActionFailed :: string where "ActionFailed \<equiv> ''failed''"
abbreviation ActionCancelled :: string where "ActionCancelled \<equiv> ''cancelled''"

record Action =
  act_id :: int
  act_groupID :: int
  act_groupFileID :: int
  act_versionKey :: string
  act_title :: string
  act_paths :: "string list"
  act_size :: int
  act_method :: string
  act_status :: string
  act_dryRun :: bool
  act_message :: string
  act_recyclePath :: string
  act_permanent :: bool
  act_createdAt :: time
  act_startedAt :: "time option"
  act_finishedAt :: "time option"

text \<open>A row of \<open>duplicate_groups\<close> with its \<open>group_files\<close> in their order, and the overrides retained for
  versions that left the group.\<close>

record group_row =
  r_group :: DuplicateGroup
  r_retained :: "string \<rightharpoonup> string"

record db =
  db_groups :: "group_row list"
  db_actions :: "Action list"
  db_exclusions :: "Exclusion list"
  db_groupSeq :: int
  db_fileSeq :: int
  db_actionSeq :: int
  db_exclusionSeq :: int

datatype store_error = ErrNotFound | ErrRefused string | ErrNotRemovable | ErrActionNotPending string

type_synonym 'a outcome = "db \<times> (store_error + 'a)"

definition empty_db :: db where
  "empty_db = \<lparr> db_groups = [], db_actions = [], db_exclusions = [], db_groupSeq = 0, db_fileSeq = 0,
     db_actionSeq = 0, db_exclusionSeq = 0 \<rparr>"

abbreviation r_id :: "group_row \<Rightarrow> int" where "r_id r \<equiv> g_id (r_group r)"
abbreviation r_status :: "group_row \<Rightarrow> string" where "r_status r \<equiv> g_status (r_group r)"
abbreviation r_files :: "group_row \<Rightarrow> GroupFile list" where "r_files r \<equiv> g_files (r_group r)"
abbreviation f_key :: "GroupFile \<Rightarrow> string" where "f_key f \<equiv> v_key (f_version f)"

definition knownGroupStatuses :: "string list" where
  "knownGroupStatuses = [GroupPending, GroupReview, GroupDeferred, GroupProtected, GroupQueued, GroupResolved,
     GroupIgnored, GroupFailed]"

definition validGroupStatus :: "string \<Rightarrow> bool" where
  "validGroupStatus s \<longleftrightarrow> s \<in> set knownGroupStatuses"

definition noKeeperReason :: string where
  "noKeeperReason = ''Safety: no version of this group is marked keep; check the decisions''"

definition statusBlocksRemovals :: "string \<Rightarrow> bool" where
  "statusBlocksRemovals s \<longleftrightarrow> s \<in> {GroupIgnored, GroupResolved, GroupReview, GroupDeferred, GroupProtected}"

definition validDecision :: "string \<Rightarrow> bool" where
  "validDecision d \<longleftrightarrow> d = [] \<or> d = DecisionKeep \<or> d = DecisionRemove"

definition orNow :: "time \<Rightarrow> time \<Rightarrow> time" where
  "orNow t now = (if IsZero t then now else t)"

section \<open>Reading groups\<close>

text \<open>A stored group as it is read back: the summaries of its *arr items are bounded again.\<close>

definition load :: "group_row \<Rightarrow> DuplicateGroup" where
  "load r = r_group r \<lparr> g_arrItems := SanitizeArrItems (g_arrItems (r_group r)) \<rparr>"

definition Get :: "int \<Rightarrow> db \<Rightarrow> DuplicateGroup option" where
  "Get i d = map_option load (find (\<lambda>r. r_id r = i) (db_groups d))"

definition GetByKey :: "string \<Rightarrow> db \<Rightarrow> DuplicateGroup option" where
  "GetByKey key d = map_option load (find (\<lambda>r. g_key (r_group r) = key) (db_groups d))"

text \<open>Rows are inserted with increasing ids, so the order of the table is the order by id.\<close>

definition ListByRatingKeys :: "int \<Rightarrow> string list \<Rightarrow> db \<Rightarrow> DuplicateGroup list" where
  "ListByRatingKeys serverID ratingKeys d =
     map load (filter (\<lambda>r. g_serverID (r_group r) = serverID \<and>
                         (\<exists>f\<in>set (r_files r). v_ratingKey (f_version f) \<in> set ratingKeys)) (db_groups d))"

section \<open>Cancelling actions\<close>

definition cancelStaleMessage :: string where
  "cancelStaleMessage =
     ''Cancelled: the version is no longer marked for removal (re-evaluated, overridden to keep, protected or gone)''"

definition statusCancelMessage :: "string \<Rightarrow> string \<Rightarrow> string" where
  "statusCancelMessage status reason =
     (if status = GroupIgnored then ''Cancelled: the duplicate group was ignored''
      else if status = GroupResolved then ''Cancelled: the duplicate group was marked resolved''
      else ''Cancelled: the duplicate group moved to '' @ Quote status @
           (if TrimSpace reason \<noteq> [] then '' ('' @ TrimSpace reason @ '')'' else []))"

definition reopenedReason :: string where
  "reopenedReason = ''Queued removals were cancelled; check the decisions and approve again''"

definition isQueuedStatus :: "string \<Rightarrow> bool" where
  "isQueuedStatus s \<longleftrightarrow> s = ActionPending \<or> s = ActionRunning"

definition set_status :: "time \<Rightarrow> string \<Rightarrow> string \<Rightarrow> group_row \<Rightarrow> group_row" where
  "set_status now status reason r =
     r \<lparr> r_group := (r_group r) \<lparr> g_status := status, g_statusReason := reason, g_updatedAt := now \<rparr> \<rparr>"

definition emptied :: "int list \<Rightarrow> Action list \<Rightarrow> group_row \<Rightarrow> bool" where
  "emptied ids acts r \<longleftrightarrow> r_status r = GroupQueued \<and> r_id r \<in> set ids \<and>
     \<not> (\<exists>a\<in>set acts. act_groupID a = r_id r \<and> isQueuedStatus (act_status a))"

definition reopenEmptiedGroups :: "time \<Rightarrow> int list \<Rightarrow> db \<Rightarrow> db" where
  "reopenEmptiedGroups now ids d =
     d \<lparr> db_groups := map (\<lambda>r. if emptied ids (db_actions d) r
                               then set_status now GroupPending reopenedReason r else r) (db_groups d) \<rparr>"

definition cancel_action :: "time \<Rightarrow> string \<Rightarrow> Action \<Rightarrow> Action" where
  "cancel_action now message a =
     a \<lparr> act_status := ActionCancelled, act_finishedAt := Some now, act_message := message \<rparr>"

text \<open>The actions a statement cancels: those in one of the statuses that satisfy its condition.\<close>

definition hit_by :: "string list \<Rightarrow> (db \<Rightarrow> Action \<Rightarrow> bool) \<Rightarrow> db \<Rightarrow> Action \<Rightarrow> bool" where
  "hit_by from cond d a \<longleftrightarrow> act_status a \<in> set from \<and> cond d a"

definition cancelActions :: "time \<Rightarrow> string list \<Rightarrow> string \<Rightarrow> (db \<Rightarrow> Action \<Rightarrow> bool) \<Rightarrow> db \<Rightarrow> nat \<times> db" where
  "cancelActions now from message cond d =
     (let hits = filter (hit_by from cond d) (db_actions d);
          d' = d \<lparr> db_actions := map (\<lambda>a. if hit_by from cond d a then cancel_action now message a else a) (db_actions d) \<rparr>
      in (length hits, reopenEmptiedGroups now (dedup (map act_groupID hits)) d'))"

definition cancelPending :: "time \<Rightarrow> string \<Rightarrow> (db \<Rightarrow> Action \<Rightarrow> bool) \<Rightarrow> db \<Rightarrow> nat \<times> db" where
  "cancelPending now message cond d = cancelActions now [ActionPending] message cond d"

definition of_group :: "int \<Rightarrow> db \<Rightarrow> Action \<Rightarrow> bool" where
  "of_group i d a \<longleftrightarrow> act_groupID a = i"

definition cancelPendingActions :: "time \<Rightarrow> int \<Rightarrow> string \<Rightarrow> db \<Rightarrow> nat \<times> db" where
  "cancelPendingActions now i message d = cancelPending now message (of_group i) d"

text \<open>The file an action names: by its version key, or by its file id when it has no key.\<close>

definition names_file :: "Action \<Rightarrow> GroupFile \<Rightarrow> bool" where
  "names_file a f \<longleftrightarrow>
     (if act_versionKey a \<noteq> [] then f_key f = act_versionKey a else f_id f = act_groupFileID a)"

definition stale_target :: "int \<Rightarrow> db \<Rightarrow> Action \<Rightarrow> bool" where
  "stale_target i d a \<longleftrightarrow> act_groupID a = i \<and>
     \<not> (\<exists>r\<in>set (db_groups d). r_id r = act_groupID a \<and>
          (\<exists>f\<in>set (r_files r). f_decision f = DecisionRemove \<and> names_file a f))"

definition cancelStaleActions :: "time \<Rightarrow> int \<Rightarrow> db \<Rightarrow> nat \<times> db" where
  "cancelStaleActions now i d = cancelPending now cancelStaleMessage (stale_target i) d"

section \<open>Upsert\<close>

fun check_upsert_files :: "nat \<Rightarrow> string list \<Rightarrow> GroupFile list \<Rightarrow> store_error option" where
  "check_upsert_files i incoming [] = None"
| "check_upsert_files i incoming (f # fs) =
     (if TrimSpace (f_key f) = [] then Some (ErrRefused (''file '' @ Itoa (int i) @ '' has an empty version key''))
      else if f_key f \<in> set incoming then Some (ErrRefused (''duplicate version key '' @ Quote (f_key f)))
      else if \<not> validDecision (f_decision f) \<or> \<not> validDecision (f_engineDecision f) \<or> \<not> validDecision (f_override f)
      then Some (ErrRefused (''file '' @ Quote (f_key f) @ '' has an invalid decision''))
      else check_upsert_files (Suc i) (f_key f # incoming) fs)"

definition upsert_status :: "DuplicateGroup \<Rightarrow> string" where
  "upsert_status g = (if g_status g = [] then GroupReview else g_status g)"

definition check_upsert :: "DuplicateGroup \<Rightarrow> store_error option" where
  "check_upsert g =
     (if TrimSpace (g_key g) = [] then Some (ErrRefused ''empty key'')
      else if \<not> validGroupStatus (upsert_status g) then Some (ErrRefused (''invalid status '' @ Quote (upsert_status g)))
      else check_upsert_files 0 [] (g_files g))"

definition hardlinked :: "MediaVersion \<Rightarrow> bool" where
  "hardlinked v \<longleftrightarrow> list_ex (\<lambda>p. p_linkCount p > 1) (v_parts v)"

definition stored_file :: "group_row option \<Rightarrow> string \<Rightarrow> GroupFile option" where
  "stored_file row k = (case row of None \<Rightarrow> None | Some r \<Rightarrow> find (\<lambda>f. f_key f = k) (r_files r))"

definition stored_retained :: "group_row option \<Rightarrow> string \<rightharpoonup> string" where
  "stored_retained row = (case row of None \<Rightarrow> Map.empty | Some r \<Rightarrow> r_retained r)"

text \<open>The override a file is stored with: the stored one, else a retained one, else the incoming one.\<close>

definition kept_override :: "group_row option \<Rightarrow> GroupFile \<Rightarrow> string" where
  "kept_override row f =
     (case stored_file row (f_key f) of
        Some sf \<Rightarrow> f_override sf
      | None \<Rightarrow> (case stored_retained row (f_key f) of
                   Some ov \<Rightarrow> if ov \<noteq> [] \<and> validDecision ov then ov else f_override f
                 | None \<Rightarrow> f_override f))"

text \<open>Whether the effective decision or a protection says keep.\<close>

definition says_keep :: "group_row option \<Rightarrow> GroupFile \<Rightarrow> bool" where
  "says_keep row f \<longleftrightarrow>
     (let ov = kept_override row f in (if ov \<noteq> [] then ov else f_engineDecision f) = DecisionKeep \<or> f_protected f)"

definition upsert_file :: "group_row option \<Rightarrow> GroupFile \<Rightarrow> GroupFile" where
  "upsert_file row f =
     f \<lparr> f_id := (case stored_file row (f_key f) of Some sf \<Rightarrow> f_id sf | None \<Rightarrow> 0),
         f_override := kept_override row f,
         f_decision := (if says_keep row f then DecisionKeep else f_decision f) \<rparr>"

definition lost_bytes :: "group_row option \<Rightarrow> GroupFile \<Rightarrow> int" where
  "lost_bytes row f =
     (if says_keep row f \<and> f_decision f = DecisionRemove then
        (case v_disc (f_version f) of
           Some di \<Rightarrow> if d_totalBytes di > 0 then d_freedBytes di
                      else if \<not> hardlinked (f_version f) then TotalSize (f_version f) else 0
         | None \<Rightarrow> if \<not> hardlinked (f_version f) then TotalSize (f_version f) else 0)
      else 0)"

definition upsert_retained :: "group_row option \<Rightarrow> GroupFile list \<Rightarrow> string \<rightharpoonup> string" where
  "upsert_retained row fs k =
     (if k \<in> set (map f_key fs) then None
      else case stored_file row k of
             Some sf \<Rightarrow> if f_override sf \<noteq> [] then Some (f_override sf) else stored_retained row k
           | None \<Rightarrow> stored_retained row k)"

text \<open>New rows get the next ids of the sequence, in order.\<close>

fun number_files :: "int \<Rightarrow> int \<Rightarrow> GroupFile list \<Rightarrow> GroupFile list" where
  "number_files gid sq [] = []"
| "number_files gid sq (f # fs) =
     (if f_id f \<noteq> 0 then f \<lparr> f_groupID := gid \<rparr> # number_files gid sq fs
      else f \<lparr> f_id := sq + 1, f_groupID := gid \<rparr> # number_files gid (sq + 1) fs)"

definition new_rows :: "GroupFile list \<Rightarrow> int" where
  "new_rows fs = int (length (filter (\<lambda>f. f_id f = 0) fs))"

definition keeps_none :: "string \<Rightarrow> GroupFile list \<Rightarrow> bool" where
  "keeps_none status fs \<longleftrightarrow> fs \<noteq> [] \<and> status \<noteq> GroupIgnored \<and> status \<noteq> GroupResolved \<and>
     \<not> list_ex (\<lambda>f. f_decision f = DecisionKeep) fs"

text \<open>The status and reason a group is written with, before actions are cancelled.\<close>

definition write_status :: "group_row option \<Rightarrow> DuplicateGroup \<Rightarrow> GroupFile list \<Rightarrow> string \<times> string" where
  "write_status row g fs =
     (let (status, reason) =
        (case row of
           Some r \<Rightarrow> if r_status r = GroupIgnored then (GroupIgnored, g_statusReason (r_group r))
                     else (upsert_status g, g_statusReason g)
         | None \<Rightarrow> (upsert_status g, g_statusReason g))
      in if keeps_none status fs then (GroupReview, noKeeperReason) else (status, reason))"

definition upsert_row :: "time \<Rightarrow> group_row option \<Rightarrow> DuplicateGroup \<Rightarrow> db \<Rightarrow> group_row" where
  "upsert_row now row g d =
     (let fs = map (upsert_file row) (g_files g);
          gid = (case row of Some r \<Rightarrow> r_id r | None \<Rightarrow> db_groupSeq d + 1);
          (status, reason) = write_status row g fs
      in \<lparr> r_group = g \<lparr> g_id := gid, g_status := status, g_statusReason := reason,
             g_libraryIDs := Some (case g_libraryIDs g of Some ids \<Rightarrow> ids | None \<Rightarrow> []),
             g_externalIDs := Some (case g_externalIDs g of Some m \<Rightarrow> m | None \<Rightarrow> Map.empty),
             g_files := number_files gid (db_fileSeq d) fs,
             g_reclaimableBytes := max 0 (g_reclaimableBytes g - sum_list (map (lost_bytes row) (g_files g))),
             g_firstSeenAt := (case row of Some r \<Rightarrow> g_firstSeenAt (r_group r) | None \<Rightarrow> orNow (g_firstSeenAt g) now),
             g_lastSeenAt := orNow (g_lastSeenAt g) now, g_updatedAt := now,
             g_arrItems := SanitizeArrItems (g_arrItems g) \<rparr>,
           r_retained = upsert_retained row (g_files g) \<rparr>)"

text \<open>Writing the row: an insert at the end of the table, or an update in place.\<close>

definition write_row :: "group_row option \<Rightarrow> group_row \<Rightarrow> GroupFile list \<Rightarrow> db \<Rightarrow> db" where
  "write_row row r fs d =
     d \<lparr> db_groups := (case row of None \<Rightarrow> db_groups d @ [r]
                       | Some _ \<Rightarrow> map (\<lambda>x. if r_id x = r_id r then r else x) (db_groups d)),
         db_groupSeq := (case row of None \<Rightarrow> db_groupSeq d + 1 | Some _ \<Rightarrow> db_groupSeq d),
         db_fileSeq := db_fileSeq d + new_rows fs \<rparr>"

text \<open>After an update: queued removals that must not run any more are cancelled.\<close>

definition cancel_after_upsert :: "time \<Rightarrow> group_row \<Rightarrow> db \<Rightarrow> nat \<times> db" where
  "cancel_after_upsert now r d =
     cancelStaleActions now (r_id r)
       (if statusBlocksRemovals (r_status r)
        then snd (cancelPendingActions now (r_id r) (statusCancelMessage (r_status r) (g_statusReason (r_group r))) d)
        else d)"

text \<open>\<open>Upsert\<close> returns the group as its caller sees it afterwards, and whether it was created.\<close>

definition Upsert :: "time \<Rightarrow> DuplicateGroup \<Rightarrow> db \<Rightarrow> (DuplicateGroup \<times> bool) outcome" where
  "Upsert now g d =
     (case check_upsert g of
        Some e \<Rightarrow> (d, Inl e)
      | None \<Rightarrow>
          let row = find (\<lambda>r. g_key (r_group r) = g_key g) (db_groups d);
              r = upsert_row now row g d;
              d1 = write_row row r (map (upsert_file row) (g_files g)) d;
              g1 = (r_group r) \<lparr> g_arrItems := g_arrItems g \<rparr>
          in if row = None then (d1, Inr (g1, True))
             else let (n, d2) = cancel_after_upsert now r d1
                  in if n = 0 then (d2, Inr (g1, False))
                     else case find (\<lambda>x. r_id x = r_id r) (db_groups d2) of
                            None \<Rightarrow> (d, Inl ErrNotFound)
                          | Some x \<Rightarrow> (d2, Inr (g1 \<lparr> g_status := r_status x,
                                                     g_statusReason := g_statusReason (r_group x) \<rparr>, False)))"

section \<open>Status, flags, overrides\<close>

definition afterStatusChange :: "time \<Rightarrow> int \<Rightarrow> string \<Rightarrow> string \<Rightarrow> db \<Rightarrow> db" where
  "afterStatusChange now i status reason d =
     (if statusBlocksRemovals status then snd (cancelPendingActions now i (statusCancelMessage status reason) d) else d)"

definition update_rows :: "(group_row \<Rightarrow> bool) \<Rightarrow> (group_row \<Rightarrow> group_row) \<Rightarrow> db \<Rightarrow> db" where
  "update_rows p f d = d \<lparr> db_groups := map (\<lambda>r. if p r then f r else r) (db_groups d) \<rparr>"

definition has_row :: "(group_row \<Rightarrow> bool) \<Rightarrow> db \<Rightarrow> bool" where
  "has_row p d \<longleftrightarrow> list_ex p (db_groups d)"

definition UpdateStatus :: "time \<Rightarrow> int \<Rightarrow> string \<Rightarrow> string \<Rightarrow> db \<Rightarrow> unit outcome" where
  "UpdateStatus now i status reason d =
     (if \<not> validGroupStatus status then (d, Inl (ErrRefused (''invalid status '' @ Quote status)))
      else if \<not> has_row (\<lambda>r. r_id r = i) d then (d, Inl ErrNotFound)
      else (afterStatusChange now i status reason
              (update_rows (\<lambda>r. r_id r = i) (set_status now status reason) d), Inr ()))"

definition UpdateStatusIf :: "time \<Rightarrow> int \<Rightarrow> string list \<Rightarrow> string \<Rightarrow> string \<Rightarrow> db \<Rightarrow> bool outcome" where
  "UpdateStatusIf now i from to reason d =
     (if \<not> validGroupStatus to then (d, Inl (ErrRefused (''invalid status '' @ Quote to)))
      else if \<not> list_all validGroupStatus from
      then (d, Inl (ErrRefused (''invalid status '' @ Quote (hd (filter (\<lambda>s. \<not> validGroupStatus s) from)))))
      else if from = [] then (d, Inr False)
      else let p = (\<lambda>r. r_id r = i \<and> r_status r \<in> set from) in
           if has_row p d
           then (afterStatusChange now i to reason (update_rows p (set_status now to reason) d), Inr True)
           else if has_row (\<lambda>r. r_id r = i) d then (d, Inr False)
           else (d, Inl ErrNotFound))"

definition change_flag :: "time \<Rightarrow> string \<Rightarrow> bool \<Rightarrow> group_row \<Rightarrow> group_row" where
  "change_flag now flag on r =
     (let flags = g_flags (r_group r) in
      if (flag \<in> set flags) = on then r
      else r \<lparr> r_group := (r_group r) \<lparr> g_flags := (if on then flags @ [flag] else filter (\<lambda>f. f \<noteq> flag) flags),
                                        g_updatedAt := now \<rparr> \<rparr>)"

definition SetFlag :: "time \<Rightarrow> int \<Rightarrow> string \<Rightarrow> bool \<Rightarrow> db \<Rightarrow> unit outcome" where
  "SetFlag now i flag on d =
     (if TrimSpace flag = [] then (d, Inl (ErrRefused ''empty flag''))
      else if \<not> has_row (\<lambda>r. r_id r = i) d then (d, Inl ErrNotFound)
      else (update_rows (\<lambda>r. r_id r = i) (change_flag now (TrimSpace flag) on) d, Inr ()))"

definition override_file :: "int \<Rightarrow> string \<Rightarrow> GroupFile \<Rightarrow> GroupFile" where
  "override_file fid dec f =
     (if f_id f = fid
      then f \<lparr> f_override := dec, f_decision := (if dec = DecisionKeep then DecisionKeep else f_decision f) \<rparr> else f)"

definition override_row :: "time \<Rightarrow> int \<Rightarrow> string \<Rightarrow> group_row \<Rightarrow> group_row" where
  "override_row now fid dec r =
     r \<lparr> r_group := (r_group r) \<lparr> g_files := map (override_file fid dec) (r_files r), g_updatedAt := now \<rparr> \<rparr>"

definition SetOverride :: "time \<Rightarrow> int \<Rightarrow> int \<Rightarrow> string \<Rightarrow> db \<Rightarrow> unit outcome" where
  "SetOverride now gid fid dec d =
     (if \<not> validDecision dec then (d, Inl (ErrRefused (''invalid decision '' @ Quote dec)))
      else if \<not> has_row (\<lambda>r. r_id r = gid \<and> list_ex (\<lambda>f. f_id f = fid) (r_files r)) d then (d, Inl ErrNotFound)
      else let d1 = update_rows (\<lambda>r. r_id r = gid) (override_row now fid dec) d
           in (if dec \<noteq> DecisionKeep then d1 else snd (cancelStaleActions now gid d1), Inr ()))"

definition resolvedReason :: string where
  "resolvedReason = ''No longer detected as a duplicate by the last full scan''"

definition unseen :: "int \<Rightarrow> int list \<Rightarrow> group_row \<Rightarrow> bool" where
  "unseen scanID libs r \<longleftrightarrow> r_status r \<noteq> GroupIgnored \<and> r_status r \<noteq> GroupResolved \<and>
     g_lastScanID (r_group r) \<noteq> scanID \<and>
     list_ex (\<lambda>l. l \<in> set libs) (case g_libraryIDs (r_group r) of Some ids \<Rightarrow> ids | None \<Rightarrow> [])"

definition in_groups :: "int list \<Rightarrow> db \<Rightarrow> Action \<Rightarrow> bool" where
  "in_groups ids d a \<longleftrightarrow> act_groupID a \<in> set ids"

definition MarkUnseenResolved :: "time \<Rightarrow> int \<Rightarrow> int list \<Rightarrow> db \<Rightarrow> int list outcome" where
  "MarkUnseenResolved now scanID libs d =
     (if libs = [] then (d, Inr [])
      else let ids = map r_id (filter (unseen scanID libs) (db_groups d));
               d1 = update_rows (unseen scanID libs) (set_status now GroupResolved resolvedReason) d
           in (if ids = [] then d1
               else snd (cancelPending now ''Cancelled: the duplicate was no longer detected by a full scan''
                           (in_groups ids) d1), Inr (sort ids)))"

definition Delete :: "time \<Rightarrow> int \<Rightarrow> db \<Rightarrow> unit outcome" where
  "Delete now i d =
     (if \<not> has_row (\<lambda>r. r_id r = i) d then (d, Inl ErrNotFound)
      else (snd (cancelPendingActions now i ''Cancelled: the duplicate group was deleted''
                   (d \<lparr> db_groups := filter (\<lambda>r. r_id r \<noteq> i) (db_groups d) \<rparr>)), Inr ()))"

section \<open>Actions\<close>

definition knownActionStatuses :: "string list" where
  "knownActionStatuses = [ActionPending, ActionRunning, ActionSucceeded, ActionDryRun, ActionSkipped, ActionFailed,
     ActionCancelled]"

definition actionTargetRemovable :: "int \<Rightarrow> int \<Rightarrow> string \<Rightarrow> db \<Rightarrow> bool" where
  "actionTargetRemovable gid fid vk d \<longleftrightarrow> \<not> (fid = 0 \<and> vk = []) \<and>
     list_ex (\<lambda>r. r_id r = gid \<and> r_status r \<noteq> GroupIgnored \<and> r_status r \<noteq> GroupResolved \<and>
       list_ex (\<lambda>f. f_decision f = DecisionRemove \<and> \<not> f_protected f \<and> (fid = 0 \<or> f_id f = fid) \<and>
                    (vk = [] \<or> f_key f = vk)) (r_files r)) (db_groups d)"

definition target_removable :: "Action \<Rightarrow> db \<Rightarrow> bool" where
  "target_removable a d = actionTargetRemovable (act_groupID a) (act_groupFileID a) (act_versionKey a) d"

definition CreateAction :: "time \<Rightarrow> Action \<Rightarrow> db \<Rightarrow> Action outcome" where
  "CreateAction now a0 d =
     (let a = (if act_status a0 = [] then a0 \<lparr> act_status := ActionPending \<rparr> else a0) in
      if act_status a \<notin> set knownActionStatuses then (d, Inl (ErrRefused (''invalid status '' @ Quote (act_status a))))
      else if isQueuedStatus (act_status a) \<and> \<not> target_removable a d then (d, Inl ErrNotRemovable)
      else let a' = a \<lparr> act_id := db_actionSeq d + 1, act_createdAt := orNow (act_createdAt a) now \<rparr>
           in (d \<lparr> db_actions := db_actions d @ [a'], db_actionSeq := db_actionSeq d + 1 \<rparr>, Inr a'))"

definition checkActionTransition :: "string \<Rightarrow> string \<Rightarrow> store_error option" where
  "checkActionTransition current nxt =
     (if nxt = ActionRunning then
        (if isQueuedStatus current then None
         else Some (ErrActionNotPending (''cannot start an action whose status is '' @ Quote current)))
      else if nxt = ActionPending then
        (if current = ActionCancelled \<or> current = ActionSucceeded
         then Some (ErrActionNotPending (''cannot re-queue an action whose status is '' @ Quote current)) else None)
      else if nxt = ActionCancelled then
        (if \<not> isQueuedStatus current \<and> current \<noteq> ActionCancelled
         then Some (ErrActionNotPending (''cannot cancel an action whose status is '' @ Quote current)) else None)
      else None)"

definition is_action :: "int \<Rightarrow> db \<Rightarrow> Action \<Rightarrow> bool" where
  "is_action i d a \<longleftrightarrow> act_id a = i"

definition write_action :: "Action \<Rightarrow> db \<Rightarrow> db" where
  "write_action a d =
     d \<lparr> db_actions := map (\<lambda>x. if act_id x = act_id a then a \<lparr> act_createdAt := act_createdAt x \<rparr> else x) (db_actions d) \<rparr>"

definition UpdateAction :: "time \<Rightarrow> Action \<Rightarrow> db \<Rightarrow> unit outcome" where
  "UpdateAction now a d =
     (if act_status a \<notin> set knownActionStatuses then (d, Inl (ErrRefused (''invalid status '' @ Quote (act_status a))))
      else case find (\<lambda>x. act_id x = act_id a) (db_actions d) of
        None \<Rightarrow> (d, Inl ErrNotFound)
      | Some x \<Rightarrow>
          let current = act_status x in
          case checkActionTransition current (act_status a) of
            Some e \<Rightarrow> (d, Inl e)
          | None \<Rightarrow>
              if (act_status a = ActionPending \<or> act_status a = ActionRunning \<and> current = ActionPending) \<and>
                 \<not> target_removable a d
              then (if \<not> isQueuedStatus current then (d, Inl ErrNotRemovable)
                    else (snd (cancelActions now [current] cancelStaleMessage (is_action (act_id a)) d),
                          Inl (ErrActionNotPending ''the action was cancelled'')))
              else let d1 = write_action a d
                   in (if act_status a = ActionCancelled \<and> current \<noteq> ActionCancelled
                       then reopenEmptiedGroups now [act_groupID a] d1 else d1, Inr ()))"

definition actionLess :: "Action \<Rightarrow> Action \<Rightarrow> bool" where
  "actionLess a b \<longleftrightarrow> act_createdAt a < act_createdAt b \<or> act_createdAt a = act_createdAt b \<and> act_id a < act_id b"

definition ListPending :: "int \<Rightarrow> db \<Rightarrow> Action list" where
  "ListPending limit d =
     (let xs = sort_by actionLess (filter (\<lambda>a. act_status a = ActionPending) (db_actions d))
      in if limit \<le> 0 then xs else take (nat limit) xs)"

definition ListByGroup :: "int \<Rightarrow> db \<Rightarrow> Action list" where
  "ListByGroup i d = sort_by actionLess (filter (\<lambda>a. act_groupID a = i) (db_actions d))"

definition CancelPendingForGroup :: "time \<Rightarrow> int \<Rightarrow> db \<Rightarrow> nat outcome" where
  "CancelPendingForGroup now i d = (let (n, d') = cancelPendingActions now i ''Cancelled'' d in (d', Inr n))"

definition CancelIfPending :: "time \<Rightarrow> int \<Rightarrow> db \<Rightarrow> bool outcome" where
  "CancelIfPending now i d =
     (let (n, d') = cancelPending now ''Cancelled by user'' (is_action i) d in
      if n > 0 then (d', Inr True)
      else if list_ex (\<lambda>a. act_id a = i) (db_actions d) then (d', Inr False) else (d, Inl ErrNotFound))"

definition ReclaimedBytes :: "db \<Rightarrow> int" where
  "ReclaimedBytes d =
     sum_list (map act_size (filter (\<lambda>a. act_status a = ActionSucceeded \<and> \<not> act_dryRun a) (db_actions d)))"

section \<open>Exclusions, servers, *arr instances\<close>

definition group_where :: "(group_row \<Rightarrow> bool) \<Rightarrow> db \<Rightarrow> Action \<Rightarrow> bool" where
  "group_where p d a \<longleftrightarrow> list_ex (\<lambda>r. r_id r = act_groupID a \<and> p r) (db_groups d)"

definition part_below :: "string \<Rightarrow> MediaPart \<Rightarrow> bool" where
  "part_below value p \<longleftrightarrow>
     HasPrefix (ToLower (p_path p)) (ToLower value) \<or> HasPrefix (ToLower (p_localPath p)) (ToLower value)"

definition exclusionCancelCond :: "Exclusion \<Rightarrow> (db \<Rightarrow> Action \<Rightarrow> bool) option" where
  "exclusionCancelCond e =
     (let value = TrimSpace (x_value e) in
      if x_kind e = ExcludeGroupKey then Some (group_where (\<lambda>r. g_key (r_group r) = value))
      else if x_kind e = ExcludeLibrary then
        (case ParseInt value of
           None \<Rightarrow> None
         | Some i \<Rightarrow> Some (group_where (\<lambda>r. i \<in> set (case g_libraryIDs (r_group r) of Some ids \<Rightarrow> ids | None \<Rightarrow> []))))
      else if x_kind e = ExcludePathPrefix then
        Some (group_where (\<lambda>r. list_ex (\<lambda>f. list_ex (part_below value) (v_parts (f_version f))) (r_files r)))
      else None)"

definition CreateExclusion :: "time \<Rightarrow> Exclusion \<Rightarrow> db \<Rightarrow> Exclusion outcome" where
  "CreateExclusion now e d =
     (if TrimSpace (x_kind e) = [] \<or> TrimSpace (x_value e) = [] then (d, Inl (ErrRefused ''kind and value are required''))
      else let old = find (\<lambda>x. x_kind x = x_kind e \<and> x_value x = x_value e) (db_exclusions d);
               new = e \<lparr> x_id := db_exclusionSeq d + 1, x_createdAt := orNow (x_createdAt e) now \<rparr>;
               out = (case old of Some x \<Rightarrow> x | None \<Rightarrow> new);
               d1 = (case old of Some _ \<Rightarrow> d
                     | None \<Rightarrow> d \<lparr> db_exclusions := db_exclusions d @ [new], db_exclusionSeq := db_exclusionSeq d + 1 \<rparr>)
           in (case exclusionCancelCond e of
                 None \<Rightarrow> d1
               | Some cond \<Rightarrow> snd (cancelPending now ''Cancelled: the content was excluded from duplicate detection'' cond d1),
               Inr out))"

definition DeleteExclusion :: "int \<Rightarrow> db \<Rightarrow> unit outcome" where
  "DeleteExclusion i d =
     (if \<not> list_ex (\<lambda>x. x_id x = i) (db_exclusions d) then (d, Inl ErrNotFound)
      else (d \<lparr> db_exclusions := filter (\<lambda>x. x_id x \<noteq> i) (db_exclusions d) \<rparr>, Inr ()))"

text \<open>The part of deleting a media server and of deleting an *arr instance that reaches these tables.\<close>

definition server_deleted :: "time \<Rightarrow> int \<Rightarrow> db \<Rightarrow> db" where
  "server_deleted now i d =
     snd (cancelPending now ''Cancelled: the media server was removed from Dupearr''
            (group_where (\<lambda>r. g_serverID (r_group r) = i)) d)"

definition arr_deleted :: "time \<Rightarrow> int \<Rightarrow> db \<Rightarrow> db" where
  "arr_deleted now i d =
     snd (cancelPending now ''Cancelled: an *arr instance tracking a version of this group was removed from Dupearr''
            (group_where (\<lambda>r. list_ex (\<lambda>f. case v_arr (f_version f) of Some a \<Rightarrow> a_instanceID a = i | None \<Rightarrow> False)
                                  (r_files r))) d)"

end
