(* ===== verification/ScanPersist.thy ===== *)
theory ScanPersist
  imports ScanConfig GroupStore Evaluate
begin

text \<open>
  How a scan stores what it found (\<open>internal/scanner/persist.go\<close> and the parts of \<open>crossserver.go\<close>,
  \<open>enrich.go\<close> and \<open>arritems.go\<close> it calls): the lookup of the stored group, the user state a group takes over, the reasons to distrust the data of a run, the stability
  count and the per-run statistics. The collection of the data (media servers, *arr applications, file
  system) is input: its results are the fields of the \<open>pipeline\<close> record. A database call of a run may fail;
  which calls fail is the field \<open>p_fails\<close>. Locks and the log are not modelled, events and history records are
  outgoing messages.
\<close>

section \<open>The state of a run\<close>

type_synonym refKey = "int \<times> string"
type_synonym arrItemKey = "int \<times> int"

datatype dbcall =
    CallGetByKey string
  | CallGet int
  | CallListByRatingKeys int "string list"
  | CallList
  | CallUpsert string
  | CallUpdateStatus int
  | CallMarkUnseen

record ignoredRef =
  ir_id :: int
  ir_title :: string

datatype ignoredIndex = IgnoredUnreadable | IgnoredIndex "string \<Rightarrow> ignoredRef list"

text \<open>What was read of an *arr item: its instance and page and, when it has queue entries, their number and summaries.\<close>

record arrItemInfo =
  ii_name :: string
  ii_kind :: string
  ii_slug :: string
  ii_queue :: "(int \<times> ArrQueueEntry list) option"

record ScanStats =
  st_groupsFound :: int
  st_newGroups :: int
  st_resolvedGroups :: int
  st_pendingGroups :: int
  st_reviewGroups :: int
  st_reclaimableBytes :: int
  st_autoApproved :: int
  st_errors :: int

record pipeline =
  p_runID :: int
  p_targeted :: bool
  p_start :: time
  p_cfg :: scanConfig
  p_stats :: ScanStats
  p_hasAutoApprove :: bool
  p_ctxErr :: "nat \<Rightarrow> bool"
  p_polls :: nat
  p_fails :: "dbcall \<Rightarrow> bool"
  p_listed :: "int list"
  p_failedLibs :: "int list"
  p_failedRKs :: "refKey list"
  p_incomplete :: "refKey \<Rightarrow> bool"
  p_stale :: "string \<rightharpoonup> string"
  p_arrFailed :: "string \<Rightarrow> string list"
  p_arrUnlookable :: "refKey \<rightharpoonup> string"
  p_busyItems :: "refKey \<Rightarrow> arrItemKey list"
  p_arrItems :: "arrItemKey \<rightharpoonup> arrItemInfo"
  p_sharedIncomplete :: "int \<rightharpoonup> string"
  p_shortcutProblems :: "int \<rightharpoonup> string"
  p_unavailable :: "refKey list"
  p_unavailableVersions :: "string list"
  p_discNearby :: "refKey \<Rightarrow> bool"
  p_sections :: "int \<Rightarrow> Section list"
  p_unreadServers :: "(int \<times> string) list"
  p_arrUnknown :: "string \<rightharpoonup> string"
  p_ignored :: "ignoredIndex option"
  p_protect :: "int list"
  p_unsafeLibs :: "int list"
  p_autoCands :: "DuplicateGroup list"
  p_crossGroups :: "int list"

abbreviation p_eval :: "pipeline \<Rightarrow> evalConfig" where "p_eval p \<equiv> sc_eval (p_cfg p)"

text \<open>\<open>p.ctx.Err()\<close>: whether the run was cancelled by the time of this check.\<close>

definition poll :: "pipeline \<Rightarrow> bool \<times> pipeline" where
  "poll p = (p_ctxErr p (p_polls p), p\<lparr>p_polls := Suc (p_polls p)\<rparr>)"

definition addError :: "pipeline \<Rightarrow> pipeline" where
  "addError p = p\<lparr>p_stats := (p_stats p)\<lparr>st_errors := st_errors (p_stats p) + 1\<rparr>\<rparr>"

definition ref_of :: "MediaVersion \<Rightarrow> refKey" where
  "ref_of v = (v_serverID v, v_ratingKey v)"

definition versions_of :: "DuplicateGroup \<Rightarrow> MediaVersion list" where
  "versions_of g = map f_version (g_files g)"

definition incompletePrefix :: string where "incompletePrefix = ''Incomplete data: ''"
definition arrUnreadableReason :: string where
  "arrUnreadableReason = ''(keep tags, tracked files and the download queue may be missing)''"
definition arrTrackingUnknownReason :: string where
  "arrTrackingUnknownReason = ''(whether an *arr tracks a version is unknown)''"
definition crossServerUnreadMarker :: string where
  "crossServerUnreadMarker = ''it may list these files''"

definition openStatuses :: "string list" where
  "openStatuses = [GroupPending, GroupReview, GroupDeferred, GroupProtected, GroupQueued, GroupFailed]"

section \<open>Keys\<close>

definition splitGroupKey :: "string \<Rightarrow> string \<times> string" where
  "splitGroupKey key = (case IndexAny key ''#~'' of Some i \<Rightarrow> (take i key, drop i key) | None \<Rightarrow> (key, []))"

definition stripDisambiguation :: "string \<Rightarrow> string" where
  "stripDisambiguation key =
     (case splitGroupKey key of
        (base, sfx) \<Rightarrow> (case DisambiguationIndex base of Some (i, _) \<Rightarrow> take i base | None \<Rightarrow> base) @ sfx)"

definition versionItemLess :: "MediaVersion \<Rightarrow> MediaVersion \<Rightarrow> bool" where
  "versionItemLess a b =
     (if v_libraryID a \<noteq> v_libraryID b then v_libraryID a < v_libraryID b
      else if v_serverID a \<noteq> v_serverID b then v_serverID a < v_serverID b
      else naturalLess (TrimSpace (v_ratingKey a)) (TrimSpace (v_ratingKey b)))"

definition serverKindIn :: "DuplicateGroup \<Rightarrow> int \<Rightarrow> string" where
  "serverKindIn g serverID =
     (case first_some (\<lambda>v. if v_serverID v \<noteq> serverID then None else KindOfVersionKey (v_key v)) (versions_of g) of
        Some k \<Rightarrow> k | None \<Rightarrow> MediaServerPlex)"

definition primary_item :: "DuplicateGroup \<Rightarrow> MediaVersion option" where
  "primary_item g =
     fold (\<lambda>v acc. if TrimSpace (v_ratingKey v) = [] then acc
                   else case acc of None \<Rightarrow> Some v | Some p \<Rightarrow> if versionItemLess v p then Some v else acc)
       (versions_of g) None"

definition disambiguatedKey :: "DuplicateGroup \<Rightarrow> string" where
  "disambiguatedKey g =
     (case splitGroupKey (g_key g) of
        (base, sfx) \<Rightarrow>
          if DisambiguationIndex base \<noteq> None then g_key g
          else case primary_item g of
                 None \<Rightarrow> g_key g
               | Some v \<Rightarrow> base @ ''@'' @ ServerItemKey (serverKindIn g (v_serverID v)) (v_serverID v)
                             (KeyItemID (v_itemKeyID v) (v_ratingKey v)) @ sfx)"

definition groupRatingKeysOf :: "DuplicateGroup \<Rightarrow> string list" where
  "groupRatingKeysOf g =
     sort (dedup (map (\<lambda>v. TrimSpace (v_ratingKey v))
       (filter (\<lambda>v. TrimSpace (v_ratingKey v) \<noteq> [] \<and>
                    \<not> (g_serverID g \<noteq> 0 \<and> v_serverID v \<noteq> 0 \<and> v_serverID v \<noteq> g_serverID g)) (versions_of g))))"

definition versionKeySet :: "DuplicateGroup \<Rightarrow> string list" where
  "versionKeySet g = map v_key (versions_of g)"

definition sameKeySet :: "string list \<Rightarrow> string list \<Rightarrow> bool" where
  "sameKeySet a b \<longleftrightarrow> set a = set b"

definition sameContent :: "DuplicateGroup \<Rightarrow> DuplicateGroup \<Rightarrow> bool" where
  "sameContent stored g \<longleftrightarrow>
     \<not> (g_serverID stored \<noteq> 0 \<and> g_serverID g \<noteq> 0 \<and> g_serverID stored \<noteq> g_serverID g) \<and>
     ((\<exists>v\<in>set (versions_of stored). \<exists>w\<in>set (versions_of g).
         v_serverID v = v_serverID w \<and> TrimSpace (v_ratingKey v) = TrimSpace (v_ratingKey w)) \<or>
      (\<exists>v\<in>set (versions_of stored). \<exists>w\<in>set (versions_of g). v_key v = v_key w \<and>
         (case KindOfVersionKey (v_key w) of Some k \<Rightarrow> \<not> IsPlex k | None \<Rightarrow> False)))"

section \<open>The user state a group takes over\<close>

record inheritance =
  inh_overrides :: "string \<rightharpoonup> string"
  inh_ignored :: "DuplicateGroup option"

definition no_inheritance :: inheritance where
  "no_inheritance = \<lparr>inh_overrides = Map.empty, inh_ignored = None\<rparr>"

definition inherit_file :: "string list \<Rightarrow> GroupFile \<Rightarrow> (string \<rightharpoonup> string) \<Rightarrow> (string \<rightharpoonup> string)" where
  "inherit_file mine f ovs =
     (if f_key f \<notin> set mine \<or> f_override f = [] then ovs
      else if ovs (f_key f) = None \<or> f_override f = DecisionKeep \<or> ovs (f_key f) = Some []
      then ovs(f_key f \<mapsto> f_override f) else ovs)"

definition inherit_from :: "DuplicateGroup \<Rightarrow> DuplicateGroup \<Rightarrow> inheritance \<Rightarrow> inheritance" where
  "inherit_from g pr inh =
     (let mine = versionKeySet g; shared = list_ex (\<lambda>f. f_key f \<in> set mine) (g_files pr) in
      if g_key pr = g_key g \<or> g_status pr = GroupResolved then inh
      else \<lparr> inh_overrides = fold (inherit_file mine) (g_files pr) (inh_overrides inh),
             inh_ignored =
               (if shared \<and> g_status pr = GroupIgnored \<and> inh_ignored inh = None \<and> sameKeySet mine (versionKeySet pr)
                then Some pr else inh_ignored inh) \<rparr>)"

definition inherit :: "DuplicateGroup \<Rightarrow> DuplicateGroup list \<Rightarrow> inheritance" where
  "inherit g preds = fold (inherit_from g) preds no_inheritance"

definition inherit_apply :: "inheritance \<Rightarrow> DuplicateGroup \<Rightarrow> DuplicateGroup" where
  "inherit_apply inh g =
     (let g1 = g\<lparr>g_files := map (\<lambda>f. case inh_overrides inh (f_key f) of
                                       Some d \<Rightarrow> if f_override f = [] then f\<lparr>f_override := d\<rparr> else f
                                     | None \<Rightarrow> f) (g_files g)\<rparr>
      in case inh_ignored inh of
           Some ig \<Rightarrow> g1\<lparr>g_status := GroupIgnored, g_statusReason := g_statusReason ig\<rparr>
         | None \<Rightarrow> g1)"

definition adopts :: "DuplicateGroup \<Rightarrow> DuplicateGroup \<Rightarrow> bool" where
  "adopts g pr \<longleftrightarrow> g_key pr \<noteq> g_key g \<and> g_status pr \<noteq> GroupResolved \<and>
     stripDisambiguation (g_key pr) = stripDisambiguation (g_key g) \<and> sameContent pr g"

definition adoptable :: "DuplicateGroup \<Rightarrow> DuplicateGroup list \<Rightarrow> DuplicateGroup option" where
  "adoptable g preds = (case filter (adopts g) preds of [pr] \<Rightarrow> Some pr | _ \<Rightarrow> None)"

text \<open>The last of several stored files with a version key is the one a Go map keeps.\<close>

definition stored_overrides :: "DuplicateGroup \<Rightarrow> string \<rightharpoonup> string" where
  "stored_overrides g = fold (\<lambda>f m. if f_override f \<noteq> [] then m(f_key f \<mapsto> f_override f) else m) (g_files g) Map.empty"

definition carryOver :: "DuplicateGroup \<Rightarrow> DuplicateGroup option \<Rightarrow> DuplicateGroup" where
  "carryOver g existing =
     (case existing of
        None \<Rightarrow> g
      | Some x \<Rightarrow>
          let g1 = g\<lparr>g_id := g_id x, g_firstSeenAt := g_firstSeenAt x,
                     g_files := map (\<lambda>f. case stored_overrides x (f_key f) of Some d \<Rightarrow> f\<lparr>f_override := d\<rparr> | None \<Rightarrow> f) (g_files g)\<rparr>
          in if g_status x = GroupIgnored \<or> g_status x = GroupQueued
             then g1\<lparr>g_status := g_status x, g_statusReason := g_statusReason x\<rparr> else g1)"

datatype lookup = LookupFailed "DuplicateGroup option" | LookupSkip | LookupStored "DuplicateGroup option" inheritance

definition get_by_key :: "pipeline \<Rightarrow> string \<Rightarrow> db \<Rightarrow> DuplicateGroup option option" where
  "get_by_key p key d = (if p_fails p (CallGetByKey key) then None else Some (GetByKey key d))"

text \<open>A stored group that is not resolved and belongs to other content.\<close>

definition stray :: "DuplicateGroup option \<Rightarrow> DuplicateGroup \<Rightarrow> bool" where
  "stray existing g \<longleftrightarrow> (case existing of Some x \<Rightarrow> g_status x \<noteq> GroupResolved \<and> \<not> sameContent x g | None \<Rightarrow> False)"

definition open_group :: "DuplicateGroup option \<Rightarrow> bool" where
  "open_group existing \<longleftrightarrow> (case existing of Some x \<Rightarrow> g_status x \<noteq> GroupResolved | None \<Rightarrow> False)"

definition lookup_rest :: "pipeline \<Rightarrow> DuplicateGroup \<Rightarrow> DuplicateGroup option \<Rightarrow> db \<Rightarrow> DuplicateGroup \<times> lookup" where
  "lookup_rest p g existing d =
     (if open_group existing then (g, LookupStored existing no_inheritance)
      else if p_fails p (CallListByRatingKeys (g_serverID g) (groupRatingKeysOf g)) then (g, LookupFailed existing)
      else let preds = ListByRatingKeys (g_serverID g) (groupRatingKeysOf g) d
           in case adoptable g preds of
                Some a \<Rightarrow> if keyExcluded (p_cfg p) (g_key a) then (g, LookupSkip)
                          else (g\<lparr>g_key := g_key a\<rparr>, LookupStored (Some a) no_inheritance)
              | None \<Rightarrow> (g, LookupStored existing (inherit g preds)))"

definition lookupStored :: "pipeline \<Rightarrow> DuplicateGroup \<Rightarrow> db \<Rightarrow> DuplicateGroup \<times> lookup" where
  "lookupStored p g d =
     (case get_by_key p (g_key g) d of
        None \<Rightarrow> (g, LookupFailed None)
      | Some existing \<Rightarrow>
          if \<not> stray existing g then lookup_rest p g existing d
          else let alt = disambiguatedKey g; g1 = g\<lparr>g_key := alt\<rparr> in
               if alt = g_key g then (g, LookupFailed existing)
               else case get_by_key p alt d of
                      None \<Rightarrow> (g1, LookupFailed None)
                    | Some existing1 \<Rightarrow>
                        if stray existing1 g1 then (g1, LookupFailed existing1) else lookup_rest p g1 existing1 d)"

section \<open>Ignored groups\<close>

definition displayTitle :: "DuplicateGroup \<Rightarrow> string" where
  "displayTitle g =
     (if g_mediaType g = MediaTypeEpisode \<and> g_showTitle g \<noteq> [] then
        g_showTitle g @ '' - '' @ EpisodeLabel (g_season g) (g_episode g) @
          (if g_title g \<noteq> [] then '' - '' @ g_title g else [])
      else if g_title g \<noteq> [] \<and> g_year g > 0 then g_title g @ '' ('' @ Itoa (g_year g) @ '')''
      else if g_title g \<noteq> [] then g_title g
      else g_key g)"

definition newIgnoredIndex :: "DuplicateGroup list \<Rightarrow> ignoredIndex" where
  "newIgnoredIndex gs =
     IgnoredIndex (\<lambda>k. concat (map (\<lambda>g. if g_status g \<noteq> GroupIgnored then []
        else map (\<lambda>f. \<lparr>ir_id = g_id g, ir_title = displayTitle g\<rparr>) (filter (\<lambda>f. f_key f = k) (g_files g))) gs))"

definition overlap_reason :: "string \<Rightarrow> string" where
  "overlap_reason title = ''Some of these versions belong to '' @ Quote title @ '', which is ignored '' @ emdash @
     '' review this group before acting on it''"

definition ignored_overlap :: "ignoredIndex option \<Rightarrow> DuplicateGroup \<Rightarrow> string" where
  "ignored_overlap idx g =
     (case idx of
        Some (IgnoredIndex byVersion) \<Rightarrow>
          (case find (\<lambda>r. ir_id r \<noteq> g_id g) (concat (map (\<lambda>v. byVersion (v_key v)) (versions_of g))) of
             Some r \<Rightarrow> overlap_reason (ir_title r) | None \<Rightarrow> [])
      | _ \<Rightarrow> [])"

text \<open>All groups of the given statuses, whatever the pages of the repository are.\<close>

definition listGroups :: "string list \<Rightarrow> (DuplicateGroup \<Rightarrow> bool) \<Rightarrow> db \<Rightarrow> DuplicateGroup list" where
  "listGroups statuses filt d = filter (\<lambda>g. g_status g \<in> set statuses \<and> filt g) (map load (db_groups d))"

definition loadIgnored :: "pipeline \<Rightarrow> db \<Rightarrow> pipeline" where
  "loadIgnored p d =
     (if p_fails p CallList then (addError p)\<lparr>p_ignored := Some IgnoredUnreadable\<rparr>
      else p\<lparr>p_ignored := Some (newIgnoredIndex (listGroups [GroupIgnored] (\<lambda>_. True) d))\<rparr>)"

section \<open>Incomplete data\<close>

definition unreadAffects :: "pipeline \<Rightarrow> DuplicateGroup \<Rightarrow> int \<Rightarrow> bool" where
  "unreadAffects p g sid \<longleftrightarrow>
     \<not> sc_separate (p_cfg p) sid \<or>
     (let folders = serverFolders (p_cfg p) (p_sections p) sid in
      list_ex (\<lambda>v. list_ex (\<lambda>pt. sharedKey (p_localPath pt) \<noteq> [] \<and>
                                 list_ex (pathWithin (sharedKey (p_localPath pt))) folders) (v_parts v)) (versions_of g))"

definition server_label :: "scanConfig \<Rightarrow> int \<Rightarrow> string" where
  "server_label c sid = (case server_at (sc_servers c) sid of Some s \<Rightarrow> ms_name s | None \<Rightarrow> ''#'' @ Itoa sid)"

definition unread_reason :: "scanConfig \<Rightarrow> int \<times> string \<Rightarrow> string" where
  "unread_reason c u = ''could not read the media server '' @ Quote (server_label c (fst u)) @ '' ('' @ snd u @ ''); '' @
     crossServerUnreadMarker"

definition sorted_unread :: "pipeline \<Rightarrow> (int \<times> string) list" where
  "sorted_unread p = sort_by (\<lambda>a b. fst a < fst b) (p_unreadServers p)"

definition crossServerReasons :: "pipeline \<Rightarrow> DuplicateGroup \<Rightarrow> string list" where
  "crossServerReasons p g =
     (if \<not> sc_multi (p_cfg p) then []
      else fold (\<lambda>v out. case p_arrUnknown p (v_key v) of Some r \<Rightarrow> add_new r out | None \<Rightarrow> out) (versions_of g)
             (map (unread_reason (p_cfg p))
                (filter (\<lambda>u. fst u \<noteq> g_serverID g \<and> unreadAffects p g (fst u)) (sorted_unread p))))"

definition unloaded_reason :: string where
  "unloaded_reason = ''some versions of this title could not be loaded from the media server''"

definition library_reasons :: "pipeline \<Rightarrow> int \<Rightarrow> string list" where
  "library_reasons p i =
     (case p_sharedIncomplete p i of
        Some other \<Rightarrow> [''the library '' @ Quote other @ '', whose folders overlap this one, could not be listed (files shared with it cannot be detected)'']
      | None \<Rightarrow> []) @
     (case p_shortcutProblems p i of Some why \<Rightarrow> [why @ '' (the file it points to cannot be protected)''] | None \<Rightarrow> [])"

definition all_reasons :: "pipeline \<Rightarrow> DuplicateGroup \<Rightarrow> string list" where
  "all_reasons p g =
     (if p_ignored p = Some IgnoredUnreadable then [''could not check the ignored duplicate groups''] else []) @
     (if p_arrFailed p (g_mediaType g) \<noteq> []
      then [''could not read '' @ Join (p_arrFailed p (g_mediaType g)) '', '' @ '' '' @ arrUnreadableReason] else []) @
     (if list_ex (\<lambda>v. p_incomplete p (ref_of v)) (versions_of g) then [unloaded_reason] else []) @
     List.map_filter (\<lambda>v. p_arrUnlookable p (ref_of v)) (versions_of g) @
     concat (map (library_reasons p) (library_ids g)) @
     List.map_filter (\<lambda>v. p_stale p (v_key v)) (versions_of g) @
     crossServerReasons p g"

definition incompleteReasons :: "pipeline \<Rightarrow> DuplicateGroup \<Rightarrow> string list" where
  "incompleteReasons p g = dedup (all_reasons p g)"

definition crossIncomplete :: "string \<Rightarrow> bool" where
  "crossIncomplete reason \<longleftrightarrow> HasPrefix reason incompletePrefix \<and>
     (Contains reason crossServerUnreadMarker \<or> Contains reason arrTrackingUnknownReason)"

definition CrossServerDataMissing :: "DuplicateGroup option \<Rightarrow> bool" where
  "CrossServerDataMissing g0 \<longleftrightarrow>
     (case g0 of
        None \<Rightarrow> False
      | Some g \<Rightarrow> g_status g = GroupReview \<and>
          (HasFlag g FlagOtherServerUnread \<or>
           HasPrefix (g_statusReason g) incompletePrefix \<and> Contains (g_statusReason g) crossServerUnreadMarker))"

definition ArrTrackingUnknown :: "DuplicateGroup option \<Rightarrow> bool" where
  "ArrTrackingUnknown g0 \<longleftrightarrow>
     (case g0 of
        None \<Rightarrow> False
      | Some g \<Rightarrow> g_status g = GroupReview \<and> HasPrefix (g_statusReason g) incompletePrefix \<and>
          Contains (g_statusReason g) arrTrackingUnknownReason)"

definition ArrDataMissing :: "DuplicateGroup option \<Rightarrow> bool" where
  "ArrDataMissing g0 \<longleftrightarrow>
     (case g0 of
        None \<Rightarrow> False
      | Some g \<Rightarrow> g_status g = GroupReview \<and> HasPrefix (g_statusReason g) incompletePrefix \<and>
          Contains (g_statusReason g) arrUnreadableReason)"

section \<open>Approvals and stability\<close>

definition keptKeys :: "DuplicateGroup \<Rightarrow> string list" where
  "keptKeys g = map f_key (filter (\<lambda>f. f_decision f = DecisionKeep) (g_files g))"

definition stale_approval_reason :: "string \<Rightarrow> string" where
  "stale_approval_reason k = ''The approved removals no longer hold: version '' @ k @
     '', which the approval kept, is no longer kept; review the duplicate and approve it again''"

definition dropStaleApproval :: "DuplicateGroup \<Rightarrow> string list \<Rightarrow> DuplicateGroup" where
  "dropStaleApproval g approvedKeepers =
     (if g_status g \<noteq> GroupQueued \<or> approvedKeepers = [] then g
      else case find (\<lambda>k. k \<notin> set (keptKeys g)) approvedKeepers of
             Some k \<Rightarrow> g\<lparr>g_status := GroupReview, g_statusReason := stale_approval_reason k\<rparr>
           | None \<Rightarrow> g)"

definition forceReview :: "DuplicateGroup \<Rightarrow> string \<Rightarrow> DuplicateGroup" where
  "forceReview g reason =
     (if g_status g \<in> {GroupPending, GroupDeferred, GroupQueued}
      then g\<lparr>g_status := GroupReview, g_statusReason := reason\<rparr> else g)"

definition stableCount :: "DuplicateGroup option \<Rightarrow> string \<Rightarrow> bool \<Rightarrow> int" where
  "stableCount existing sig targeted =
     (case existing of
        None \<Rightarrow> 1
      | Some x \<Rightarrow>
          if g_status x = GroupResolved \<or> g_signature x = [] \<or> g_signature x \<noteq> sig then 1
          else if targeted then max (g_stableCount x) 1
          else g_stableCount x + 1)"

section \<open>Storing one group\<close>

definition groupFailed :: "pipeline \<Rightarrow> DuplicateGroup \<Rightarrow> DuplicateGroup option \<Rightarrow> bool \<Rightarrow> pipeline" where
  "groupFailed p g existing lookupFailed =
     (let p1 = addError p;
          p2 = (case existing of
                  Some x \<Rightarrow> if g_id x > 0 then p1\<lparr>p_protect := add_new (g_id x) (p_protect p1)\<rparr> else p1
                | None \<Rightarrow> p1)
      in if lookupFailed then p2\<lparr>p_unsafeLibs := fold add_new (library_ids g) (p_unsafeLibs p2)\<rparr> else p2)"

definition counts_reclaimable :: "string \<Rightarrow> bool" where
  "counts_reclaimable s \<longleftrightarrow> s \<in> {GroupPending, GroupReview, GroupDeferred, GroupQueued, GroupFailed}"

definition countGroup :: "DuplicateGroup \<Rightarrow> ScanStats \<Rightarrow> ScanStats" where
  "countGroup g st =
     st\<lparr>st_groupsFound := st_groupsFound st + 1,
        st_pendingGroups := st_pendingGroups st + (if g_status g = GroupPending then 1 else 0),
        st_reviewGroups := st_reviewGroups st + (if g_status g = GroupReview then 1 else 0),
        st_reclaimableBytes :=
          st_reclaimableBytes st + (if counts_reclaimable (g_status g) then g_reclaimableBytes g else 0)\<rparr>"

definition removalCount :: "DuplicateGroup \<Rightarrow> int" where
  "removalCount g = int (length (filter (\<lambda>f. f_decision f = DecisionRemove \<and> \<not> f_protected f) (g_files g)))"

definition removesDisc :: "DuplicateGroup \<Rightarrow> bool" where
  "removesDisc g \<longleftrightarrow> list_ex (\<lambda>f. f_decision f = DecisionRemove \<and> v_disc (f_version f) \<noteq> None) (g_files g)"

definition hasOtherServers :: "DuplicateGroup \<Rightarrow> bool" where
  "hasOtherServers g \<longleftrightarrow> list_ex (\<lambda>v. v_otherServers v \<noteq> []) (versions_of g)"

definition required_scans :: "Settings \<Rightarrow> int" where
  "required_scans st =
     (if s_StableScansRequired st \<le> 0 then s_StableScansRequired DefaultSettings else s_StableScansRequired st)"

definition autoEligible :: "pipeline \<Rightarrow> DuplicateGroup \<Rightarrow> bool" where
  "autoEligible p g \<longleftrightarrow>
     (let st = c_settings (p_eval p) in
      s_Mode st = ModeAuto \<and> p_hasAutoApprove p \<and> g_id g > 0 \<and> g_status g = GroupPending \<and>
      required_scans st \<le> g_stableCount g \<and> \<not> list_ex BlocksAutoApproval (g_flags g) \<and>
      \<not> removesDisc g \<and> removalCount g > 0)"

text \<open>The status after the evaluation: incomplete data and overlaps with ignored groups send the group to review.\<close>

definition distrust :: "pipeline \<Rightarrow> DuplicateGroup \<Rightarrow> DuplicateGroup" where
  "distrust p g =
     (let incomplete = incompleteReasons p g;
          reason = incompletePrefix @ Join incomplete ''; '' @ '' '' @ emdash @ '' re-scan once this is fixed'';
          g1 = forceReview g reason;
          overlap = ignored_overlap (p_ignored p) g
      in if incomplete \<noteq> [] then
           (if g_status g1 = GroupReview \<and> crossIncomplete reason then g1\<lparr>g_statusReason := reason\<rparr> else g1)
         else if overlap \<noteq> [] \<and> g_status g \<noteq> GroupQueued then forceReview g overlap
         else g)"

definition recheck_approval :: "DuplicateGroup option \<Rightarrow> DuplicateGroup \<Rightarrow> DuplicateGroup" where
  "recheck_approval existing g =
     (case existing of
        Some x \<Rightarrow> if g_status x = GroupQueued then dropStaleApproval g (keptKeys x) else g
      | None \<Rightarrow> g)"

definition scan_stable :: "pipeline \<Rightarrow> DuplicateGroup option \<Rightarrow> DuplicateGroup \<Rightarrow> DuplicateGroup \<Rightarrow> int" where
  "scan_stable p existing ev g =
     (if incompleteReasons p ev \<noteq> [] \<or> HasFlag g FlagWatchUnreadable then 0
      else stableCount existing (g_signature g) (p_targeted p))"

text \<open>The group as a scan hands it to the store.\<close>

definition scanned :: "pipeline \<Rightarrow> time \<Rightarrow> DuplicateGroup option \<Rightarrow> DuplicateGroup \<Rightarrow> DuplicateGroup" where
  "scanned p now existing g =
     (let g1 = recheck_approval existing (distrust p g)
      in g1\<lparr>g_stableCount := scan_stable p existing g g1, g_lastScanID := p_runID p, g_lastSeenAt := now\<rparr>)"

definition note_stored :: "DuplicateGroup \<Rightarrow> bool \<Rightarrow> pipeline \<Rightarrow> pipeline" where
  "note_stored g created p =
     (let st = countGroup g (p_stats p);
          st1 = (if created then st\<lparr>st_newGroups := st_newGroups st + 1\<rparr> else st);
          p1 = p\<lparr>p_stats := st1\<rparr>;
          p2 = (if sc_multi (p_cfg p) \<and> hasOtherServers g then p1\<lparr>p_crossGroups := p_crossGroups p1 @ [g_id g]\<rparr> else p1)
      in if autoEligible p2 g then p2\<lparr>p_autoCands := p_autoCands p2 @ [g]\<rparr> else p2)"

definition persistGroup :: "golib \<Rightarrow> time \<Rightarrow> DuplicateGroup \<Rightarrow> pipeline \<times> db \<Rightarrow> pipeline \<times> db" where
  "persistGroup lib now g0 st =
     (let (p, d) = st in
      case lookupStored p g0 d of
        (g, LookupFailed existing) \<Rightarrow> (groupFailed p g existing True, d)
      | (g, LookupSkip) \<Rightarrow> (p, d)
      | (g, LookupStored existing inh) \<Rightarrow>
          let g1 = inherit_apply inh (carryOver g existing) in
          case Evaluate lib (Some g1) (profileFor (p_eval p) g1) (evalEnv (p_eval p) (p_start p)) of
            Inl _ \<Rightarrow> (groupFailed p g1 existing False, d)
          | Inr g2 \<Rightarrow>
              let g3 = scanned p now existing g2 in
              if p_fails p (CallUpsert (g_key g3)) then (groupFailed p g3 existing False, d)
              else case Upsert now g3 d of
                     (d1, Inl _) \<Rightarrow> (groupFailed p g3 existing False, d1)
                   | (d1, Inr (g4, created)) \<Rightarrow> (note_stored g4 created p, d1))"

end
