(* ===== verification/ScanRun.thy ===== *)
theory ScanRun
  imports ScanPersist
begin

text \<open>
  The end of a scan run: storing every group (\<open>persistGroups\<close>), keeping the groups of unavailable files
  (\<open>internal/scanner/unavailable.go\<close>), resolving the groups that disappeared (\<open>resolveFull\<close>,
  \<open>resolveTargeted\<close>), the decisions of the other servers (\<open>markOtherServerKeeps\<close>), automatic approval and
  the re-evaluation of stored groups (\<open>internal/scanner/maintenance.go\<close>). The executor's approval that
  automatic mode calls is an argument, \<open>approve\<close>. The summaries of queue entries are the ones
  \<open>queueEntryModel\<close> made.
\<close>

section \<open>Storing the groups of a run\<close>

type_synonym queueState = "int \<Rightarrow> int \<Rightarrow> bool"

definition queue_busy :: "queueState \<Rightarrow> ArrFileInfo option \<Rightarrow> bool" where
  "queue_busy q a \<longleftrightarrow> (case a of Some i \<Rightarrow> a_itemID i > 0 \<and> q (a_instanceID i) (a_itemID i) | None \<Rightarrow> False)"

definition version_item_keys :: "pipeline \<Rightarrow> MediaVersion \<Rightarrow> arrItemKey list" where
  "version_item_keys p v =
     (case v_arr v of Some a \<Rightarrow> [(a_instanceID a, a_itemID a)] | None \<Rightarrow> []) @ p_busyItems p (ref_of v)"

definition arr_fallback :: "DuplicateGroup \<Rightarrow> arrItemKey \<Rightarrow> ArrFileInfo option" where
  "arr_fallback g k = first_some (\<lambda>v. case v_arr v of
     Some a \<Rightarrow> if (a_instanceID a, a_itemID a) = k then Some a else None | None \<Rightarrow> None) (versions_of g)"

definition arr_item_ref :: "pipeline \<Rightarrow> DuplicateGroup \<Rightarrow> arrItemKey \<Rightarrow> ArrItemRef" where
  "arr_item_ref p g k =
     (let ref = \<lparr>ai_instanceID = fst k,
            ai_instanceName = (case arr_fallback g k of Some a \<Rightarrow> a_instanceName a | None \<Rightarrow> []),
            ai_kind = (case arr_fallback g k of Some a \<Rightarrow> a_kind a | None \<Rightarrow> []),
            ai_itemID = snd k, ai_titleSlug = [], ai_queueCount = 0, ai_queue = []\<rparr>
      in case p_arrItems p k of
           None \<Rightarrow> ref
         | Some info \<Rightarrow>
             ref\<lparr>ai_instanceName := ii_name info, ai_kind := ii_kind info, ai_titleSlug := ii_slug info,
                 ai_queueCount := (case ii_queue info of Some (n, _) \<Rightarrow> n | None \<Rightarrow> 0),
                 ai_queue := (case ii_queue info of Some (_, es) \<Rightarrow> es | None \<Rightarrow> [])\<rparr>)"

definition groupArrItems :: "pipeline \<Rightarrow> DuplicateGroup \<Rightarrow> ArrItemRef list" where
  "groupArrItems p g =
     (let keys = dedup (filter (\<lambda>k. fst k > 0 \<and> snd k > 0) (concat (map (version_item_keys p) (versions_of g))))
      in if keys = [] then []
         else SanitizeArrItems (map (arr_item_ref p g)
                (sort_by (\<lambda>a b. fst a < fst b \<or> fst a = fst b \<and> snd a < snd b) keys)))"

text \<open>The flags and *arr items a group gets before it is evaluated.\<close>

definition prepare_group :: "pipeline \<Rightarrow> queueState \<Rightarrow> DuplicateGroup \<Rightarrow> DuplicateGroup" where
  "prepare_group p busy g =
     (let g1 = (if list_ex (\<lambda>v. queue_busy busy (v_arr v) \<or> p_busyItems p (ref_of v) \<noteq> []) (versions_of g)
                then g\<lparr>g_flags := g_flags g @ [FlagArrQueueBusy]\<rparr> else g);
          g2 = g1\<lparr>g_arrItems := groupArrItems p g1\<rparr>
      in if list_ex (\<lambda>v. p_discNearby p (ref_of v)) (versions_of g2) \<and> FlagFullDisc \<notin> set (g_flags g2)
         then g2\<lparr>g_flags := g_flags g2 @ [FlagFullDisc]\<rparr> else g2)"

fun persist_loop :: "golib \<Rightarrow> time \<Rightarrow> queueState \<Rightarrow> DuplicateGroup list \<Rightarrow> pipeline \<times> db \<Rightarrow> pipeline \<times> db" where
  "persist_loop lib now busy [] st = st"
| "persist_loop lib now busy (g # gs) (p, d) =
     (let (cancelled, p1) = poll p in
      if cancelled then (p1, d)
      else persist_loop lib now busy gs (persistGroup lib now (prepare_group p1 busy g) (p1, d)))"

definition persistGroups :: "golib \<Rightarrow> time \<Rightarrow> DuplicateGroup list \<Rightarrow> queueState \<Rightarrow> pipeline \<times> db \<Rightarrow> pipeline \<times> db" where
  "persistGroups lib now groups busy st =
     (if groups = [] then st else persist_loop lib now busy groups (loadIgnored (fst st) (snd st), snd st))"

section \<open>Unavailable files\<close>

definition unavailableReason :: string where
  "unavailableReason = ''Some files are unavailable '' @ emdash @ '' check your mounts''"

definition groupRatingKeys :: "refKey list \<Rightarrow> (int \<times> string list) list" where
  "groupRatingKeys ks =
     map (\<lambda>s. (s, sort (map snd (filter (\<lambda>k. fst k = s) ks)))) (sort (dedup (map fst ks)))"

definition partMissing :: "MediaVersion \<Rightarrow> bool" where
  "partMissing v \<longleftrightarrow> list_ex (\<lambda>pt. p_exists pt = Some False) (v_parts v)"

definition note_unavailable_version :: "MediaItem \<Rightarrow> MediaVersion \<Rightarrow> pipeline \<Rightarrow> pipeline" where
  "note_unavailable_version it v p =
     (let rk = TrimSpace (it_ratingKey it);
          p1 = (if v_key v = [] \<and> partMissing v
                then p\<lparr>p_unavailableVersions := add_new (''rk:'' @ rk) (p_unavailableVersions p)\<rparr> else p)
      in if (v_key v \<noteq> [] \<and> v_key v \<in> set (p_unavailableVersions p1)) \<or> (v_key v = [] \<and> partMissing v)
         then p1\<lparr>p_unavailable := add_new (it_serverID it, rk) (p_unavailable p1)\<rparr> else p1)"

definition noteUnavailable :: "MediaItem list \<Rightarrow> pipeline \<Rightarrow> pipeline" where
  "noteUnavailable items p =
     fold (\<lambda>it p. if TrimSpace (it_ratingKey it) = [] then p
                  else fold (note_unavailable_version it) (it_versions it) p) items p"

definition holdsUnavailable :: "pipeline \<Rightarrow> DuplicateGroup \<Rightarrow> bool" where
  "holdsUnavailable p g \<longleftrightarrow>
     list_ex (\<lambda>v. v_key v \<in> set (p_unavailableVersions p) \<or>
                  (v_serverID v = g_serverID g \<and> ''rk:'' @ TrimSpace (v_ratingKey v) \<in> set (p_unavailableVersions p)))
       (versions_of g)"

definition closed_for :: "pipeline \<Rightarrow> DuplicateGroup \<Rightarrow> bool" where
  "closed_for p g \<longleftrightarrow> g_status g = GroupIgnored \<or> g_status g = GroupResolved \<or> g_lastScanID g = p_runID p"

definition unavailable_group :: "pipeline \<Rightarrow> DuplicateGroup \<Rightarrow> DuplicateGroup" where
  "unavailable_group p g =
     g\<lparr>g_lastScanID := p_runID p,
       g_flags := (if HasFlag g FlagUnavailableVersion then g_flags g else g_flags g @ [FlagUnavailableVersion]),
       g_statusReason := (if g_status g = GroupReview \<and> HasPrefix (g_statusReason g) incompletePrefix
                          then g_statusReason g else unavailableReason)\<rparr>"

definition protect_group :: "int \<Rightarrow> pipeline \<Rightarrow> pipeline" where
  "protect_group i p = p\<lparr>p_protect := add_new i (p_protect p)\<rparr>"

definition unsafe_libs :: "DuplicateGroup \<Rightarrow> pipeline \<Rightarrow> pipeline" where
  "unsafe_libs g p = p\<lparr>p_unsafeLibs := fold add_new (library_ids g) (p_unsafeLibs p)\<rparr>"

definition markUnavailable :: "time \<Rightarrow> int \<Rightarrow> pipeline \<times> db \<Rightarrow> pipeline \<times> db" where
  "markUnavailable now i st =
     (let (p, d) = st in
      if p_fails p (CallGet i) then (protect_group i (addError p), d)
      else case Get i d of
        None \<Rightarrow> (p, d)
      | Some g \<Rightarrow>
          if closed_for p g then (p, d)
          else let g1 = unavailable_group p g; p1 = protect_group i p in
               if p_fails p (CallUpsert (g_key g1)) then (unsafe_libs g1 (addError p1), d)
               else case Upsert now g1 d of
                      (d1, Inl _) \<Rightarrow> (unsafe_libs g1 (addError p1), d1)
                    | (d1, Inr _) \<Rightarrow> (p1, d1))"

fun mark_each :: "time \<Rightarrow> DuplicateGroup list \<Rightarrow> pipeline \<times> db \<Rightarrow> pipeline \<times> db" where
  "mark_each now [] st = st"
| "mark_each now (g # gs) (p, d) =
     mark_each now gs (if closed_for p g \<or> \<not> holdsUnavailable p g then (p, d) else markUnavailable now (g_id g) (p, d))"

fun keep_unavailable :: "time \<Rightarrow> (int \<times> string list) list \<Rightarrow> pipeline \<times> db \<Rightarrow> pipeline \<times> db" where
  "keep_unavailable now [] st = st"
| "keep_unavailable now ((server, rks) # rest) (p, d) =
     (let (cancelled, p1) = poll p in
      if cancelled then (p1, d)
      else if p_fails p1 (CallListByRatingKeys server rks)
      then keep_unavailable now rest
             ((addError p1)\<lparr>p_failedRKs := fold add_new (map (Pair server) rks) (p_failedRKs p1)\<rparr>, d)
      else keep_unavailable now rest (mark_each now (ListByRatingKeys server rks d) (p1, d)))"

definition keepUnavailable :: "time \<Rightarrow> pipeline \<times> db \<Rightarrow> pipeline \<times> db" where
  "keepUnavailable now st = keep_unavailable now (groupRatingKeys (p_unavailable (fst st))) st"

section \<open>Resolution after a full scan\<close>

definition resolve_set :: "pipeline \<Rightarrow> int list" where
  "resolve_set p = filter (\<lambda>i. i \<notin> set (p_unsafeLibs p)) (p_listed p)"

text \<open>The stored groups that depend on something that failed in this run; \<open>None\<close> when they cannot be determined.\<close>

definition dependents :: "pipeline \<Rightarrow> db \<Rightarrow> DuplicateGroup list option" where
  "dependents p d =
     (if p_failedLibs p \<noteq> [] \<and> p_fails p CallList then None
      else if list_ex (\<lambda>(s, rks). p_fails p (CallListByRatingKeys s rks)) (groupRatingKeys (p_failedRKs p)) then None
      else if list_ex (\<lambda>i. p_fails p (CallGet i)) (p_protect p) then None
      else Some (filter (\<lambda>g. g_status g \<noteq> GroupIgnored \<and> g_status g \<noteq> GroupResolved)
             (concat (map (\<lambda>i. listGroups openStatuses (\<lambda>g. i \<in> set (library_ids g)) d) (sort (p_failedLibs p))) @
              concat (map (\<lambda>(s, rks). ListByRatingKeys s rks d) (groupRatingKeys (p_failedRKs p))) @
              List.map_filter (\<lambda>i. Get i d) (sort (p_protect p)))))"

definition touch :: "time \<Rightarrow> int \<Rightarrow> pipeline \<Rightarrow> db \<Rightarrow> bool \<times> db" where
  "touch now i p d =
     (if p_fails p (CallGet i) then (False, d)
      else case Get i d of
        None \<Rightarrow> (True, d)
      | Some g \<Rightarrow>
          if closed_for p g then (True, d)
          else if p_fails p (CallUpsert (g_key g)) then (False, d)
          else case Upsert now (g\<lparr>g_lastScanID := p_runID p\<rparr>) d of
                 (d1, Inl _) \<Rightarrow> (False, d1)
               | (d1, Inr _) \<Rightarrow> (True, d1))"

definition intersectsIDs :: "int list \<Rightarrow> int list \<Rightarrow> bool" where
  "intersectsIDs ids s \<longleftrightarrow> list_ex (\<lambda>i. i \<in> set s) ids"

fun touch_each :: "time \<Rightarrow> int list \<Rightarrow> DuplicateGroup list \<Rightarrow> pipeline \<times> db \<Rightarrow> pipeline \<times> db" where
  "touch_each now libs [] st = st"
| "touch_each now libs (g # gs) (p, d) =
     touch_each now libs gs
       (if g_lastScanID g = p_runID p \<or> \<not> intersectsIDs (library_ids g) libs then (p, d)
        else let (ok, d1) = touch now (g_id g) p d
             in (if ok then p else unsafe_libs g (addError p), d1))"

definition by_id :: "DuplicateGroup list \<Rightarrow> DuplicateGroup list" where
  "by_id gs = List.map_filter (\<lambda>i. find (\<lambda>g. g_id g = i) gs) (sort (dedup (map g_id gs)))"

definition resolveFull :: "time \<Rightarrow> pipeline \<times> db \<Rightarrow> pipeline \<times> db" where
  "resolveFull now st =
     (let (p, d) = st in
      if resolve_set p = [] then (p, d)
      else case dependents p d of
        None \<Rightarrow> (addError p, d)
      | Some keep \<Rightarrow>
          let (p1, d1) = touch_each now (resolve_set p) (by_id keep) (p, d);
              libs = sort (resolve_set p1);
              (cancelled, p2) = poll p1
          in if libs = [] then (p1, d1)
             else if cancelled then (p2, d1)
             else if p_fails p2 CallMarkUnseen then (addError p2, d1)
             else case MarkUnseenResolved now (p_runID p2) libs d1 of
                    (d2, Inl _) \<Rightarrow> (addError p2, d2)
                  | (d2, Inr ids) \<Rightarrow>
                      (p2\<lparr>p_stats := (p_stats p2)\<lparr>st_resolvedGroups := st_resolvedGroups (p_stats p2) + int (length ids)\<rparr>\<rparr>, d2))"

section \<open>Resolution after a targeted scan\<close>

definition targetedResolvedReason :: string where
  "targetedResolvedReason = ''No longer detected as a duplicate (targeted scan)''"

definition allExamined :: "DuplicateGroup \<Rightarrow> (refKey \<Rightarrow> bool) \<Rightarrow> bool" where
  "allExamined g examined \<longleftrightarrow> list_all (\<lambda>v. examined (ref_of v)) (versions_of g)"

definition dependsOnFailure :: "pipeline \<Rightarrow> DuplicateGroup \<Rightarrow> bool" where
  "dependsOnFailure p g \<longleftrightarrow>
     list_ex (\<lambda>i. i \<in> set (p_failedLibs p) \<or> i \<in> set (p_unsafeLibs p)) (library_ids g) \<or>
     list_ex (\<lambda>v. ref_of v \<in> set (p_failedRKs p) \<or> p_incomplete p (ref_of v)) (versions_of g)"

definition resolveOne :: "time \<Rightarrow> int \<Rightarrow> pipeline \<times> db \<Rightarrow> bool \<times> pipeline \<times> db" where
  "resolveOne now i st =
     (let (p, d) = st in
      if p_fails p (CallGet i) then (False, addError p, d)
      else case Get i d of
        None \<Rightarrow> (False, p, d)
      | Some g \<Rightarrow>
          if closed_for p g then (False, p, d)
          else if p_fails p (CallUpdateStatus i) then (False, addError p, d)
          else case UpdateStatus now i GroupResolved targetedResolvedReason d of
                 (d1, Inl _) \<Rightarrow> (False, addError p, d1)
               | (d1, Inr _) \<Rightarrow> (True, p, d1))"

fun resolve_each :: "time \<Rightarrow> (refKey \<Rightarrow> bool) \<Rightarrow> DuplicateGroup list \<Rightarrow> pipeline \<times> db \<Rightarrow> pipeline \<times> db" where
  "resolve_each now examined [] st = st"
| "resolve_each now examined (g # gs) (p, d) =
     resolve_each now examined gs
       (if closed_for p g \<or> g_id g \<in> set (p_protect p) \<or> dependsOnFailure p g \<or> \<not> allExamined g examined then (p, d)
        else let (resolved, p1, d1) = resolveOne now (g_id g) (p, d)
             in (if resolved then p1\<lparr>p_stats := (p_stats p1)\<lparr>st_resolvedGroups := st_resolvedGroups (p_stats p1) + 1\<rparr>\<rparr> else p1, d1))"

fun resolve_servers :: "time \<Rightarrow> (refKey \<Rightarrow> bool) \<Rightarrow> (int \<times> string list) list \<Rightarrow> pipeline \<times> db \<Rightarrow> pipeline \<times> db" where
  "resolve_servers now examined [] st = st"
| "resolve_servers now examined ((server, rks) # rest) (p, d) =
     (if p_fails p (CallListByRatingKeys server rks) then (addError p, d)
      else resolve_servers now examined rest (resolve_each now examined (ListByRatingKeys server rks d) (p, d)))"

definition resolveTargeted :: "time \<Rightarrow> refKey list \<Rightarrow> (refKey \<Rightarrow> bool) \<Rightarrow> pipeline \<times> db \<Rightarrow> pipeline \<times> db" where
  "resolveTargeted now keys examined st = resolve_servers now examined (groupRatingKeys keys) st"

section \<open>Re-evaluation\<close>

definition holdBack :: "DuplicateGroup \<Rightarrow> string \<Rightarrow> DuplicateGroup" where
  "holdBack g reason =
     (if g_status g \<in> {GroupPending, GroupDeferred, GroupQueued, GroupFailed, GroupReview}
      then g\<lparr>g_status := GroupReview, g_statusReason := reason\<rparr> else g)"

text \<open>The incomplete-data reason a stored group carries.\<close>

definition stored_incomplete :: "DuplicateGroup \<Rightarrow> string" where
  "stored_incomplete g =
     (if g_status g = GroupReview \<and> HasPrefix (g_statusReason g) incompletePrefix then g_statusReason g else [])"

definition reeval_status ::
  "golib \<Rightarrow> evalConfig \<Rightarrow> ignoredIndex option \<Rightarrow> DuplicateGroup \<Rightarrow> DuplicateGroup \<Rightarrow> DuplicateGroup" where
  "reeval_status lib cfg ignored old g =
     (let incomplete = stored_incomplete old; blocked = blockedReason lib cfg g; overlap = ignored_overlap ignored g in
      if incomplete \<noteq> [] then
        (let g1 = forceReview g incomplete
         in if g_status g1 = GroupReview \<and> crossIncomplete incomplete then g1\<lparr>g_statusReason := incomplete\<rparr> else g1)
      else if blocked \<noteq> [] then holdBack g blocked
      else if overlap \<noteq> [] \<and> g_status g \<noteq> GroupQueued then forceReview g overlap
      else g)"

definition reevaluated ::
  "golib \<Rightarrow> evalConfig \<Rightarrow> ignoredIndex option \<Rightarrow> DuplicateGroup \<Rightarrow> DuplicateGroup \<Rightarrow> DuplicateGroup" where
  "reevaluated lib cfg ignored old g =
     (let g1 = dropStaleApproval (reeval_status lib cfg ignored old g)
                 (if g_status old = GroupQueued then keptKeys old else [])
      in g1\<lparr>g_stableCount := (if g_signature g1 = g_signature old \<and> \<not> HasFlag g1 FlagWatchUnreadable
                              then g_stableCount old else 0)\<rparr>)"

datatype reeval_error = EvalFailed eval_error | SaveFailed | LoadFailed

definition reevaluateLocked ::
  "golib \<Rightarrow> (dbcall \<Rightarrow> bool) \<Rightarrow> time \<Rightarrow> evalConfig \<Rightarrow> ignoredIndex option \<Rightarrow> DuplicateGroup \<Rightarrow> db \<Rightarrow>
   db \<times> (reeval_error + DuplicateGroup)" where
  "reevaluateLocked lib fails now cfg ignored g d =
     (case Evaluate lib (Some g) (profileFor cfg g) (evalEnv cfg now) of
        Inl e \<Rightarrow> (d, Inl (EvalFailed e))
      | Inr g1 \<Rightarrow>
          let g2 = reevaluated lib cfg ignored g g1 in
          if fails (CallUpsert (g_key g2)) then (d, Inl SaveFailed)
          else case Upsert now g2 d of
                 (d1, Inl _) \<Rightarrow> (d1, Inl SaveFailed)
               | (d1, Inr (g3, _)) \<Rightarrow> (d1, Inr g3))"

definition Reevaluate :: "golib \<Rightarrow> (dbcall \<Rightarrow> bool) \<Rightarrow> time \<Rightarrow> evalConfig \<Rightarrow> int \<Rightarrow> db \<Rightarrow> db \<times> (reeval_error + DuplicateGroup)" where
  "Reevaluate lib fails now cfg i d =
     (if fails (CallGet i) then (d, Inl LoadFailed)
      else case Get i d of
        None \<Rightarrow> (d, Inl LoadFailed)
      | Some g \<Rightarrow>
          if g_status g = GroupResolved then (d, Inr g)
          else if fails (CallListByRatingKeys (g_serverID g) (groupRatingKeysOf g)) then (d, Inl LoadFailed)
          else reevaluateLocked lib fails now cfg
                 (Some (newIgnoredIndex (ListByRatingKeys (g_serverID g) (groupRatingKeysOf g) d))) g d)"

definition reevaluateID ::
  "golib \<Rightarrow> (dbcall \<Rightarrow> bool) \<Rightarrow> time \<Rightarrow> evalConfig \<Rightarrow> ignoredIndex option \<Rightarrow> int \<Rightarrow> db \<Rightarrow> db \<times> reeval_error option" where
  "reevaluateID lib fails now cfg ignored i d =
     (if fails (CallGet i) then (d, Some LoadFailed)
      else case Get i d of
        None \<Rightarrow> (d, None)
      | Some g \<Rightarrow>
          if g_status g = GroupResolved then (d, None)
          else case reevaluateLocked lib fails now cfg ignored g d of
                 (d1, Inl e) \<Rightarrow> (d1, Some e)
               | (d1, Inr _) \<Rightarrow> (d1, None))"

text \<open>
  Re-evaluating the stored groups that match: the number of groups and the errors. \<open>ReevaluateAll\<close> takes the
  ignored groups too. A cancelled context stops the loop before the group at position \<open>n\<close> of the list.
\<close>

fun reevaluate_each ::
  "golib \<Rightarrow> (dbcall \<Rightarrow> bool) \<Rightarrow> time \<Rightarrow> evalConfig \<Rightarrow> ignoredIndex option \<Rightarrow> (nat \<Rightarrow> bool) \<Rightarrow> nat \<Rightarrow> int list \<Rightarrow>
   db \<times> reeval_error list \<Rightarrow> bool \<times> db \<times> reeval_error list" where
  "reevaluate_each lib fails now cfg ignored ctxErr n [] (d, errs) = (False, d, errs)"
| "reevaluate_each lib fails now cfg ignored ctxErr n (i # is) (d, errs) =
     (if ctxErr n then (True, d, errs)
      else case reevaluateID lib fails now cfg ignored i d of
             (d1, e) \<Rightarrow> reevaluate_each lib fails now cfg ignored ctxErr (Suc n) is
                          (d1, case e of Some x \<Rightarrow> errs @ [x] | None \<Rightarrow> errs))"

definition ReevaluateAll ::
  "golib \<Rightarrow> (dbcall \<Rightarrow> bool) \<Rightarrow> time \<Rightarrow> evalConfig \<Rightarrow> (nat \<Rightarrow> bool) \<Rightarrow> db \<Rightarrow> bool \<times> db \<times> reeval_error list" where
  "ReevaluateAll lib fails now cfg ctxErr d =
     (if fails CallList then (False, d, [LoadFailed])
      else let gs = listGroups (openStatuses @ [GroupIgnored]) (\<lambda>_. True) d
           in reevaluate_each lib fails now cfg (Some (newIgnoredIndex gs)) ctxErr 0 (map g_id gs) (d, []))"

definition ReevaluateMatching ::
  "golib \<Rightarrow> (dbcall \<Rightarrow> bool) \<Rightarrow> time \<Rightarrow> evalConfig \<Rightarrow> (nat \<Rightarrow> bool) \<Rightarrow> (DuplicateGroup \<Rightarrow> bool) option \<Rightarrow> db \<Rightarrow>
   bool \<times> db \<times> reeval_error list" where
  "ReevaluateMatching lib fails now cfg ctxErr match d =
     (case match of
        None \<Rightarrow> (False, d, [])
      | Some m \<Rightarrow>
          if fails CallList then (False, d, [LoadFailed])
          else let gs = listGroups (openStatuses @ [GroupIgnored]) (\<lambda>_. True) d
               in reevaluate_each lib fails now cfg (Some (newIgnoredIndex gs)) ctxErr 0
                    (map g_id (filter (\<lambda>g. g_status g \<noteq> GroupIgnored \<and> m g) gs)) (d, []))"

definition GroupUsesLibrary :: "DuplicateGroup \<Rightarrow> int \<Rightarrow> bool" where
  "GroupUsesLibrary g i \<longleftrightarrow> i \<in> set (library_ids g) \<or> list_ex (\<lambda>v. v_libraryID v = i) (versions_of g)"

section \<open>The other servers' decisions\<close>

definition keptByLiveGroup :: "DuplicateGroup list \<Rightarrow> int \<Rightarrow> string \<Rightarrow> bool" where
  "keptByLiveGroup gs self versionKey \<longleftrightarrow>
     list_ex (\<lambda>g. g_id g \<noteq> self \<and> g_status g \<noteq> GroupResolved \<and> g_status g \<noteq> GroupIgnored \<and>
                  list_ex (\<lambda>f. f_key f = versionKey \<and> f_decision f \<noteq> DecisionRemove) (g_files g)) gs"

definition removed_listings :: "DuplicateGroup \<Rightarrow> OtherListing list" where
  "removed_listings g = concat (map (\<lambda>f. v_otherServers (f_version f)) (filter (\<lambda>f. f_decision f = DecisionRemove) (g_files g)))"

definition listing_keys :: "DuplicateGroup \<Rightarrow> int \<Rightarrow> string list" where
  "listing_keys g sid =
     dedup (filter (\<lambda>rk. rk \<noteq> []) (map (\<lambda>e. TrimSpace (o_ratingKey e)) (filter (\<lambda>e. o_serverID e = sid) (removed_listings g))))"

text \<open>The servers with listings to look up, in order of their ids.\<close>

definition listing_servers :: "DuplicateGroup \<Rightarrow> int list" where
  "listing_servers g =
     sort (dedup (map o_serverID (filter (\<lambda>e. TrimSpace (o_ratingKey e) \<noteq> []) (removed_listings g))))"

definition listing_failed :: "pipeline \<Rightarrow> DuplicateGroup \<Rightarrow> int \<Rightarrow> bool" where
  "listing_failed p g sid \<longleftrightarrow> sid \<in> set (listing_servers g) \<and> p_fails p (CallListByRatingKeys sid (listing_keys g sid))"

definition other_groups :: "DuplicateGroup \<Rightarrow> int \<Rightarrow> db \<Rightarrow> DuplicateGroup list" where
  "other_groups g sid d = (if sid \<in> set (listing_servers g) then ListByRatingKeys sid (listing_keys g sid) d else [])"

definition kept_value :: "pipeline \<Rightarrow> DuplicateGroup \<Rightarrow> db \<Rightarrow> OtherListing \<Rightarrow> bool option" where
  "kept_value p g d e =
     (if listing_failed p g (o_serverID e) then None
      else Some (keptByLiveGroup (other_groups g (o_serverID e) d) (g_id g) (o_versionKey e)))"

definition mark_kept_file :: "pipeline \<Rightarrow> DuplicateGroup \<Rightarrow> db \<Rightarrow> GroupFile \<Rightarrow> GroupFile" where
  "mark_kept_file p g d f =
     (if f_decision f \<noteq> DecisionRemove then f
      else f\<lparr>f_version := (f_version f)\<lparr>v_otherServers :=
             map (\<lambda>e. e\<lparr>o_keptByGroup := kept_value p g d e\<rparr>) (v_otherServers (f_version f))\<rparr>\<rparr>)"

definition mark_dirty :: "pipeline \<Rightarrow> DuplicateGroup \<Rightarrow> db \<Rightarrow> bool" where
  "mark_dirty p g d \<longleftrightarrow> list_ex (\<lambda>e. o_keptByGroup e \<noteq> kept_value p g d e) (removed_listings g)"

definition mark_stats :: "string \<Rightarrow> string \<Rightarrow> ScanStats \<Rightarrow> ScanStats" where
  "mark_stats before after st =
     (if before = after then st
      else st\<lparr>st_pendingGroups := st_pendingGroups st - (if before = GroupPending then 1 else 0),
              st_reviewGroups := st_reviewGroups st + (if after = GroupReview then 1 else 0)\<rparr>)"

definition add_errors :: "nat \<Rightarrow> pipeline \<Rightarrow> pipeline" where
  "add_errors n p = (addError ^^ n) p"

text \<open>One group; the result tells whether its flags were stored again.\<close>

definition mark_group :: "golib \<Rightarrow> time \<Rightarrow> int \<Rightarrow> pipeline \<times> db \<Rightarrow> bool \<times> pipeline \<times> db" where
  "mark_group lib now i st =
     (let (p, d) = st in
      if p_fails p (CallGet i) then (False, addError p, d)
      else case Get i d of
        None \<Rightarrow> (False, p, d)
      | Some g \<Rightarrow>
          if g_status g = GroupIgnored \<or> g_status g = GroupResolved \<or> g_lastScanID g \<noteq> p_runID p then (False, p, d)
          else let p1 = add_errors (length (filter (listing_failed p g) (listing_servers g))) p in
               if \<not> mark_dirty p g d then (False, p1, d)
               else case reevaluateLocked lib (p_fails p) now (p_eval p) (p_ignored p)
                           (g\<lparr>g_files := map (mark_kept_file p g d) (g_files g)\<rparr>) d of
                      (d1, Inl _) \<Rightarrow> (False, addError p1, d1)
                    | (d1, Inr g1) \<Rightarrow> (True, p1\<lparr>p_stats := mark_stats (g_status g) (g_status g1) (p_stats p1)\<rparr>, d1))"

fun mark_loop :: "golib \<Rightarrow> time \<Rightarrow> int list \<Rightarrow> int list \<Rightarrow> pipeline \<times> db \<Rightarrow> bool \<times> int list \<times> pipeline \<times> db" where
  "mark_loop lib now changed [] (p, d) = (False, changed, p, d)"
| "mark_loop lib now changed (i # is) (p, d) =
     (let (cancelled, p1) = poll p in
      if cancelled then (True, changed, p1, d)
      else let (hit, p2, d2) = mark_group lib now i (p1, d)
           in mark_loop lib now (if hit then changed @ [i] else changed) is (p2, d2))"

definition markOtherServerKeeps :: "golib \<Rightarrow> time \<Rightarrow> pipeline \<times> db \<Rightarrow> pipeline \<times> db" where
  "markOtherServerKeeps lib now st =
     (let (p, d) = st in
      if \<not> sc_multi (p_cfg p) \<or> p_crossGroups p = [] then (p, d)
      else case mark_loop lib now [] (p_crossGroups p) (p, d) of
             (True, changed, p1, d1) \<Rightarrow> (p1, d1)
           | (False, changed, p1, d1) \<Rightarrow>
               (p1\<lparr>p_autoCands := filter (\<lambda>g. g_id g \<notin> set changed) (p_autoCands p1)\<rparr>, d1))"

section \<open>Automatic approval\<close>

definition maxWholeGB :: int where "maxWholeGB = (2 ^ 63 - 1) div 1000000000"

definition max_bytes :: "int \<Rightarrow> int" where
  "max_bytes maxGB = (if maxGB \<le> maxWholeGB then maxGB * 1000000000 else 2 ^ 63 - 1)"

text \<open>
  The loop over the candidates: \<open>approve\<close> is the executor's approval of a group with the signature the scan
  stored. The result lists the groups approved.
\<close>

fun approve_loop ::
  "(int \<Rightarrow> string \<Rightarrow> db \<Rightarrow> db \<times> bool) \<Rightarrow> int \<Rightarrow> int \<Rightarrow> int \<Rightarrow> int \<Rightarrow> DuplicateGroup list \<Rightarrow> pipeline \<times> db \<Rightarrow>
   DuplicateGroup list \<times> pipeline \<times> db" where
  "approve_loop approve maxFiles maxBytes files bytes [] (p, d) = ([], p, d)"
| "approve_loop approve maxFiles maxBytes files bytes (g # gs) (p, d) =
     (let (cancelled, p1) = poll p; n = removalCount g in
      if cancelled then ([], p1, d)
      else if files + n > maxFiles \<or> wrap64 (bytes + g_reclaimableBytes g) > maxBytes
      then approve_loop approve maxFiles maxBytes files bytes gs (p1, d)
      else case approve (g_id g) (g_signature g) d of
             (d1, False) \<Rightarrow>
               (let (cancelled1, p2) = poll p1 in
                if cancelled1 then ([], p2, d1)
                else approve_loop approve maxFiles maxBytes files bytes gs (addError p2, d1))
           | (d1, True) \<Rightarrow>
               (let p2 = p1\<lparr>p_stats := (p_stats p1)\<lparr>st_autoApproved := st_autoApproved (p_stats p1) + 1,
                                                    st_pendingGroups := st_pendingGroups (p_stats p1) - 1\<rparr>\<rparr>;
                    (approved, r) = approve_loop approve maxFiles maxBytes (files + n)
                                      (wrap64 (bytes + g_reclaimableBytes g)) gs (p2, d1)
                in (g # approved, r)))"

definition autoApprove :: "(int \<Rightarrow> string \<Rightarrow> db \<Rightarrow> db \<times> bool) \<Rightarrow> pipeline \<times> db \<Rightarrow> DuplicateGroup list \<times> pipeline \<times> db" where
  "autoApprove approve st =
     (let (p, d) = st; s = c_settings (p_eval p) in
      if p_autoCands p = [] then ([], p, d)
      else if s_MaxDeletionsPerRun s \<le> 0 \<or> s_MaxBytesPerRunGB s \<le> 0 then ([], p, d)
      else approve_loop approve (s_MaxDeletionsPerRun s) (max_bytes (s_MaxBytesPerRunGB s)) 0 0
             (sort_by (\<lambda>a b. g_key a < g_key b) (p_autoCands p)) (p, d))"

section \<open>The end of a full scan\<close>

text \<open>What \<open>runFull\<close> does once the groups are built and annotated; \<open>None\<close> when the run was cancelled.\<close>

definition finish_full ::
  "golib \<Rightarrow> time \<Rightarrow> (int \<Rightarrow> string \<Rightarrow> db \<Rightarrow> db \<times> bool) \<Rightarrow> DuplicateGroup list \<Rightarrow> queueState \<Rightarrow> pipeline \<times> db \<Rightarrow>
   DuplicateGroup list option \<times> pipeline \<times> db" where
  "finish_full lib now approve groups busy st =
     (let (p1, d1) = persistGroups lib now groups busy st;
          (cancelled, p2) = poll p1
      in if cancelled then (None, p2, d1)
         else let (p3, d3) = resolveFull now (keepUnavailable now (p2, d1));
                  (cancelled1, p4) = poll p3
              in if cancelled1 then (None, p4, d3)
                 else let (approved, r) = autoApprove approve (markOtherServerKeeps lib now (p4, d3))
                      in (Some approved, r))"

end
