(* ===== verification/Approval.thy ===== *)
theory Approval
  imports ScanRun ExecGuards Validate
begin

text \<open>
  Approvals (\<open>internal/executor/executor.go\<close> with the rules of \<open>disc.go\<close>, \<open>readonly.go\<close> and the helpers of
  \<open>process.go\<close> and \<open>record.go\<close>), the cancellation of a group and the recovery after a restart
  (\<open>recover.go\<close>). The approval holds the approval lock and the scanner's group lock, but other writers of the
  database (the HTTP interface, the queue run) may run between its calls: what they do right before a call is
  \<open>ap_other\<close>, and which calls fail is \<open>ap_fails\<close>. Events, history records and the log are outgoing messages;
  the re-scans an undone approval asks for are part of the result.
\<close>

section \<open>Helpers\<close>

abbreviation TriggerManual :: string where "TriggerManual \<equiv> ''manual''"
abbreviation TriggerScheduled :: string where "TriggerScheduled \<equiv> ''scheduled''"
abbreviation TriggerWebhook :: string where "TriggerWebhook \<equiv> ''webhook''"

definition kindLabel :: "string \<Rightarrow> string" where
  "kindLabel k = (if IsPlex k then ''Plex'' else if k = MediaServerJellyfin then ''Jellyfin'' else ''media server'')"

definition exec_displayTitle :: "DuplicateGroup \<Rightarrow> string" where
  "exec_displayTitle g =
     (let title = TrimSpace (g_title g); shw = TrimSpace (g_showTitle g);
          ep = EpisodeLabel (g_season g) (g_episode g);
          title1 = (if title = [] then g_key g else title)
      in if g_mediaType g = MediaTypeEpisode \<and> shw \<noteq> [] \<and> title \<noteq> [] then shw @ '' - '' @ ep @ '' - '' @ title
         else if g_mediaType g = MediaTypeEpisode \<and> shw \<noteq> [] then shw @ '' - '' @ ep
         else if g_mediaType g = MediaTypeMovie \<and> g_year g > 0 then title1 @ '' ('' @ Itoa (g_year g) @ '')''
         else title1)"

definition partPaths :: "MediaVersion \<Rightarrow> string list" where
  "partPaths v =
     (case v_disc v of
        Some d \<Rightarrow> if d_roots d \<noteq> [] then d_roots d else if d_root d \<noteq> [] then [d_root d] else map p_path (v_parts v)
      | None \<Rightarrow> map p_path (v_parts v))"

definition triggerLabel :: "string \<Rightarrow> string" where
  "triggerLabel trigger =
     (if trigger = TriggerManual then ''manual''
      else if trigger = TriggerScheduled then ''automatic''
      else if trigger = TriggerWebhook then ''automatic, webhook''
      else if trigger = [] then ''automatic'' else trigger)"

definition serverOf :: "DuplicateGroup \<Rightarrow> MediaVersion \<Rightarrow> int" where
  "serverOf g v = (if v_serverID v \<noteq> 0 then v_serverID v else g_serverID g)"

text \<open>The rating keys of a group per server, with the servers in order of their ids.\<close>

definition involvedRatingKeys :: "DuplicateGroup \<Rightarrow> (int \<times> string list) list" where
  "involvedRatingKeys g =
     (let ks = map (\<lambda>v. (serverOf g v, TrimSpace (v_ratingKey v)))
                 (filter (\<lambda>v. TrimSpace (v_ratingKey v) \<noteq> []) (versions_of g))
      in map (\<lambda>s. (s, sort (dedup (map snd (filter (\<lambda>k. fst k = s) ks))))) (sort (dedup (map fst ks))))"

definition samePathList :: "string list \<Rightarrow> string list \<Rightarrow> bool" where
  "samePathList a b \<longleftrightarrow> length a = length b \<and> a \<noteq> [] \<and> map Normalize a = map Normalize b"

definition exec_isOptimized :: "MediaVersion \<Rightarrow> bool" where
  "exec_isOptimized v \<longleftrightarrow> v_optimizedVersion v \<or>
     list_ex (\<lambda>p. Contains (''/'' @ ToLower (Trim (Normalize (p_path p)) ''/'') @ ''/'') ''/plex versions/'') (v_parts v)"

definition describeVersion :: "MediaVersion \<Rightarrow> string" where
  "describeVersion v = (case v_parts v of p # _ \<Rightarrow> p_path p | [] \<Rightarrow> v_key v)"

section \<open>Full discs\<close>

definition exec_plexPlayable :: "MediaVersion \<Rightarrow> bool" where
  "exec_plexPlayable v \<longleftrightarrow> v_disc v = None \<and>
     list_all (\<lambda>p. \<not> IsDiscPath (p_path p) \<and> \<not> (p_localPath p \<noteq> [] \<and> IsDiscPath (p_localPath p))) (v_parts v)"

definition onlyDiscsKept :: "DuplicateGroup \<Rightarrow> bool" where
  "onlyDiscsKept g \<longleftrightarrow>
     list_ex (\<lambda>f. f_decision f = DecisionKeep \<and> \<not> exec_isOptimized (f_version f) \<and> \<not> exec_plexPlayable (f_version f)) (g_files g) \<and>
     \<not> list_ex (\<lambda>f. f_decision f = DecisionKeep \<and> \<not> exec_isOptimized (f_version f) \<and> exec_plexPlayable (f_version f)) (g_files g) \<and>
     list_ex (\<lambda>f. f_decision f = DecisionRemove \<and> exec_plexPlayable (f_version f)) (g_files g)"

definition removed_discs :: "DuplicateGroup \<Rightarrow> MediaVersion list" where
  "removed_discs g = filter (\<lambda>v. v_disc v \<noteq> None) (map f_version (filter (\<lambda>f. f_decision f = DecisionRemove) (g_files g)))"

definition disc_unsafe :: "MediaVersion \<Rightarrow> bool" where
  "disc_unsafe v \<longleftrightarrow> (case v_disc v of
     Some d \<Rightarrow> \<not> d_removable d \<or> d_ownedEntries d = [] \<or> TrimSpace (d_localRoot d) = [] \<or> d_plexItems d \<noteq> []
   | None \<Rightarrow> False)"

definition discRemovalProblem :: "DuplicateGroup \<Rightarrow> Settings \<Rightarrow> bool \<Rightarrow> string" where
  "discRemovalProblem g st manual =
     (let discs = removed_discs g in
      if discs \<noteq> [] \<and> \<not> manual then ''a full-disc backup is only removed when a person approves it (never automatically)''
      else if discs \<noteq> [] \<and> g_mediaType g = MediaTypeEpisode then ''full-disc backups in TV libraries are always kept''
      else if discs \<noteq> [] \<and> \<not> s_AllowDiscRemoval st
      then ''removing full-disc backups is turned off (Settings '' @ rarrow @ '' Media Management '' @ rarrow @ '' Allow Removing Full Discs)''
      else if discs \<noteq> [] \<and> TrimSpace (s_RecycleBinPath st) = []
      then ''a full-disc backup is only ever moved to the recycle bin, and no recycle bin is set (Settings '' @ rarrow @ '' Media Management)''
      else if discs \<noteq> [] \<and> \<not> list_ex (\<lambda>m. EqualFold (TrimSpace m) MethodFilesystem) (s_DeletionMethods st)
      then ''a full-disc backup is only removed by the filesystem method, which is not enabled (Settings '' @ rarrow @ '' Media Management)''
      else case find disc_unsafe discs of
        Some v \<Rightarrow> ''the full-disc backup '' @ describeVersion v @ '' cannot be removed safely''
      | None \<Rightarrow>
          if s_KeepPlayableCopy st \<and> onlyDiscsKept g
          then ''every kept copy would be a full disc, which Plex cannot play (Settings '' @ rarrow @ '' Media Management '' @ rarrow @
               '' Always Keep a Plex-Playable Copy)''
          else [])"

section \<open>Read-only media servers\<close>

text \<open>The label of the first read-only kind of a group, \<open>None\<close> when it has none.\<close>

definition readOnlyGroup :: "DuplicateGroup \<Rightarrow> string option" where
  "readOnlyGroup g = first_some (\<lambda>v. case KindOfVersionKey (v_key v) of
       Some k \<Rightarrow> if ReadOnly k then Some (kindLabel k) else None | None \<Rightarrow> None) (versions_of g)"

definition unmappedPart :: "Mapper \<Rightarrow> int \<Rightarrow> MediaVersion \<Rightarrow> string" where
  "unmappedPart m sid v =
     (case find (\<lambda>p. ToLocal (Some m) PathSourceServer sid (p_path p) = None) (v_parts v) of Some p \<Rightarrow> p_path p | None \<Rightarrow> [])"

definition read_only_problem :: "DuplicateGroup \<Rightarrow> string \<Rightarrow> Mapper \<Rightarrow> MediaVersion \<Rightarrow> string option" where
  "read_only_problem g label m v =
     (let p = unmappedPart m (serverOf g v) v in
      if v_reportOnly v \<noteq> [] then Some (''the duplicate is report-only: '' @ Join (v_reportOnly v) ''; '')
      else if p \<noteq> []
      then Some (''no path mapping covers '' @ p @ '': every copy of a '' @ label @ '' duplicate needs one, because '' @ label @
                 '' never reports whether a file exists (Settings '' @ rarrow @ '' Media Management)'')
      else None)"

definition readOnlyApprovalProblem :: "DuplicateGroup \<Rightarrow> PathMapping list \<Rightarrow> bool \<Rightarrow> string" where
  "readOnlyApprovalProblem g mappings manual =
     (case readOnlyGroup g of
        None \<Rightarrow> []
      | Some label \<Rightarrow>
          if \<not> manual then label @ '' copies are only removed when a person approves them''
          else case first_some (read_only_problem g label (New mappings)) (versions_of g) of Some s \<Rightarrow> s | None \<Rightarrow> [])"

section \<open>Which groups may be approved\<close>

definition withReason :: "DuplicateGroup \<Rightarrow> string \<Rightarrow> string" where
  "withReason g msg = (let r = TrimSpace (g_statusReason g) in if r \<noteq> [] then msg @ '': '' @ r else msg)"

text \<open>\<open>None\<close>: the group may be approved; else the text wrapped with \<open>ErrNotApprovable\<close>.\<close>

definition checkApprovable :: "DuplicateGroup \<Rightarrow> bool \<Rightarrow> Settings \<Rightarrow> string option" where
  "checkApprovable g manual st =
     (let s = g_status g in
      if s \<in> {GroupReview, GroupDeferred, GroupFailed} \<and> \<not> manual
      then Some (withReason g (''a group in '' @ Quote s @ '' status can only be approved manually''))
      else if s = GroupQueued then Some ''its removals are already queued''
      else if s = GroupResolved then Some ''it is resolved''
      else if s = GroupIgnored then Some ''it is ignored''
      else if s = GroupProtected then Some (withReason g ''it is protected'')
      else if s \<notin> {GroupPending, GroupReview, GroupDeferred, GroupFailed} then Some (''unknown status '' @ Quote s)
      else if manual then None
      else if s_Mode st \<noteq> ModeAuto then Some ''automatic approval requires auto mode''
      else if g_stableCount g < max 1 (s_StableScansRequired st)
      then Some (''the decision has been stable for '' @ Itoa (g_stableCount g) @ '' scan(s); automatic approval needs '' @
                 Itoa (max 1 (s_StableScansRequired st)))
      else case find BlocksAutoApproval (g_flags g) of
             Some f \<Rightarrow> Some (''its flag '' @ Quote f @ '' needs a person to approve it'')
           | None \<Rightarrow> None)"

definition sameArr :: "ArrFileInfo option \<Rightarrow> ArrFileInfo option \<Rightarrow> bool" where
  "sameArr a b \<longleftrightarrow>
     (case (a, b) of
        (Some x, Some y) \<Rightarrow> a_instanceID x = a_instanceID y \<and> a_fileID x = a_fileID y \<and> a_itemID x = a_itemID y \<and>
                            a_episodeIDs x = a_episodeIDs y \<and> a_tags x = a_tags y
      | (None, None) \<Rightarrow> True
      | _ \<Rightarrow> False)"

definition same_file_state :: "GroupFile \<Rightarrow> GroupFile \<Rightarrow> bool" where
  "same_file_state x y \<longleftrightarrow> f_decision x = f_decision y \<and> f_protected x = f_protected y \<and>
     samePathList (partPaths (f_version x)) (partPaths (f_version y)) \<and>
     TotalSize (f_version x) = TotalSize (f_version y) \<and> sameArr (v_arr (f_version x)) (v_arr (f_version y))"

text \<open>Sorted and compacted flag lists are equal exactly when the sets are; the last file with a key is the one a map keeps.\<close>

definition sameApprovalState :: "DuplicateGroup \<Rightarrow> DuplicateGroup \<Rightarrow> bool" where
  "sameApprovalState a b \<longleftrightarrow> g_signature a = g_signature b \<and> length (g_files a) = length (g_files b) \<and>
     set (g_flags a) = set (g_flags b) \<and>
     list_all (\<lambda>x. case find (\<lambda>y. f_key y = f_key x) (rev (g_files b)) of
                     Some y \<Rightarrow> same_file_state x y | None \<Rightarrow> False) (g_files a)"

section \<open>Approving a group\<close>

datatype approve_call =
  CallGroup | CallActions | CallCancel | CallCreate nat | CallCheck | CallQueue | CallRecheck | CallRollback | CallRevert

datatype approve_error =
    CallFailed approve_call
  | CreateFailed string
  | SettingsUnreadable
  | MappingsUnreadable
  | NotApprovable string
  | DecisionsInvalid invariant_error
  | NothingToRemove

record approval =
  ap_now :: time
  ap_settings :: "Settings option"
  ap_mappings :: "PathMapping list option"
  ap_fails :: "approve_call \<Rightarrow> bool"
  ap_other :: "approve_call \<Rightarrow> db \<Rightarrow> db"

type_synonym approved = "db \<times> (int \<times> string list) list \<times> (approve_error + Action list)"

definition errChangedSinceReview :: string where
  "errChangedSinceReview = ''the duplicate changed since it was reviewed (a scan or another user updated its decisions); review it again''"

definition errChangedWhileApproving :: string where
  "errChangedWhileApproving = ''the duplicate changed while it was being approved (a scan stored new results); review it again''"

text \<open>\<open>None\<close>: the group could not be read.\<close>

definition groupChanged :: "approval \<Rightarrow> approve_call \<Rightarrow> DuplicateGroup \<Rightarrow> bool \<Rightarrow> db \<Rightarrow> bool option" where
  "groupChanged ap c approved withStatus d =
     (if ap_fails ap c then None
      else case Get (g_id approved) d of
        None \<Rightarrow> Some True
      | Some cur \<Rightarrow>
          if withStatus \<and> (g_status cur \<noteq> g_status approved \<or> g_statusReason cur \<noteq> g_statusReason approved) then Some True
          else Some (\<not> sameApprovalState approved cur))"

definition rollbackApproval :: "approval \<Rightarrow> int \<Rightarrow> db \<Rightarrow> db" where
  "rollbackApproval ap i d =
     (let d0 = ap_other ap CallRollback d
      in if ap_fails ap CallRollback then d0 else fst (CancelPendingForGroup (ap_now ap) i d0))"

definition revertMessage :: string where
  "revertMessage = ''This duplicate changed while it was being approved (a scan stored new results); it is re-scanned '' @ emdash @ '' review it again''"

definition revertApproval :: "approval \<Rightarrow> DuplicateGroup \<Rightarrow> db \<Rightarrow> db" where
  "revertApproval ap g d =
     (let d1 = ap_other ap CallRevert (rollbackApproval ap (g_id g) d)
      in if ap_fails ap CallRevert then d1
         else fst (UpdateStatusIf (ap_now ap) (g_id g) [GroupQueued, GroupPending] GroupReview revertMessage d1))"

definition approval_targets :: "DuplicateGroup \<Rightarrow> GroupFile list" where
  "approval_targets g =
     filter (\<lambda>f. f_decision f = DecisionRemove \<and> \<not> f_protected f \<and> \<not> v_optimizedVersion (f_version f)) (g_files g)"

definition approval_stamp :: "time \<Rightarrow> Action list \<Rightarrow> time" where
  "approval_stamp now existing =
     fold (\<lambda>a s. if s > act_createdAt a then s else act_createdAt a + Millisecond) existing now"

definition approval_action :: "DuplicateGroup \<Rightarrow> bool \<Rightarrow> time \<Rightarrow> GroupFile \<Rightarrow> Action" where
  "approval_action g dry stamp f =
     \<lparr> act_id = 0, act_groupID = g_id g, act_groupFileID = f_id f, act_versionKey = f_key f, act_title = exec_displayTitle g,
       act_paths = partPaths (f_version f), act_size = TotalSize (f_version f), act_method = [],
       act_status = ActionPending, act_dryRun = dry, act_message = [], act_recyclePath = [], act_permanent = False,
       act_createdAt = stamp, act_startedAt = None, act_finishedAt = None \<rparr>"

fun create_actions :: "approval \<Rightarrow> nat \<Rightarrow> Action list \<Rightarrow> db \<Rightarrow> db \<times> (string + Action list)" where
  "create_actions ap n [] d = (d, Inr [])"
| "create_actions ap n (a # as) d =
     (let d0 = ap_other ap (CallCreate n) d in
      if ap_fails ap (CallCreate n) then (d0, Inl (act_versionKey a))
      else case CreateAction (ap_now ap) a d0 of
             (d1, Inl _) \<Rightarrow> (d1, Inl (act_versionKey a))
           | (d1, Inr a1) \<Rightarrow>
               (case create_actions ap (Suc n) as d1 of
                  (d2, Inl k) \<Rightarrow> (d2, Inl k)
                | (d2, Inr rest) \<Rightarrow> (d2, Inr (a1 # rest))))"

text \<open>The checks before anything is written.\<close>

definition approval_problem :: "approval \<Rightarrow> Settings \<Rightarrow> string \<Rightarrow> string \<Rightarrow> DuplicateGroup \<Rightarrow> approve_error option" where
  "approval_problem ap st trigger reviewed g =
     (let manual = (trigger = TriggerManual); sig = TrimSpace reviewed in
      if sig \<noteq> [] \<and> sig \<noteq> g_signature g then Some (NotApprovable errChangedSinceReview)
      else case checkApprovable g manual st of
        Some m \<Rightarrow> Some (NotApprovable m)
      | None \<Rightarrow>
          case ValidateDecisions (Some g) of
            Some e \<Rightarrow> Some (DecisionsInvalid e)
          | None \<Rightarrow>
              if discRemovalProblem g st manual \<noteq> [] then Some (NotApprovable (discRemovalProblem g st manual))
              else if readOnlyGroup g \<noteq> None \<and> ap_mappings ap = None then Some MappingsUnreadable
              else if readOnlyGroup g \<noteq> None \<and> readOnlyApprovalProblem g (the (ap_mappings ap)) manual \<noteq> []
              then Some (NotApprovable (readOnlyApprovalProblem g (the (ap_mappings ap)) manual))
              else if approval_targets g = [] then Some NothingToRemove
              else None)"

definition approval_reason :: "string \<Rightarrow> nat \<Rightarrow> bool \<Rightarrow> string" where
  "approval_reason trigger n dry =
     ''Approved ('' @ triggerLabel trigger @ ''): '' @ Itoa (int n) @ '' removal(s) queued'' @ (if dry then '' (dry run)'' else [])"

text \<open>From the queued removals on: the group must be unchanged, is set to queued, and must still be unchanged.\<close>

definition queue_group :: "approval \<Rightarrow> Settings \<Rightarrow> string \<Rightarrow> DuplicateGroup \<Rightarrow> Action list \<Rightarrow> db \<Rightarrow> approved" where
  "queue_group ap st trigger g created d =
     (let d1 = ap_other ap CallCheck d; undo = rollbackApproval ap (g_id g) in
      case groupChanged ap CallCheck g True d1 of
        None \<Rightarrow> (undo d1, [], Inl (CallFailed CallCheck))
      | Some True \<Rightarrow> (undo d1, [], Inl (NotApprovable errChangedWhileApproving))
      | Some False \<Rightarrow>
          let d2 = ap_other ap CallQueue d1 in
          if ap_fails ap CallQueue then (undo d2, [], Inl (CallFailed CallQueue))
          else case UpdateStatusIf (ap_now ap) (g_id g) [g_status g] GroupQueued
                      (approval_reason trigger (length created) (s_DryRun st)) d2 of
            (d3, Inl _) \<Rightarrow> (undo d3, [], Inl (CallFailed CallQueue))
          | (d3, Inr False) \<Rightarrow> (undo d3, [], Inl (NotApprovable errChangedWhileApproving))
          | (d3, Inr True) \<Rightarrow>
              let d4 = ap_other ap CallRecheck d3 in
              case groupChanged ap CallRecheck g False d4 of
                None \<Rightarrow> (revertApproval ap g d4, involvedRatingKeys g, Inl (CallFailed CallRecheck))
              | Some True \<Rightarrow> (revertApproval ap g d4, involvedRatingKeys g, Inl (NotApprovable errChangedWhileApproving))
              | Some False \<Rightarrow> (d4, [], Inr created))"

text \<open>Queueing the removals, after the leftovers of an earlier approval are cancelled.\<close>

definition queue_removals :: "approval \<Rightarrow> Settings \<Rightarrow> string \<Rightarrow> DuplicateGroup \<Rightarrow> Action list \<Rightarrow> db \<Rightarrow> approved" where
  "queue_removals ap st trigger g existing d =
     (let stamp = approval_stamp (ap_now ap) existing in
      case create_actions ap 0 (map (approval_action g (s_DryRun st) stamp) (approval_targets g)) d of
        (d1, Inl k) \<Rightarrow>
          let d2 = rollbackApproval ap (g_id g) d1; d3 = ap_other ap CallCheck d2
          in (d3, [], Inl (if groupChanged ap CallCheck g True d3 = Some True
                           then NotApprovable errChangedWhileApproving else CreateFailed k))
      | (d1, Inr created) \<Rightarrow> queue_group ap st trigger g created d1)"

definition ApproveReviewed :: "approval \<Rightarrow> int \<Rightarrow> string \<Rightarrow> string \<Rightarrow> db \<Rightarrow> approved" where
  "ApproveReviewed ap groupID trigger reviewed d =
     (case ap_settings ap of
        None \<Rightarrow> (d, [], Inl SettingsUnreadable)
      | Some st \<Rightarrow>
          let d0 = ap_other ap CallGroup d in
          case (if ap_fails ap CallGroup then None else Get groupID d0) of
            None \<Rightarrow> (d0, [], Inl (CallFailed CallGroup))
          | Some g \<Rightarrow>
              case approval_problem ap st trigger reviewed g of
                Some e \<Rightarrow> (d0, [], Inl e)
              | None \<Rightarrow>
                  let d1 = ap_other ap CallActions d0; existing = ListByGroup (g_id g) d1 in
                  if ap_fails ap CallActions then (d1, [], Inl (CallFailed CallActions))
                  else if list_ex (\<lambda>a. act_status a = ActionRunning) existing
                  then (d1, [], Inl (NotApprovable ''a removal of this group is running right now''))
                  else if list_ex (\<lambda>a. act_status a = ActionPending) existing
                  then (let d2 = ap_other ap CallCancel d1 in
                        if ap_fails ap CallCancel then (d2, [], Inl (CallFailed CallCancel))
                        else queue_removals ap st trigger g existing (fst (CancelPendingForGroup (ap_now ap) (g_id g) d2)))
                  else queue_removals ap st trigger g existing d1)"

definition Approve :: "approval \<Rightarrow> int \<Rightarrow> string \<Rightarrow> db \<Rightarrow> approved" where
  "Approve ap groupID trigger d = ApproveReviewed ap groupID trigger [] d"

text \<open>The approval that automatic mode calls (\<open>cmd/dupearr/wire.go\<close>).\<close>

definition auto_approve :: "approval \<Rightarrow> int \<Rightarrow> string \<Rightarrow> db \<Rightarrow> db \<times> bool" where
  "auto_approve ap i reviewed d =
     (case ApproveReviewed ap i TriggerScheduled reviewed d of (d1, _, r) \<Rightarrow> (d1, \<not> isl r))"

section \<open>Cancelling an approval\<close>

definition CancelGroup :: "(approve_call \<Rightarrow> bool) \<Rightarrow> time \<Rightarrow> int \<Rightarrow> db \<Rightarrow> db \<times> approve_error option" where
  "CancelGroup fails now i d =
     (case (if fails CallGroup then None else Get i d) of
        None \<Rightarrow> (d, Some (CallFailed CallGroup))
      | Some g \<Rightarrow>
          if fails CallCancel then (d, Some (CallFailed CallCancel))
          else let (n, d1) = cancelPendingActions now i ''Cancelled'' d;
                   reason = (if n = 0 then ''Approval was cancelled'' else ''Queued removals were cancelled'')
               in if g_status g = GroupQueued \<or> g_status g = GroupFailed
                  then (if fails CallQueue then (d1, Some (CallFailed CallQueue))
                        else case UpdateStatus now i GroupPending reason d1 of
                               (d2, Inl _) \<Rightarrow> (d2, Some (CallFailed CallQueue))
                             | (d2, Inr _) \<Rightarrow> (d2, None))
                  else (d1, None))"

end
