(* ===== verification/Queue.thy ===== *)
theory Queue
  imports Approval
begin

text \<open>
  A queue run of the executor (\<open>internal/executor/process.go\<close> with the run-time rules of \<open>guards.go\<close>,
  \<open>crossserver.go\<close>, \<open>readonly.go\<close>, the choice of the method of \<open>methods.go\<close>, and \<open>recover.go\<close>): every
  group with queued removals is checked again, the method of every removal is chosen, the removals
  run one by one within the limits of the run, and the group gets its status.

  What the run reads of its surroundings is the record \<open>world\<close>: the answers of the media servers and *arr instances,
  the state of the disk (\<open>w_verify\<close>, \<open>w_fsChoice\<close>, \<open>w_discChoice\<close>), the outcome of a removal that was carried out
  (\<open>w_perform\<close>), which database calls fail, what other writers do to the database before a call, and when the
  context is cancelled. The removals carried out are recorded in \<open>rn_removals\<close>. The texts of
  database errors are left out of messages. Events, history records,
  notifications and progress messages are output.
\<close>

section \<open>The surroundings of a run\<close>

text \<open>An external check: fine, a problem, or an answer that could not be read.\<close>

datatype answer = Fine | Problem string | Unread string

datatype item_answer = ItemFound MediaItem | ItemGone | ItemUnread string

text \<open>What the move of a whole disc would move: files, bytes, the bytes it frees, and its entries.\<close>

record discPlan =
  dp_files :: int
  dp_bytes :: int
  dp_freed :: int
  dp_entries :: "string list"

record methodChoice =
  ch_method :: string
  ch_target :: string
  ch_permanent :: bool
  ch_arr :: bool
  ch_disc :: "discPlan option"

record verification =
  vr_problem :: string
  vr_wait :: string
  vr_keepers :: "GroupFile list"
  vr_remains :: "MediaVersion \<Rightarrow> bool"

record crossCheck =
  cc_problem :: string
  cc_wait :: string
  cc_playing :: bool
  cc_failure :: bool
  cc_rescan :: "(int \<times> string list) list"

text \<open>Stale data (a re-scan may be useless), an error with what is left in the recycle bin (it may abort the run), or done.\<close>

datatype performResult =
    PerformStale string bool
  | PerformFailed string string bool
  | PerformDone string "string list"

type_synonym target = "Action \<times> GroupFile option"

record world =
  w_now :: "nat \<Rightarrow> time"
  w_ctxErr :: "nat \<Rightarrow> bool"
  w_fails :: "nat \<Rightarrow> bool"
  w_meanwhile :: "nat \<Rightarrow> db \<Rightarrow> db"
  w_settings :: "nat \<Rightarrow> Settings option"
  w_client :: "int \<Rightarrow> bool"
  w_arrClient :: "int \<Rightarrow> bool"
  w_identity :: "int \<Rightarrow> int \<Rightarrow> string + string"
  w_gate :: "int \<Rightarrow> int \<Rightarrow> answer"
  w_sessions :: "int \<Rightarrow> int \<Rightarrow> string + string list"
  w_item :: "int \<Rightarrow> int \<Rightarrow> string \<Rightarrow> item_answer"
  w_verify :: "DuplicateGroup \<Rightarrow> target list \<Rightarrow> (refKey \<Rightarrow> MediaItem option) \<Rightarrow> verification"
  w_otherServers :: "DuplicateGroup \<Rightarrow> target list \<Rightarrow> crossCheck"
  w_arrBin :: "int \<Rightarrow> string + string"
  w_deleter :: "int \<Rightarrow> bool"
  w_deletionAllowed :: "int \<Rightarrow> string + bool"
  w_fsChoice :: "DuplicateGroup \<Rightarrow> MediaVersion \<Rightarrow> string + methodChoice"
  w_discChoice :: "DuplicateGroup \<Rightarrow> MediaVersion \<Rightarrow> string + methodChoice"
  w_arrFile :: "Action \<Rightarrow> answer"
  w_keeperArr :: "int \<Rightarrow> answer"
  w_perform :: "Action \<Rightarrow> methodChoice \<Rightarrow> performResult"
  w_notes :: "Action \<Rightarrow> string list"

text \<open>What \<open>newRun\<close> reads once.\<close>

record queueConfig =
  qc_servers :: "MediaServer list"
  qc_arrs :: "ArrInstance list"
  qc_mappings :: "PathMapping list"
  qc_libraries :: "Library list"
  qc_exclusions :: "Exclusion list"
  qc_profiles :: "Profile list"

record run =
  rn_st :: Settings
  rn_maxCount :: int
  rn_maxBytes :: int
  rn_attempts :: int
  rn_bytes :: int
  rn_consecutive :: int
  rn_stopped :: string
  rn_aborted :: string
  rn_keptInRun :: "string \<rightharpoonup> string"
  rn_rescans :: "refKey list"
  rn_commands :: "(int \<times> string list) list"
  rn_processed :: int
  rn_succeeded :: int
  rn_dryRun :: int
  rn_skipped :: int
  rn_failed :: int
  rn_deferred :: int
  rn_bytesFreed :: int
  rn_calls :: nat
  rn_polls :: nat
  rn_removals :: "(Action \<times> methodChoice) list"

definition maxConsecutiveFailures :: int where "maxConsecutiveFailures = 3"
definition bytesPerGB :: int where "bytesPerGB = 1000000000"

definition gbToBytes :: "int \<Rightarrow> int" where
  "gbToBytes gb = (if gb \<le> 0 then 0 else if gb > (2 ^ 63 - 1) div bytesPerGB then 2 ^ 63 - 1 else gb * bytesPerGB)"

definition newRun :: "Settings \<Rightarrow> run" where
  "newRun st =
     \<lparr> rn_st = st, rn_maxCount = s_MaxDeletionsPerRun st, rn_maxBytes = gbToBytes (s_MaxBytesPerRunGB st),
       rn_attempts = 0, rn_bytes = 0, rn_consecutive = 0,
       rn_stopped =
         (if s_MaxDeletionsPerRun st \<le> 0
          then ''the limit of deletions per run is '' @ Itoa (s_MaxDeletionsPerRun st) @ '', so nothing may be deleted; set it to at least 1 (Settings '' @ rarrow @ '' Media Management)''
          else if s_MaxBytesPerRunGB st \<le> 0
          then ''the limit of GB per run is '' @ Itoa (s_MaxBytesPerRunGB st) @ '', so nothing may be deleted; set it to at least 1 (Settings '' @ rarrow @ '' Media Management)''
          else []),
       rn_aborted = [], rn_keptInRun = Map.empty, rn_rescans = [], rn_commands = [], rn_processed = 0, rn_succeeded = 0,
       rn_dryRun = 0, rn_skipped = 0, rn_failed = 0, rn_deferred = 0, rn_bytesFreed = 0, rn_calls = 0, rn_polls = 0,
       rn_removals = [] \<rparr>"

text \<open>A check of the context; a call of the database, after what other writers did: whether it fails, and its time.\<close>

definition ctxErr :: "world \<Rightarrow> run \<Rightarrow> bool \<times> run" where
  "ctxErr w r = (w_ctxErr w (rn_polls r), r\<lparr>rn_polls := Suc (rn_polls r)\<rparr>)"

definition dbCall :: "world \<Rightarrow> run \<times> db \<Rightarrow> bool \<times> time \<times> run \<times> db" where
  "dbCall w s = (case s of (r, d) \<Rightarrow>
     (w_fails w (rn_calls r), w_now w (rn_calls r), r\<lparr>rn_calls := Suc (rn_calls r)\<rparr>, w_meanwhile w (rn_calls r) d))"

section \<open>Breakers\<close>

definition halted :: "world \<Rightarrow> run \<Rightarrow> bool \<times> run" where
  "halted w r = (let (c, r1) = ctxErr w r in (c \<or> rn_aborted r \<noteq> [] \<or> rn_stopped r \<noteq> [], r1))"

definition budgetAllows :: "int \<Rightarrow> run \<Rightarrow> bool \<times> run" where
  "budgetAllows sz r =
     (if rn_stopped r \<noteq> [] then (False, r)
      else if rn_maxCount r \<le> 0 \<or> rn_maxBytes r \<le> 0
      then (False, r\<lparr>rn_stopped := ''a per-run deletion limit is not set, so nothing may be deleted''\<rparr>)
      else if rn_attempts r \<ge> rn_maxCount r
      then (False, r\<lparr>rn_stopped := ''reached the limit of '' @ Itoa (rn_maxCount r) @ '' deletions per run''\<rparr>)
      else if rn_bytes r \<ge> rn_maxBytes r \<or> rn_bytes r > 0 \<and> wrap64 (rn_bytes r + sz) > rn_maxBytes r
      then (False, r\<lparr>rn_stopped := ''reached the limit of '' @ Itoa (rn_maxBytes r div bytesPerGB) @ '' GB per run''\<rparr>)
      else (True, r))"

definition abort_run :: "string \<Rightarrow> run \<Rightarrow> run" where
  "abort_run msg r = (if rn_aborted r \<noteq> [] then r else r\<lparr>rn_aborted := msg\<rparr>)"

definition noteFailure :: "run \<Rightarrow> run" where
  "noteFailure r =
     (let r1 = r\<lparr>rn_consecutive := rn_consecutive r + 1\<rparr> in
      if rn_consecutive r1 \<ge> maxConsecutiveFailures \<and> rn_aborted r1 = []
      then abort_run (''Stopped after '' @ Itoa (rn_consecutive r1) @ '' consecutive failures; the remaining removals stay queued'') r1
      else r1)"

section \<open>Recording results\<close>

definition count_result :: "string \<Rightarrow> run \<Rightarrow> run" where
  "count_result newStatus r =
     (let r1 = r\<lparr>rn_processed := rn_processed r + 1\<rparr> in
      if newStatus = ActionSucceeded then r1\<lparr>rn_succeeded := rn_succeeded r + 1\<rparr>
      else if newStatus = ActionDryRun then r1\<lparr>rn_dryRun := rn_dryRun r + 1\<rparr>
      else if newStatus = ActionSkipped then r1\<lparr>rn_skipped := rn_skipped r + 1\<rparr>
      else if newStatus = ActionFailed then r1\<lparr>rn_failed := rn_failed r + 1\<rparr>
      else r1)"

text \<open>The action as it is in memory afterwards, whether or not the database took it.\<close>

definition finishAction :: "world \<Rightarrow> Action \<Rightarrow> string \<Rightarrow> string \<Rightarrow> run \<times> db \<Rightarrow> Action \<times> run \<times> db" where
  "finishAction w a newStatus message s =
     (case dbCall w s of (failed, now, r, d) \<Rightarrow>
        let a1 = a\<lparr>act_status := newStatus, act_message := message, act_finishedAt := Some now\<rparr>
        in (a1, count_result newStatus r, if failed then d else fst (UpdateAction now a1 d)))"

definition appendNote :: "world \<Rightarrow> string \<Rightarrow> Action \<Rightarrow> run \<times> db \<Rightarrow> Action \<times> run \<times> db" where
  "appendNote w note a s =
     (if TrimSpace note = [] then (a, s)
      else case dbCall w s of (failed, now, r, d) \<Rightarrow>
        let a1 = a\<lparr>act_message := TrimSpace (act_message a @ '' | '' @ note)\<rparr>
        in (a1, r, if failed then d else fst (UpdateAction now a1 d)))"

text \<open>Cancelling the actions that are still pending in memory.\<close>

fun cancel_actions :: "world \<Rightarrow> string \<Rightarrow> Action list \<Rightarrow> run \<times> db \<Rightarrow> run \<times> db" where
  "cancel_actions w message [] s = s"
| "cancel_actions w message (a # as) s =
     (if act_status a \<noteq> ActionPending then cancel_actions w message as s
      else case dbCall w s of (failed, now, r, d) \<Rightarrow>
        let a1 = a\<lparr>act_status := ActionCancelled, act_message := message, act_finishedAt := Some now\<rparr>
        in cancel_actions w message as (r, if failed then d else fst (UpdateAction now a1 d)))"

definition setRunStatus :: "world \<Rightarrow> int \<Rightarrow> string \<Rightarrow> string \<Rightarrow> run \<times> db \<Rightarrow> bool \<times> run \<times> db" where
  "setRunStatus w i newStatus reason s =
     (case dbCall w s of (failed, now, r, d) \<Rightarrow>
        if failed then (False, r, d)
        else case UpdateStatusIf now i [GroupQueued, newStatus] newStatus reason d of
               (d1, Inl _) \<Rightarrow> (False, r, d1)
             | (d1, Inr ok) \<Rightarrow> (ok, r, d1))"

definition setPlaying :: "world \<Rightarrow> int \<Rightarrow> bool \<Rightarrow> run \<times> db \<Rightarrow> run \<times> db" where
  "setPlaying w i on s =
     (case dbCall w s of (failed, now, r, d) \<Rightarrow> (r, if failed then d else fst (SetFlag now i FlagPlaying on d)))"

fun skip_actions :: "world \<Rightarrow> string \<Rightarrow> Action list \<Rightarrow> run \<times> db \<Rightarrow> run \<times> db" where
  "skip_actions w reason [] s = s"
| "skip_actions w reason (a # as) s =
     skip_actions w reason as
       (if act_status a \<noteq> ActionPending then s else snd (finishAction w a ActionSkipped (''Skipped: '' @ reason) s))"

definition enabledServers :: "queueConfig \<Rightarrow> MediaServer list" where
  "enabledServers c = filter (\<lambda>s. ms_enabled s \<and> Supported (ms_kind s)) (qc_servers c)"

definition multiServer :: "queueConfig \<Rightarrow> bool" where
  "multiServer c \<longleftrightarrow> 2 \<le> length (enabledServers c)"

text \<open>The rating keys to scan again, per server, with those of other servers.\<close>

definition merge_rescans :: "(int \<times> string list) list \<Rightarrow> (int \<times> string list) list \<Rightarrow> (int \<times> string list) list" where
  "merge_rescans own extra =
     map (\<lambda>s. (s, sort (dedup (concat (map snd (filter (\<lambda>k. fst k = s) (own @ extra)))))))
       (sort (dedup (map fst (own @ extra))))"

definition skipGroup ::
  "world \<Rightarrow> queueConfig \<Rightarrow> DuplicateGroup \<Rightarrow> Action list \<Rightarrow> string \<Rightarrow> bool \<Rightarrow> (int \<times> string list) list \<Rightarrow> run \<times> db \<Rightarrow> run \<times> db" where
  "skipGroup w c g as reason rescan extra s =
     (case snd (setRunStatus w (g_id g) GroupReview reason (skip_actions w reason as s)) of (r, d) \<Rightarrow>
        if \<not> rescan then (r, d)
        else let byServer = merge_rescans (involvedRatingKeys g) extra in
             if multiServer c
             then (r\<lparr>rn_rescans := fold add_new (concat (map (\<lambda>(sid, rks). map (Pair sid) rks) byServer)) (rn_rescans r)\<rparr>, d)
             else (r\<lparr>rn_commands := rn_commands r @ byServer\<rparr>, d))"

definition flushRescans :: "run \<Rightarrow> run" where
  "flushRescans r = r\<lparr>rn_commands := rn_commands r @ groupRatingKeys (rn_rescans r), rn_rescans := []\<rparr>"

definition deferGroup :: "world \<Rightarrow> DuplicateGroup \<Rightarrow> string \<Rightarrow> bool \<Rightarrow> bool \<Rightarrow> run \<times> db \<Rightarrow> run \<times> db" where
  "deferGroup w g reason failure playing s =
     (case s of (r, d) \<Rightarrow>
        let s1 = (r\<lparr>rn_deferred := rn_deferred r + 1\<rparr>, d);
            s2 = (if playing then setPlaying w (g_id g) True s1 else s1);
            (r3, d3) = snd (setRunStatus w (g_id g) GroupQueued
                         (''Waiting: '' @ reason @ ''; the removals stay queued for the next run'') s2)
        in (if failure then noteFailure r3 else r3, d3))"

section \<open>What the group and its removals must still satisfy\<close>

definition findTargetFile :: "DuplicateGroup \<Rightarrow> Action \<Rightarrow> GroupFile option" where
  "findTargetFile g a =
     (if act_versionKey a = [] \<and> act_groupFileID a = 0 then None
      else find (\<lambda>f. (act_versionKey a = [] \<or> f_key f = act_versionKey a) \<and>
                     (act_groupFileID a = 0 \<or> f_id f = act_groupFileID a)) (g_files g))"

definition exec_isShared :: "MediaVersion \<Rightarrow> bool" where
  "exec_isShared v \<longleftrightarrow> list_ex (\<lambda>p. p_sharedWith p \<noteq> []) (v_parts v) \<or> v_episodeEnd v > 0 \<or>
     (case v_arr v of Some a \<Rightarrow> a_kind a = ArrSonarr \<and> length (a_episodeIDs a) > 1 | None \<Rightarrow> False)"

definition hasShortcut :: "MediaVersion \<Rightarrow> bool" where
  "hasShortcut v \<longleftrightarrow> list_ex (\<lambda>p. p_shortcutOf p \<noteq> []) (v_parts v)"

definition disc_part_path :: "Mapper \<Rightarrow> int \<Rightarrow> MediaPart \<Rightarrow> string option" where
  "disc_part_path m sid p =
     (if IsDiscPath (p_path p) then Some (p_path p)
      else if p_localPath p \<noteq> [] \<and> IsDiscPath (p_localPath p) then Some (p_localPath p)
      else case ToLocal (Some m) PathSourceServer sid (p_path p) of
             Some l \<Rightarrow> if IsDiscPath l then Some l else None
           | None \<Rightarrow> None)"

definition discMember :: "queueConfig \<Rightarrow> MediaVersion \<Rightarrow> string" where
  "discMember c v =
     (if v_disc v \<noteq> None then []
      else case first_some (disc_part_path (New (qc_mappings c)) (v_serverID v)) (v_parts v) of Some p \<Rightarrow> p | None \<Rightarrow> [])"

definition discMemberProblem :: "queueConfig \<Rightarrow> MediaVersion \<Rightarrow> string" where
  "discMemberProblem c v =
     (if discMember c v \<noteq> [] then discMember c v @ '' lies inside a full-disc backup; a disc is only ever removed as a whole'' else [])"

text \<open>Older rows may lack the server of a version: the group's applies.\<close>

definition fill_servers :: "DuplicateGroup \<Rightarrow> DuplicateGroup" where
  "fill_servers g =
     g\<lparr>g_files := map (\<lambda>f. if v_serverID (f_version f) = 0
                           then f\<lparr>f_version := (f_version f)\<lparr>v_serverID := g_serverID g\<rparr>\<rparr> else f) (g_files g)\<rparr>"

definition target_problem :: "queueConfig \<Rightarrow> target \<Rightarrow> string list" where
  "target_problem c t =
     (case t of
        (a, None) \<Rightarrow> [''the version to remove ('' @ act_versionKey a @ '') is no longer part of the group'']
      | (a, Some f) \<Rightarrow>
          let v = f_version f; name = describeVersion v in
          if f_decision f \<noteq> DecisionRemove \<or> f_protected f then [''the version '' @ name @ '' is no longer marked for removal'']
          else if \<not> samePathList (act_paths a) (partPaths v) then [''the files of '' @ name @ '' changed since the group was approved'']
          else if v_disc v \<noteq> None \<and> act_size a \<noteq> TotalSize v
          then [''the full disc '' @ name @ '' changed since the group was approved ('' @ Itoa (act_size a) @ '' bytes then, '' @
                Itoa (TotalSize v) @ '' now)'']
          else if exec_isShared v then [name @ '' is a multi-episode file shared with other episodes'']
          else if hasShortcut v then [''a .strm shortcut points to '' @ name]
          else if exec_isOptimized v then [name @ '' is a Plex optimized version'']
          else if discMember c v \<noteq> [] then [discMemberProblem c v]
          else [])"

text \<open>The text of an error of \<open>ValidateDecisions\<close>.\<close>

definition invariant_text :: "invariant_error \<Rightarrow> string" where
  "invariant_text e =
     ''safety invariant violated: '' @
     (case e of Problems ps \<Rightarrow> Join ps ''; '' | NoFilesError k \<Rightarrow> ''group '' @ Quote k @ '' has no files'' | NilGroupError \<Rightarrow> ''nil group'')"

definition queue_problems :: "queueConfig \<Rightarrow> DuplicateGroup \<Rightarrow> target list \<Rightarrow> string list" where
  "queue_problems c g ts =
     concat (map (target_problem c) ts) @ (case ValidateDecisions (Some g) of Some e \<Rightarrow> [invariant_text e] | None \<Rightarrow> [])"

definition queue_default :: "queueConfig \<Rightarrow> Profile" where
  "queue_default c = (case find pf_isDefault (qc_profiles c) of Some p \<Rightarrow> p | None \<Rightarrow> hd ProfileTemplates)"

definition queue_profileFor :: "queueConfig \<Rightarrow> DuplicateGroup \<Rightarrow> Profile" where
  "queue_profileFor c g =
     (case library_ids g of
        i # _ \<Rightarrow>
          (case lib_at (qc_libraries c) i of
             Some l \<Rightarrow> (case l_profileID l of
                 Some pid \<Rightarrow> (case find (\<lambda>p. pf_id p = pid) (qc_profiles c) of Some p \<Rightarrow> p | None \<Rightarrow> queue_default c)
               | None \<Rightarrow> queue_default c)
           | None \<Rightarrow> queue_default c)
      | [] \<Rightarrow> queue_default c)"

definition forbidden_version :: "golib \<Rightarrow> queueConfig \<Rightarrow> Profile \<Rightarrow> MediaVersion \<Rightarrow> string option" where
  "forbidden_version lib c prof v =
     (let reason = ProtectionReason lib prof (Some v) (lib_at (qc_libraries c)) in
      case (case lib_at (qc_libraries c) (v_libraryID v) of Some l \<Rightarrow> if \<not> l_enabled l then Some l else None | None \<Rightarrow> None) of
        Some l \<Rightarrow> Some (''the library '' @ Quote (l_title l) @ '' of '' @ describeVersion v @ '' is disabled; enable it and scan again to act on it'')
      | None \<Rightarrow>
          if reason \<noteq> [] then Some (''the profile '' @ Quote (pf_name prof) @ '' now protects '' @ describeVersion v @ '' ('' @ reason @ '')'')
          else None)"

definition notAllowedNow :: "golib \<Rightarrow> queueConfig \<Rightarrow> Settings \<Rightarrow> DuplicateGroup \<Rightarrow> target list \<Rightarrow> string" where
  "notAllowedNow lib c st g ts =
     (let reason = ExclusionReason lib (qc_exclusions c) (Some g) in
      if reason \<noteq> [] then ''it is excluded now ('' @ reason @ ''); remove the exclusion and scan again to act on it''
      else if discRemovalProblem g st True \<noteq> [] then discRemovalProblem g st True
      else case first_some (\<lambda>t. case snd t of None \<Rightarrow> None
                                | Some f \<Rightarrow> forbidden_version lib c (queue_profileFor c g) (f_version f)) ts of
             Some s \<Rightarrow> s | None \<Rightarrow> [])"

definition server_record_problem :: "queueConfig \<Rightarrow> CrossServerRecord \<Rightarrow> MediaServer \<Rightarrow> string option" where
  "server_record_problem c cr srv =
     (case find (\<lambda>s. cs_serverID s = ms_id srv) (cr_servers cr) of
        None \<Rightarrow> Some (''the media server '' @ ms_name srv @ '' was enabled after its last scan'')
      | Some s \<Rightarrow>
          if \<not> EqualFold (TrimSpace (cs_machineIdentifier s)) (TrimSpace (ms_machineIdentifier srv))
          then Some (''the identity of the media server '' @ ms_name srv @ '' changed after its last scan'')
          else if cs_separate s \<noteq> isSeparate srv
          then Some (''the storage setting of the media server '' @ ms_name srv @ '' changed after its last scan'')
          else if cs_mappings s \<noteq> Fingerprint (Some (New (qc_mappings c))) PathSourceServer (ms_id srv)
          then Some (''the path mappings of the media server '' @ ms_name srv @ '' changed after its last scan'')
          else None)"

definition crossServerRecordProblem :: "queueConfig \<Rightarrow> DuplicateGroup \<Rightarrow> string" where
  "crossServerRecordProblem c g =
     (let rescan = ''; nothing is removed until a scan has compared it with every media server'' in
      if \<not> multiServer c then []
      else case g_crossServer g of
        None \<Rightarrow> ''it was scanned before several media servers were enabled (or by an older version of Dupearr)'' @ rescan
      | Some cr \<Rightarrow>
          if \<not> cr_complete cr then ''its last scan could not read every media server that may list its files'' @ rescan
          else case first_some (server_record_problem c cr) (sort_by (\<lambda>a b. ms_id a < ms_id b) (enabledServers c)) of
                 Some s \<Rightarrow> s @ rescan | None \<Rightarrow> [])"

section \<open>Versions kept by other groups\<close>

datatype conflict = NoConflict | KeptBy string | OthersUnread

definition live_group :: "DuplicateGroup \<Rightarrow> bool" where
  "live_group o1 \<longleftrightarrow> g_status o1 \<noteq> GroupResolved \<and> g_status o1 \<noteq> GroupIgnored"

definition group_tag :: "DuplicateGroup \<Rightarrow> string" where
  "group_tag g = exec_displayTitle g @ '', #'' @ Itoa (g_id g)"

definition keeps_key :: "string \<Rightarrow> DuplicateGroup \<Rightarrow> bool" where
  "keeps_key k o1 \<longleftrightarrow> live_group o1 \<and> list_ex (\<lambda>f. f_key f = k \<and> f_decision f \<noteq> DecisionRemove) (g_files o1)"

fun crossKept :: "world \<Rightarrow> (MediaVersion \<times> OtherListing) list \<Rightarrow> run \<times> db \<Rightarrow> conflict \<times> run \<times> db" where
  "crossKept w [] s = (NoConflict, s)"
| "crossKept w ((v, e) # es) s =
     (case rn_keptInRun (fst s) (o_versionKey e) of
        Some label \<Rightarrow>
          (KeptBy (''the file of '' @ describeVersion v @ '' is also listed by '' @ o_serverName e @
             '', whose version was kept by another duplicate group ('' @ label @ '') whose copies were removed in this run''), s)
      | None \<Rightarrow>
          if TrimSpace (o_ratingKey e) = [] then crossKept w es s
          else case dbCall w s of (failed, _, r, d) \<Rightarrow>
            if failed then (OthersUnread, r, d)
            else case find (keeps_key (o_versionKey e)) (ListByRatingKeys (o_serverID e) [TrimSpace (o_ratingKey e)] d) of
                   Some o1 \<Rightarrow> (KeptBy (''the file of '' @ describeVersion v @ '' is kept by a duplicate group of '' @ o_serverName e @
                                '' ('' @ group_tag o1 @ '')''), r, d)
                 | None \<Rightarrow> crossKept w es (r, d))"

definition kept_file :: "string list \<Rightarrow> DuplicateGroup \<Rightarrow> GroupFile option" where
  "kept_file removing o1 =
     (if live_group o1 then find (\<lambda>f. f_key f \<in> set removing \<and> f_decision f \<noteq> DecisionRemove) (g_files o1) else None)"

text \<open>The other groups with a version to remove, server by server.\<close>

fun kept_on_servers ::
  "world \<Rightarrow> int \<Rightarrow> string list \<Rightarrow> (int \<times> string list) list \<Rightarrow> run \<times> db \<Rightarrow> conflict \<times> run \<times> db" where
  "kept_on_servers w self removing [] s = (NoConflict, s)"
| "kept_on_servers w self removing ((sid, rks) # rest) s =
     (case dbCall w s of (failed, _, r, d) \<Rightarrow>
        if failed then (OthersUnread, r, d)
        else case first_some (\<lambda>o1. map_option (Pair o1) (kept_file removing o1))
                    (filter (\<lambda>o1. g_id o1 \<noteq> self) (ListByRatingKeys sid rks d)) of
               Some (o1, f) \<Rightarrow> (KeptBy (''the version '' @ describeVersion (f_version f) @ '' is kept by another duplicate group ('' @
                                 group_tag o1 @ '')''), r, d)
             | None \<Rightarrow> kept_on_servers w self removing rest (r, d))"

definition target_versions :: "target list \<Rightarrow> MediaVersion list" where
  "target_versions ts = List.map_filter (\<lambda>t. map_option f_version (snd t)) ts"

definition target_servers :: "DuplicateGroup \<Rightarrow> MediaVersion list \<Rightarrow> (int \<times> string list) list" where
  "target_servers g vs =
     (let ks = dedup (filter (\<lambda>k. snd k \<noteq> []) (map (\<lambda>v. (serverOf g v, TrimSpace (v_ratingKey v))) vs))
      in map (\<lambda>s. (s, map snd (filter (\<lambda>k. fst k = s) ks))) (sort (dedup (map fst ks))))"

definition keptElsewhere :: "world \<Rightarrow> DuplicateGroup \<Rightarrow> target list \<Rightarrow> run \<times> db \<Rightarrow> conflict \<times> run \<times> db" where
  "keptElsewhere w g ts s =
     (let vs = target_versions ts in
      case crossKept w (concat (map (\<lambda>v. map (Pair v) (v_otherServers v)) vs)) s of
        (NoConflict, s1) \<Rightarrow>
          (case find (\<lambda>v. rn_keptInRun (fst s1) (v_key v) \<noteq> None) vs of
             Some v \<Rightarrow> (KeptBy (''the version '' @ describeVersion v @ '' was kept by another duplicate group ('' @
                          the (rn_keptInRun (fst s1) (v_key v)) @ '') whose copies were removed in this run''), s1)
           | None \<Rightarrow> kept_on_servers w (g_id g) (map v_key vs) (target_servers g vs) s1)
      | other \<Rightarrow> other)"

section \<open>The media servers of a group\<close>

text \<open>What happens to the group after a check; \<open>StopGroup\<close>: the run was cancelled, everything stays queued.\<close>

datatype verdict =
    Proceed
  | SkipGroup string bool "(int \<times> string list) list"
  | DeferGroup string bool bool
  | RefuseGroup Action string
  | StopGroup

fun check_all :: "('a \<Rightarrow> run \<Rightarrow> verdict \<times> run) \<Rightarrow> 'a list \<Rightarrow> run \<Rightarrow> verdict \<times> run" where
  "check_all f [] r = (Proceed, r)"
| "check_all f (x # xs) r = (case f x r of (Proceed, r1) \<Rightarrow> check_all f xs r1 | (v, r1) \<Rightarrow> (v, r1))"

definition unreadable :: "world \<Rightarrow> string \<Rightarrow> run \<Rightarrow> verdict \<times> run" where
  "unreadable w reason r = (case ctxErr w r of (c, r1) \<Rightarrow> (if c then StopGroup else DeferGroup reason True False, r1))"

definition server_name :: "queueConfig \<Rightarrow> int \<Rightarrow> string" where
  "server_name c sid = (case server_at (qc_servers c) sid of Some s \<Rightarrow> ms_name s | None \<Rightarrow> [])"

definition server_kind :: "queueConfig \<Rightarrow> int \<Rightarrow> string" where
  "server_kind c sid = (case server_at (qc_servers c) sid of Some s \<Rightarrow> ms_kind s | None \<Rightarrow> [])"

text \<open>Why there is no client of a server, \<open>[]\<close> when there is one.\<close>

definition serverClient :: "world \<Rightarrow> queueConfig \<Rightarrow> int \<Rightarrow> string" where
  "serverClient w c sid =
     (case server_at (qc_servers c) sid of
        None \<Rightarrow> ''media server #'' @ Itoa sid @ '' no longer exists''
      | Some s \<Rightarrow>
          if \<not> ms_enabled s then ''media server '' @ ms_name s @ '' is disabled''
          else if \<not> w_client w sid then ''no client for media server '' @ ms_name s
          else [])"

definition serverIdentityProblem :: "world \<Rightarrow> queueConfig \<Rightarrow> int \<Rightarrow> int \<Rightarrow> answer" where
  "serverIdentityProblem w c gid sid =
     (case server_at (qc_servers c) sid of
        None \<Rightarrow> Fine
      | Some srv \<Rightarrow>
          let want = TrimSpace (ms_machineIdentifier srv) in
          if want = [] then Fine
          else case w_identity w gid sid of
            Inl e \<Rightarrow> Unread e
          | Inr answered \<Rightarrow>
              if EqualFold (TrimSpace answered) want then Fine
              else Problem (''server identity changed: '' @ ms_name srv @ '' now answers as '' @ kindLabel (ms_kind srv) @ '' server '' @
                     Quote (TrimSpace answered) @ '' but Dupearr knows it as '' @ Quote want @
                     '' (was its URL changed to another server?); nothing was removed '' @ emdash @
                     '' check the media server's settings, then scan again''))"

definition client_check :: "world \<Rightarrow> queueConfig \<Rightarrow> int \<Rightarrow> run \<Rightarrow> verdict \<times> run" where
  "client_check w c sid r =
     (let reason = serverClient w c sid
      in (if reason \<noteq> [] then SkipGroup (''Cannot re-verify the group: '' @ reason) False [] else Proceed, r))"

definition identity_check :: "world \<Rightarrow> queueConfig \<Rightarrow> int \<Rightarrow> int \<Rightarrow> run \<Rightarrow> verdict \<times> run" where
  "identity_check w c gid sid r =
     (case serverIdentityProblem w c gid sid of
        Fine \<Rightarrow> (Proceed, r)
      | Problem p \<Rightarrow> (SkipGroup p False [], r)
      | Unread e \<Rightarrow> unreadable w (''could not confirm the identity of '' @ server_name c sid @ '' ('' @ e @ '')'') r)"

definition exec_readOnlyVersion :: "MediaVersion \<Rightarrow> bool" where
  "exec_readOnlyVersion v \<longleftrightarrow> (case KindOfVersionKey (v_key v) of Some k \<Rightarrow> ReadOnly k | None \<Rightarrow> False)"

definition on_read_only :: "queueConfig \<Rightarrow> DuplicateGroup \<Rightarrow> MediaVersion \<Rightarrow> bool" where
  "on_read_only c g v \<longleftrightarrow> ReadOnly (server_kind c (serverOf g v)) \<or> exec_readOnlyVersion v"

definition unmapped_problem :: "queueConfig \<Rightarrow> DuplicateGroup \<Rightarrow> MediaVersion \<Rightarrow> string option" where
  "unmapped_problem c g v =
     (let p = unmappedPart (New (qc_mappings c)) (serverOf g v) v in
      if p = [] then None
      else Some (''no path mapping covers '' @ p @ '' any more, and '' @ kindLabel (server_kind c (serverOf g v)) @
                 '' never reports whether a file exists''))"

definition gate_check :: "world \<Rightarrow> queueConfig \<Rightarrow> int \<Rightarrow> int \<Rightarrow> run \<Rightarrow> verdict \<times> run" where
  "gate_check w c gid sid r =
     (let name = server_name c sid; unread = (\<lambda>why. case ctxErr w r of (x, r1) \<Rightarrow> (if x then StopGroup else DeferGroup why True False, r1)) in
      if (case server_at (qc_servers c) sid of Some s \<Rightarrow> TrimSpace (ms_machineIdentifier s) = [] | None \<Rightarrow> True)
      then (SkipGroup (''Not removed: the media server '' @ name @ '' is stored without its identity, so its answers cannot be trusted; test and save it (Settings '' @
              rarrow @ '' Media Servers)'') False [], r)
      else if serverClient w c sid \<noteq> [] then unread (''cannot check '' @ name @ '': '' @ serverClient w c sid)
      else case w_gate w gid sid of
             Fine \<Rightarrow> (Proceed, r)
           | Problem why \<Rightarrow> (SkipGroup (''Not removed: removals from '' @ name @ '' are disabled: '' @ why) True [], r)
           | Unread e \<Rightarrow> unread (''could not read whether removals from '' @ name @ '' are safe ('' @ e @ '')''))"

definition readOnlyRunProblem :: "world \<Rightarrow> queueConfig \<Rightarrow> DuplicateGroup \<Rightarrow> run \<Rightarrow> verdict \<times> run" where
  "readOnlyRunProblem w c g r =
     (let vs = filter (on_read_only c g) (versions_of g) in
      if readOnlyGroup g = None then (Proceed, r)
      else case first_some (unmapped_problem c g) vs of
             Some p \<Rightarrow> (SkipGroup (''Not removed: '' @ p) True [], r)
           | None \<Rightarrow> check_all (gate_check w c (g_id g)) (sort (dedup (map (serverOf g) vs))) r)"

definition rating_keys_on :: "DuplicateGroup \<Rightarrow> int \<Rightarrow> string list" where
  "rating_keys_on g sid = (case map_of (involvedRatingKeys g) sid of Some ks \<Rightarrow> ks | None \<Rightarrow> [])"

definition source_ids :: "MediaVersion \<Rightarrow> string list" where
  "source_ids v =
     (case KindOfVersionKey (v_key v) of
        None \<Rightarrow> []
      | Some k \<Rightarrow> if IsPlex k then [] else filter (\<lambda>i. i \<noteq> []) (map TrimSpace (v_sourceID v # map p_itemID (v_parts v))))"

definition playingKeys :: "DuplicateGroup \<Rightarrow> int \<Rightarrow> string list" where
  "playingKeys g sid =
     fold add_new (concat (map source_ids (filter (\<lambda>v. serverOf g v = sid) (versions_of g)))) (rating_keys_on g sid)"

definition playing_check :: "world \<Rightarrow> queueConfig \<Rightarrow> DuplicateGroup \<Rightarrow> int \<Rightarrow> run \<Rightarrow> verdict \<times> run" where
  "playing_check w c g sid r =
     (case w_sessions w (g_id g) sid of
        Inl e \<Rightarrow> unreadable w (''could not check whether a version is playing on '' @ server_name c sid @ '' ('' @ e @ '')'') r
      | Inr sessions \<Rightarrow>
          (if list_ex (\<lambda>i. i \<in> set sessions) (playingKeys g sid)
           then DeferGroup ''a version is currently playing'' False True else Proceed, r))"

definition involved_items :: "DuplicateGroup \<Rightarrow> refKey list" where
  "involved_items g = concat (map (\<lambda>(sid, rks). map (Pair sid) rks) (involvedRatingKeys g))"

definition item_check :: "world \<Rightarrow> queueConfig \<Rightarrow> DuplicateGroup \<Rightarrow> refKey \<Rightarrow> run \<Rightarrow> verdict \<times> run" where
  "item_check w c g k r =
     (case w_item w (g_id g) (fst k) (snd k) of
        ItemUnread e \<Rightarrow> unreadable w (''could not re-check item '' @ snd k @ '' with '' @ server_name c (fst k) @ '' ('' @ e @ '')'') r
      | _ \<Rightarrow> (Proceed, r))"

definition fresh_items :: "world \<Rightarrow> DuplicateGroup \<Rightarrow> refKey \<Rightarrow> MediaItem option" where
  "fresh_items w g k =
     (if k \<in> set (involved_items g)
      then (case w_item w (g_id g) (fst k) (snd k) of ItemFound it \<Rightarrow> Some it | _ \<Rightarrow> None) else None)"

definition verify_check :: "world \<Rightarrow> DuplicateGroup \<Rightarrow> target list \<Rightarrow> run \<Rightarrow> verdict \<times> run" where
  "verify_check w g ts r =
     (let vr = w_verify w g ts (fresh_items w g) in
      (if vr_problem vr \<noteq> [] then SkipGroup (vr_problem vr) True []
       else if vr_wait vr \<noteq> [] then DeferGroup (vr_wait vr) False False else Proceed, r))"

definition others_check :: "world \<Rightarrow> queueConfig \<Rightarrow> DuplicateGroup \<Rightarrow> target list \<Rightarrow> run \<Rightarrow> verdict \<times> run" where
  "others_check w c g ts r =
     (let cc = w_otherServers w g ts in
      if \<not> multiServer c then (Proceed, r)
      else if cc_problem cc \<noteq> [] then (SkipGroup (''Not removed: '' @ cc_problem cc) True (cc_rescan cc), r)
      else if cc_wait cc \<noteq> []
      then (case ctxErr w r of (x, r1) \<Rightarrow> (if x then StopGroup else DeferGroup (cc_wait cc) (cc_failure cc) (cc_playing cc), r1))
      else (Proceed, r))"

section \<open>The method of a removal\<close>

text \<open>A method, or why it is not available and whether no other one may be tried.\<close>

datatype pick = Pick methodChoice | NoPick string bool

definition arrChoice :: "world \<Rightarrow> queueConfig \<Rightarrow> MediaVersion \<Rightarrow> pick" where
  "arrChoice w c v =
     (case v_arr v of
        None \<Rightarrow> NoPick ''not tracked by Radarr or Sonarr'' False
      | Some info \<Rightarrow>
          case find (\<lambda>i. ar_id i = a_instanceID info) (qc_arrs c) of
            None \<Rightarrow> NoPick (''the *arr instance #'' @ Itoa (a_instanceID info) @ '' that tracks it no longer exists'') False
          | Some inst \<Rightarrow>
              if \<not> ar_enabled inst then NoPick (ar_name inst @ '' is disabled'') False
              else if a_kind info \<noteq> [] \<and> a_kind info \<noteq> ar_kind inst
              then NoPick (''the tracking data is for '' @ a_kind info @ '' but '' @ ar_name inst @ '' is '' @ ar_kind inst) False
              else if a_fileID info \<le> 0 then NoPick ''the *arr file id is unknown'' False
              else if length (v_parts v) \<noteq> 1
              then NoPick (ar_name inst @ '' tracks single files but this version has '' @ Itoa (int (length (v_parts v))) @ '' parts'') False
              else if v_disc v \<noteq> None then NoPick ''a full-disc backup is never removed through Radarr/Sonarr'' False
              else if discMemberProblem c v \<noteq> [] then NoPick (discMemberProblem c v) True
              else if \<not> w_arrClient w (ar_id inst) then NoPick (''no client for '' @ ar_name inst) False
              else case w_arrBin w (ar_id inst) of
                Inl e \<Rightarrow> NoPick (''could not read the media management settings of '' @ ar_name inst @ '' ('' @ e @
                   ''); a file it tracks is only removed through it, so it can adopt the kept copy or stop monitoring (otherwise it would download the file again)'') True
              | Inr bin \<Rightarrow> Pick \<lparr>ch_method = MethodArr, ch_target = ar_name inst, ch_permanent = (TrimSpace bin = []),
                             ch_arr = True, ch_disc = None\<rparr>)"

definition maxPlexStackParts :: int where "maxPlexStackParts = 8"

definition plexChoice :: "world \<Rightarrow> queueConfig \<Rightarrow> verification \<Rightarrow> MediaVersion \<Rightarrow> pick" where
  "plexChoice w c vr v =
     (let sid = v_serverID v; name = server_name c sid in
      if serverClient w c sid \<noteq> [] then NoPick (serverClient w c sid) False
      else if \<not> w_deleter w sid \<and> ReadOnly (server_kind c sid)
      then NoPick (''Dupearr never deletes through '' @ kindLabel (server_kind c sid)) False
      else if \<not> w_deleter w sid then NoPick (name @ '' cannot delete single versions'') False
      else if v_disc v \<noteq> None then NoPick ''a full-disc backup is never removed through Plex'' False
      else if discMember c v \<noteq> [] then NoPick (discMemberProblem c v) False
      else if int (length (v_parts v)) > maxPlexStackParts
      then NoPick (''it has '' @ Itoa (int (length (v_parts v))) @ '' parts, more than a Plex stack can have ('' @ Itoa maxPlexStackParts @ '')'') False
      else if exec_isShared v then NoPick ''the file is shared with other episodes'' False
      else if v_mediaID v \<le> 0 \<or> TrimSpace (v_ratingKey v) = [] then NoPick ''the Plex media id is unknown'' False
      else if \<not> vr_remains vr v
      then NoPick (''it is the last version of Plex item '' @ v_ratingKey v @
             '' that is not being removed; Dupearr never deletes an item's last version through Plex'') False
      else case w_deletionAllowed w sid of
             Inl e \<Rightarrow> NoPick (''could not read whether '' @ name @ '' allows media deletion ('' @ e @ '')'') False
           | Inr False \<Rightarrow> NoPick (''\"Allow media deletion\" is disabled on '' @ name @ '' (Plex Settings '' @ rarrow @ '' Library)'') False
           | Inr True \<Rightarrow> Pick \<lparr>ch_method = MethodPlex, ch_target = name, ch_permanent = True, ch_arr = False, ch_disc = None\<rparr>)"

definition readOnlyMethodRule :: "string \<Rightarrow> methodChoice \<Rightarrow> (string \<times> bool) option" where
  "readOnlyMethodRule label ch =
     (let base = label @ '' copies are only removed into a recycle bin (Radarr/Sonarr's or Dupearr's)'' in
      if \<not> ch_permanent ch then None
      else if ch_method ch = MethodArr
      then Some (base @ ''; '' @ ch_target ch @ '' deletes permanently (turn on its recycle bin: Settings '' @ rarrow @ '' Media Management)'', True)
      else Some (base @ ''; Dupearr's recycle bin is not set (Settings '' @ rarrow @ '' Media Management)'', False))"

definition sum_pick :: "string + methodChoice \<Rightarrow> pick" where
  "sum_pick x = (case x of Inl why \<Rightarrow> NoPick why False | Inr ch \<Rightarrow> Pick ch)"

definition raw_pick :: "world \<Rightarrow> queueConfig \<Rightarrow> DuplicateGroup \<Rightarrow> verification \<Rightarrow> MediaVersion \<Rightarrow> string \<Rightarrow> pick" where
  "raw_pick w c g vr v m =
     (if m = MethodArr \<and> v_disc v \<noteq> None
      then NoPick ''a full-disc backup is never removed through Radarr/Sonarr (they track single files; that would corrupt the disc)'' False
      else if m = MethodPlex \<and> v_disc v \<noteq> None
      then NoPick ''a full-disc backup is never removed through Plex (it only knows some of the disc's files)'' False
      else if m = MethodFilesystem \<and> v_disc v \<noteq> None then sum_pick (w_discChoice w g v)
      else if m = MethodArr then arrChoice w c v
      else if m = MethodPlex then plexChoice w c vr v
      else if m = MethodFilesystem then sum_pick (w_fsChoice w g v)
      else NoPick ''unknown deletion method'' False)"

definition read_only_kind :: "queueConfig \<Rightarrow> DuplicateGroup \<Rightarrow> MediaVersion \<Rightarrow> string" where
  "read_only_kind c g v =
     (case KindOfVersionKey (v_key v) of
        Some k \<Rightarrow> if ReadOnly k then k else server_kind c (serverOf g v)
      | None \<Rightarrow> server_kind c (serverOf g v))"

definition method_pick :: "world \<Rightarrow> queueConfig \<Rightarrow> DuplicateGroup \<Rightarrow> verification \<Rightarrow> MediaVersion \<Rightarrow> string \<Rightarrow> pick" where
  "method_pick w c g vr v m =
     (case raw_pick w c g vr v m of
        Pick ch \<Rightarrow>
          (if on_read_only c g v
           then (case readOnlyMethodRule (kindLabel (read_only_kind c g v)) ch of
                   Some (why, stop) \<Rightarrow> NoPick why stop | None \<Rightarrow> Pick ch)
           else Pick ch)
      | p \<Rightarrow> p)"

fun try_methods ::
  "world \<Rightarrow> queueConfig \<Rightarrow> DuplicateGroup \<Rightarrow> verification \<Rightarrow> MediaVersion \<Rightarrow> string list \<Rightarrow> string list \<Rightarrow>
   string list + methodChoice" where
  "try_methods w c g vr v reasons [] = Inl reasons"
| "try_methods w c g vr v reasons (m # ms) =
     (case method_pick w c g vr v m of
        Pick ch \<Rightarrow> Inr ch
      | NoPick why stop \<Rightarrow>
          let reasons1 = reasons @ [m @ '': '' @ why]
          in if stop then Inl reasons1 else try_methods w c g vr v reasons1 ms)"

definition selectMethod ::
  "world \<Rightarrow> queueConfig \<Rightarrow> Settings \<Rightarrow> DuplicateGroup \<Rightarrow> verification \<Rightarrow> MediaVersion \<Rightarrow> string list + methodChoice" where
  "selectMethod w c st g vr v =
     (let ms = dedup (filter (\<lambda>m. m \<noteq> []) (map (\<lambda>m. ToLower (TrimSpace m)) (s_DeletionMethods st))) in
      if ms = [] then Inl [''no deletion method is enabled (Settings '' @ rarrow @ '' Media Management)'']
      else try_methods w c g vr v [] ms)"

text \<open>The methods of all removals of a group are chosen before the first one runs.\<close>

type_synonym planned = "Action \<times> GroupFile \<times> methodChoice"

fun plan_targets ::
  "world \<Rightarrow> queueConfig \<Rightarrow> DuplicateGroup \<Rightarrow> verification \<Rightarrow> (Action \<times> GroupFile) list \<Rightarrow> run \<Rightarrow>
   (verdict + planned list) \<times> run" where
  "plan_targets w c g vr [] r = (Inr [], r)"
| "plan_targets w c g vr ((a, f) # ts) r =
     (case selectMethod w c (rn_st r) g vr (f_version f) of
        Inl reasons \<Rightarrow>
          (case ctxErr w r of (x, r1) \<Rightarrow>
             (Inl (if x then StopGroup else RefuseGroup a (''No deletion method is available: '' @ Join reasons ''; '')), r1))
      | Inr ch \<Rightarrow>
          (case (if ch_arr ch then w_arrFile w a else Fine) of
             Problem stale \<Rightarrow> (Inl (SkipGroup (''Stale *arr data: '' @ stale) True []), r)
           | Unread e \<Rightarrow>
               (case unreadable w (''could not re-check file '' @
                       Itoa (case v_arr (f_version f) of Some i \<Rightarrow> a_fileID i | None \<Rightarrow> 0) @ '' with '' @ ch_target ch @ '' ('' @ e @ '')'') r of
                  (v, r1) \<Rightarrow> (Inl v, r1))
           | Fine \<Rightarrow>
               (case plan_targets w c g vr ts r of
                  (Inl v, r1) \<Rightarrow> (Inl v, r1)
                | (Inr ps, r1) \<Rightarrow> (Inr ((a, f, ch) # ps), r1))))"

definition keeper_check :: "world \<Rightarrow> DuplicateGroup \<Rightarrow> run \<Rightarrow> verdict \<times> run" where
  "keeper_check w g r =
     (case w_keeperArr w (g_id g) of
        Fine \<Rightarrow> (Proceed, r)
      | Problem stale \<Rightarrow> (SkipGroup (''Stale *arr data of the kept version: '' @ stale) True [], r)
      | Unread e \<Rightarrow> unreadable w (''could not re-check the kept version with its *arr ('' @ e @ '')'') r)"

section \<open>Carrying out removals\<close>

definition joinLimited :: "string list \<Rightarrow> nat \<Rightarrow> string" where
  "joinLimited paths n =
     (if length paths \<le> n then Join paths '', ''
      else Join (take n paths) '', '' @ '' and '' @ Itoa (int (length paths - n)) @ '' more'')"

definition dry_run_message :: "Action \<Rightarrow> methodChoice \<Rightarrow> string" where
  "dry_run_message a ch =
     (case ch_disc ch of
        None \<Rightarrow> ''Would delete via '' @ ch_method ch @ '' ('' @ ch_target ch @ ''): '' @ joinLimited (act_paths a) 5
      | Some dp \<Rightarrow> ''Would move the full disc ('' @ Itoa (dp_files dp) @ '' files, '' @ humanBytes (dp_bytes dp) @ '') to the '' @
          ch_target ch @ '' via filesystem: '' @ joinLimited (dp_entries dp) 5) @
     (if ch_permanent ch then '' [permanent]'' else [])"

text \<open>The result of one started removal: the action, and the stale data that ends the group (is a re-scan useless?).\<close>

record outcome_rec =
  oc_action :: Action
  oc_stale :: "(string \<times> bool) option"

text \<open>Dry run switched on meanwhile applies from here; \<open>None\<close>: the settings could not be read.\<close>

definition reread_settings :: "world \<Rightarrow> Action \<Rightarrow> run \<Rightarrow> run option \<times> run" where
  "reread_settings w a r =
     (if s_DryRun (rn_st r) \<or> act_dryRun a then (Some r, r)
      else let r1 = r\<lparr>rn_calls := Suc (rn_calls r)\<rparr> in
           case w_settings w (rn_calls r) of
             None \<Rightarrow>
               (case ctxErr w r1 of (x, r2) \<Rightarrow>
                  (None, if x then r2 else r2\<lparr>rn_stopped := ''the settings could not be read again before a removal''\<rparr>))
           | Some st \<Rightarrow>
               (let r2 = (if s_DryRun st then r1\<lparr>rn_st := (rn_st r1)\<lparr>s_DryRun := True\<rparr>\<rparr> else r1) in (Some r2, r2)))"

definition freed_bytes :: "Action \<Rightarrow> methodChoice \<Rightarrow> int" where
  "freed_bytes a ch = (case ch_disc ch of Some dp \<Rightarrow> dp_freed dp | None \<Rightarrow> act_size a)"

text \<open>A removal that is carried out, and what its result changes.\<close>

definition perform_removal :: "world \<Rightarrow> Action \<Rightarrow> methodChoice \<Rightarrow> run \<times> db \<Rightarrow> outcome_rec \<times> run \<times> db" where
  "perform_removal w a ch s =
     (case s of (r0, d) \<Rightarrow>
        let r = r0\<lparr>rn_removals := rn_removals r0 @ [(a, ch)]\<rparr> in
        case w_perform w a ch of
          PerformStale why noRescan \<Rightarrow>
            (case finishAction w a ActionSkipped (''Skipped: '' @ why) (r, d) of (a1, s1) \<Rightarrow>
               (\<lparr>oc_action = a1, oc_stale = Some (why, noRescan)\<rparr>, s1))
        | PerformFailed err recyclePath abort \<Rightarrow>
            (case finishAction w (a\<lparr>act_recyclePath := recyclePath\<rparr>) ActionFailed err (r, d) of (a1, r1, d1) \<Rightarrow>
               (\<lparr>oc_action = a1, oc_stale = None\<rparr>, noteFailure (if abort then abort_run err r1 else r1), d1))
        | PerformDone message recyclePaths \<Rightarrow>
            (let r2 = r\<lparr>rn_bytes := wrap64 (rn_bytes r + act_size a),
                        rn_bytesFreed := rn_bytesFreed r + freed_bytes a ch, rn_consecutive := 0\<rparr>
             in case finishAction w (a\<lparr>act_recyclePath := Join recyclePaths [CHR 0x0A]\<rparr>) ActionSucceeded message (r2, d) of
                  (a1, s1) \<Rightarrow> (\<lparr>oc_action = a1, oc_stale = None\<rparr>, s1)))"

text \<open>One removal: \<open>None\<close> when it could not be started. The action is returned as it is in memory.\<close>

definition execute_removal ::
  "world \<Rightarrow> Action \<Rightarrow> methodChoice \<Rightarrow> run \<times> db \<Rightarrow> outcome_rec option \<times> Action \<times> run \<times> db" where
  "execute_removal w a ch s =
     (case reread_settings w a (fst s) of
        (None, r) \<Rightarrow> (None, a, r, snd s)
      | (Some r, _) \<Rightarrow>
          case dbCall w (r, snd s) of (failed, now, r1, d1) \<Rightarrow>
          let a1 = a\<lparr>act_status := ActionRunning, act_startedAt := Some now\<rparr> in
          if failed then (None, a1, r1, d1)
          else case UpdateAction now a1 d1 of
            (d2, Inl _) \<Rightarrow> (None, a1, r1, d2)
          | (d2, Inr _) \<Rightarrow>
              let a2 = a1\<lparr>act_method := ch_method ch, act_permanent := ch_permanent ch\<rparr>;
                  r2 = r1\<lparr>rn_attempts := rn_attempts r1 + 1\<rparr>
              in if s_DryRun (rn_st r2) \<or> act_dryRun a2
                 then (case finishAction w a2 ActionDryRun (dry_run_message a2 ch)
                             (r2\<lparr>rn_bytes := wrap64 (rn_bytes r2 + act_size a2), rn_consecutive := 0\<rparr>, d2) of
                         (a3, s3) \<Rightarrow> (Some \<lparr>oc_action = a3, oc_stale = None\<rparr>, a3, s3))
                 else (case perform_removal w a2 ch (r2, d2) of (oc, s3) \<Rightarrow> (Some oc, oc_action oc, s3)))"

text \<open>The removals of a group in order: what was started, and the actions that were not.\<close>

fun run_removals :: "world \<Rightarrow> planned list \<Rightarrow> run \<times> db \<Rightarrow> outcome_rec list \<times> Action list \<times> run \<times> db" where
  "run_removals w [] s = ([], [], s)"
| "run_removals w ((a, f, ch) # ps) s =
     (case halted w (fst s) of (h, r1) \<Rightarrow>
      case (if h then (False, r1) else budgetAllows (act_size a) r1) of (ok, r2) \<Rightarrow>
      if \<not> ok then ([], map fst ((a, f, ch) # ps), r2, snd s)
      else case execute_removal w a ch (r2, snd s) of
        (None, a1, s1) \<Rightarrow>
          (case run_removals w ps s1 of (done, rest, s2) \<Rightarrow> (done, a1 # rest, s2))
      | (Some oc, a1, s1) \<Rightarrow>
          (if oc_stale oc \<noteq> None \<or> act_status (oc_action oc) = ActionFailed then ([oc], map fst ps, s1)
           else case run_removals w ps s1 of (done, rest, s2) \<Rightarrow> (oc # done, rest, s2)))"

text \<open>The notes of the work after the removals (*arr rescans, media server refreshes) are appended to the actions.\<close>

fun append_notes :: "world \<Rightarrow> string list \<Rightarrow> Action \<Rightarrow> run \<times> db \<Rightarrow> run \<times> db" where
  "append_notes w [] a s = s"
| "append_notes w (n # ns) a s = (case appendNote w n a s of (a1, s1) \<Rightarrow> append_notes w ns a1 s1)"

definition removed_outcomes :: "outcome_rec list \<Rightarrow> Action list" where
  "removed_outcomes done = filter (\<lambda>a. act_status a = ActionSucceeded) (map oc_action done)"

definition note_kept :: "string \<Rightarrow> GroupFile \<Rightarrow> (string \<rightharpoonup> string) \<Rightarrow> (string \<rightharpoonup> string)" where
  "note_kept label f m =
     fold (\<lambda>e m. m(o_versionKey e \<mapsto> label)) (v_otherServers (f_version f)) (m(f_key f \<mapsto> label))"

definition after_removals :: "world \<Rightarrow> DuplicateGroup \<Rightarrow> verification \<Rightarrow> outcome_rec list \<Rightarrow> run \<times> db \<Rightarrow> run \<times> db" where
  "after_removals w g vr done s =
     (if removed_outcomes done = [] then s
      else case fold (\<lambda>a s. append_notes w (w_notes w a) a s) (removed_outcomes done) s of (r, d) \<Rightarrow>
        (r\<lparr>rn_keptInRun := fold (note_kept (group_tag g)) (vr_keepers vr) (rn_keptInRun r)\<rparr>, d))"

section \<open>The status of a group after its removals\<close>

definition count_of :: "string \<Rightarrow> Action list \<Rightarrow> int" where
  "count_of s as = int (length (filter (\<lambda>a. act_status a = s) as))"

text \<open>\<open>None\<close>: nothing but cancelled actions, the status stays.\<close>

definition batch_status :: "run \<Rightarrow> Action list \<Rightarrow> (string \<times> string) option" where
  "batch_status r all =
     (let batch = filter (\<lambda>a. act_status a \<noteq> ActionCancelled) all;
          total = int (length batch); n = (\<lambda>s. count_of s all);
          waiting = n ActionPending + n ActionRunning;
          why = (if rn_stopped r \<noteq> [] then rn_stopped r else if rn_aborted r \<noteq> [] then ''the run was stopped''
                 else ''they run with the next queue run'');
          firstFail = (case find (\<lambda>a. act_status a = ActionFailed \<and> act_message a \<noteq> []) batch of Some a \<Rightarrow> act_message a | None \<Rightarrow> [])
      in if total = 0 then None
         else if n ActionFailed > 0
         then Some (GroupFailed, Itoa (n ActionFailed) @ '' of '' @ Itoa total @ '' removal(s) failed: '' @ firstFail)
         else if n ActionSkipped > 0 then Some (GroupReview, ''Some removals were skipped; check the group'')
         else if waiting > 0
         then Some (GroupQueued, Itoa (total - waiting) @ '' of '' @ Itoa total @ '' removal(s) done; the rest stay queued ('' @ why @ '')'')
         else if n ActionDryRun = total then Some (GroupPending, ''Dry run: no files were deleted'')
         else if n ActionSucceeded = total \<and> n ActionCancelled > 0
         then Some (GroupPending, ''Removed '' @ Itoa total @ '' file(s); '' @ Itoa (n ActionCancelled) @ '' removal(s) were cancelled'')
         else if n ActionSucceeded = total then Some (GroupResolved, ''Removed '' @ Itoa total @ '' duplicate file(s)'')
         else Some (GroupPending, ''Partially simulated: '' @ Itoa (n ActionSucceeded) @ '' file(s) removed, '' @
                Itoa (n ActionDryRun) @ '' only in a dry run''))"

definition finalizeGroup :: "world \<Rightarrow> DuplicateGroup \<Rightarrow> time list \<Rightarrow> run \<times> db \<Rightarrow> run \<times> db" where
  "finalizeGroup w g stamps s =
     (case dbCall w s of (failed, now, r, d) \<Rightarrow>
        if failed then (r, d)
        else case batch_status r (filter (\<lambda>a. act_createdAt a \<in> set stamps) (ListByGroup (g_id g) d)) of
          None \<Rightarrow> (r, d)
        | Some (newStatus, reason) \<Rightarrow>
            let s1 = (if HasFlag g FlagPlaying then setPlaying w (g_id g) False (r, d) else (r, d))
            in snd (setRunStatus w (g_id g) newStatus reason s1))"

definition refuseGroup :: "world \<Rightarrow> DuplicateGroup \<Rightarrow> (Action \<times> GroupFile) list \<Rightarrow> Action \<Rightarrow> string \<Rightarrow> run \<times> db \<Rightarrow> run \<times> db" where
  "refuseGroup w g ts bad msg s =
     (case finishAction w bad ActionFailed msg s of (_, r, d) \<Rightarrow>
        let s1 = snd (setRunStatus w (g_id g) GroupFailed msg (noteFailure r, d));
            name = (case find (\<lambda>t. act_id (fst t) = act_id bad) ts of Some t \<Rightarrow> describeVersion (f_version (snd t)) | None \<Rightarrow> []);
            s2 = cancel_actions w (''Not attempted: another removal of this group cannot be done ('' @ name @
                   ''); fix the cause and approve the group again'')
                   (map fst (filter (\<lambda>t. act_id (fst t) \<noteq> act_id bad) ts)) s1
        in finalizeGroup w g (map (act_createdAt \<circ> fst) ts) s2)"

section \<open>One group\<close>

definition on_run :: "(run \<Rightarrow> verdict \<times> run) \<Rightarrow> run \<times> db \<Rightarrow> verdict \<times> run \<times> db" where
  "on_run f s = (case f (fst s) of (v, r) \<Rightarrow> (v, r, snd s))"

text \<open>The checks on the stored data, before anything outside is asked.\<close>

definition stored_checks ::
  "golib \<Rightarrow> world \<Rightarrow> queueConfig \<Rightarrow> DuplicateGroup \<Rightarrow> target list \<Rightarrow> run \<times> db \<Rightarrow> verdict \<times> run \<times> db" where
  "stored_checks lib w c g ts s =
     (let forbidden = notAllowedNow lib c (rn_st (fst s)) g ts; unseen = crossServerRecordProblem c g;
          problems = queue_problems c g ts; skip = (\<lambda>ps. SkipGroup (''Stale or unsafe decisions: '' @ Join ps ''; '') True [])
      in if forbidden \<noteq> [] then (SkipGroup (''Not removed: '' @ forbidden) True [], s)
         else if unseen \<noteq> [] then (SkipGroup (''Not removed: '' @ unseen) True [], s)
         else if problems \<noteq> [] then (skip problems, s)
         else case keptElsewhere w g ts s of
           (OthersUnread, s1) \<Rightarrow> on_run (unreadable w ''could not check the other duplicate groups'') s1
         | (KeptBy why, s1) \<Rightarrow> (skip [why], s1)
         | (NoConflict, s1) \<Rightarrow> (Proceed, s1))"

text \<open>The checks that ask the media servers, in order.\<close>

fun sequence :: "(run \<Rightarrow> verdict \<times> run) list \<Rightarrow> run \<Rightarrow> verdict \<times> run" where
  "sequence [] r = (Proceed, r)"
| "sequence (f # fs) r = (case f r of (Proceed, r1) \<Rightarrow> sequence fs r1 | (v, r1) \<Rightarrow> (v, r1))"

definition server_checks :: "world \<Rightarrow> queueConfig \<Rightarrow> DuplicateGroup \<Rightarrow> target list \<Rightarrow> run \<Rightarrow> verdict \<times> run" where
  "server_checks w c g ts =
     (let servers = map fst (involvedRatingKeys g) in
      sequence [check_all (client_check w c) servers, check_all (identity_check w c (g_id g)) servers,
        readOnlyRunProblem w c g, check_all (playing_check w c g) servers, check_all (item_check w c g) (involved_items g),
        verify_check w g ts, others_check w c g ts])"

text \<open>Versions no *arr tracks first, tracked ones last.\<close>

definition tracked_last :: "(Action \<times> GroupFile) list \<Rightarrow> (Action \<times> GroupFile) list" where
  "tracked_last ts =
     filter (\<lambda>t. v_arr (f_version (snd t)) = None) ts @ filter (\<lambda>t. v_arr (f_version (snd t)) \<noteq> None) ts"

definition with_file :: "target list \<Rightarrow> (Action \<times> GroupFile) list" where
  "with_file ts = List.map_filter (\<lambda>t. map_option (Pair (fst t)) (snd t)) ts"

definition apply_verdict ::
  "world \<Rightarrow> queueConfig \<Rightarrow> DuplicateGroup \<Rightarrow> target list \<Rightarrow> verdict \<Rightarrow> run \<times> db \<Rightarrow> run \<times> db" where
  "apply_verdict w c g ts v s =
     (case v of
        SkipGroup reason rescan extra \<Rightarrow> skipGroup w c g (map fst ts) reason rescan extra s
      | DeferGroup reason failure playing \<Rightarrow> deferGroup w g reason failure playing s
      | RefuseGroup bad msg \<Rightarrow> refuseGroup w g (with_file ts) bad msg s
      | _ \<Rightarrow> s)"

text \<open>The removals of a planned group and what follows from them.\<close>

definition remove_planned ::
  "world \<Rightarrow> queueConfig \<Rightarrow> DuplicateGroup \<Rightarrow> verification \<Rightarrow> target list \<Rightarrow> planned list \<Rightarrow> run \<times> db \<Rightarrow> run \<times> db" where
  "remove_planned w c g vr ts ps s =
     (case run_removals w ps s of (done, rest, s1) \<Rightarrow>
        let s2 = after_removals w g vr done s1; stamps = map (act_createdAt \<circ> fst) ts in
        case find (\<lambda>oc. oc_stale oc \<noteq> None) done of
          Some oc \<Rightarrow> skipGroup w c g rest (fst (the (oc_stale oc))) (\<not> snd (the (oc_stale oc))) [] s2
        | None \<Rightarrow>
            if list_ex (\<lambda>oc. act_status (oc_action oc) = ActionFailed) done
            then (let s3 = snd (setRunStatus w (g_id g) GroupFailed
                        ''A removal failed; the other removals of this group were not attempted'' s2)
                  in finalizeGroup w g stamps
                       (cancel_actions w ''Not attempted: another removal of this group failed; approve the group again to retry'' rest s3))
            else finalizeGroup w g stamps s2)"

definition remove_targets ::
  "golib \<Rightarrow> world \<Rightarrow> queueConfig \<Rightarrow> DuplicateGroup \<Rightarrow> target list \<Rightarrow> run \<times> db \<Rightarrow> run \<times> db" where
  "remove_targets lib w c g ts0 s =
     (case stored_checks lib w c g ts0 s of
        (Proceed, s1) \<Rightarrow>
          (let sorted = tracked_last (with_file ts0); ts = map (\<lambda>(a, f). (a, Some f)) sorted;
               vr = w_verify w g ts (fresh_items w g)
           in case on_run (server_checks w c g ts) s1 of
             (Proceed, r2, d2) \<Rightarrow>
               (case plan_targets w c g vr sorted r2 of
                  (Inl v, r3) \<Rightarrow> apply_verdict w c g ts v (r3, d2)
                | (Inr ps, r3) \<Rightarrow>
                    (case keeper_check w g r3 of
                       (Proceed, r4) \<Rightarrow> remove_planned w c g vr ts ps (r4, d2)
                     | (v, r4) \<Rightarrow> apply_verdict w c g ts v (r4, d2)))
           | (v, s2) \<Rightarrow> apply_verdict w c g ts v s2)
      | (v, s1) \<Rightarrow> apply_verdict w c g ts0 v s1)"

definition processGroup :: "golib \<Rightarrow> world \<Rightarrow> queueConfig \<Rightarrow> int \<Rightarrow> Action list \<Rightarrow> run \<times> db \<Rightarrow> run \<times> db" where
  "processGroup lib w c groupID actions s =
     (case dbCall w s of (failed, now, r, d) \<Rightarrow>
        if failed then (case ctxErr w r of (x, r1) \<Rightarrow> (if x then r1 else noteFailure r1, d))
        else case Get groupID d of
          None \<Rightarrow> cancel_actions w ''Cancelled: the duplicate group no longer exists'' actions (r, d)
        | Some g0 \<Rightarrow>
            let g = fill_servers g0 in
            if g_status g = GroupFailed
            then cancel_actions w ''Cancelled: another removal of this group failed; approve the group again to retry'' actions (r, d)
            else if g_status g \<noteq> GroupQueued
            then cancel_actions w (''Cancelled: the group is no longer queued (status '' @ Quote (g_status g) @ '')'') actions (r, d)
            else remove_targets lib w c g (map (\<lambda>a. (a, findTargetFile g a)) actions) (r, d))"

section \<open>Recovery after a restart\<close>

definition interruptedMessage :: string where
  "interruptedMessage = ''Interrupted by a restart while running '' @ emdash @ '' verify the files, then re-approve''"

definition recoverFrom :: "string list" where
  "recoverFrom = [GroupPending, GroupReview, GroupDeferred, GroupProtected, GroupQueued, GroupResolved, GroupFailed]"

text \<open>Every running action becomes failed; the groups of those that could be written are returned in order.\<close>

fun fail_running :: "world \<Rightarrow> Action list \<Rightarrow> run \<times> db \<Rightarrow> int list \<times> run \<times> db" where
  "fail_running w [] s = ([], s)"
| "fail_running w (a # as) s =
     (case dbCall w s of (failed, now, r, d) \<Rightarrow>
        let a1 = a\<lparr>act_status := ActionFailed, act_finishedAt := Some now, act_message := interruptedMessage\<rparr> in
        case (if failed then (d, Inl ErrNotFound) else UpdateAction now a1 d) of
          (d1, Inl _) \<Rightarrow> fail_running w as (r, d1)
        | (d1, Inr _) \<Rightarrow> (case fail_running w as (r, d1) of (gs, s1) \<Rightarrow> (act_groupID a # gs, s1)))"

definition fail_group :: "world \<Rightarrow> int \<Rightarrow> run \<times> db \<Rightarrow> run \<times> db" where
  "fail_group w gid s =
     (case dbCall w s of (failed, now, r, d) \<Rightarrow>
        if failed then (r, d)
        else case UpdateStatusIf now gid recoverFrom GroupFailed interruptedMessage d of
          (d1, Inr True) \<Rightarrow>
            (case dbCall w (r, d1) of (failed1, _, r2, d2) \<Rightarrow>
               if failed1 then (r2, d2)
               else cancel_actions w ''Not attempted: another removal of this group was interrupted by a restart; verify the files, then approve the group again''
                      (ListByGroup gid d2) (r2, d2))
        | (d1, _) \<Rightarrow> (r, d1))"

definition recoverInterrupted :: "world \<Rightarrow> run \<times> db \<Rightarrow> run \<times> db" where
  "recoverInterrupted w s =
     (case dbCall w s of (failed, _, r, d) \<Rightarrow>
        if failed then (r, d)
        else case fail_running w (sort_by actionLess (filter (\<lambda>a. act_status a = ActionRunning) (db_actions d))) (r, d) of
          (gs, s1) \<Rightarrow> fold (fail_group w) (dedup gs) s1)"

section \<open>A run\<close>

text \<open>The pending actions by group, in the order the groups first appear.\<close>

definition batchByGroup :: "Action list \<Rightarrow> (int \<times> Action list) list" where
  "batchByGroup pending = map (\<lambda>i. (i, filter (\<lambda>a. act_groupID a = i) pending)) (dedup (map act_groupID pending))"

fun process_groups :: "golib \<Rightarrow> world \<Rightarrow> queueConfig \<Rightarrow> (int \<times> Action list) list \<Rightarrow> run \<times> db \<Rightarrow> run \<times> db" where
  "process_groups lib w c [] s = s"
| "process_groups lib w c ((i, as) # bs) s =
     (case halted w (fst s) of (h, r1) \<Rightarrow>
      case (if h then (False, r1) else budgetAllows 0 r1) of (ok, r2) \<Rightarrow>
      if \<not> ok then (r2, snd s) else process_groups lib w c bs (processGroup lib w c i as (r2, snd s)))"

definition ProcessQueue :: "golib \<Rightarrow> world \<Rightarrow> queueConfig \<Rightarrow> Settings \<Rightarrow> db \<Rightarrow> run \<times> db" where
  "ProcessQueue lib w c st d =
     (case dbCall w (recoverInterrupted w (newRun st, d)) of (failed, _, r, d1) \<Rightarrow>
        if failed \<or> ListPending 0 d1 = [] then (r, d1)
        else case process_groups lib w c (batchByGroup (ListPending 0 d1)) (r, d1) of
               (r2, d2) \<Rightarrow> (flushRescans r2, d2))"

datatype run_error = RunAborted string | RunCancelled

text \<open>The error of a run that ended: aborted by a breaker, or cancelled.\<close>

definition run_error :: "world \<Rightarrow> run \<Rightarrow> run_error option" where
  "run_error w r =
     (if rn_aborted r \<noteq> [] then Some (RunAborted (rn_aborted r))
      else if fst (ctxErr w r) then Some RunCancelled else None)"

end
