(* ===== verification/StoreSafety.thy ===== *)
theory StoreSafety
  imports GroupStore Transitions
begin

text \<open>
  Safety of the store: the operations of \<open>GroupStore\<close> as the steps of a state machine, and the invariant
  that every pending removal targets a version that is marked for removal, not protected and not overridden
  to keep, in a group that is neither ignored nor resolved.
\<close>

section \<open>Steps\<close>

inductive store_step :: "db \<Rightarrow> db \<Rightarrow> bool" where
  upsert: "store_step d (fst (Upsert now g d))"
| status: "store_step d (fst (UpdateStatus now i s reason d))"
| status_if: "store_step d (fst (UpdateStatusIf now i from s reason d))"
| flag: "store_step d (fst (SetFlag now i flag on d))"
| override: "store_step d (fst (SetOverride now i fid dec d))"
| resolved: "store_step d (fst (MarkUnseenResolved now scan libs d))"
| delete: "store_step d (fst (Delete now i d))"
| create_action: "store_step d (fst (CreateAction now a d))"
| update_action: "store_step d (fst (UpdateAction now a d))"
| cancel_group: "store_step d (fst (CancelPendingForGroup now i d))"
| cancel_action: "store_step d (fst (CancelIfPending now i d))"
| exclude: "store_step d (fst (CreateExclusion now e d))"
| unexclude: "store_step d (fst (DeleteExclusion i d))"
| server: "store_step d (server_deleted now i d)"
| arr: "store_step d (arr_deleted now i d)"

abbreviation store_reachable :: "db \<Rightarrow> bool" where
  "store_reachable \<equiv> reach (\<lambda>d. d = empty_db) store_step"

section \<open>The invariant\<close>

definition wf_file :: "GroupFile \<Rightarrow> bool" where
  "wf_file f \<longleftrightarrow> validDecision (f_override f) \<and>
     (f_override f = DecisionKeep \<or> f_protected f \<longrightarrow> f_decision f = DecisionKeep)"

definition wf_row :: "group_row \<Rightarrow> bool" where
  "wf_row r \<longleftrightarrow> distinct (map f_key (r_files r)) \<and> (\<forall>f\<in>set (r_files r). wf_file f) \<and>
     (\<forall>ov\<in>ran (r_retained r). ov \<noteq> [] \<and> validDecision ov)"

definition live_row :: "db \<Rightarrow> int \<Rightarrow> group_row \<Rightarrow> bool" where
  "live_row d i r \<longleftrightarrow> r \<in> set (db_groups d) \<and> r_id r = i \<and> r_status r \<noteq> GroupIgnored \<and> r_status r \<noteq> GroupResolved"

definition targeted :: "Action \<Rightarrow> group_row \<Rightarrow> bool" where
  "targeted a r \<longleftrightarrow> (\<exists>f\<in>set (r_files r). f_decision f = DecisionRemove \<and> names_file a f)"

definition safe_queue :: "db \<Rightarrow> bool" where
  "safe_queue d \<longleftrightarrow>
     (\<forall>a\<in>set (db_actions d). act_status a = ActionPending \<longrightarrow> (\<exists>r. live_row d (act_groupID a) r \<and> targeted a r))"

definition wf_db :: "db \<Rightarrow> bool" where
  "wf_db d \<longleftrightarrow> distinct (map r_id (db_groups d)) \<and> distinct (map (\<lambda>r. g_key (r_group r)) (db_groups d)) \<and>
     (\<forall>r\<in>set (db_groups d). wf_row r \<and> 0 < r_id r \<and> r_id r \<le> db_groupSeq d) \<and> 0 \<le> db_groupSeq d"

definition wf_actions :: "db \<Rightarrow> bool" where
  "wf_actions d \<longleftrightarrow> distinct (map act_id (db_actions d)) \<and> (\<forall>a\<in>set (db_actions d). act_id a \<le> db_actionSeq d)"

definition store_inv :: "db \<Rightarrow> bool" where
  "store_inv d \<longleftrightarrow> wf_db d \<and> safe_queue d \<and> wf_actions d"

section \<open>Rows\<close>

lemma wf_set_status [simp]: "wf_row (set_status now s reason r) = wf_row r"
  by (simp add: wf_row_def set_status_def)

text \<open>Rewriting groups and rewriting actions by their ids keep the action table well formed.\<close>

lemma wf_actions_cong [simp]:
  "wf_actions (d \<lparr> db_groups := gs \<rparr>) = wf_actions d"
  "wf_actions (write_row row r fs d) = wf_actions d"
  "wf_actions (update_rows p h d) = wf_actions d"
  "wf_actions (reopenEmptiedGroups now ids d) = wf_actions d"
  by (simp_all add: wf_actions_def write_row_def update_rows_def reopenEmptiedGroups_def)

lemma wf_actions_map:
  assumes "wf_actions d" and "\<And>a. act_id (h a) = act_id a"
  shows "wf_actions (d \<lparr> db_actions := map h (db_actions d) \<rparr>)"
proof -
  have "map act_id (map h (db_actions d)) = map act_id (db_actions d)" using assms(2) by simp
  then show ?thesis using assms by (auto simp: wf_actions_def simp del: map_map)
qed

lemma set_status_sel [simp]:
  "r_id (set_status now s reason r) = r_id r" "r_status (set_status now s reason r) = s"
  "r_files (set_status now s reason r) = r_files r" "g_key (r_group (set_status now s reason r)) = g_key (r_group r)"
  by (simp_all add: set_status_def)

lemma targeted_set_status [simp]: "targeted a (set_status now s reason r) = targeted a r"
  by (simp add: targeted_def)

text \<open>Changing rows in place keeps the tables well formed when it keeps ids, keys and well-formed files.\<close>

lemma wf_db_map:
  assumes "wf_db d" and "\<And>r. r \<in> set (db_groups d) \<Longrightarrow> r_id (h r) = r_id r \<and> g_key (r_group (h r)) = g_key (r_group r) \<and> wf_row (h r)"
  shows "wf_db (d \<lparr> db_groups := map h (db_groups d) \<rparr>)"
proof -
  have "map r_id (map h (db_groups d)) = map r_id (db_groups d)"
    "map (\<lambda>r. g_key (r_group r)) (map h (db_groups d)) = map (\<lambda>r. g_key (r_group r)) (db_groups d)"
    using assms(2) by simp_all
  then show ?thesis using assms by (auto simp: wf_db_def simp del: map_map)
qed

lemma wf_db_actions [simp]: "wf_db (d \<lparr> db_actions := xs \<rparr>) = wf_db d"
  by (simp add: wf_db_def)

lemma wf_db_row: "wf_db d \<Longrightarrow> r \<in> set (db_groups d) \<Longrightarrow> wf_row r"
  by (simp add: wf_db_def)

section \<open>Cancellation\<close>

lemma reopen_sel [simp]: "db_actions (reopenEmptiedGroups now ids d) = db_actions d"
  by (simp add: reopenEmptiedGroups_def)

lemma wf_reopen: "wf_db d \<Longrightarrow> wf_db (reopenEmptiedGroups now ids d)"
  unfolding reopenEmptiedGroups_def by (rule wf_db_map) (auto simp: wf_db_def)

lemma live_reopen:
  assumes "live_row d i r" and "targeted a r"
  shows "\<exists>r'. live_row (reopenEmptiedGroups now ids d) i r' \<and> targeted a r'"
  using assms by (intro exI[of _ "if emptied ids (db_actions d) r then set_status now GroupPending reopenedReason r else r"])
    (auto simp: live_row_def reopenEmptiedGroups_def)

lemma actions_cancelActions:
  "db_actions (snd (cancelActions now from msg cond d)) =
     map (\<lambda>a. if hit_by from cond d a then cancel_action now msg a else a) (db_actions d)"
  by (simp add: cancelActions_def Let_def)

lemma cancel_action_status [simp]: "act_status (cancel_action now msg a) = ActionCancelled"
  by (simp add: cancel_action_def)

lemma wf_cancelActions: "wf_db d \<Longrightarrow> wf_db (snd (cancelActions now from msg cond d))"
  by (simp add: cancelActions_def Let_def wf_reopen)

lemma wf_actions_cancel [simp]: "wf_actions d \<Longrightarrow> wf_actions (snd (cancelActions now from msg cond d))"
  by (simp add: cancelActions_def Let_def) (rule wf_actions_map, simp_all add: cancel_action_def)

lemma live_cancelActions:
  assumes "live_row d i r" and "targeted a r"
  shows "\<exists>r'. live_row (snd (cancelActions now from msg cond d)) i r' \<and> targeted a r'"
  unfolding cancelActions_def Let_def snd_conv
  by (rule live_reopen) (use assms in \<open>auto simp: live_row_def\<close>)

text \<open>What is left pending after a cancellation: the pending actions that the condition does not hit.\<close>

lemma pending_cancelPending:
  "a \<in> set (db_actions (snd (cancelPending now msg cond d))) \<and> act_status a = ActionPending \<longleftrightarrow>
   a \<in> set (db_actions d) \<and> act_status a = ActionPending \<and> \<not> cond d a"
  by (auto simp: cancelPending_def actions_cancelActions hit_by_def split: if_splits)

text \<open>
  The rule for an operation that rewrites the tables and then cancels: it is enough that the pending actions
  the condition leaves are safe in the rewritten tables.
\<close>

lemma safe_after_cancel:
  assumes "\<And>a. a \<in> set (db_actions d) \<Longrightarrow> act_status a = ActionPending \<Longrightarrow> \<not> cond d a \<Longrightarrow>
      \<exists>r. live_row d (act_groupID a) r \<and> targeted a r"
  shows "safe_queue (snd (cancelPending now msg cond d))"
  unfolding safe_queue_def
proof (intro ballI impI)
  fix a assume "a \<in> set (db_actions (snd (cancelPending now msg cond d)))" "act_status a = ActionPending"
  then have "a \<in> set (db_actions d)" "act_status a = ActionPending" "\<not> cond d a"
    using pending_cancelPending[of a now msg cond d] by simp_all
  from assms[OF this] show "\<exists>r. live_row (snd (cancelPending now msg cond d)) (act_groupID a) r \<and> targeted a r"
    unfolding cancelPending_def by (blast intro: live_cancelActions)
qed

lemma safe_cancelActions:
  assumes "safe_queue d"
  shows "safe_queue (snd (cancelActions now from msg cond d))"
  unfolding safe_queue_def
proof (intro ballI impI)
  fix a assume "a \<in> set (db_actions (snd (cancelActions now from msg cond d)))" "act_status a = ActionPending"
  then have "a \<in> set (db_actions d)" "act_status a = ActionPending"
    by (auto simp: actions_cancelActions split: if_splits)
  then obtain r where "live_row d (act_groupID a) r" "targeted a r" using assms unfolding safe_queue_def by blast
  then show "\<exists>r. live_row (snd (cancelActions now from msg cond d)) (act_groupID a) r \<and> targeted a r"
    by (rule live_cancelActions)
qed

lemma inv_cancelActions: "store_inv d \<Longrightarrow> store_inv (snd (cancelActions now from msg cond d))"
  by (simp add: store_inv_def wf_cancelActions safe_cancelActions)

lemma inv_cancelPending: "store_inv d \<Longrightarrow> store_inv (snd (cancelPending now msg cond d))"
  by (simp add: cancelPending_def inv_cancelActions)

section \<open>Status, flags, overrides, resolution, deletion\<close>

lemma live_cong:
  "live_row (d \<lparr> db_actions := xs \<rparr>) i r = live_row d i r"
  by (simp add: live_row_def)

lemma update_rows_sel [simp]: "db_actions (update_rows p f d) = db_actions d"
  by (simp add: update_rows_def)

lemma wf_update_rows:
  assumes "wf_db d" and "\<And>r. r \<in> set (db_groups d) \<Longrightarrow> p r \<Longrightarrow>
      r_id (f r) = r_id r \<and> g_key (r_group (f r)) = g_key (r_group r) \<and> wf_row (f r)"
  shows "wf_db (update_rows p f d)"
  unfolding update_rows_def by (rule wf_db_map) (use assms in \<open>auto simp: wf_db_def\<close>)

lemma live_update_rows:
  assumes "live_row d i r" and "targeted a r"
    and "p r \<Longrightarrow> r_id (f r) = r_id r \<and> r_status (f r) \<noteq> GroupIgnored \<and> r_status (f r) \<noteq> GroupResolved \<and> targeted a (f r)"
  shows "\<exists>r'. live_row (update_rows p f d) i r' \<and> targeted a r'"
  using assms by (intro exI[of _ "if p r then f r else r"]) (auto simp: live_row_def update_rows_def)

lemma safe_update_rows:
  assumes "safe_queue d"
    and "\<And>r a. r_status r \<noteq> GroupIgnored \<Longrightarrow> r_status r \<noteq> GroupResolved \<Longrightarrow> p r \<Longrightarrow> targeted a r \<Longrightarrow>
      r_id (f r) = r_id r \<and> r_status (f r) \<noteq> GroupIgnored \<and> r_status (f r) \<noteq> GroupResolved \<and> targeted a (f r)"
  shows "safe_queue (update_rows p f d)"
  unfolding safe_queue_def
proof (intro ballI impI)
  fix a assume "a \<in> set (db_actions (update_rows p f d))" "act_status a = ActionPending"
  then obtain r where r: "live_row d (act_groupID a) r" "targeted a r"
    using assms(1) unfolding safe_queue_def by auto
  show "\<exists>r. live_row (update_rows p f d) (act_groupID a) r \<and> targeted a r"
    by (rule live_update_rows[OF r]) (use r assms(2) in \<open>auto simp: live_row_def\<close>)
qed

lemma inv_status_change:
  assumes "store_inv d" and "\<And>r. p r \<Longrightarrow> r_id r = i" and "validGroupStatus s"
  shows "store_inv (afterStatusChange now i s reason (update_rows p (set_status now s reason) d))"
proof -
  let ?d = "update_rows p (set_status now s reason) d"
  have wf: "wf_db ?d" using assms(1) by (intro wf_update_rows) (auto simp: store_inv_def dest: wf_db_row)
  show ?thesis
  proof (cases "statusBlocksRemovals s")
    case True
    have "safe_queue (snd (cancelPendingActions now i (statusCancelMessage s reason) ?d))"
      unfolding cancelPendingActions_def
    proof (rule safe_after_cancel)
      fix a assume a: "a \<in> set (db_actions ?d)" "act_status a = ActionPending" "\<not> of_group i ?d a"
      then obtain r where r: "live_row d (act_groupID a) r" "targeted a r"
        using assms(1) unfolding store_inv_def safe_queue_def by auto
      have "\<not> p r" using a(3) r(1) assms(2) by (auto simp: of_group_def live_row_def)
      then show "\<exists>r. live_row ?d (act_groupID a) r \<and> targeted a r" using live_update_rows[OF r] by blast
    qed
    then show ?thesis using True wf assms(1)
      by (simp add: afterStatusChange_def store_inv_def cancelPendingActions_def cancelPending_def wf_cancelActions)
  next
    case False
    then have "safe_queue ?d" using assms(1)
      by (intro safe_update_rows) (auto simp: store_inv_def statusBlocksRemovals_def)
    then show ?thesis using False wf assms(1) by (simp add: afterStatusChange_def store_inv_def)
  qed
qed

lemma inv_UpdateStatus: "store_inv d \<Longrightarrow> store_inv (fst (UpdateStatus now i s reason d))"
  by (simp add: UpdateStatus_def inv_status_change)

lemma inv_UpdateStatusIf: "store_inv d \<Longrightarrow> store_inv (fst (UpdateStatusIf now i from s reason d))"
  by (auto simp: UpdateStatusIf_def Let_def intro!: inv_status_change)

lemma change_flag_sel [simp]:
  "r_id (change_flag now flag on r) = r_id r" "r_status (change_flag now flag on r) = r_status r"
  "r_files (change_flag now flag on r) = r_files r" "g_key (r_group (change_flag now flag on r)) = g_key (r_group r)"
  by (simp_all add: change_flag_def Let_def)

lemma wf_change_flag [simp]: "wf_row (change_flag now flag on r) = wf_row r"
  by (simp add: wf_row_def) (simp add: change_flag_def Let_def)

lemma inv_SetFlag:
  assumes "store_inv d"
  shows "store_inv (fst (SetFlag now i flag on d))"
proof -
  have "wf_db (update_rows p (change_flag now fl on) d)" "safe_queue (update_rows p (change_flag now fl on) d)" for p fl
    using assms by (auto simp: store_inv_def targeted_def intro!: wf_update_rows safe_update_rows intro: wf_db_row)
  then show ?thesis using assms by (simp add: SetFlag_def store_inv_def)
qed

lemma override_row_sel [simp]:
  "r_id (override_row now fid dec r) = r_id r" "r_status (override_row now fid dec r) = r_status r"
  "g_key (r_group (override_row now fid dec r)) = g_key (r_group r)"
  "r_files (override_row now fid dec r) = map (override_file fid dec) (r_files r)"
  by (simp_all add: override_row_def)

lemma override_file_sel [simp]: "f_key (override_file fid dec f) = f_key f" "f_id (override_file fid dec f) = f_id f"
  by (simp_all add: override_file_def)

lemma wf_override_row:
  assumes "wf_row r" and dec: "validDecision dec"
  shows "wf_row (override_row now fid dec r)"
proof -
  have "map f_key (map (override_file fid dec) (r_files r)) = map f_key (r_files r)" by simp
  moreover have "wf_file (override_file fid dec f)" if "wf_file f" for f
    using that dec by (auto simp: override_file_def wf_file_def)
  ultimately show ?thesis using assms(1) by (auto simp: wf_row_def override_row_def simp del: map_map)
qed

lemma targeted_override:
  assumes "dec \<noteq> DecisionKeep"
  shows "targeted a (override_row now fid dec r) = targeted a r"
proof -
  have "f_decision (override_file fid dec f) = f_decision f" "names_file a (override_file fid dec f) = names_file a f" for f
    using assms by (simp_all add: override_file_def names_file_def)
  then show ?thesis by (simp add: targeted_def)
qed

lemma same_row: "wf_db d \<Longrightarrow> r \<in> set (db_groups d) \<Longrightarrow> r' \<in> set (db_groups d) \<Longrightarrow> r_id r = r_id r' \<Longrightarrow> r = r'"
  by (auto simp: wf_db_def distinct_map inj_on_def)

lemma inv_SetOverride:
  assumes "store_inv d"
  shows "store_inv (fst (SetOverride now i fid dec d))"
proof -
  let ?p = "\<lambda>r. r_id r = i" and ?f = "override_row now fid dec"
  let ?d = "update_rows ?p ?f d"
  have wf: "wf_db ?d" if "validDecision dec"
    using assms that by (intro wf_update_rows) (auto simp: store_inv_def dest: wf_db_row intro: wf_override_row)
  have "safe_queue ?d" if "dec \<noteq> DecisionKeep"
    using assms that by (intro safe_update_rows) (auto simp: store_inv_def targeted_override)
  moreover have "safe_queue (snd (cancelStaleActions now i ?d))" if v: "validDecision dec"
    unfolding cancelStaleActions_def
  proof (rule safe_after_cancel)
    fix a assume a: "a \<in> set (db_actions ?d)" "act_status a = ActionPending" "\<not> stale_target i ?d a"
    then obtain r where r: "live_row d (act_groupID a) r" "targeted a r"
      using assms unfolding store_inv_def safe_queue_def by auto
    show "\<exists>r. live_row ?d (act_groupID a) r \<and> targeted a r"
    proof (cases "act_groupID a = i")
      case True
      have r': "?f r \<in> set (db_groups ?d)" "r_id (?f r) = i" using r(1) True by (auto simp: live_row_def update_rows_def)
      obtain x where x: "x \<in> set (db_groups ?d)" "r_id x = i" "targeted a x"
        using a(3) True by (auto simp: stale_target_def targeted_def)
      have "x = ?f r" using same_row[OF wf[OF v] x(1) r'(1)] x(2) r'(2) by simp
      then show ?thesis using x r r' True by (auto simp: live_row_def)
    next
      case False
      then show ?thesis by (intro live_update_rows[OF r]) (use r in \<open>auto simp: live_row_def\<close>)
    qed
  qed
  ultimately show ?thesis using assms wf
    by (auto simp: SetOverride_def Let_def store_inv_def cancelStaleActions_def cancelPending_def wf_cancelActions)
qed

lemma inv_MarkUnseenResolved:
  assumes "store_inv d"
  shows "store_inv (fst (MarkUnseenResolved now scan libs d))"
proof -
  let ?p = "unseen scan libs" and ?f = "set_status now GroupResolved resolvedReason"
  let ?d = "update_rows ?p ?f d" and ?ids = "map r_id (filter (unseen scan libs) (db_groups d))"
  have wf: "wf_db ?d" using assms by (intro wf_update_rows) (auto simp: store_inv_def dest: wf_db_row)
  have "safe_queue (snd (cancelPending now msg (in_groups ?ids) ?d))" for msg
  proof (rule safe_after_cancel)
    fix a assume a: "a \<in> set (db_actions ?d)" "act_status a = ActionPending" "\<not> in_groups ?ids ?d a"
    then obtain r where r: "live_row d (act_groupID a) r" "targeted a r"
      using assms unfolding store_inv_def safe_queue_def by auto
    have "\<not> ?p r" using a(3) r(1) by (auto simp: in_groups_def live_row_def image_iff)
    then show "\<exists>r. live_row ?d (act_groupID a) r \<and> targeted a r" using live_update_rows[OF r] by blast
  qed
  moreover have "?d = d" if "?ids = []"
  proof -
    have "map (\<lambda>r. if ?p r then ?f r else r) (db_groups d) = db_groups d"
      using that by (intro map_idI) (auto simp: filter_empty_conv)
    then show ?thesis by (simp add: update_rows_def)
  qed
  ultimately show ?thesis using assms wf
    by (auto simp: MarkUnseenResolved_def Let_def store_inv_def cancelPending_def wf_cancelActions)
qed

lemma inv_Delete:
  assumes "store_inv d"
  shows "store_inv (fst (Delete now i d))"
proof -
  let ?d = "d \<lparr> db_groups := filter (\<lambda>r. r_id r \<noteq> i) (db_groups d) \<rparr>"
  have wf: "wf_db ?d" using assms by (auto simp: store_inv_def wf_db_def distinct_map inj_on_def)
  have "safe_queue (snd (cancelPendingActions now i msg ?d))" for msg
    unfolding cancelPendingActions_def
  proof (rule safe_after_cancel)
    fix a assume "a \<in> set (db_actions ?d)" "act_status a = ActionPending" "\<not> of_group i ?d a"
    then show "\<exists>r. live_row ?d (act_groupID a) r \<and> targeted a r"
      using assms unfolding store_inv_def safe_queue_def by (fastforce simp: live_row_def of_group_def)
  qed
  then show ?thesis using assms wf
    by (simp add: Delete_def store_inv_def cancelPendingActions_def cancelPending_def wf_cancelActions)
qed

section \<open>Upsert\<close>

lemma check_upsert_files_distinct:
  "check_upsert_files i incoming fs = None \<Longrightarrow> distinct (map f_key fs) \<and> set (map f_key fs) \<inter> set incoming = {}"
  by (induction i incoming fs rule: check_upsert_files.induct) (auto split: if_splits)

lemma check_upsert_distinct: "check_upsert g = None \<Longrightarrow> distinct (map f_key (g_files g))"
  using check_upsert_files_distinct[of 0 "[]" "g_files g"] by (auto simp: check_upsert_def split: if_splits)

lemma number_files_keys [simp]: "map f_key (number_files gid sq fs) = map f_key fs"
  by (induction gid sq fs rule: number_files.induct) simp_all

lemma number_files_wf: "\<forall>f\<in>set fs. wf_file f \<Longrightarrow> \<forall>f\<in>set (number_files gid sq fs). wf_file f"
  by (induction gid sq fs rule: number_files.induct) (auto simp: wf_file_def)

lemma upsert_file_sel [simp]: "f_key (upsert_file row f) = f_key f"
  by (simp add: upsert_file_def)

text \<open>The override and the decision a file is written with.\<close>

definition valid_files :: "GroupFile list \<Rightarrow> bool" where
  "valid_files fs \<longleftrightarrow> (\<forall>f\<in>set fs. validDecision (f_override f))"

lemma check_upsert_files_valid: "check_upsert_files i incoming fs = None \<Longrightarrow> valid_files fs"
  by (induction i incoming fs rule: check_upsert_files.induct) (auto simp: valid_files_def split: if_splits)

lemma check_upsert_valid: "check_upsert g = None \<Longrightarrow> valid_files (g_files g)"
  by (auto simp: check_upsert_def intro: check_upsert_files_valid split: if_splits)

definition wf_known :: "group_row option \<Rightarrow> bool" where
  "wf_known row \<longleftrightarrow> (case row of Some r \<Rightarrow> wf_row r | None \<Rightarrow> True)"

lemma stored_file_wf: "wf_known row \<Longrightarrow> stored_file row k = Some f \<Longrightarrow> wf_file f \<and> f_key f = k"
  by (auto simp: wf_known_def stored_file_def wf_row_def find_Some_iff split: option.splits)

lemma kept_override_valid:
  "wf_known row \<Longrightarrow> validDecision (f_override f) \<Longrightarrow> validDecision (kept_override row f)"
  by (auto simp: kept_override_def dest: stored_file_wf simp: wf_file_def split: option.splits)

lemma wf_upsert_file: "wf_known row \<Longrightarrow> validDecision (f_override f) \<Longrightarrow> wf_file (upsert_file row f)"
  using kept_override_valid[of row f] by (auto simp: wf_file_def upsert_file_def says_keep_def Let_def)

lemma wf_upsert_retained:
  "wf_known row \<Longrightarrow> ov \<in> ran (upsert_retained row fs) \<Longrightarrow> ov \<noteq> [] \<and> validDecision ov"
  using stored_file_wf[of row]
  by (fastforce simp: ran_def upsert_retained_def wf_known_def stored_retained_def wf_row_def wf_file_def
      split: if_splits option.splits)

lemma upsert_row_sel [simp]:
  "r_id (upsert_row now row g d) = (case row of Some r \<Rightarrow> r_id r | None \<Rightarrow> db_groupSeq d + 1)"
  "g_key (r_group (upsert_row now row g d)) = g_key g"
  "r_files (upsert_row now row g d) =
     number_files (case row of Some r \<Rightarrow> r_id r | None \<Rightarrow> db_groupSeq d + 1) (db_fileSeq d) (map (upsert_file row) (g_files g))"
  "r_status (upsert_row now row g d) = fst (write_status row g (map (upsert_file row) (g_files g)))"
  "g_statusReason (r_group (upsert_row now row g d)) = snd (write_status row g (map (upsert_file row) (g_files g)))"
  "r_retained (upsert_row now row g d) = upsert_retained row (g_files g)"
  by (simp_all add: upsert_row_def Let_def split: prod.split)

lemma wf_upsert_row:
  assumes "check_upsert g = None" and "wf_known row"
  shows "wf_row (upsert_row now row g d)"
proof -
  have "\<forall>f\<in>set (number_files gid sq (map (upsert_file row) (g_files g))). wf_file f" for gid sq
    using check_upsert_valid[OF assms(1)] assms(2)
    by (intro number_files_wf) (auto simp: valid_files_def intro: wf_upsert_file)
  then show ?thesis using check_upsert_distinct[OF assms(1)] wf_upsert_retained[OF assms(2)] by (simp add: wf_row_def o_def)
qed

lemma write_row_sel [simp]: "db_actions (write_row row r fs d) = db_actions d"
  by (simp add: write_row_def)

lemma new_rows_nonneg: "0 \<le> new_rows fs"
  by (simp add: new_rows_def)

lemma wf_insert_row:
  assumes "wf_db d" and "wf_row r" and "r_id r = db_groupSeq d + 1"
    and "\<And>x. x \<in> set (db_groups d) \<Longrightarrow> g_key (r_group x) \<noteq> g_key (r_group r)"
  shows "wf_db (write_row None r fs d)"
  using assms by (fastforce simp: wf_db_def write_row_def)

lemma wf_replace_row:
  assumes "wf_db d" and "wf_row r" and "x \<in> set (db_groups d)" and "r_id r = r_id x" and "g_key (r_group r) = g_key (r_group x)"
  shows "wf_db (write_row (Some x) r fs d)"
proof -
  have "x' = x" if "x' \<in> set (db_groups d)" "r_id x' = r_id r" for x'
    using same_row[OF assms(1) that(1) assms(3)] that(2) assms(4) by simp
  then have "wf_db (d \<lparr> db_groups := map (\<lambda>x. if r_id x = r_id r then r else x) (db_groups d) \<rparr>)"
    using assms by (intro wf_db_map) (auto dest: wf_db_row)
  then show ?thesis by (simp add: wf_db_def write_row_def)
qed

lemma live_insert_row: "live_row d i x \<Longrightarrow> live_row (write_row None r fs d) i x"
  by (simp add: live_row_def write_row_def)

lemma live_replace_row: "live_row d i x \<Longrightarrow> i \<noteq> r_id r \<Longrightarrow> live_row (write_row (Some y) r fs d) i x"
  by (force simp: live_row_def write_row_def)

lemma safe_after_upsert:
  assumes "wf_db d" and "r \<in> set (db_groups d)"
    and "\<And>a. a \<in> set (db_actions d) \<Longrightarrow> act_status a = ActionPending \<Longrightarrow> act_groupID a \<noteq> r_id r \<Longrightarrow>
      \<exists>x. live_row d (act_groupID a) x \<and> targeted a x"
  shows "safe_queue (snd (cancel_after_upsert now r d))"
proof -
  let ?msg = "statusCancelMessage (r_status r) (g_statusReason (r_group r))"
  let ?d = "if statusBlocksRemovals (r_status r) then snd (cancelPendingActions now (r_id r) ?msg d) else d"
  have "safe_queue (snd (cancelPending now cancelStaleMessage (stale_target (r_id r)) ?d))"
  proof (rule safe_after_cancel)
    fix a assume a: "a \<in> set (db_actions ?d)" "act_status a = ActionPending" "\<not> stale_target (r_id r) ?d a"
    have a': "a \<in> set (db_actions d)" "statusBlocksRemovals (r_status r) \<Longrightarrow> act_groupID a \<noteq> r_id r"
      using a(1,2) pending_cancelPending[of a now ?msg "of_group (r_id r)" d]
      by (auto simp: cancelPendingActions_def of_group_def split: if_splits)
    show "\<exists>x. live_row ?d (act_groupID a) x \<and> targeted a x"
    proof (cases "act_groupID a = r_id r")
      case True
      then have nb: "\<not> statusBlocksRemovals (r_status r)" using a'(2) by blast
      then obtain x where x: "x \<in> set (db_groups d)" "r_id x = r_id r" "targeted a x"
        using a(3) True by (auto simp: stale_target_def targeted_def)
      have "x = r" by (rule same_row[OF assms(1) x(1) assms(2) x(2)])
      then show ?thesis using nb x True by (auto simp: live_row_def statusBlocksRemovals_def)
    next
      case False
      then obtain x where x: "live_row d (act_groupID a) x" "targeted a x" using assms(3) a'(1) a(2) by blast
      then show ?thesis
        by (auto simp: cancelPendingActions_def cancelPending_def intro: live_cancelActions[OF x])
    qed
  qed
  then show ?thesis by (simp add: cancel_after_upsert_def cancelStaleActions_def)
qed

lemma wf_cancel_after_upsert:
  "wf_db d \<Longrightarrow> wf_db (snd (cancel_after_upsert now r d))"
  "wf_actions d \<Longrightarrow> wf_actions (snd (cancel_after_upsert now r d))"
  by (simp_all add: cancel_after_upsert_def cancelStaleActions_def cancelPendingActions_def cancelPending_def wf_cancelActions)

lemma inv_Upsert:
  assumes "store_inv d"
  shows "store_inv (fst (Upsert now g d))"
proof (cases "check_upsert g")
  case None
  let ?row = "find (\<lambda>r. g_key (r_group r) = g_key g) (db_groups d)"
  let ?r = "upsert_row now ?row g d"
  let ?d = "write_row ?row ?r (map (upsert_file ?row) (g_files g)) d"
  have wf: "wf_db d" and sq: "safe_queue d" using assms by (simp_all add: store_inv_def)
  show ?thesis
  proof (cases ?row)
    case row: None
    then have "\<And>x. x \<in> set (db_groups d) \<Longrightarrow> g_key (r_group x) \<noteq> g_key g" by (auto simp: find_None_iff)
    then have "wf_db ?d" unfolding row by (intro wf_insert_row wf_upsert_row wf None) (auto simp: wf_known_def)
    moreover have "safe_queue ?d"
      using sq unfolding safe_queue_def row write_row_sel by (blast intro: live_insert_row)
    ultimately show ?thesis using None row assms by (simp add: Upsert_def Let_def store_inv_def)
  next
    case row: (Some x)
    then have x: "x \<in> set (db_groups d)" "g_key (r_group x) = g_key g" by (auto simp: find_Some_iff)
    have "wf_known ?row" using row x wf by (simp add: wf_known_def wf_db_row)
    then have wf': "wf_db ?d" using wf_replace_row[OF wf wf_upsert_row[OF None] x(1)] by (simp add: row x)
    have r: "?r \<in> set (db_groups ?d)" using x by (auto simp: row write_row_def image_iff intro!: bexI[of _ x])
    have "safe_queue (snd (cancel_after_upsert now ?r ?d))"
    proof (rule safe_after_upsert[OF wf' r])
      fix a assume a: "a \<in> set (db_actions ?d)" "act_status a = ActionPending" "act_groupID a \<noteq> r_id ?r"
      then obtain y where "live_row d (act_groupID a) y" "targeted a y" using sq unfolding safe_queue_def by auto
      then show "\<exists>y. live_row ?d (act_groupID a) y \<and> targeted a y"
        using a(3) live_replace_row[of d "act_groupID a" y ?r x] unfolding row by blast
    qed
    then have "store_inv (snd (cancel_after_upsert now ?r ?d))"
      using wf_cancel_after_upsert(1)[OF wf'] wf_cancel_after_upsert(2)[of ?d] assms by (simp add: store_inv_def)
    then show ?thesis using None row assms
      by (auto simp: Upsert_def Let_def split: prod.splits option.splits)
  qed
next
  case (Some e)
  then show ?thesis using assms by (simp add: Upsert_def)
qed

section \<open>Actions\<close>

lemma removable_row:
  assumes "target_removable a d"
  obtains r f where "live_row d (act_groupID a) r" and "f \<in> set (r_files r)" and "f_decision f = DecisionRemove"
    and "\<not> f_protected f" and "names_file a f"
proof -
  obtain r f where "r \<in> set (db_groups d)" "f \<in> set (r_files r)" "r_id r = act_groupID a" "r_status r \<noteq> GroupIgnored"
    "r_status r \<noteq> GroupResolved" "f_decision f = DecisionRemove" "\<not> f_protected f"
    "act_groupFileID a = 0 \<or> f_id f = act_groupFileID a" "act_versionKey a = [] \<or> f_key f = act_versionKey a"
    "\<not> (act_groupFileID a = 0 \<and> act_versionKey a = [])"
    using assms unfolding target_removable_def actionTargetRemovable_def list_ex_iff by blast
  then show thesis by (intro that[of r f]) (auto simp: live_row_def names_file_def)
qed

lemma removable_live: "target_removable a d \<Longrightarrow> \<exists>r. live_row d (act_groupID a) r \<and> targeted a r"
  unfolding targeted_def by (blast elim: removable_row)

lemma inv_CreateAction:
  assumes "store_inv d"
  shows "store_inv (fst (CreateAction now a d))"
proof -
  have app: "store_inv (d \<lparr> db_actions := db_actions d @ [b], db_actionSeq := db_actionSeq d + 1 \<rparr>)"
    if b: "act_status b = ActionPending \<Longrightarrow> target_removable b d" and i: "act_id b = db_actionSeq d + 1" for b
  proof -
    have "\<exists>r. live_row d (act_groupID b) r \<and> targeted b r" if "act_status b = ActionPending"
      using removable_live[OF b[OF that]] .
    moreover have "wf_actions (d \<lparr> db_actions := db_actions d @ [b], db_actionSeq := db_actionSeq d + 1 \<rparr>)"
      using assms i by (force simp: store_inv_def wf_actions_def)
    ultimately show ?thesis using assms
      by (auto simp: store_inv_def safe_queue_def live_row_def wf_db_def)
  qed
  show ?thesis using assms
    by (auto simp: CreateAction_def Let_def target_removable_def isQueuedStatus_def intro!: app)
qed

lemma inv_UpdateAction:
  assumes "store_inv d"
  shows "store_inv (fst (UpdateAction now a d))"
proof -
  have w: "store_inv (write_action a d)" if pend: "act_status a = ActionPending \<Longrightarrow> target_removable a d"
  proof -
    have "\<exists>r. live_row d (act_groupID b) r \<and> targeted b r"
      if b: "b = a \<lparr> act_createdAt := t \<rparr>" "act_status b = ActionPending" for b t
    proof -
      have "act_status a = ActionPending" using b by simp
      from removable_live[OF pend[OF this]] obtain r where "live_row d (act_groupID a) r" "targeted a r" by blast
      moreover have "targeted b r = targeted a r" by (simp add: b(1) targeted_def names_file_def)
      ultimately show ?thesis by (auto simp: b(1))
    qed
    moreover have "wf_actions (write_action a d)"
      unfolding write_action_def by (rule wf_actions_map) (use assms in \<open>auto simp: store_inv_def\<close>)
    ultimately show ?thesis using assms
      by (auto simp: store_inv_def safe_queue_def write_action_def live_cong)
  qed
  moreover have "store_inv (reopenEmptiedGroups now ids e)" if "store_inv e" for ids e
  proof -
    have "safe_queue (reopenEmptiedGroups now ids e)"
      using that unfolding store_inv_def safe_queue_def reopen_sel by (blast intro: live_reopen)
    then show ?thesis using that by (simp add: store_inv_def wf_reopen)
  qed
  ultimately show ?thesis using assms
    by (auto simp: UpdateAction_def Let_def inv_cancelActions split: option.splits)
qed

lemma inv_CreateExclusion:
  assumes "store_inv d"
  shows "store_inv (fst (CreateExclusion now e d))"
proof -
  have "store_inv (d \<lparr> db_exclusions := xs, db_exclusionSeq := n \<rparr>)" for xs n
    using assms by (simp add: store_inv_def wf_db_def safe_queue_def live_row_def wf_actions_def)
  then show ?thesis using assms
    by (simp add: CreateExclusion_def Let_def inv_cancelPending split: option.splits)
qed

lemma inv_DeleteExclusion: "store_inv d \<Longrightarrow> store_inv (fst (DeleteExclusion i d))"
  by (simp add: DeleteExclusion_def store_inv_def wf_db_def safe_queue_def live_row_def wf_actions_def)

lemmas inv_steps = inv_Upsert inv_UpdateStatus inv_UpdateStatusIf inv_SetFlag inv_SetOverride inv_MarkUnseenResolved
  inv_Delete inv_CreateAction inv_UpdateAction inv_CreateExclusion inv_DeleteExclusion

lemma inv_cancelPending_eq: "store_inv d \<Longrightarrow> cancelPending now msg cond d = (n, d') \<Longrightarrow> store_inv d'"
  using inv_cancelPending[of d now msg cond] by simp

lemma inv_step:
  assumes "store_inv d" and "store_step d d'"
  shows "store_inv d'"
  using assms(2,1)
  by (cases rule: store_step.cases)
    (auto simp: inv_steps inv_cancelPending CancelPendingForGroup_def CancelIfPending_def cancelPendingActions_def
       server_deleted_def arr_deleted_def Let_def split: prod.splits intro: inv_cancelPending_eq)

lemma inv_empty: "store_inv empty_db"
  by (simp add: store_inv_def wf_db_def safe_queue_def wf_actions_def empty_db_def)

interpretation st: invariant_of "\<lambda>d. d = empty_db" store_step store_inv
  by unfold_locales (auto simp: inv_empty intro: inv_step)

end
