(* ===== verification/StoreRows.thy ===== *)
theory StoreRows
  imports StoreSafety
begin

text \<open>
  What an upsert leaves in the table of groups, row by row: the row of the group's key is the written one,
  perhaps reopened because its last queued removal was cancelled, and every other row is as before.
\<close>

section \<open>Cancelling touches one group\<close>

text \<open>A queued row whose last queued removal was cancelled is reopened.\<close>

definition reopened :: "time \<Rightarrow> bool \<Rightarrow> group_row \<Rightarrow> group_row" where
  "reopened now q r = (if q \<and> r_status r = GroupQueued then set_status now GroupPending reopenedReason r else r)"

lemma reopened_sel [simp]:
  "r_id (reopened now q r) = r_id r" "g_key (r_group (reopened now q r)) = g_key (r_group r)"
  "r_files (reopened now q r) = r_files r" "r_retained (reopened now q r) = r_retained r"
  "g_lastScanID (r_group (reopened now q r)) = g_lastScanID (r_group r)"
  "g_libraryIDs (r_group (reopened now q r)) = g_libraryIDs (r_group r)"
  "g_stableCount (r_group (reopened now q r)) = g_stableCount (r_group r)"
  "g_signature (r_group (reopened now q r)) = g_signature (r_group r)"
  by (simp_all add: reopened_def set_status_def)

lemma reopened_False [simp]: "reopened now False r = r"
  by (simp add: reopened_def)

lemma reopened_status:
  "r_status (reopened now q r) = (if q \<and> r_status r = GroupQueued then GroupPending else r_status r)"
  by (simp add: reopened_def)

lemma reopened_reopened: "reopened now q (reopened now q' r) = reopened now (q \<or> q') r"
  by (auto simp: reopened_def)

lemma groups_cancelActions:
  assumes "\<And>a. cond d a \<Longrightarrow> act_groupID a = i"
  obtains q where "db_groups (snd (cancelActions now from msg cond d)) =
    map (\<lambda>r. if r_id r = i then reopened now q r else r) (db_groups d)"
proof -
  let ?hits = "filter (hit_by from cond d) (db_actions d)"
  let ?acts = "map (\<lambda>a. if hit_by from cond d a then cancel_action now msg a else a) (db_actions d)"
  let ?q = "?hits \<noteq> [] \<and> \<not> (\<exists>a\<in>set ?acts. act_groupID a = i \<and> isQueuedStatus (act_status a))"
  have ids: "set (dedup (map act_groupID ?hits)) = (if ?hits = [] then {} else {i})"
    using assms by (auto simp: hit_by_def filter_empty_conv)
  have "(if emptied (dedup (map act_groupID ?hits)) ?acts r then set_status now GroupPending reopenedReason r else r)
      = (if r_id r = i then reopened now ?q r else r)" for r
    unfolding emptied_def ids by (auto simp: reopened_def)
  then show thesis by (intro that[of ?q]) (simp add: cancelActions_def Let_def reopenEmptiedGroups_def)
qed

lemma groups_cancelPending:
  assumes "\<And>a. cond d a \<Longrightarrow> act_groupID a = i"
  obtains q where "db_groups (snd (cancelPending now msg cond d)) =
    map (\<lambda>r. if r_id r = i then reopened now q r else r) (db_groups d)"
  by (rule groups_cancelActions[of cond d i now "[ActionPending]" msg]) (auto simp: assms cancelPending_def intro: that)

lemma map_reopened_twice:
  "map (\<lambda>r. if r_id r = i then reopened now q r else r) (map (\<lambda>r. if r_id r = i then reopened now q' r else r) rs) =
   map (\<lambda>r. if r_id r = i then reopened now (q \<or> q') r else r) rs"
  by (simp add: reopened_reopened)

lemma groups_cancel_after_upsert:
  obtains q where "db_groups (snd (cancel_after_upsert now r d)) =
    map (\<lambda>x. if r_id x = r_id r then reopened now q x else x) (db_groups d)"
proof -
  let ?msg = "statusCancelMessage (r_status r) (g_statusReason (r_group r))"
  let ?d = "if statusBlocksRemovals (r_status r) then snd (cancelPendingActions now (r_id r) ?msg d) else d"
  obtain q1 where q1: "db_groups ?d = map (\<lambda>x. if r_id x = r_id r then reopened now q1 x else x) (db_groups d)"
  proof (cases "statusBlocksRemovals (r_status r)")
    case True
    obtain q where "db_groups (snd (cancelPending now ?msg (of_group (r_id r)) d)) =
        map (\<lambda>x. if r_id x = r_id r then reopened now q x else x) (db_groups d)"
      by (rule groups_cancelPending[of "of_group (r_id r)" d "r_id r" now ?msg]) (auto simp: of_group_def)
    then show ?thesis by (intro that[of q]) (simp add: True cancelPendingActions_def)
  next
    case False
    have "(\<lambda>x. if r_id x = r_id r then reopened now False x else x) = id" by (rule ext) simp
    then show ?thesis by (intro that[of False]) (simp add: False)
  qed
  obtain q2 where "db_groups (snd (cancelPending now cancelStaleMessage (stale_target (r_id r)) ?d)) =
      map (\<lambda>x. if r_id x = r_id r then reopened now q2 x else x) (db_groups ?d)"
    by (rule groups_cancelPending[of "stale_target (r_id r)" ?d "r_id r" now cancelStaleMessage]) (auto simp: stale_target_def)
  then show thesis
    using that[of "q2 \<or> q1"] unfolding q1 map_reopened_twice by (simp add: cancel_after_upsert_def cancelStaleActions_def)
qed

section \<open>The row an upsert writes\<close>

definition row_with :: "string \<Rightarrow> db \<Rightarrow> group_row option" where
  "row_with key d = find (\<lambda>r. g_key (r_group r) = key) (db_groups d)"

lemma Upsert_groups:
  assumes "Upsert now g d = (d', Inr (g', created))"
  obtains q where "check_upsert g = None"
    and "db_groups d' = (case row_with (g_key g) d of
           None \<Rightarrow> db_groups d @ [reopened now q (upsert_row now None g d)]
         | Some x \<Rightarrow> map (\<lambda>y. if r_id y = r_id x then reopened now q (upsert_row now (Some x) g d) else y) (db_groups d))"
    and "created = (row_with (g_key g) d = None)"
proof -
  let ?row = "row_with (g_key g) d"
  let ?r = "upsert_row now ?row g d"
  let ?d1 = "write_row ?row ?r (map (upsert_file ?row) (g_files g)) d"
  have c: "check_upsert g = None" using assms by (auto simp: Upsert_def split: option.splits)
  show thesis
  proof (cases ?row)
    case None
    then show ?thesis using that[of False] c assms
      by (auto simp: Upsert_def Let_def row_with_def write_row_def reopened_def)
  next
    case (Some x)
    obtain q where q: "db_groups (snd (cancel_after_upsert now ?r ?d1)) =
        map (\<lambda>y. if r_id y = r_id ?r then reopened now q y else y) (db_groups ?d1)"
      by (rule groups_cancel_after_upsert)
    have id: "r_id ?r = r_id x" using Some by simp
    have d': "d' = snd (cancel_after_upsert now ?r ?d1)" "created = False"
      using assms c Some by (auto simp: Upsert_def Let_def row_with_def split: prod.splits if_splits option.splits)
    have "db_groups d' = map (\<lambda>y. if r_id y = r_id x then reopened now q (upsert_row now (Some x) g d) else y) (db_groups d)"
      unfolding d' q id using Some id by (auto simp: write_row_def)
    then show ?thesis using that[of q] c Some d' by simp
  qed
qed

lemma row_with_Some: "row_with key d = Some x \<Longrightarrow> x \<in> set (db_groups d) \<and> g_key (r_group x) = key"
  by (auto simp: row_with_def find_Some_iff)

lemma row_with_None: "row_with key d = None \<Longrightarrow> r \<in> set (db_groups d) \<Longrightarrow> g_key (r_group r) \<noteq> key"
  by (auto simp: row_with_def find_None_iff)

lemma row_with_iff:
  assumes "wf_db d"
  shows "row_with key d = Some x \<longleftrightarrow> x \<in> set (db_groups d) \<and> g_key (r_group x) = key"
proof
  assume x: "x \<in> set (db_groups d) \<and> g_key (r_group x) = key"
  then obtain y where y: "row_with key d = Some y" using row_with_None by (cases "row_with key d") blast+
  then have "y = x" using x row_with_Some[OF y] assms by (auto simp: wf_db_def distinct_map inj_on_def)
  then show "row_with key d = Some x" using y by simp
qed (rule row_with_Some)

text \<open>Every row of the table after an upsert is the row written or was there before, under another key.\<close>

lemma Upsert_rows:
  assumes "wf_db d" and "Upsert now g d = (d', Inr (g', created))"
  obtains q where "\<And>r. r \<in> set (db_groups d') \<Longrightarrow> g_key (r_group r) = g_key g \<Longrightarrow>
        r = reopened now q (upsert_row now (row_with (g_key g) d) g d)"
    and "\<And>r. r \<in> set (db_groups d') \<Longrightarrow> g_key (r_group r) \<noteq> g_key g \<Longrightarrow> r \<in> set (db_groups d)"
    and "\<And>r. r \<in> set (db_groups d) \<Longrightarrow> g_key (r_group r) \<noteq> g_key g \<Longrightarrow> r \<in> set (db_groups d')"
    and "reopened now q (upsert_row now (row_with (g_key g) d) g d) \<in> set (db_groups d')"
proof -
  obtain q where gr: "db_groups d' = (case row_with (g_key g) d of
       None \<Rightarrow> db_groups d @ [reopened now q (upsert_row now None g d)]
     | Some x \<Rightarrow> map (\<lambda>y. if r_id y = r_id x then reopened now q (upsert_row now (Some x) g d) else y) (db_groups d))"
    by (rule Upsert_groups[OF assms(2)])
  show thesis
  proof (cases "row_with (g_key g) d")
    case None
    then show ?thesis using gr row_with_None[OF None] by (intro that[of q]) auto
  next
    case (Some x)
    have x: "x \<in> set (db_groups d)" "g_key (r_group x) = g_key g" using row_with_Some[OF Some] by auto
    have u: "r_id y = r_id x \<longleftrightarrow> y = x" "g_key (r_group y) = g_key g \<longleftrightarrow> y = x" if "y \<in> set (db_groups d)" for y
      using same_row[OF assms(1) that x(1)] row_with_iff[OF assms(1), of "g_key g" y] Some that x by auto
    show ?thesis using gr Some x u by (intro that[of q]) (auto split: if_splits)
  qed
qed

text \<open>After an upsert in a status that blocks removals, no removal of the group is pending.\<close>

lemma Upsert_blocked:
  assumes "store_inv d" and "Upsert now g d = (d', Inr (g', created))"
    and "statusBlocksRemovals (r_status (upsert_row now (row_with (g_key g) d) g d))"
    and "a \<in> set (db_actions d')" and "act_status a = ActionPending"
  shows "act_groupID a \<noteq> r_id (upsert_row now (row_with (g_key g) d) g d)"
proof (cases "row_with (g_key g) d")
  case None
  then have "db_actions d' = db_actions d" using assms(2)
    by (auto simp: Upsert_def Let_def row_with_def split: option.splits)
  then obtain r where "live_row d (act_groupID a) r" using assms(1,4,5) by (auto simp: store_inv_def safe_queue_def)
  then have "act_groupID a \<le> db_groupSeq d" using assms(1) by (auto simp: store_inv_def wf_db_def live_row_def)
  then show ?thesis using None by simp
next
  case (Some x)
  let ?r = "upsert_row now (Some x) g d"
  let ?d1 = "write_row (Some x) ?r (map (upsert_file (Some x)) (g_files g)) d"
  have d': "d' = snd (cancel_after_upsert now ?r ?d1)"
    using assms(2) Some by (auto simp: Upsert_def Let_def row_with_def split: prod.splits if_splits option.splits)
  have "\<not> of_group (r_id ?r) ?d1 a"
    using assms(3-5) pending_cancelPending[of a now] unfolding d' Some
    by (auto simp: cancel_after_upsert_def cancelStaleActions_def cancelPendingActions_def)
  then show ?thesis by (simp add: of_group_def Some)
qed

end
