(* ===== verification/ScanSafety.thy ===== *)
theory ScanSafety
  imports ScanRun StoreRows Invariants
begin

text \<open>
  What a scan run does to the store, for every pattern of failing calls and every point of cancellation. One
  group: what \<open>persistGroup\<close> evaluates and writes, and when the store accepts it. The run: the interface
  \<open>scan_effects\<close> names the three operations a scan writes through; a property they keep is kept by every
  operation of the scanner. It is interpreted for the invariant of the store and for ignored groups.
\<close>

section \<open>What one group of a scan writes\<close>

text \<open>The stored group a freshly built group is matched with, and the group as it is evaluated.\<close>

definition scan_evaluates :: "golib \<Rightarrow> pipeline \<Rightarrow> DuplicateGroup \<Rightarrow> db \<Rightarrow> DuplicateGroup option \<Rightarrow> DuplicateGroup \<Rightarrow> bool" where
  "scan_evaluates lib p g0 d existing ev \<longleftrightarrow>
     (\<exists>g inh. lookupStored p g0 d = (g, LookupStored existing inh) \<and>
        Evaluate lib (Some (inherit_apply inh (carryOver g existing)))
          (profileFor (p_eval p) (inherit_apply inh (carryOver g existing))) (evalEnv (p_eval p) (p_start p)) = Inr ev)"

lemma Upsert_Inl: "Upsert now g d = (d', Inl e) \<Longrightarrow> d' = d"
  by (auto simp: Upsert_def Let_def split: option.splits if_splits prod.splits)

lemma persistGroup_result:
  assumes "persistGroup lib now g0 (p, d) = (p', d')"
  shows "d' = d \<or> (\<exists>existing ev out. scan_evaluates lib p g0 d existing ev \<and> Upsert now (scanned p now existing ev) d = (d', Inr out))"
proof -
  obtain g l where l: "lookupStored p g0 d = (g, l)" by fastforce
  show ?thesis
  proof (cases l)
    case (LookupStored existing inh)
    let ?g1 = "inherit_apply inh (carryOver g existing)"
    show ?thesis
    proof (cases "Evaluate lib (Some ?g1) (profileFor (p_eval p) ?g1) (evalEnv (p_eval p) (p_start p))")
      case (Inr ev)
      have se: "scan_evaluates lib p g0 d existing ev" using l LookupStored Inr by (auto simp: scan_evaluates_def)
      obtain d1 res where u: "Upsert now (scanned p now existing ev) d = (d1, res)" by fastforce
      have "d' = d \<or> (\<exists>out. res = Inr out \<and> d' = d1)"
        using assms l LookupStored Inr u Upsert_Inl[of now "scanned p now existing ev" d d1]
        by (auto simp: persistGroup_def Let_def split: if_splits sum.splits prod.splits)
      then show ?thesis using se u by blast
    qed (use assms l LookupStored in \<open>auto simp: persistGroup_def Let_def\<close>)
  qed (use assms l in \<open>auto simp: persistGroup_def\<close>)
qed

section \<open>Incomplete data\<close>

lemma forceReview_status:
  "g_status (forceReview g r) = (if g_status g \<in> {GroupPending, GroupDeferred, GroupQueued} then GroupReview else g_status g)"
  by (simp add: forceReview_def)

lemma distrust_incomplete:
  assumes "incompleteReasons p g \<noteq> []"
  shows "g_status (distrust p g) \<notin> {GroupPending, GroupDeferred, GroupQueued}"
  using assms by (auto simp: distrust_def Let_def forceReview_status)

lemma distrust_status: "g_status (distrust p g) = g_status g \<or> g_status (distrust p g) = GroupReview"
  by (auto simp: distrust_def Let_def forceReview_status)

lemma dropStale_status: "g_status (dropStaleApproval g ks) = g_status g \<or> g_status (dropStaleApproval g ks) = GroupReview"
  by (auto simp: dropStaleApproval_def split: option.splits)

lemma recheck_status: "g_status (recheck_approval existing g) = g_status g \<or> g_status (recheck_approval existing g) = GroupReview"
  using dropStale_status by (auto simp: recheck_approval_def split: option.splits)

lemma scanned_sel [simp]:
  "g_status (scanned p now existing ev) = g_status (recheck_approval existing (distrust p ev))"
  "g_files (scanned p now existing ev) = g_files ev" "g_key (scanned p now existing ev) = g_key ev"
  "g_lastScanID (scanned p now existing ev) = p_runID p"
  by (simp_all add: scanned_def Let_def recheck_approval_def dropStaleApproval_def distrust_def forceReview_def
      split: option.splits)

lemma scanned_stable:
  "incompleteReasons p ev \<noteq> [] \<Longrightarrow> g_stableCount (scanned p now existing ev) = 0"
  by (simp add: scanned_def Let_def scan_stable_def)

lemma upsert_row_stable [simp]:
  "g_stableCount (r_group (upsert_row now row g d)) = g_stableCount g"
  "g_lastScanID (r_group (upsert_row now row g d)) = g_lastScanID g"
  "g_signature (r_group (upsert_row now row g d)) = g_signature g"
  by (simp_all add: upsert_row_def Let_def split: prod.splits)

text \<open>The status a group is written with: that of the stored ignored group, the incoming one, or review.\<close>

lemma write_status_cases:
  "fst (write_status row g fs) = GroupReview \<or>
   fst (write_status row g fs) = GroupIgnored \<and> (\<exists>r. row = Some r \<and> r_status r = GroupIgnored) \<or>
   fst (write_status row g fs) = g_status g"
  by (auto simp: write_status_def upsert_status_def Let_def split: option.splits)

section \<open>Approvals\<close>

lemma number_files_map:
  "map (\<lambda>f. (f_key f, f_decision f)) (number_files gid sq fs) = map (\<lambda>f. (f_key f, f_decision f)) fs"
  by (induction fs arbitrary: sq) auto

lemma dropStale_queued:
  assumes "g_status (dropStaleApproval g ks) = GroupQueued"
  shows "set ks \<subseteq> set (keptKeys g)"
  using assms by (auto simp: dropStaleApproval_def find_None_iff split: if_splits option.splits)

lemma upsert_kept:
  assumes "f \<in> set (g_files g)" and "f_decision f = DecisionKeep"
  shows "\<exists>f'\<in>set (r_files (reopened now q (upsert_row now row g d))). f_key f' = f_key f \<and> f_decision f' = DecisionKeep"
proof -
  have "(f_key f, DecisionKeep) \<in> set (map (\<lambda>f. (f_key f, f_decision f)) (map (upsert_file row) (g_files g)))"
    using assms by (force simp: upsert_file_def image_iff)
  then have "(f_key f, DecisionKeep) \<in> set (map (\<lambda>f. (f_key f, f_decision f)) (r_files (upsert_row now row g d)))"
    by (simp add: number_files_map del: set_map)
  then show ?thesis by auto
qed

section \<open>The rows a scan writes\<close>

lemma finish_status:
  "g_status (finish ev) \<in> {GroupIgnored, GroupQueued, GroupProtected, GroupReview, GroupDeferred, GroupPending}"
proof -
  have "fst (status ev g n) \<in> {GroupProtected, GroupReview, GroupDeferred, GroupPending}" for g n
    by (simp add: status_def Let_def)
  then show ?thesis by (auto simp: finish_def Let_def)
qed

lemma Evaluate_status:
  "Evaluate lib g p env = Inr g' \<Longrightarrow>
     g_status g' \<in> {GroupIgnored, GroupQueued, GroupProtected, GroupReview, GroupDeferred, GroupPending}"
  using finish_status by (auto simp: Evaluate_def split: option.splits)

section \<open>Automatic approval\<close>

lemma poll_sel [simp]:
  "p_autoCands (snd (poll p)) = p_autoCands p" "p_cfg (snd (poll p)) = p_cfg p" "p_runID (snd (poll p)) = p_runID p"
  "p_fails (snd (poll p)) = p_fails p" "p_listed (snd (poll p)) = p_listed p" "p_unsafeLibs (snd (poll p)) = p_unsafeLibs p"
  by (simp_all add: poll_def)

definition removals :: "DuplicateGroup list \<Rightarrow> int" where
  "removals gs = sum_list (map removalCount gs)"

definition bytes_of :: "DuplicateGroup list \<Rightarrow> int" where
  "bytes_of gs = sum_list (map g_reclaimableBytes gs)"

lemma bytes_of_nonneg: "\<forall>g\<in>set gs. 0 \<le> g_reclaimableBytes g \<Longrightarrow> 0 \<le> bytes_of gs"
  by (auto simp: bytes_of_def intro!: sum_list_nonneg)

lemma sum_sort_by: "sum_list (map f (sort_by lt xs)) = sum_list (map f xs)" for f :: "'a \<Rightarrow> int"
proof -
  have "sum_list (map f (insert_by lt x ys)) = f x + sum_list (map f ys)" for x ys by (induction ys) auto
  then show ?thesis by (induction xs) auto
qed

definition fits :: "int \<Rightarrow> int \<Rightarrow> int \<Rightarrow> int \<Rightarrow> DuplicateGroup list \<Rightarrow> DuplicateGroup list \<Rightarrow> bool" where
  "fits maxFiles maxBytes files bytes gs approved \<longleftrightarrow> set approved \<subseteq> set gs \<and>
     files + removals approved \<le> maxFiles \<and> bytes + bytes_of approved \<le> maxBytes"

text \<open>The groups the loop approves are candidates, in order, and fit in what is left of the budget.\<close>

lemma approve_loop_budget:
  assumes "files \<le> maxFiles" and "0 \<le> bytes" and "bytes \<le> maxBytes"
    and "\<forall>g\<in>set gs. 0 \<le> g_reclaimableBytes g" and "bytes + bytes_of gs < 2 ^ 63"
    and "approve_loop approve maxFiles maxBytes files bytes gs st = (approved, r)"
  shows "fits maxFiles maxBytes files bytes gs approved"
  using assms
proof (induction gs arbitrary: files bytes st approved r)
  case Nil
  then show ?case by (cases st) (simp add: fits_def removals_def bytes_of_def)
next
  case (Cons g gs)
  obtain p d where st: "st = (p, d)" by fastforce
  obtain c p1 where pl: "poll p = (c, p1)" by fastforce
  have cons: "bytes_of (g # xs) = g_reclaimableBytes g + bytes_of xs" "removals (g # xs) = removalCount g + removals xs" for xs
    by (simp_all add: bytes_of_def removals_def)
  have nn: "0 \<le> g_reclaimableBytes g" "0 \<le> bytes_of gs" using Cons.prems(4) bytes_of_nonneg[of gs] by auto
  have w: "wrap64 (bytes + g_reclaimableBytes g) = bytes + g_reclaimableBytes g"
    using Cons.prems nn cons by (intro wrap64_id) auto
  have skip: ?case if "approve_loop approve maxFiles maxBytes files bytes gs st' = (approved, r)" for st'
    using Cons.IH[OF Cons.prems(1-3) _ _ that] Cons.prems(4,5) nn by (auto simp: cons fits_def)
  have none: "fits maxFiles maxBytes files bytes (g # gs) []" using Cons.prems(1-3) by (simp add: fits_def removals_def bytes_of_def)
  have take: "fits maxFiles maxBytes files bytes (g # gs) (g # xs)" if "approve_loop approve maxFiles maxBytes (files + removalCount g) (bytes + g_reclaimableBytes g) gs st' = (xs, r)"
    "files + removalCount g \<le> maxFiles" "bytes + g_reclaimableBytes g \<le> maxBytes" for st' xs
    using Cons.IH[OF that(2) _ that(3) _ _ that(1)] Cons.prems nn by (auto simp: cons fits_def)
  show ?case
    using Cons.prems(6) unfolding st approve_loop.simps Let_def pl prod.case w
    by (auto split: if_splits prod.splits bool.splits intro: none skip take)
qed

section \<open>What a scan does to the store\<close>

text \<open>
  A scan writes through three operations: it upserts groups, marks unseen groups resolved and sets a group
  that is not ignored to resolved. A property of the database that these keep is kept by every operation of
  the scanner, whichever calls fail and whenever the run is cancelled.
\<close>

locale scan_effects =
  fixes P :: "db \<Rightarrow> bool"
  assumes upsert: "P d \<Longrightarrow> P (fst (Upsert now g d))"
    and unseen: "P d \<Longrightarrow> P (fst (MarkUnseenResolved now scan libs d))"
    and resolve: "P d \<Longrightarrow> Get i d = Some g \<Longrightarrow> g_status g \<noteq> GroupIgnored \<Longrightarrow> P (fst (UpdateStatus now i GroupResolved reason d))"
begin

lemma upsert_eq: "P d \<Longrightarrow> Upsert now g d = (d', out) \<Longrightarrow> P d'"
  using upsert[of d now g] by simp

lemma persistGroup: "P (snd st) \<Longrightarrow> P (snd (persistGroup lib now g st))"
proof (cases st)
  case (Pair p d)
  assume P: "P (snd st)"
  obtain p' d' where r: "persistGroup lib now g (p, d) = (p', d')" by fastforce
  show ?thesis using persistGroup_result[OF r] P upsert_eq r by (auto simp: Pair)
qed

lemma persist_loop: "P (snd st) \<Longrightarrow> P (snd (persist_loop lib now busy gs st))"
proof (induction gs arbitrary: st)
  case (Cons g gs)
  obtain p d where st: "st = (p, d)" by fastforce
  obtain c p1 where pl: "poll p = (c, p1)" by fastforce
  have "P (snd (persistGroup lib now (prepare_group p1 busy g) (p1, d)))" using persistGroup[of "(p1, d)"] Cons.prems st by simp
  then show ?case using Cons st pl by simp
qed simp

lemma persistGroups: "P (snd st) \<Longrightarrow> P (snd (persistGroups lib now gs busy st))"
  using persist_loop by (simp add: persistGroups_def)

lemma markUnavailable: "P (snd st) \<Longrightarrow> P (snd (markUnavailable now i st))"
  by (auto simp: markUnavailable_def Let_def split: prod.splits option.splits sum.splits intro: upsert_eq)

lemma mark_each: "P (snd st) \<Longrightarrow> P (snd (mark_each now gs st))"
proof (induction gs arbitrary: st)
  case (Cons g gs)
  obtain p d where st: "st = (p, d)" by fastforce
  show ?case using Cons.IH Cons.prems markUnavailable[of "(p, d)"] by (simp add: st)
qed simp

lemma keep_unavailable: "P (snd st) \<Longrightarrow> P (snd (keep_unavailable now ks st))"
proof (induction ks arbitrary: st)
  case (Cons k ks)
  obtain p d server rks where st: "st = (p, d)" "k = (server, rks)" by fastforce
  obtain c p1 where pl: "poll p = (c, p1)" by fastforce
  show ?case using Cons.IH Cons.prems mark_each[of "(p1, d)"] by (simp add: st pl)
qed simp

lemma keepUnavailable: "P (snd st) \<Longrightarrow> P (snd (keepUnavailable now st))"
  by (simp add: keepUnavailable_def keep_unavailable)

lemma touch: "P d \<Longrightarrow> P (snd (touch now i p d))"
  by (auto simp: touch_def split: prod.splits option.splits sum.splits intro: upsert_eq)

lemma touch_each: "P (snd st) \<Longrightarrow> P (snd (touch_each now libs gs st))"
proof (induction gs arbitrary: st)
  case (Cons g gs)
  obtain p d where st: "st = (p, d)" by fastforce
  obtain ok d1 where t: "touch now (g_id g) p d = (ok, d1)" by fastforce
  have "P d1" using touch[of d now "g_id g" p] Cons.prems by (simp add: st t)
  then show ?case using Cons by (simp add: st t)
qed simp

lemma resolveFull: "P (snd st) \<Longrightarrow> P (snd (resolveFull now st))"
proof (cases st)
  case (Pair p d)
  assume P: "P (snd st)"
  have t: "P d1" if "touch_each now libs gs (p, d) = (p1, d1)" for libs gs p1 d1
    using touch_each[of "(p, d)" now libs gs] P by (simp add: Pair that)
  have m: "P d2" if "P d1" "MarkUnseenResolved now scan libs d1 = (d2, res)" for d1 d2 scan libs res
    using unseen[OF that(1), of now scan libs] that(2) by simp
  show ?thesis using P
    by (auto simp: Pair resolveFull_def Let_def split: prod.splits option.splits sum.splits intro: t m)
qed

lemma reevaluateLocked: "P d \<Longrightarrow> P (fst (reevaluateLocked lib fails now cfg ignored g d))"
  by (auto simp: reevaluateLocked_def Let_def split: sum.splits prod.splits intro: upsert_eq)

lemma Reevaluate: "P d \<Longrightarrow> P (fst (Reevaluate lib fails now cfg i d))"
  by (auto simp: Reevaluate_def reevaluateLocked split: option.splits)

lemma mark_group: "P (snd st) \<Longrightarrow> P (snd (snd (mark_group lib now i st)))"
proof (cases st)
  case (Pair p d)
  assume P: "P (snd st)"
  have r: "P d1" if "reevaluateLocked lib fails now cfg ignored g d = (d1, res)" for fails cfg ignored g d1 res
    using reevaluateLocked[of d lib fails now cfg ignored g] P by (simp add: Pair that)
  show ?thesis using P by (auto simp: Pair mark_group_def Let_def split: option.splits sum.splits prod.splits intro: r)
qed

lemma mark_loop: "P (snd st) \<Longrightarrow> P (snd (snd (snd (mark_loop lib now changed is st))))"
proof (induction "is" arbitrary: st changed)
  case Nil
  then show ?case by (cases st) simp
next
  case (Cons i "is")
  obtain p d where st: "st = (p, d)" by fastforce
  obtain c p1 where pl: "poll p = (c, p1)" by fastforce
  obtain hit p2 d2 where m: "mark_group lib now i (p1, d) = (hit, p2, d2)" by (metis prod.exhaust)
  have "P d2" using mark_group[of "(p1, d)" lib now i] Cons.prems by (simp add: st m)
  then show ?case using Cons by (simp add: st pl m)
qed

lemma markOtherServerKeeps: "P (snd st) \<Longrightarrow> P (snd (markOtherServerKeeps lib now st))"
proof (cases st)
  case (Pair p d)
  assume P: "P (snd st)"
  obtain c ch p1 d1 where m: "mark_loop lib now [] (p_crossGroups p) (p, d) = (c, ch, p1, d1)" by (metis prod.exhaust)
  have "P d1" using mark_loop[of "(p, d)" lib now "[]" "p_crossGroups p"] P by (simp add: Pair m)
  then show ?thesis using P by (cases c) (auto simp: Pair markOtherServerKeeps_def Let_def m)
qed

lemma approve_loop:
  assumes "\<And>i sig d. P d \<Longrightarrow> P (fst (approve i sig d))"
  shows "P (snd st) \<Longrightarrow> P (snd (snd (approve_loop approve mf mb files bytes gs st)))"
proof (induction gs arbitrary: st files bytes)
  case Nil
  then show ?case by (cases st) simp
next
  case (Cons g gs)
  obtain p d where st: "st = (p, d)" by fastforce
  obtain c p1 where pl: "poll p = (c, p1)" by fastforce
  obtain c2 p2 where pl2: "poll p1 = (c2, p2)" by fastforce
  obtain d1 ok where a: "approve (g_id g) (g_signature g) d = (d1, ok)" by fastforce
  have "P d" "P d1" using assms[of d "g_id g" "g_signature g"] Cons.prems by (simp_all add: st a)
  then have r: "P (snd (snd (approve_loop approve mf mb fi by gs (p', d'))))" if "d' = d \<or> d' = d1" for fi "by" p' d'
    using Cons.IH[of "(p', d')"] that by auto
  obtain ap pz dz where z: "approve_loop approve mf mb (files + removalCount g) (wrap64 (bytes + g_reclaimableBytes g)) gs
      (p1\<lparr>p_stats := (p_stats p1)\<lparr>st_autoApproved := st_autoApproved (p_stats p1) + 1,
          st_pendingGroups := st_pendingGroups (p_stats p1) - 1\<rparr>\<rparr>, d1) = (ap, pz, dz)" by (metis prod.exhaust)
  have "P dz" using r[of d1 "files + removalCount g" "wrap64 (bytes + g_reclaimableBytes g)"] z by (metis snd_conv)
  then show ?case using r \<open>P d\<close> \<open>P d1\<close> by (cases ok) (simp_all add: st pl pl2 a z Let_def)
qed

lemma finish_full:
  assumes "\<And>i sig d. P d \<Longrightarrow> P (fst (approve i sig d))" and "P (snd st)"
  shows "P (snd (snd (finish_full lib now approve gs busy st)))"
proof -
  obtain p1 d1 where 1: "persistGroups lib now gs busy st = (p1, d1)" by fastforce
  obtain c p2 where 2: "poll p1 = (c, p2)" by fastforce
  obtain p3 d3 where 3: "resolveFull now (keepUnavailable now (p2, d1)) = (p3, d3)" by fastforce
  obtain c4 p4 where 4: "poll p3 = (c4, p4)" by fastforce
  obtain p5 d5 where 5: "markOtherServerKeeps lib now (p4, d3) = (p5, d5)" by fastforce
  obtain ap p6 d6 where 6: "autoApprove approve (p5, d5) = (ap, p6, d6)" by (metis prod.exhaust)
  have P1: "P d1" using persistGroups[OF assms(2), of lib now gs busy] by (simp add: 1)
  then have P3: "P d3" using resolveFull[OF keepUnavailable[of "(p2, d1)" now]] 3 by (metis snd_conv)
  then have "P d5" using markOtherServerKeeps[of "(p4, d3)" lib now] by (simp add: 5)
  then have "P (snd (snd (autoApprove approve (p5, d5))))"
    using approve_loop[where approve = approve and st = "(p5, d5)"] assms(1) by (simp add: autoApprove_def Let_def)
  then have "P d6" by (simp add: 6)
  then show ?thesis using P1 P3 by (simp add: finish_full_def 1 2 3 4 5 6)
qed

end

interpretation si: scan_effects store_inv
  by unfold_locales (simp_all add: inv_steps)

section \<open>Ignored groups\<close>

definition ignored_key :: "string \<Rightarrow> db \<Rightarrow> bool" where
  "ignored_key k d \<longleftrightarrow> (\<exists>r\<in>set (db_groups d). g_key (r_group r) = k \<and> r_status r = GroupIgnored)"

lemma cancel_keeps_row:
  assumes "r \<in> set (db_groups d)" and "r_status r \<noteq> GroupQueued"
  shows "r \<in> set (db_groups (snd (cancelActions now from msg cond d)))"
  using assms by (force simp: cancelActions_def Let_def reopenEmptiedGroups_def emptied_def image_iff)

lemma ignored_cancel: "ignored_key k d \<Longrightarrow> ignored_key k (snd (cancelPending now msg cond d))"
  using cancel_keeps_row unfolding ignored_key_def cancelPending_def by fastforce

lemma ignored_update_rows:
  assumes "ignored_key k d" and "\<And>r. r \<in> set (db_groups d) \<Longrightarrow> r_status r = GroupIgnored \<Longrightarrow> \<not> p r"
  shows "ignored_key k (update_rows p h d)"
  using assms by (fastforce simp: ignored_key_def update_rows_def)

lemma write_status_ignored:
  "row = Some r \<Longrightarrow> r_status r = GroupIgnored \<Longrightarrow> fst (write_status row g fs) = GroupIgnored"
  by (simp add: write_status_def Let_def keeps_none_def)

lemma ignored_Upsert:
  assumes "store_inv d" and "ignored_key k d"
  shows "ignored_key k (fst (Upsert now g d))"
proof -
  obtain d' res where u: "Upsert now g d = (d', res)" by fastforce
  obtain r where r: "r \<in> set (db_groups d)" "g_key (r_group r) = k" "r_status r = GroupIgnored"
    using assms(2) by (auto simp: ignored_key_def)
  have wf: "wf_db d" using assms(1) by (simp add: store_inv_def)
  show ?thesis
  proof (cases res)
    case (Inl e)
    then show ?thesis using Upsert_Inl u assms(2) by fastforce
  next
    case (Inr out)
    obtain g' created where out: "out = (g', created)" by fastforce
    obtain q where new: "reopened now q (upsert_row now (row_with (g_key g) d) g d) \<in> set (db_groups d')"
      and old: "\<And>r. r \<in> set (db_groups d) \<Longrightarrow> g_key (r_group r) \<noteq> g_key g \<Longrightarrow> r \<in> set (db_groups d')"
      by (rule Upsert_rows[OF wf u[unfolded Inr out]]) blast
    show ?thesis
    proof (cases "g_key g = k")
      case True
      then have "row_with (g_key g) d = Some r" using row_with_iff[OF wf] r by simp
      then have "r_status (reopened now q (upsert_row now (row_with (g_key g) d) g d)) = GroupIgnored"
        using write_status_ignored[OF _ r(3)] by (simp add: reopened_status)
      then show ?thesis using new True u by (auto simp: ignored_key_def intro!: bexI)
    next
      case False
      then show ?thesis using old[OF r(1)] r u by (auto simp: ignored_key_def)
    qed
  qed
qed

lemma Get_row: "Get i d = Some g \<Longrightarrow> \<exists>r\<in>set (db_groups d). r_id r = i \<and> g_status g = r_status r"
  by (auto simp: Get_def load_def find_Some_iff)

interpretation ig: scan_effects "\<lambda>d. store_inv d \<and> ignored_key k d" for k
proof
  fix d now g assume "store_inv d \<and> ignored_key k d"
  then show "store_inv (fst (Upsert now g d)) \<and> ignored_key k (fst (Upsert now g d))"
    by (simp add: inv_steps ignored_Upsert)
next
  fix d now scan libs assume d: "store_inv d \<and> ignored_key k d"
  then have "ignored_key k (update_rows (unseen scan libs) (set_status now GroupResolved resolvedReason) d)"
    by (intro ignored_update_rows) (auto simp: unseen_def)
  then have "ignored_key k (fst (MarkUnseenResolved now scan libs d))"
    using d by (simp add: MarkUnseenResolved_def Let_def ignored_cancel)
  then show "store_inv (fst (MarkUnseenResolved now scan libs d)) \<and> ignored_key k (fst (MarkUnseenResolved now scan libs d))"
    using d by (simp add: inv_steps)
next
  fix d i g now reason assume d: "store_inv d \<and> ignored_key k d" and g: "Get i d = Some g" "g_status g \<noteq> GroupIgnored"
  have "r_id r \<noteq> i" if "r \<in> set (db_groups d)" "r_status r = GroupIgnored" for r
    using Get_row[OF g(1)] same_row[of d r] d that g(2) by (auto simp: store_inv_def)
  then have "ignored_key k (update_rows (\<lambda>r. r_id r = i) (set_status now GroupResolved reason) d)"
    using d by (intro ignored_update_rows) auto
  then have "ignored_key k (fst (UpdateStatus now i GroupResolved reason d))"
    using d by (simp add: UpdateStatus_def afterStatusChange_def cancelPendingActions_def ignored_cancel)
  then show "store_inv (fst (UpdateStatus now i GroupResolved reason d)) \<and> ignored_key k (fst (UpdateStatus now i GroupResolved reason d))"
    using d by (simp add: inv_steps)
qed

section \<open>Evaluated groups are accepted by the store\<close>

lemma check_upsert_files_None:
  assumes "distinct (map f_key fs)" and "set (map f_key fs) \<inter> set incoming = {}"
    and "\<forall>f\<in>set fs. TrimSpace (f_key f) \<noteq> [] \<and> validDecision (f_decision f) \<and> validDecision (f_engineDecision f) \<and>
      validDecision (f_override f)"
  shows "check_upsert_files i incoming fs = None"
  using assms by (induction fs arbitrary: i incoming) auto

lemma decision_of_valid [simp]: "validDecision (decision_of b)"
  by (simp add: decision_of_def validDecision_def)

lemma Evaluate_files:
  assumes "Evaluate lib (Some g) p env = Inr g'"
  shows "distinct (map f_key (g_files g'))"
    and "\<forall>f\<in>set (g_files g'). TrimSpace (f_key f) \<noteq> [] \<and> validDecision (f_decision f) \<and> validDecision (f_engineDecision f)"
    and "map f_override (g_files g') = map f_override (g_files g)"
    and "map f_key (g_files g') = map f_key (g_files g)" and "g_key g' = g_key g"
proof -
  have g': "g' = finish (evaluated lib g p env)" and c: "checkEvaluable (Some g) = None"
    using assms by (auto elim!: EvaluateD)
  have files: "g_files g' = mark_files (evaluated lib g p env)" "length (g_files g') = length (g_files g)" by (simp_all add: g')
  show k: "map f_key (g_files g') = map f_key (g_files g)"
    by (rule nth_equalityI) (simp_all add: files(1) mark_files_nth)
  show "map f_override (g_files g') = map f_override (g_files g)"
    by (rule nth_equalityI) (simp_all add: files(1) mark_files_nth)
  have t: "\<forall>f\<in>set (g_files g). TrimSpace (f_key f) \<noteq> []" "distinct (map (\<lambda>f. TrimSpace (f_key f)) (g_files g))"
    using c by (auto simp: checkEvaluable_def check_files_None split: if_splits)
  have "distinct (map TrimSpace (map f_key (g_files g)))" using t(2) by (simp only: map_map o_def)
  then show "distinct (map f_key (g_files g'))" unfolding k distinct_map[of TrimSpace] by (rule conjunct1)
  have "\<forall>x\<in>set (map f_key (g_files g')). TrimSpace x \<noteq> []" unfolding k using t(1) by simp
  moreover have "validDecision (f_decision (g_files g' ! i)) \<and> validDecision (f_engineDecision (g_files g' ! i))"
    if "i < length (g_files g)" for i using that by (simp add: files(1) mark_files_nth)
  ultimately show "\<forall>f\<in>set (g_files g'). TrimSpace (f_key f) \<noteq> [] \<and> validDecision (f_decision f) \<and> validDecision (f_engineDecision f)"
    using files(2) by (auto simp: in_set_conv_nth)
  have "ev_g (evaluated lib g p env) = g \<lparr> g_files := g_files (ev_g (evaluated lib g p env)) \<rparr>"
    using annotate_core[of "decided lib g p env"]
    by (simp add: evaluated_def explain_def decided_def[symmetric] same_core_def)
  then have "g_key (ev_g (evaluated lib g p env)) = g_key g" by (metis DuplicateGroup.select_convs(2) DuplicateGroup.surjective DuplicateGroup.update_convs(17))
  then show "g_key g' = g_key g" by (simp add: g' finish_def Let_def updated_group_def)
qed

definition valid_group :: "DuplicateGroup \<Rightarrow> bool" where
  "valid_group g \<longleftrightarrow> (\<forall>f\<in>set (g_files g). validDecision (f_override f))"

definition valid_overrides :: "(string \<rightharpoonup> string) \<Rightarrow> bool" where
  "valid_overrides m \<longleftrightarrow> (\<forall>d\<in>ran m. validDecision d)"

lemma valid_overrides_simps [simp]:
  "valid_overrides Map.empty" "valid_overrides m \<Longrightarrow> validDecision d \<Longrightarrow> valid_overrides (m(k \<mapsto> d))"
  by (auto simp: valid_overrides_def ran_def)

lemma valid_overridesD: "valid_overrides m \<Longrightarrow> m k = Some d \<Longrightarrow> validDecision d"
  by (auto simp: valid_overrides_def ran_def)

lemma stored_overrides_valid: "valid_group x \<Longrightarrow> valid_overrides (stored_overrides x)"
proof -
  have "\<forall>f\<in>set fs. validDecision (f_override f) \<Longrightarrow> valid_overrides m \<Longrightarrow>
      valid_overrides (fold (\<lambda>f m. if f_override f \<noteq> [] then m(f_key f \<mapsto> f_override f) else m) fs m)" for fs m
    by (induction fs arbitrary: m) auto
  then show "valid_group x \<Longrightarrow> valid_overrides (stored_overrides x)" by (simp add: stored_overrides_def valid_group_def)
qed

lemma carryOver_valid:
  assumes "valid_group g" and "\<And>x. existing = Some x \<Longrightarrow> valid_group x"
  shows "valid_group (carryOver g existing)"
  using assms valid_overridesD[OF stored_overrides_valid]
  by (auto simp: carryOver_def valid_group_def Let_def split: option.splits)

lemma inherit_files_valid:
  "\<forall>f\<in>set fs. validDecision (f_override f) \<Longrightarrow> valid_overrides m \<Longrightarrow> valid_overrides (fold (inherit_file mine) fs m)"
  by (induction fs arbitrary: m) (auto simp: inherit_file_def)

lemma inherit_from_valid:
  assumes "valid_overrides (inh_overrides inh)" and "valid_group pr"
  shows "valid_overrides (inh_overrides (inherit_from g pr inh))"
proof -
  have "valid_overrides (fold (inherit_file mine) (g_files pr) (inh_overrides inh))" for mine
    using assms by (auto simp: valid_group_def intro: inherit_files_valid)
  then show ?thesis using assms(1) by (simp add: inherit_from_def Let_def)
qed

lemma inherit_valid:
  assumes "\<forall>pr\<in>set preds. valid_group pr"
  shows "valid_overrides (inh_overrides (inherit g preds))"
proof -
  have "\<forall>pr\<in>set preds. valid_group pr \<Longrightarrow> valid_overrides (inh_overrides inh) \<Longrightarrow>
      valid_overrides (inh_overrides (fold (inherit_from g) preds inh))" for inh
    by (induction preds arbitrary: inh) (auto intro: inherit_from_valid)
  then show ?thesis using assms by (simp add: inherit_def no_inheritance_def)
qed

lemma inherit_apply_valid:
  assumes "valid_group g" and "valid_overrides (inh_overrides inh)"
  shows "valid_group (inherit_apply inh g)"
  using assms by (auto simp: inherit_apply_def valid_group_def Let_def dest: valid_overridesD split: option.splits)

lemma load_valid: "wf_db d \<Longrightarrow> r \<in> set (db_groups d) \<Longrightarrow> valid_group (load r)"
  using wf_db_row[of d r] by (auto simp: valid_group_def load_def wf_row_def wf_file_def)

lemma lookup_rest_valid:
  assumes "wf_db d" and "valid_group g0" and "\<And>x. existing0 = Some x \<Longrightarrow> valid_group x"
    and "lookup_rest p g0 existing0 d = (g, LookupStored existing inh)"
  shows "valid_group g \<and> (\<forall>x. existing = Some x \<longrightarrow> valid_group x) \<and> valid_overrides (inh_overrides inh)"
proof -
  have preds: "\<forall>pr\<in>set (ListByRatingKeys s rks d). valid_group pr" for s rks
    using load_valid[OF assms(1)] by (auto simp: ListByRatingKeys_def)
  have ad: "valid_group a" if "adoptable g0 (ListByRatingKeys s rks d) = Some a" for a s rks
  proof -
    have "a \<in> set (filter (adopts g0) (ListByRatingKeys s rks d))"
      using that unfolding adoptable_def by (cases "filter (adopts g0) (ListByRatingKeys s rks d)") (simp_all only: list.simps option.simps list.set, auto split: list.splits)
    then show ?thesis using preds by auto
  qed
  have key: "valid_group (g0\<lparr>g_key := k\<rparr>)" for k using assms(2) by (simp add: valid_group_def)
  have none: "valid_overrides (inh_overrides no_inheritance)" by (simp add: no_inheritance_def)
  show ?thesis using assms(2-4) key none
    by (auto simp: lookup_rest_def Let_def split: if_splits option.splits intro: ad inherit_valid[OF preds])
qed

lemma lookup_valid:
  assumes "wf_db d" and "valid_group g0" and "lookupStored p g0 d = (g, LookupStored existing inh)"
  shows "valid_group g \<and> (\<forall>x. existing = Some x \<longrightarrow> valid_group x) \<and> valid_overrides (inh_overrides inh)"
proof -
  have got: "valid_group x" if "get_by_key p k d = Some (Some x)" for k x
    using that load_valid[OF assms(1)] by (auto simp: get_by_key_def GetByKey_def find_Some_iff split: if_splits)
  have key: "valid_group (g0\<lparr>g_key := k\<rparr>)" for k using assms(2) by (simp add: valid_group_def)
  show ?thesis using assms(3) got
    by (auto simp: lookupStored_def Let_def split: option.splits if_splits
        elim!: lookup_rest_valid[OF assms(1) assms(2), rotated] lookup_rest_valid[OF assms(1) key, rotated])
qed

lemma scan_evaluates_valid:
  assumes "store_inv d" and "valid_group g0" and "scan_evaluates lib p g0 d existing ev" and "TrimSpace (g_key ev) \<noteq> []"
  shows "check_upsert (scanned p now existing ev) = None"
proof -
  obtain g inh where l: "lookupStored p g0 d = (g, LookupStored existing inh)"
    and e: "Evaluate lib (Some (inherit_apply inh (carryOver g existing)))
          (profileFor (p_eval p) (inherit_apply inh (carryOver g existing))) (evalEnv (p_eval p) (p_start p)) = Inr ev"
    using assms(3) by (auto simp: scan_evaluates_def)
  have "valid_group (inherit_apply inh (carryOver g existing))"
    using lookup_valid[OF _ assms(2) l] assms(1) by (auto simp: store_inv_def intro: inherit_apply_valid carryOver_valid)
  then have "\<forall>x\<in>set (map f_override (g_files (inherit_apply inh (carryOver g existing)))). validDecision x"
    by (simp add: valid_group_def)
  then have ov: "\<forall>f\<in>set (g_files ev). validDecision (f_override f)"
    unfolding Evaluate_files(3)[OF e, symmetric] by simp
  have "g_status (scanned p now existing ev) \<in> {GroupIgnored, GroupQueued, GroupProtected, GroupReview, GroupDeferred, GroupPending}"
    using Evaluate_status[OF e] distrust_status[of p ev] recheck_status[of existing "distrust p ev"] by auto
  then have "validGroupStatus (upsert_status (scanned p now existing ev))"
    by (auto simp: validGroupStatus_def knownGroupStatuses_def upsert_status_def simp del: scanned_sel(1))
  moreover have "check_upsert_files 0 [] (g_files ev) = None"
    using Evaluate_files[OF e] ov by (intro check_upsert_files_None) auto
  ultimately show ?thesis using assms(4) by (simp add: check_upsert_def)
qed

lemma Upsert_Inr: "check_upsert g = None \<Longrightarrow> wf_db d \<Longrightarrow> \<exists>d' out. Upsert now g d = (d', Inr out)"
proof -
  assume c: "check_upsert g = None" and wf: "wf_db d"
  let ?row = "row_with (g_key g) d"
  let ?r = "upsert_row now ?row g d"
  let ?d1 = "write_row ?row ?r (map (upsert_file ?row) (g_files g)) d"
  show ?thesis
  proof (cases ?row)
    case None
    then show ?thesis using c by (auto simp: Upsert_def Let_def row_with_def)
  next
    case (Some x)
    obtain q where q: "db_groups (snd (cancel_after_upsert now ?r ?d1)) =
        map (\<lambda>y. if r_id y = r_id ?r then reopened now q y else y) (db_groups ?d1)"
      by (rule groups_cancel_after_upsert)
    have x: "x \<in> set (db_groups d)" "r_id ?r = r_id x" using row_with_Some[OF Some] Some by simp_all
    have "map r_id (db_groups (snd (cancel_after_upsert now ?r ?d1))) = map r_id (db_groups ?d1)" unfolding q by simp
    moreover have "map r_id (db_groups ?d1) = map r_id (db_groups d)" using Some by (simp add: write_row_def)
    ultimately have "set (map r_id (db_groups (snd (cancel_after_upsert now ?r ?d1)))) = r_id ` set (db_groups d)"
      by (simp only: set_map)
    then have "r_id ?r \<in> set (map r_id (db_groups (snd (cancel_after_upsert now ?r ?d1))))" using x by simp
    then have "\<exists>y\<in>set (db_groups (snd (cancel_after_upsert now ?r ?d1))). r_id y = r_id ?r" by force
    then have f: "find (\<lambda>y. r_id y = r_id ?r) (db_groups (snd (cancel_after_upsert now ?r ?d1))) \<noteq> None"
      by (auto simp: find_None_iff)
    show ?thesis using c Some f
      by (cases "cancel_after_upsert now ?r ?d1") (auto simp: Upsert_def Let_def row_with_def)
  qed
qed

section \<open>Candidates for automatic approval\<close>

text \<open>The candidates of a run are eligible under the settings the run started with.\<close>

definition cands_ok :: "pipeline \<Rightarrow> pipeline \<Rightarrow> bool" where
  "cands_ok p0 p \<longleftrightarrow> p_cfg p = p_cfg p0 \<and> p_hasAutoApprove p = p_hasAutoApprove p0 \<and>
     (\<forall>g\<in>set (p_autoCands p). autoEligible p0 g)"

definition same_cands :: "pipeline \<Rightarrow> pipeline \<Rightarrow> bool" where
  "same_cands p q \<longleftrightarrow> p_cfg q = p_cfg p \<and> p_hasAutoApprove q = p_hasAutoApprove p \<and> p_autoCands q = p_autoCands p"

lemma same_cands_ok: "cands_ok p0 p \<Longrightarrow> same_cands p q \<Longrightarrow> cands_ok p0 q"
  by (simp add: cands_ok_def same_cands_def)

lemma same_cands_refl [simp, intro]: "same_cands p p"
  by (simp add: same_cands_def)

lemma same_cands_trans [trans]: "same_cands p q \<Longrightarrow> same_cands q r \<Longrightarrow> same_cands p r"
  by (simp add: same_cands_def)

lemma same_cands_simps [simp]:
  "same_cands p (addError q) \<longleftrightarrow> same_cands p q" "same_cands p (protect_group i q) \<longleftrightarrow> same_cands p q"
  "same_cands p (unsafe_libs g q) \<longleftrightarrow> same_cands p q" "same_cands p (snd (poll q)) \<longleftrightarrow> same_cands p q"
  "same_cands p (q\<lparr>p_stats := st\<rparr>) \<longleftrightarrow> same_cands p q" "same_cands p (q\<lparr>p_failedRKs := ks\<rparr>) \<longleftrightarrow> same_cands p q"
  "same_cands p (q\<lparr>p_ignored := ix\<rparr>) \<longleftrightarrow> same_cands p q" "same_cands p (groupFailed q g ex b) \<longleftrightarrow> same_cands p q"
  by (simp_all add: same_cands_def addError_def protect_group_def unsafe_libs_def poll_def groupFailed_def Let_def split: option.splits)

lemma same_cands_poll: "poll p = (c, q) \<Longrightarrow> same_cands p q"
  by (metis same_cands_refl same_cands_simps(4) snd_conv)

lemma autoEligible_cong: "p_cfg p = p_cfg q \<Longrightarrow> p_hasAutoApprove p = p_hasAutoApprove q \<Longrightarrow> autoEligible p g = autoEligible q g"
  by (simp add: autoEligible_def)

lemma note_stored_ok: "cands_ok p0 p \<Longrightarrow> cands_ok p0 (note_stored g created p)"
  by (auto simp: cands_ok_def note_stored_def Let_def autoEligible_def)

lemma persistGroup_ok: "cands_ok p0 p \<Longrightarrow> cands_ok p0 (fst (persistGroup lib now g (p, d)))"
  by (auto simp: persistGroup_def Let_def note_stored_ok split: prod.splits lookup.splits sum.splits
      intro: same_cands_ok)

lemma persist_loop_ok: "cands_ok p0 (fst st) \<Longrightarrow> cands_ok p0 (fst (persist_loop lib now busy gs st))"
proof (induction gs arbitrary: st)
  case (Cons g gs)
  obtain p d where st: "st = (p, d)" by fastforce
  obtain c p1 where pl: "poll p = (c, p1)" by fastforce
  have "cands_ok p0 p1" using Cons.prems same_cands_poll[OF pl] by (simp add: st same_cands_ok)
  then show ?case using Cons.IH persistGroup_ok by (simp add: st pl)
qed simp

lemma persistGroups_ok: "cands_ok p0 (fst st) \<Longrightarrow> cands_ok p0 (fst (persistGroups lib now gs busy st))"
proof -
  assume ok: "cands_ok p0 (fst st)"
  have "cands_ok p0 (loadIgnored (fst st) (snd st))" by (rule same_cands_ok[OF ok]) (simp add: loadIgnored_def)
  then show ?thesis using ok by (simp add: persistGroups_def persist_loop_ok)
qed

lemma markUnavailable_same: "same_cands p q \<Longrightarrow> same_cands p (fst (markUnavailable now i (q, d)))"
  by (auto simp: markUnavailable_def Let_def split: option.splits prod.splits sum.splits)

lemma mark_each_same: "same_cands p (fst st) \<Longrightarrow> same_cands p (fst (mark_each now gs st))"
proof (induction gs arbitrary: st)
  case (Cons g gs)
  then show ?case by (cases st) (simp add: markUnavailable_same)
qed simp

lemma keep_unavailable_same: "same_cands p (fst st) \<Longrightarrow> same_cands p (fst (keep_unavailable now ks st))"
proof (induction ks arbitrary: st)
  case (Cons k ks)
  obtain q d server rks where st: "st = (q, d)" "k = (server, rks)" by fastforce
  obtain c p1 where pl: "poll q = (c, p1)" by fastforce
  have "same_cands p p1" using Cons.prems same_cands_poll[OF pl] same_cands_trans by (auto simp: st)
  then show ?case using Cons.IH mark_each_same by (simp add: st pl)
qed simp

lemma touch_each_same: "same_cands p (fst st) \<Longrightarrow> same_cands p (fst (touch_each now libs gs st))"
proof (induction gs arbitrary: st)
  case (Cons g gs)
  then show ?case by (cases st) (simp split: prod.splits)
qed simp

lemma resolveFull_same: "same_cands p q \<Longrightarrow> same_cands p (fst (resolveFull now (q, d)))"
proof -
  assume s: "same_cands p q"
  have t: "same_cands p p1" if "touch_each now libs gs (q, d) = (p1, d1)" for libs gs p1 d1
    using touch_each_same[of p "(q, d)" now libs gs] s that by simp
  have u: "same_cands p p2" if "touch_each now libs gs (q, d) = (p1, d1)" "poll p1 = (c, p2)" for libs gs p1 d1 c p2
    using t[OF that(1)] same_cands_poll[OF that(2)] same_cands_trans by blast
  show ?thesis using s by (auto simp: resolveFull_def Let_def split: option.splits prod.splits sum.splits dest: t u)
qed

lemma add_errors_same [simp]: "same_cands p (add_errors n q) \<longleftrightarrow> same_cands p q"
  by (induction n) (simp_all add: add_errors_def)

lemma mark_group_same: "same_cands p q \<Longrightarrow> same_cands p (fst (snd (mark_group lib now i (q, d))))"
  by (auto simp: mark_group_def Let_def split: option.splits prod.splits sum.splits)

lemma mark_loop_same: "same_cands p (fst st) \<Longrightarrow> same_cands p (fst (snd (snd (mark_loop lib now changed is st))))"
proof (induction "is" arbitrary: st changed)
  case Nil
  then show ?case by (cases st) simp
next
  case (Cons i "is")
  obtain q d where st: "st = (q, d)" by fastforce
  obtain c p1 where pl: "poll q = (c, p1)" by fastforce
  obtain hit p2 d2 where m: "mark_group lib now i (p1, d) = (hit, p2, d2)" by (metis prod.exhaust)
  have p1: "same_cands p p1" using Cons.prems same_cands_poll[OF pl] same_cands_trans by (auto simp: st)
  then have "same_cands p p2" using mark_group_same[of p p1 lib now i d] by (simp add: m)
  then show ?case using Cons.IH p1 by (simp add: st pl m)
qed

lemma markOther_ok: "cands_ok p0 q \<Longrightarrow> cands_ok p0 (fst (markOtherServerKeeps lib now (q, d)))"
proof -
  assume ok: "cands_ok p0 q"
  obtain c ch p1 d1 where m: "mark_loop lib now [] (p_crossGroups q) (q, d) = (c, ch, p1, d1)" by (metis prod.exhaust)
  have "same_cands q p1" using mark_loop_same[of q "(q, d)" lib now "[]" "p_crossGroups q"] by (simp add: m)
  then have "cands_ok p0 p1" by (rule same_cands_ok[OF ok])
  then show ?thesis using ok by (cases c) (auto simp: markOtherServerKeeps_def m cands_ok_def)
qed

lemma approve_loop_subset: "approve_loop approve mf mb files bytes gs st = (approved, r) \<Longrightarrow> set approved \<subseteq> set gs"
proof (induction gs arbitrary: files bytes st approved r)
  case Nil
  then show ?case by (cases st) simp
next
  case (Cons g gs)
  obtain p d where st: "st = (p, d)" by fastforce
  show ?case using Cons.prems unfolding st approve_loop.simps Let_def
    by (auto split: if_splits prod.splits bool.splits dest: Cons.IH[THEN subsetD])
qed

lemma autoApprove_subset:
  assumes "autoApprove approve (p, d) = (approved, r)"
  shows "set approved \<subseteq> set (p_autoCands p)"
  using assms approve_loop_subset by (fastforce simp: autoApprove_def Let_def split: if_splits)

lemma finish_full_eligible:
  assumes "p_autoCands p = []" and "finish_full lib now approve gs busy (p, d) = (Some approved, r)"
  shows "\<forall>g\<in>set approved. autoEligible p g"
proof -
  obtain p1 d1 where 1: "persistGroups lib now gs busy (p, d) = (p1, d1)" by fastforce
  obtain c p2 where 2: "poll p1 = (c, p2)" by fastforce
  obtain p3 d3 where 3: "resolveFull now (keepUnavailable now (p2, d1)) = (p3, d3)" by fastforce
  obtain c4 p4 where 4: "poll p3 = (c4, p4)" by fastforce
  obtain p5 d5 where 5: "markOtherServerKeeps lib now (p4, d3) = (p5, d5)" by fastforce
  have "cands_ok p p1" using persistGroups_ok[of p "(p, d)" lib now gs busy] assms(1) by (simp add: 1 cands_ok_def)
  then have "cands_ok p p2" using same_cands_poll[OF 2] by (rule same_cands_ok)
  moreover have "same_cands p2 p3"
  proof -
    obtain q e where q: "keepUnavailable now (p2, d1) = (q, e)" by fastforce
    have "same_cands p2 q" using keep_unavailable_same[of p2 "(p2, d1)" now "groupRatingKeys (p_unavailable p2)"] q by (simp add: keepUnavailable_def)
    then show ?thesis using resolveFull_same[of p2 q now e] 3 q by simp
  qed
  ultimately have "cands_ok p p4" using same_cands_poll[OF 4] same_cands_ok by blast
  then have "cands_ok p p5" using markOther_ok[of p p4 lib now d3] by (simp add: 5)
  moreover have "\<exists>r. autoApprove approve (p5, d5) = (approved, r)"
    using assms(2) by (auto simp: finish_full_def 1 2 3 4 5 split: if_splits prod.splits)
  ultimately show ?thesis using autoApprove_subset by (fastforce simp: cands_ok_def)
qed

end
