(* ===== verification/StoreProperties.thy ===== *)
theory StoreProperties
  imports StoreSafety Examples
begin

text \<open>
  What the store guarantees over any sequence of its operations: pending removals always target a version
  that may be removed, a removal starts only while its target may be removed, finished actions are not
  queued again, and a user's override survives every scan.
\<close>

section \<open>How one step changes the actions\<close>

definition cancels :: "db \<Rightarrow> db \<Rightarrow> bool" where
  "cancels d d' \<longleftrightarrow> (\<forall>x'\<in>set (db_actions d'). \<exists>x\<in>set (db_actions d). act_id x = act_id x' \<and>
     (x' = x \<or> act_status x' = ActionCancelled \<and> isQueuedStatus (act_status x)))"

lemma cancels_refl: "db_actions d' = db_actions d \<Longrightarrow> cancels d d'"
  by (auto simp: cancels_def)

lemma cancels_cancelActions:
  assumes "\<And>s. s \<in> set from \<Longrightarrow> isQueuedStatus s"
  shows "cancels d (snd (cancelActions now from msg cond d))"
proof -
  have "act_id (cancel_action now msg a) = act_id a" for a by (simp add: cancel_action_def)
  then show ?thesis using assms by (force simp: cancels_def actions_cancelActions hit_by_def)
qed

lemma cancels_trans: "cancels d d' \<Longrightarrow> cancels d' d'' \<Longrightarrow> cancels d d''"
  unfolding cancels_def by (metis (no_types, opaque_lifting))

lemma cancels_pending: "cancels d (snd (cancelPending now msg cond d))"
  unfolding cancelPending_def by (rule cancels_cancelActions) (simp add: isQueuedStatus_def)

lemma cancels_pending_eq: "cancelPending now msg cond d = (n, d') \<Longrightarrow> cancels d d'"
  using cancels_pending[of d now msg cond] by simp

text \<open>Cancelling in a database with the same actions.\<close>

lemma cancels_pending_after:
  assumes "db_actions d1 = db_actions d"
  shows "cancels d (snd (cancelPending now msg cond d1))"
  using cancels_trans[OF cancels_refl[OF assms] cancels_pending] .

lemma cancels_Upsert: "cancels d (fst (Upsert now g d))"
proof -
  have "cancels d (snd (cancel_after_upsert now r (write_row row r' fs d)))" for r row r' fs
    unfolding cancel_after_upsert_def cancelStaleActions_def cancelPendingActions_def
    by (auto intro!: cancels_pending_after cancels_trans[OF cancels_pending_after cancels_pending])
  then show ?thesis
    by (auto simp: Upsert_def Let_def cancels_refl split: option.splits prod.splits dest!: arg_cong[of _ _ snd])
qed

lemma cancels_status: "cancels d (afterStatusChange now i s reason (update_rows p h d))"
  by (auto simp: afterStatusChange_def cancelPendingActions_def cancels_refl intro!: cancels_pending_after)

lemma cancels_steps:
  "cancels d (fst (UpdateStatus now i s reason d))"
  "cancels d (fst (UpdateStatusIf now i from s reason d))"
  "cancels d (fst (SetFlag now i flag on d))"
  "cancels d (fst (SetOverride now i fid dec d))"
  "cancels d (fst (MarkUnseenResolved now scan libs d))"
  "cancels d (fst (Delete now i d))"
  "cancels d (fst (CancelPendingForGroup now i d))"
  "cancels d (fst (CancelIfPending now i d))"
  "cancels d (fst (CreateExclusion now e d))"
  "cancels d (fst (DeleteExclusion i d))"
  "cancels d (server_deleted now i d)"
  "cancels d (arr_deleted now i d)"
  by (auto simp: UpdateStatus_def UpdateStatusIf_def SetFlag_def SetOverride_def MarkUnseenResolved_def Delete_def
      CancelPendingForGroup_def CancelIfPending_def CreateExclusion_def DeleteExclusion_def server_deleted_def arr_deleted_def
      Let_def cancels_refl cancels_status cancelPendingActions_def cancelStaleActions_def
      intro!: cancels_pending_after dest: cancels_pending_eq split: prod.splits option.splits)

text \<open>What may become of an action in one step.\<close>

definition evolved :: "db \<Rightarrow> Action \<Rightarrow> Action \<Rightarrow> bool" where
  "evolved d x x' \<longleftrightarrow> x' = x \<or> act_status x' = ActionCancelled \<and> isQueuedStatus (act_status x) \<or>
     checkActionTransition (act_status x) (act_status x') = None \<and>
     (act_status x' = ActionPending \<or> act_status x' = ActionRunning \<and> act_status x = ActionPending \<longrightarrow> target_removable x' d)"

lemma evolved_UpdateAction:
  assumes "wf_actions d" and "x' \<in> set (db_actions (fst (UpdateAction now a d)))"
  shows "\<exists>x\<in>set (db_actions d). act_id x = act_id x' \<and> evolved d x x'"
proof -
  have keep: ?thesis if "x' \<in> set (db_actions d)" using that by (auto simp: evolved_def)
  have canc: ?thesis if "cancels d d'" "x' \<in> set (db_actions d')" for d'
    using that unfolding cancels_def evolved_def by blast
  have writ: ?thesis
    if x: "find (\<lambda>y. act_id y = act_id a) (db_actions d) = Some x" and ok: "checkActionTransition (act_status x) (act_status a) = None"
      and rem: "act_status a = ActionPending \<or> act_status a = ActionRunning \<and> act_status x = ActionPending \<Longrightarrow> target_removable a d"
      and w: "x' \<in> set (db_actions (write_action a d))" for x
  proof (cases "act_id x' = act_id a")
    case True
    have x': "x \<in> set (db_actions d)" "act_id x = act_id a" using x by (auto simp: find_Some_iff)
    obtain y where "y \<in> set (db_actions d)" "x' = (if act_id y = act_id a then a \<lparr> act_createdAt := act_createdAt y \<rparr> else y)"
      using w by (auto simp: write_action_def)
    then have "x' = a \<lparr> act_createdAt := act_createdAt y \<rparr>" using True by (auto split: if_splits)
    moreover from this have "target_removable x' d = target_removable a d" by (simp add: target_removable_def)
    ultimately show ?thesis using x' ok rem by (intro bexI[of _ x]) (auto simp: evolved_def)
  next
    case False
    then show ?thesis using w keep by (auto simp: write_action_def split: if_splits)
  qed
  have one: "cancels d (snd (cancelActions now [s] msg cond d))" if "isQueuedStatus s" for s msg cond
    by (rule cancels_cancelActions) (use that in simp)
  show ?thesis using assms(2)
    by (auto simp: UpdateAction_def Let_def split: option.splits if_splits intro: keep writ canc[OF one])
qed

lemma step_actions:
  assumes "store_inv d" and "store_step d d'" and "x' \<in> set (db_actions d')"
  shows "(\<exists>x\<in>set (db_actions d). act_id x = act_id x' \<and> evolved d x x') \<or>
    (db_actionSeq d < act_id x' \<and> (isQueuedStatus (act_status x') \<longrightarrow> target_removable x' d))"
proof -
  have canc: ?thesis if "cancels d d'" using that assms(3) unfolding cancels_def evolved_def by blast
  have new: ?thesis if "d' = fst (CreateAction now a d)" for now a
    using assms(3) unfolding that
    by (auto simp: CreateAction_def Let_def evolved_def target_removable_def split: if_splits)
  show ?thesis using assms(2)
  proof cases
    case create_action
    then show ?thesis using new by blast
  next
    case (update_action now a)
    then show ?thesis using evolved_UpdateAction[of d x' now a] assms by (auto simp: store_inv_def)
  qed (use canc cancels_Upsert cancels_steps in \<open>metis\<close>)+
qed

section \<open>Overrides survive\<close>

text \<open>What the user decided about a version of a group: the override of its file, or the one retained for it
  while the version is not in the group.\<close>

definition row_override :: "group_row \<Rightarrow> string \<Rightarrow> string" where
  "row_override r k =
     (case find (\<lambda>f. f_key f = k) (r_files r) of
        Some f \<Rightarrow> f_override f
      | None \<Rightarrow> (case r_retained r k of Some ov \<Rightarrow> ov | None \<Rightarrow> []))"

definition row_of :: "db \<Rightarrow> string \<Rightarrow> group_row option" where
  "row_of d key = find (\<lambda>r. g_key (r_group r) = key) (db_groups d)"

definition user_override :: "db \<Rightarrow> string \<Rightarrow> string \<Rightarrow> string" where
  "user_override d key k = (case row_of d key of Some r \<Rightarrow> row_override r k | None \<Rightarrow> [])"

lemma find_map_same: "(\<And>x. P (h x) = P x) \<Longrightarrow> find P (map h xs) = map_option h (find P xs)"
  by (induction xs) auto

lemma row_override_set_status [simp]: "row_override (set_status now s reason r) k = row_override r k"
  by (simp add: row_override_def set_status_def split: option.split)

lemma user_override_cancel [simp]: "user_override (snd (cancelActions now from msg cond d)) key k = user_override d key k"
proof -
  let ?h = "\<lambda>ids acts r. if emptied ids acts r then set_status now GroupPending reopenedReason r else r"
  have "g_key (r_group (?h ids acts r)) = g_key (r_group r)" for ids acts r by simp
  from find_map_same[of "\<lambda>r. g_key (r_group r) = key" "?h ids acts" for ids acts, OF arg_cong[OF this]]
  show ?thesis
    by (auto simp: user_override_def row_of_def cancelActions_def reopenEmptiedGroups_def Let_def split: option.splits)
qed

lemma user_override_after [simp]: "user_override (snd (cancel_after_upsert now r d)) key k = user_override d key k"
  by (simp add: cancel_after_upsert_def cancelStaleActions_def cancelPendingActions_def cancelPending_def)

lemma find_number_files:
  "map_option f_override (find (\<lambda>f. f_key f = k) (number_files gid sq fs)) = map_option f_override (find (\<lambda>f. f_key f = k) fs)"
  by (induction gid sq fs rule: number_files.induct) auto

lemma find_file_None: "find (\<lambda>f. f_key f = k) fs = None \<longleftrightarrow> k \<notin> set (map f_key fs)"
  by (auto simp: find_None_iff)

lemma upsert_row_override:
  assumes "wf_row x" and "row_override x k \<noteq> []"
  shows "row_override (upsert_row now (Some x) g d) k = row_override x k"
proof -
  let ?fs = "map (upsert_file (Some x)) (g_files g)"
  have fnd: "find (\<lambda>f. f_key f = k) ?fs = map_option (upsert_file (Some x)) (find (\<lambda>f. f_key f = k) (g_files g))"
    by (rule find_map_same) simp
  have new: "map_option f_override (find (\<lambda>f. f_key f = k) (number_files gid sq ?fs)) =
      map_option (\<lambda>f. kept_override (Some x) f) (find (\<lambda>f. f_key f = k) (g_files g))" for gid sq
    unfolding find_number_files fnd by (simp add: option.map_comp o_def upsert_file_def)
  show ?thesis
  proof (cases "find (\<lambda>f. f_key f = k) (g_files g)")
    case None
    then have "find (\<lambda>f. f_key f = k) (number_files gid sq ?fs) = None" for gid sq using new[of gid sq] by simp
    moreover have "k \<notin> f_key ` set (g_files g)" using None find_file_None by force
    ultimately show ?thesis using assms(2)
      by (auto simp: row_override_def upsert_retained_def stored_file_def stored_retained_def split: option.splits)
  next
    case (Some f)
    then have k: "f_key f = k" by (auto simp: find_Some_iff)
    obtain f' where "find (\<lambda>f. f_key f = k) (number_files (r_id x) (db_fileSeq d) ?fs) = Some f'"
        "f_override f' = kept_override (Some x) f"
      using new[of "r_id x" "db_fileSeq d"] Some by (auto simp: map_option_eq_Some)
    moreover have "kept_override (Some x) f = row_override x k"
      using assms by (auto simp: kept_override_def row_override_def stored_file_def stored_retained_def wf_row_def k ran_def
          split: option.splits)
    ultimately show ?thesis by (simp add: row_override_def)
  qed
qed

lemma Upsert_override:
  assumes "store_inv d" and "user_override d key k \<noteq> []"
  shows "user_override (fst (Upsert now g d)) key k = user_override d key k"
proof (cases "check_upsert g")
  case None
  let ?x = "row_of d (g_key g)"
  let ?r = "upsert_row now ?x g d"
  let ?d = "write_row ?x ?r (map (upsert_file ?x) (g_files g)) d"
  have up: "user_override (fst (Upsert now g d)) key k = user_override ?d key k \<or> fst (Upsert now g d) = d"
    using None by (auto simp: Upsert_def row_of_def Let_def split: option.splits prod.splits dest!: arg_cong[of _ _ snd])
  have "user_override ?d key k = user_override d key k"
  proof (cases ?x)
    case x: None
    then have "key \<noteq> g_key g" using assms(2) by (auto simp: user_override_def)
    moreover have "find P (xs @ [y]) = find P xs" if "\<not> P y" for P xs and y :: group_row
      using that by (induction xs) auto
    ultimately have "row_of ?d key = row_of d key" unfolding x by (simp add: row_of_def write_row_def)
    then show ?thesis by (simp add: user_override_def)
  next
    case x: (Some x)
    then have xs: "x \<in> set (db_groups d)" "g_key (r_group x) = g_key g" by (auto simp: row_of_def find_Some_iff)
    have wf: "wf_db d" using assms(1) by (simp add: store_inv_def)
    let ?h = "\<lambda>y. if r_id y = r_id ?r then ?r else y"
    have same: "y = x" if "y \<in> set (db_groups d)" "r_id y = r_id ?r" for y
      using same_row[OF wf that(1) xs(1)] that(2) by (simp add: x)
    have "find (\<lambda>r. g_key (r_group r) = key) (map ?h ys) = map_option ?h (find (\<lambda>r. g_key (r_group r) = key) ys)"
      if "set ys \<subseteq> set (db_groups d)" for ys
      using that same xs(2) by (induction ys) auto
    from this[OF order_refl] have "find (\<lambda>r. g_key (r_group r) = key) (map ?h (db_groups d)) = map_option ?h (row_of d key)"
      by (simp only: row_of_def)
    moreover have "row_of ?d key = find (\<lambda>r. g_key (r_group r) = key) (map ?h (db_groups d))"
      unfolding x by (simp add: row_of_def write_row_def)
    ultimately have fnd: "row_of ?d key = map_option ?h (row_of d key)" by (simp only:)
    have "row_override (?h y) k = row_override y k" if "row_of d key = Some y" for y
    proof (cases "r_id y = r_id ?r")
      case True
      then have "y = x" using same that by (auto simp: row_of_def find_Some_iff)
      then show ?thesis using True upsert_row_override[of x k now g d] wf_db_row[OF wf xs(1)] assms(2) that
        by (simp add: x user_override_def)
    qed simp
    then show ?thesis using fnd by (auto simp: user_override_def split: option.splits)
  qed
  then show ?thesis using up by auto
qed (simp add: Upsert_def)

lemma scans_override:
  assumes "store_inv d" and "user_override d key k \<noteq> []"
  shows "store_inv (fold (\<lambda>(now, g) d. fst (Upsert now g d)) scans d) \<and>
    user_override (fold (\<lambda>(now, g) d. fst (Upsert now g d)) scans d) key k = user_override d key k"
  using assms
proof (induction scans arbitrary: d)
  case (Cons s scans)
  obtain now g where s: "s = (now, g)" by (cases s)
  show ?case using Cons.IH[of "fst (Upsert now g d)"] Upsert_override[OF Cons.prems, of now g] inv_Upsert[OF Cons.prems(1), of now g] Cons.prems(2)
    by (simp add: s)
qed simp

lemma row_override_file:
  "wf_row r \<Longrightarrow> f \<in> set (r_files r) \<Longrightarrow> row_override r (f_key f) = f_override f"
proof -
  assume r: "wf_row r" "f \<in> set (r_files r)"
  obtain f' where f': "find (\<lambda>x. f_key x = f_key f) (r_files r) = Some f'"
    using r(2) find_file_None[of "f_key f" "r_files r"] by (cases "find (\<lambda>x. f_key x = f_key f) (r_files r)") auto
  then have "f' \<in> set (r_files r)" "f_key f' = f_key f" by (auto simp: find_Some_iff)
  then have "f' = f" using r by (auto simp: wf_row_def distinct_map inj_on_def)
  then show ?thesis using f' by (simp add: row_override_def)
qed

lemma row_of_key: "wf_db d \<Longrightarrow> r \<in> set (db_groups d) \<Longrightarrow> row_of d (g_key (r_group r)) = Some r"
proof -
  assume d: "wf_db d" "r \<in> set (db_groups d)"
  obtain r' where r': "row_of d (g_key (r_group r)) = Some r'"
    using d(2) by (cases "row_of d (g_key (r_group r))") (auto simp: row_of_def find_None_iff)
  then have "r' \<in> set (db_groups d)" "g_key (r_group r') = g_key (r_group r)" by (auto simp: row_of_def find_Some_iff)
  then have "r' = r" using d by (auto simp: wf_db_def distinct_map inj_on_def)
  then show ?thesis using r' by simp
qed

section \<open>The guarantees\<close>

text \<open>
  C5 In every state the store can reach, whatever operations were called in whatever order, a pending
  removal targets a version of a stored group that is neither ignored nor resolved, and that version is
  decided "remove", is not protected and is not overridden to keep by the user.
\<close>

theorem pending_removals_safe:
  assumes "store_reachable d" and "a \<in> set (db_actions d)" and "act_status a = ActionPending"
  shows "\<exists>r\<in>set (db_groups d). r_id r = act_groupID a \<and> r_status r \<noteq> GroupIgnored \<and> r_status r \<noteq> GroupResolved \<and>
    (\<exists>f\<in>set (r_files r). names_file a f \<and> f_decision f = DecisionRemove \<and> \<not> f_protected f \<and> f_override f \<noteq> DecisionKeep)"
proof -
  have inv: "wf_db d" "safe_queue d" using st.reachable[OF assms(1)] by (simp_all add: store_inv_def)
  obtain r f where r: "live_row d (act_groupID a) r" "f \<in> set (r_files r)" "f_decision f = DecisionRemove" "names_file a f"
    using inv(2) assms(2,3) unfolding safe_queue_def targeted_def by blast
  then have "wf_file f" using wf_db_row[OF inv(1)] by (auto simp: live_row_def wf_row_def)
  then have "\<not> f_protected f" "f_override f \<noteq> DecisionKeep" using r(3) by (auto simp: wf_file_def)
  then show ?thesis using r by (auto simp: live_row_def)
qed

text \<open>
  C6 A removal is only started (or created as started) while its target may be removed: when an action is
  running after a step and was not running before, the version it names is at that moment decided "remove"
  and not protected, in a group that is neither ignored nor resolved. An action that was cancelled or has
  succeeded is not pending or running after the next step.
\<close>

theorem removals_start_checked:
  assumes "store_reachable d" and "store_step d d'" and "x' \<in> set (db_actions d')"
  shows "(act_status x' = ActionRunning \<and> \<not> (\<exists>x\<in>set (db_actions d). act_id x = act_id x' \<and> act_status x = ActionRunning) \<longrightarrow>
      (\<exists>r\<in>set (db_groups d). r_id r = act_groupID x' \<and> r_status r \<noteq> GroupIgnored \<and> r_status r \<noteq> GroupResolved \<and>
        (\<exists>f\<in>set (r_files r). names_file x' f \<and> f_decision f = DecisionRemove \<and> \<not> f_protected f))) \<and>
    (\<forall>x\<in>set (db_actions d). act_id x = act_id x' \<and> act_status x \<in> {ActionCancelled, ActionSucceeded} \<longrightarrow>
      \<not> isQueuedStatus (act_status x'))"
proof -
  have inv: "store_inv d" by (rule st.reachable[OF assms(1)])
  note cases = step_actions[OF inv assms(2,3)]
  have rem: "\<exists>r\<in>set (db_groups d). r_id r = act_groupID x' \<and> r_status r \<noteq> GroupIgnored \<and> r_status r \<noteq> GroupResolved \<and>
        (\<exists>f\<in>set (r_files r). names_file x' f \<and> f_decision f = DecisionRemove \<and> \<not> f_protected f)"
    if "target_removable x' d" using removable_row[OF that] unfolding live_row_def by metis
  have "target_removable x' d" if "act_status x' = ActionRunning"
      "\<not> (\<exists>x\<in>set (db_actions d). act_id x = act_id x' \<and> act_status x = ActionRunning)"
    using cases that by (auto simp: evolved_def isQueuedStatus_def checkActionTransition_def split: if_splits)
  moreover have "\<not> isQueuedStatus (act_status x')"
    if x: "x \<in> set (db_actions d)" "act_id x = act_id x'" "act_status x \<in> {ActionCancelled, ActionSucceeded}" for x
  proof -
    have u: "y = x" if "y \<in> set (db_actions d)" "act_id y = act_id x'" for y
      using inv that x(1,2) by (auto simp: store_inv_def wf_actions_def distinct_map inj_on_def)
    have "act_id x' \<le> db_actionSeq d" using inv x(1,2) by (auto simp: store_inv_def wf_actions_def)
    then have "evolved d x x'" using cases u by auto
    then show ?thesis using x(3) by (auto simp: evolved_def isQueuedStatus_def checkActionTransition_def split: if_splits)
  qed
  ultimately show ?thesis using rem by blast
qed

text \<open>
  C7 A user's "keep" survives every scan: once a version of a group is overridden to keep, it stays so
  through any sequence of upserts, also while the version is missing from the group and when it comes back,
  and whenever the version is in the group its stored decision is "keep".
\<close>

theorem user_keep_survives_scans:
  assumes "store_reachable d" and "user_override d key k = DecisionKeep"
  shows "user_override (fold (\<lambda>(now, g) d. fst (Upsert now g d)) scans d) key k = DecisionKeep \<and>
    (\<forall>r\<in>set (db_groups (fold (\<lambda>(now, g) d. fst (Upsert now g d)) scans d)). \<forall>f\<in>set (r_files r).
       g_key (r_group r) = key \<and> f_key f = k \<longrightarrow> f_decision f = DecisionKeep)"
proof -
  let ?d = "fold (\<lambda>(now, g) d. fst (Upsert now g d)) scans d"
  have ov: "user_override ?d key k = DecisionKeep" and inv: "wf_db ?d"
    using scans_override[OF st.reachable[OF assms(1)], of key k scans] assms(2) by (simp_all add: store_inv_def)
  have "f_decision f = DecisionKeep"
    if "r \<in> set (db_groups ?d)" "f \<in> set (r_files r)" "g_key (r_group r) = key" "f_key f = k" for r f
  proof -
    have wf: "wf_row r" by (rule wf_db_row[OF inv that(1)])
    have "f_override f = DecisionKeep"
      using ov row_of_key[OF inv that(1)] row_override_file[OF wf that(2)] that(3,4) by (simp add: user_override_def)
    then show ?thesis using wf that(2) by (auto simp: wf_row_def wf_file_def)
  qed
  then show ?thesis using ov by blast
qed

section \<open>An example store\<close>

definition stored_group :: "GroupFile list \<Rightarrow> DuplicateGroup" where
  "stored_group fs = (group0 []) \<lparr> g_status := GroupPending, g_files := fs \<rparr>"

definition keep_a :: GroupFile where
  "keep_a = (file0 (version0 ''a'' 1 ''/a'')) \<lparr> f_decision := DecisionKeep, f_engineDecision := DecisionKeep \<rparr>"

definition remove_b :: GroupFile where
  "remove_b = (file0 (version0 ''b'' 2 ''/b'')) \<lparr> f_decision := DecisionRemove, f_engineDecision := DecisionRemove \<rparr>"

definition removal_b :: "int \<Rightarrow> string \<Rightarrow> Action" where
  "removal_b i s = \<lparr> act_id = i, act_groupID = 1, act_groupFileID = 2, act_versionKey = ''b'', act_title = [],
     act_paths = [], act_size = 2, act_method = [], act_status = s, act_dryRun = False, act_message = [],
     act_recyclePath = [], act_permanent = False, act_createdAt = 3, act_startedAt = None, act_finishedAt = None \<rparr>"

definition store1 :: db where
  "store1 = fst (Upsert 2 (stored_group [keep_a, remove_b]) empty_db)"

definition store2 :: db where
  "store2 = fst (CreateAction 3 (removal_b 0 []) store1)"

definition store3 :: db where
  "store3 = fst (UpdateAction 4 (removal_b 1 ActionRunning) store2)"

definition store4 :: db where
  "store4 = fst (SetOverride 3 1 2 DecisionKeep store1)"

lemma example_reachable:
  "store_reachable store1" "store_reachable store2" "store_step store2 store3" "store_reachable store4"
proof -
  show s1: "store_reachable store1" unfolding store1_def by (blast intro: reach_start reach_step store_step.upsert)
  show "store_reachable store2" unfolding store2_def by (blast intro: reach_step[OF s1] store_step.create_action)
  show "store_step store2 store3" unfolding store3_def by (rule store_step.update_action)
  show "store_reachable store4" unfolding store4_def by (blast intro: reach_step[OF s1] store_step.override)
qed

theorem pending_removals_safe_witness:
  "\<exists>r\<in>set (db_groups store2). r_id r = 1 \<and> (\<exists>f\<in>set (r_files r). f_key f = ''b'' \<and> f_decision f = DecisionRemove)"
proof -
  have "db_actions store2 = [removal_b 1 ActionPending]" by code_simp
  then show ?thesis using pending_removals_safe[OF example_reachable(2), of "removal_b 1 ActionPending"]
    by (auto simp: removal_b_def names_file_def)
qed

theorem removals_start_checked_witness:
  "\<exists>r\<in>set (db_groups store2). r_id r = 1 \<and> (\<exists>f\<in>set (r_files r). f_key f = ''b'' \<and> \<not> f_protected f)"
proof -
  have "db_actions store2 = [removal_b 1 ActionPending]" "db_actions store3 = [removal_b 1 ActionRunning]" by code_simp+
  then show ?thesis using removals_start_checked[OF example_reachable(2,3), of "removal_b 1 ActionRunning"]
    by (auto simp: removal_b_def names_file_def)
qed

theorem user_keep_survives_scans_witness:
  "user_override (fold (\<lambda>(now, g) d. fst (Upsert now g d))
     [(5, stored_group [keep_a]), (6, stored_group [keep_a, remove_b])] store4) ''k'' ''b'' = DecisionKeep"
proof -
  have "user_override store4 ''k'' ''b'' = DecisionKeep" by code_simp
  then show ?thesis using user_keep_survives_scans[OF example_reachable(4)] by blast
qed

end
