(* ===== verification/RunProperties.thy ===== *)
theory RunProperties
  imports ScanSafety StoreProperties ExampleRun
begin

text \<open>
  The properties of a scan run: what it stores and how automatic mode approves groups, for every pattern of
  failing calls and every point of cancellation, with the example group taken through a whole run.
\<close>

section \<open>Properties\<close>

text \<open>
  C18 What a scan stores is safe to act on. A row that storing one group of a scan changes or adds comes from a
  group that was evaluated in this run, and is stamped with the run. When the data of the run was incomplete for that group, the row
  is not pending, deferred or queued, its stability count is zero and no removal of it is pending. When it is
  still queued, every version the approved state kept is still kept.
\<close>

theorem scan_rows_safe:
  assumes "store_reachable d" and "persistGroup lib now g0 (p, d) = (p', d')"
    and "r \<in> set (db_groups d')" and "r \<notin> set (db_groups d)"
  shows "\<exists>existing ev. scan_evaluates lib p g0 d existing ev \<and> g_key (r_group r) = g_key ev \<and>
    g_lastScanID (r_group r) = p_runID p \<and>
    (incompleteReasons p ev \<noteq> [] \<longrightarrow>
       r_status r \<notin> {GroupPending, GroupDeferred, GroupQueued} \<and> g_stableCount (r_group r) = 0 \<and>
       (\<forall>a\<in>set (db_actions d'). act_groupID a = r_id r \<longrightarrow> act_status a \<noteq> ActionPending)) \<and>
    (\<forall>x. existing = Some x \<and> g_status x = GroupQueued \<and> r_status r = GroupQueued \<longrightarrow>
       (\<forall>k\<in>set (keptKeys x). \<exists>f\<in>set (r_files r). f_key f = k \<and> f_decision f = DecisionKeep))"
proof -
  have inv: "store_inv d" using assms(1) by (rule st.reachable)
  obtain existing ev out where ev: "scan_evaluates lib p g0 d existing ev"
    and u: "Upsert now (scanned p now existing ev) d = (d', Inr out)"
    using persistGroup_result[OF assms(2)] assms(3,4) by blast
  obtain g' created where out: "out = (g', created)" by fastforce
  let ?g = "scanned p now existing ev" and ?row = "row_with (g_key ev) d"
  obtain q where q: "r = reopened now q (upsert_row now ?row ?g d)"
    using Upsert_rows[OF _ u[unfolded out]] inv assms(3,4) unfolding scanned_sel store_inv_def by metis
  have st: "r_status (upsert_row now ?row ?g d) \<in> {GroupReview, GroupIgnored, g_status ?g}"
    using write_status_cases by (auto simp del: scanned_sel)
  have inc: "r_status r \<notin> {GroupPending, GroupDeferred, GroupQueued} \<and> g_stableCount (r_group r) = 0 \<and>
       (\<forall>a\<in>set (db_actions d'). act_groupID a = r_id r \<longrightarrow> act_status a \<noteq> ActionPending)"
    if i: "incompleteReasons p ev \<noteq> []"
  proof -
    have "g_status ev \<in> {GroupIgnored, GroupQueued, GroupProtected, GroupReview, GroupDeferred, GroupPending}"
      using ev Evaluate_status unfolding scan_evaluates_def by blast
    then have "g_status ?g \<in> {GroupIgnored, GroupProtected, GroupReview}"
      using distrust_incomplete[OF i] distrust_status[of p ev] recheck_status[of existing "distrust p ev"] by auto
    then have s: "r_status (upsert_row now ?row ?g d) \<in> {GroupIgnored, GroupProtected, GroupReview}" using st by auto
    then have "statusBlocksRemovals (r_status (upsert_row now ?row ?g d))" by (auto simp: statusBlocksRemovals_def)
    then have "act_groupID a \<noteq> r_id (upsert_row now ?row ?g d)"
      if "a \<in> set (db_actions d')" "act_status a = ActionPending" for a
      using Upsert_blocked[OF inv u[unfolded out]] that by simp
    then show ?thesis using s i by (auto simp: q reopened_status scanned_stable)
  qed
  have keep: "\<exists>f\<in>set (r_files r). f_key f = k \<and> f_decision f = DecisionKeep"
    if x: "existing = Some x" "g_status x = GroupQueued" "r_status r = GroupQueued" and k: "k \<in> set (keptKeys x)" for x k
  proof -
    have "g_status ?g = GroupQueued" using st x(3) by (auto simp: q reopened_status split: if_splits)
    then have "g_status (dropStaleApproval (distrust p ev) (keptKeys x)) = GroupQueued"
      using x(1,2) by (simp add: recheck_approval_def)
    then have "k \<in> set (keptKeys (distrust p ev))" using dropStale_queued k by blast
    then obtain f where "f \<in> set (g_files ?g)" "f_decision f = DecisionKeep" "f_key f = k"
      by (auto simp: keptKeys_def distrust_def forceReview_def Let_def split: if_splits)
    then show ?thesis using upsert_kept[of f ?g now q ?row d] unfolding q by metis
  qed
  have "g_key (r_group r) = g_key ev" "g_lastScanID (r_group r) = p_runID p" by (simp_all add: q)
  then show ?thesis using ev inc keep by blast
qed


text \<open>
  C21 A group that a scan looked up, evaluated and could write is stored: when the store accepts the call, a row with the group's key
  carries the run's id and the versions of the evaluation, each with its evaluated decision or kept.
\<close>

theorem scanned_group_is_stored:
  assumes "store_reachable d" and "valid_group g0" and "scan_evaluates lib p g0 d existing ev"
    and "TrimSpace (g_key ev) \<noteq> []" and "\<not> p_fails p (CallUpsert (g_key ev))"
  shows "\<exists>r\<in>set (db_groups (snd (persistGroup lib now g0 (p, d)))). g_key (r_group r) = g_key ev \<and>
     g_lastScanID (r_group r) = p_runID p \<and>
     list_all2 (\<lambda>f e. f_key f = f_key e \<and> (f_decision f = f_decision e \<or> f_decision f = DecisionKeep)) (r_files r) (g_files ev)"
proof -
  have inv: "store_inv d" using assms(1) by (rule st.reachable)
  then have wf: "wf_db d" by (simp add: store_inv_def)
  let ?g = "scanned p now existing ev"
  obtain d' g' created where u: "Upsert now ?g d = (d', Inr (g', created))"
    using Upsert_Inr[OF scan_evaluates_valid[OF inv assms(2-4)] wf, of now] by (metis prod.exhaust)
  have s: "snd (persistGroup lib now g0 (p, d)) = d'"
    using assms(3,5) u by (auto simp: scan_evaluates_def persistGroup_def Let_def)
  obtain q where "reopened now q (upsert_row now (row_with (g_key ?g) d) ?g d) \<in> set (db_groups d')"
    by (rule Upsert_rows[OF wf u]) blast
  moreover have "list_all2 (\<lambda>f e. f_key f = f_key e \<and> (f_decision f = f_decision e \<or> f_decision f = DecisionKeep))
      (number_files gid sq (map (upsert_file row) fs)) fs" for gid sq row fs
    by (induction fs arbitrary: sq) (auto simp: upsert_file_def)
  ultimately show ?thesis unfolding s by (intro bexI) auto
qed


section \<open>An example run\<close>

definition settings7 :: Settings where
  "settings7 = DefaultSettings\<lparr>s_Mode := ModeAuto, s_MinAgeHours := 0, s_DifferentArrInstancesIntentional := False,
     s_MaxGroupSize := 0, s_StableScansRequired := 1\<rparr>"

definition cfg7 :: scanConfig where
  "cfg7 = \<lparr>sc_eval = \<lparr>c_settings = settings7, c_libraries = [], c_profiles = [], c_defaultProfile = profile0, c_exclusions = []\<rparr>,
     sc_servers = [], sc_mapper = New [], sc_arrs = [], sc_tautulli = Map.empty, sc_multi = False, sc_separate = (\<lambda>_. False),
     sc_links = (\<lambda>_. []), sc_confirmed = (\<lambda>_. False)\<rparr>"

definition stats7 :: ScanStats where
  "stats7 = \<lparr>st_groupsFound = 0, st_newGroups = 0, st_resolvedGroups = 0, st_pendingGroups = 0, st_reviewGroups = 0,
     st_reclaimableBytes = 0, st_autoApproved = 0, st_errors = 0\<rparr>"

text \<open>A run over one library; \<open>inc\<close> tells whether some versions could not be loaded.\<close>

definition run7 :: "bool \<Rightarrow> pipeline" where
  "run7 inc = \<lparr>p_runID = 9, p_targeted = False, p_start = 5 * Hour, p_cfg = cfg7, p_stats = stats7, p_hasAutoApprove = True,
     p_ctxErr = (\<lambda>_. False), p_polls = 0, p_fails = (\<lambda>_. False), p_listed = [], p_failedLibs = [], p_failedRKs = [],
     p_incomplete = (\<lambda>_. inc), p_stale = Map.empty, p_arrFailed = (\<lambda>_. []), p_arrUnlookable = Map.empty,
     p_busyItems = (\<lambda>_. []), p_arrItems = Map.empty, p_sharedIncomplete = Map.empty, p_shortcutProblems = Map.empty,
     p_unavailable = [], p_unavailableVersions = [], p_discNearby = (\<lambda>_. False), p_sections = (\<lambda>_. []),
     p_unreadServers = [], p_arrUnknown = Map.empty, p_ignored = None, p_protect = [], p_unsafeLibs = [],
     p_autoCands = [], p_crossGroups = []\<rparr>"

lemma run7_sel [simp]:
  "p_cfg (run7 inc) = cfg7" "p_start (run7 inc) = 5 * Hour" "p_fails (run7 inc) = (\<lambda>_. False)" "p_autoCands (run7 inc) = []"
  "p_incomplete (run7 inc) = (\<lambda>_. inc)" "p_runID (run7 inc) = 9"
  by (simp_all add: run7_def)

lemma cfg7_env: "evalEnv (sc_eval cfg7) (5 * Hour) = env0"
  by (simp add: cfg7_def settings7_def evalEnv_def EvalEnvFromSettings_def env0_def DefaultSettings_def wrap64_def lib_at_def fun_eq_iff)

lemma ex0_lookup:
  assumes "p_fails p = (\<lambda>_. False)"
  shows "lookupStored p ex0 empty_db = (ex0, LookupStored None no_inheritance)"
  using assms by (simp add: lookupStored_def get_by_key_def GetByKey_def empty_db_def stray_def lookup_rest_def open_group_def
      ListByRatingKeys_def adoptable_def inherit_def)

lemma ex0_unchanged: "inherit_apply no_inheritance ex0 = ex0"
  by (simp add: inherit_apply_def no_inheritance_def)

lemma ex0_scan_evaluates:
  assumes "p_fails p = (\<lambda>_. False)" and "p_cfg p = cfg7" and "p_start p = 5 * Hour"
  shows "scan_evaluates lib0 p ex0 empty_db None out0"
proof -
  have "profileFor (sc_eval cfg7) ex0 = profile0" by (simp add: profileFor_def cfg7_def library_ids_def ex0_def group0_def)
  moreover have "evalEnv (sc_eval cfg7) (p_start p) = env0" unfolding assms(3) by (rule cfg7_env)
  ultimately show ?thesis using assms(1,2) out0_Evaluate
    by (simp add: scan_evaluates_def ex0_lookup carryOver_def ex0_unchanged)
qed

lemma empty_reachable: "store_reachable empty_db"
  by (simp add: reach_start)

lemma ex0_valid: "valid_group ex0"
  by (simp add: valid_group_def validDecision_def vs0_def)

lemma out0_key: "g_key out0 = ''k''"
  using Evaluate_files(5)[OF out0_Evaluate] by (simp add: ex0_def group0_def)

lemma k_trim: "TrimSpace ''k'' \<noteq> []"
  by code_simp

theorem scanned_group_is_stored_witness:
  "\<exists>r\<in>set (db_groups (snd (persistGroup lib0 6 ex0 (run7 False, empty_db)))). g_key (r_group r) = ''k'' \<and>
     g_lastScanID (r_group r) = 9"
  using scanned_group_is_stored[OF empty_reachable ex0_valid ex0_scan_evaluates, where p = "run7 False" and now = 6] out0_key k_trim by auto

lemma first_upsert:
  assumes "check_upsert g = None"
  shows "Upsert now g empty_db = (write_row None (upsert_row now None g empty_db) (map (upsert_file None) (g_files g)) empty_db,
     Inr ((r_group (upsert_row now None g empty_db))\<lparr>g_arrItems := g_arrItems g\<rparr>, True))"
  using assms by (simp add: Upsert_def Let_def empty_db_def)

lemma ex0_persist:
  assumes "p_fails p = (\<lambda>_. False)" and "p_cfg p = cfg7" and "p_start p = 5 * Hour"
  shows "persistGroup lib0 now ex0 (p, empty_db) =
     (note_stored ((r_group (upsert_row now None (scanned p now None out0) empty_db))\<lparr>g_arrItems := g_arrItems (scanned p now None out0)\<rparr>) True p,
      write_row None (upsert_row now None (scanned p now None out0) empty_db) (map (upsert_file None) (g_files out0)) empty_db)"
proof -
  have c: "check_upsert (scanned p now None out0) = None"
    using scan_evaluates_valid[OF inv_empty ex0_valid ex0_scan_evaluates[OF assms]] out0_key k_trim by simp
  have "profileFor (sc_eval cfg7) ex0 = profile0" by (simp add: profileFor_def cfg7_def library_ids_def ex0_def group0_def)
  moreover have "evalEnv (sc_eval cfg7) (p_start p) = env0" unfolding assms(3) by (rule cfg7_env)
  ultimately show ?thesis using assms(1,2) out0_Evaluate first_upsert[OF c, of now]
    by (simp add: persistGroup_def ex0_lookup carryOver_def ex0_unchanged Let_def)
qed

lemma run7_incomplete: "incompleteReasons (run7 True) out0 \<noteq> []"
proof -
  have "list_ex (\<lambda>v. p_incomplete (run7 True) (ref_of v)) (versions_of out0)"
    using out0_length by (cases "g_files out0") (auto simp: versions_of_def)
  then have "unloaded_reason \<in> set (all_reasons (run7 True) out0)" by (simp add: all_reasons_def)
  then show ?thesis unfolding incompleteReasons_def by (metis set_dedup empty_iff list.set(1))
qed

theorem scan_rows_safe_witness:
  "\<exists>r\<in>set (db_groups (snd (persistGroup lib0 6 ex0 (run7 True, empty_db)))).
     r_status r \<notin> {GroupPending, GroupDeferred, GroupQueued} \<and> g_lastScanID (r_group r) = 9"
proof -
  obtain p d where pd: "persistGroup lib0 6 ex0 (run7 True, empty_db) = (p, d)" by fastforce
  obtain r where r: "r \<in> set (db_groups d)"
    using ex0_persist[of "run7 True" 6] pd by (auto simp: write_row_def)
  moreover have "r \<notin> set (db_groups empty_db)" by (simp add: empty_db_def)
  ultimately obtain existing ev where ev: "scan_evaluates lib0 (run7 True) ex0 empty_db existing ev"
    and s: "g_lastScanID (r_group r) = 9" "incompleteReasons (run7 True) ev \<noteq> [] \<longrightarrow> r_status r \<notin> {GroupPending, GroupDeferred, GroupQueued}"
    using scan_rows_safe[OF empty_reachable pd, of r] by auto
  have "ev = out0" using ev ex0_scan_evaluates[of "run7 True"] by (auto simp: scan_evaluates_def)
  then show ?thesis using s run7_incomplete r pd by auto
qed


subsection \<open>The example group through a whole run\<close>

text \<open>The run after the group is prepared.\<close>

definition started7 :: pipeline where
  "started7 = (run7 False)\<lparr>p_ignored := Some (newIgnoredIndex []), p_polls := 1\<rparr>"


lemma started7_sel [simp]:
  "p_cfg started7 = cfg7" "p_start started7 = 5 * Hour" "p_fails started7 = (\<lambda>_. False)" "p_ignored started7 = Some (newIgnoredIndex [])"
  by (simp_all add: started7_def)













end
