(* ===== verification/ApprovalSafety.thy ===== *)
theory ApprovalSafety
  imports Approval RunProperties
begin

text \<open>
  What approvals guarantee. The interface \<open>approve_effects\<close> names the three operations an approval writes
  through, as \<open>scan_effects\<close> does for a scan; both are interpreted for the sequences of store steps, so that
  everything proved of the reachable states of the store holds through scans and approvals.
\<close>

section \<open>What an accepted approval was checked against\<close>

lemma approval_problem_None:
  "approval_problem ap st trigger reviewed g = None \<longleftrightarrow>
     (TrimSpace reviewed = [] \<or> TrimSpace reviewed = g_signature g) \<and> checkApprovable g (trigger = TriggerManual) st = None \<and>
     ValidateDecisions (Some g) = None \<and> discRemovalProblem g st (trigger = TriggerManual) = [] \<and>
     (readOnlyGroup g \<noteq> None \<longrightarrow> ap_mappings ap \<noteq> None \<and>
        readOnlyApprovalProblem g (the (ap_mappings ap)) (trigger = TriggerManual) = []) \<and>
     approval_targets g \<noteq> []"
  unfolding approval_problem_def Let_def by (cases "checkApprovable g (trigger = TriggerManual) st"; cases "ValidateDecisions (Some g)") auto

lemma find_eq_None: "find P xs = None \<longleftrightarrow> \<not> list_ex P xs"
  by (auto simp: find_None_iff list_ex_iff)

lemma checkApprovable_None:
  "checkApprovable g manual st = None \<longleftrightarrow>
     (if manual then g_status g \<in> {GroupPending, GroupReview, GroupDeferred, GroupFailed}
      else g_status g = GroupPending \<and> s_Mode st = ModeAuto \<and> max 1 (s_StableScansRequired st) \<le> g_stableCount g \<and>
           \<not> list_ex BlocksAutoApproval (g_flags g))"
  by (cases "find BlocksAutoApproval (g_flags g)") (auto simp: checkApprovable_def Let_def find_eq_None[symmetric])

section \<open>What an approval does to the store\<close>

text \<open>
  An approval writes through three operations of the store. A property of the database that they keep, and that
  the other writers keep, is kept by every approval, whatever fails.
\<close>

locale approve_effects =
  fixes P :: "db \<Rightarrow> bool"
  assumes create: "P d \<Longrightarrow> P (fst (CreateAction now a d))"
    and cancel: "P d \<Longrightarrow> P (fst (CancelPendingForGroup now i d))"
    and set_status_if: "P d \<Longrightarrow> GroupIgnored \<notin> set from \<Longrightarrow> P (fst (UpdateStatusIf now i from s reason d))"
begin

lemma create_actions:
  assumes other: "\<And>c d. P d \<Longrightarrow> P (ap_other ap c d)"
  shows "P d \<Longrightarrow> P (fst (create_actions ap n as d))"
proof (induction "as" arbitrary: n d)
  case (Cons a "as")
  let ?d0 = "ap_other ap (CallCreate n) d"
  have P0: "P ?d0" using other Cons.prems .
  obtain d1 r where c: "CreateAction (ap_now ap) a ?d0 = (d1, r)" by fastforce
  then have "P d1" using create[OF P0, of "ap_now ap" a] by simp
  then show ?case using P0 Cons.IH[of d1 "Suc n"] c
    by (auto simp: Let_def split: sum.splits prod.splits)
qed simp

lemma rollback: "(\<And>c d. P d \<Longrightarrow> P (ap_other ap c d)) \<Longrightarrow> P d \<Longrightarrow> P (rollbackApproval ap i d)"
  by (simp add: rollbackApproval_def Let_def cancel)

lemma revert: "(\<And>c d. P d \<Longrightarrow> P (ap_other ap c d)) \<Longrightarrow> P d \<Longrightarrow> P (revertApproval ap g d)"
  by (simp add: revertApproval_def Let_def rollback set_status_if)

lemma queue_group:
  assumes other: "\<And>c d. P d \<Longrightarrow> P (ap_other ap c d)" and "P d" and "g_status g \<noteq> GroupIgnored"
  shows "P (fst (queue_group ap st trigger g created d))"
proof -
  let ?d2 = "ap_other ap CallQueue (ap_other ap CallCheck d)"
  let ?reason = "approval_reason trigger (length created) (s_DryRun st)"
  have P: "P (ap_other ap CallCheck d)" "P ?d2" using assms(1,2) by blast+
  obtain d3 r where u: "UpdateStatusIf (ap_now ap) (g_id g) [g_status g] GroupQueued ?reason ?d2 = (d3, r)" by fastforce
  have "P (fst (UpdateStatusIf (ap_now ap) (g_id g) [g_status g] GroupQueued ?reason ?d2))"
    using P(2) assms(3) by (intro set_status_if) auto
  then have "P d3" by (simp add: u)
  then show ?thesis using P other
    by (auto simp: queue_group_def Let_def u split: option.splits bool.splits sum.splits intro: rollback revert)
qed

lemma queue_removals:
  assumes other: "\<And>c d. P d \<Longrightarrow> P (ap_other ap c d)" and "P d" and "g_status g \<noteq> GroupIgnored"
  shows "P (fst (queue_removals ap st trigger g existing d))"
proof -
  have c: "P d1" if "create_actions ap 0 as d = (d1, r)" for "as" d1 r
    using create_actions[OF other assms(2), of 0 "as"] that by simp
  show ?thesis
    by (auto simp: queue_removals_def Let_def split: sum.splits prod.splits intro!: other rollback queue_group assms(3) dest: c)
qed

lemma ApproveReviewed:
  assumes other: "\<And>c d. P d \<Longrightarrow> P (ap_other ap c d)" and "P d"
  shows "P (fst (ApproveReviewed ap i trigger reviewed d))"
proof -
  have ni: "g_status g \<noteq> GroupIgnored" if "approval_problem ap st trigger reviewed g = None" for st g
    using that by (auto simp: approval_problem_None checkApprovable_None split: if_splits)
  have P1: "P (ap_other ap CallActions (ap_other ap CallGroup d))" "P (ap_other ap CallGroup d)" using assms by blast+
  show ?thesis using P1 assms(2) ni
    by (auto simp: ApproveReviewed_def Let_def split: option.splits intro!: queue_removals other cancel)
qed

lemma auto_approve:
  assumes "\<And>c d. P d \<Longrightarrow> P (ap_other ap c d)" and "P d"
  shows "P (fst (auto_approve ap i reviewed d))"
  using ApproveReviewed[OF assms, where trigger = TriggerScheduled and i = i and reviewed = reviewed]
  by (cases "ApproveReviewed ap i TriggerScheduled reviewed d") (simp add: auto_approve_def)

end



interpretation ia: approve_effects "\<lambda>d. store_inv d \<and> ignored_key k d" for k
proof
  fix d now a assume "store_inv d \<and> ignored_key k d"
  then show "store_inv (fst (CreateAction now a d)) \<and> ignored_key k (fst (CreateAction now a d))"
    by (simp add: inv_steps) (auto simp: CreateAction_def Let_def ignored_key_def)
next
  fix d now i assume "store_inv d \<and> ignored_key k d"
  then show "store_inv (fst (CancelPendingForGroup now i d)) \<and> ignored_key k (fst (CancelPendingForGroup now i d))"
    using inv_cancelPending_eq[of d] ignored_cancel[of k d now "''Cancelled''" "of_group i"]
    by (cases "cancelPending now ''Cancelled'' (of_group i) d") (simp add: CancelPendingForGroup_def cancelPendingActions_def)
next
  fix d now i fr s reason assume d: "store_inv d \<and> ignored_key k d" and ni: "GroupIgnored \<notin> set fr"
  have "ignored_key k (update_rows (\<lambda>r. r_id r = i \<and> r_status r \<in> set fr) (set_status now s reason) d)"
    using d ni by (intro ignored_update_rows) auto
  then have "ignored_key k (fst (UpdateStatusIf now i fr s reason d))"
    using d by (simp add: UpdateStatusIf_def Let_def afterStatusChange_def cancelPendingActions_def ignored_cancel)
  then show "store_inv (fst (UpdateStatusIf now i fr s reason d)) \<and> ignored_key k (fst (UpdateStatusIf now i fr s reason d))"
    using d by (simp add: inv_steps)
qed

section \<open>What an approval leaves\<close>

lemma Get_id: "Get i d = Some g \<Longrightarrow> g_id g = i"
  by (auto simp: Get_def load_def find_Some_iff)

lemma CreateAction_created:
  assumes "CreateAction now a d = (d', Inr a')" and "act_status a = ActionPending"
  shows "act_versionKey a' = act_versionKey a \<and> act_groupID a' = act_groupID a \<and> act_status a' = ActionPending \<and>
    act_dryRun a' = act_dryRun a \<and> act_paths a' = act_paths a"
  using assms by (auto simp: CreateAction_def Let_def split: if_splits)

lemma create_actions_created:
  assumes "create_actions ap n as d = (d', Inr created)" and "\<forall>a\<in>set as. act_status a = ActionPending"
  shows "list_all2 (\<lambda>a' a. act_versionKey a' = act_versionKey a \<and> act_groupID a' = act_groupID a \<and>
    act_status a' = ActionPending \<and> act_dryRun a' = act_dryRun a \<and> act_paths a' = act_paths a) created as"
  using assms
proof (induction "as" arbitrary: n d created)
  case (Cons a "as")
  then show ?case
    by (auto simp: Let_def split: if_splits sum.splits prod.splits dest: CreateAction_created)
qed simp

lemma groupChanged_same:
  "groupChanged ap c g ws d = Some False \<Longrightarrow> \<exists>cur. Get (g_id g) d = Some cur \<and> sameApprovalState g cur"
  by (auto simp: groupChanged_def split: if_splits option.splits)

lemma queue_group_ok:
  assumes "queue_group ap st trigger g created d = (d', reqs, Inr acts)"
  shows "acts = created \<and> (\<exists>cur. Get (g_id g) d' = Some cur \<and> sameApprovalState g cur)"
  using assms by (auto simp: queue_group_def Let_def split: option.splits bool.splits if_splits sum.splits prod.splits dest: groupChanged_same)

lemma queue_removals_ok:
  assumes "queue_removals ap st trigger g existing d = (d', reqs, Inr acts)"
  shows "list_all2 (\<lambda>a f. act_versionKey a = f_key f \<and> act_groupID a = g_id g \<and> act_status a = ActionPending \<and>
      act_dryRun a = s_DryRun st \<and> act_paths a = partPaths (f_version f)) acts (approval_targets g) \<and>
    (\<exists>cur. Get (g_id g) d' = Some cur \<and> sameApprovalState g cur)"
proof -
  let ?as = "map (approval_action g (s_DryRun st) (approval_stamp (ap_now ap) existing)) (approval_targets g)"
  obtain d1 r where c: "create_actions ap 0 ?as d = (d1, r)" by fastforce
  obtain created where r: "r = Inr created" and q: "queue_group ap st trigger g created d1 = (d', reqs, Inr acts)"
    using assms c by (cases r) (auto simp: queue_removals_def Let_def)
  have "list_all2 (\<lambda>a' a. act_versionKey a' = act_versionKey a \<and> act_groupID a' = act_groupID a \<and>
      act_status a' = ActionPending \<and> act_dryRun a' = act_dryRun a \<and> act_paths a' = act_paths a) created ?as"
    using create_actions_created c r by (fastforce simp: approval_action_def)
  then show ?thesis using queue_group_ok[OF q] by (simp add: list.rel_map approval_action_def)
qed

lemma ApproveReviewed_ok:
  assumes "ApproveReviewed ap i trigger reviewed d = (d', reqs, Inr acts)"
  obtains g st existing d1 where "ap_settings ap = Some st" and "Get i (ap_other ap CallGroup d) = Some g"
    and "approval_problem ap st trigger reviewed g = None"
    and "queue_removals ap st trigger g existing d1 = (d', reqs, Inr acts)"
  using assms by (auto simp: ApproveReviewed_def Let_def split: option.splits if_splits)

text \<open>After a rollback without interference nothing of the group is pending.\<close>

definition nothing_pending :: "int \<Rightarrow> db \<Rightarrow> bool" where
  "nothing_pending i d \<longleftrightarrow> (\<forall>a\<in>set (db_actions d). act_groupID a = i \<longrightarrow> act_status a \<noteq> ActionPending)"

lemma nothing_pending_cancel: "nothing_pending i (snd (cancelPendingActions now i msg d))"
  unfolding nothing_pending_def cancelPendingActions_def
  using pending_cancelPending[of _ now msg "of_group i" d] by (auto simp: of_group_def)

lemma nothing_pending_rollback:
  assumes "\<not> ap_fails ap CallRollback"
  shows "nothing_pending i (rollbackApproval ap i d)"
  using assms nothing_pending_cancel[of i "ap_now ap" "''Cancelled''" "ap_other ap CallRollback d"]
  by (cases "cancelPendingActions (ap_now ap) i ''Cancelled'' (ap_other ap CallRollback d)")
    (simp add: rollbackApproval_def CancelPendingForGroup_def)

lemma nothing_pending_status:
  assumes "nothing_pending i d"
  shows "nothing_pending i (fst (UpdateStatusIf now i from s reason d))"
proof -
  have "nothing_pending i (update_rows p h d)" for p h using assms by (simp add: nothing_pending_def update_rows_def)
  then show ?thesis using assms
    by (simp add: UpdateStatusIf_def Let_def afterStatusChange_def nothing_pending_cancel)
qed

lemma nothing_pending_revert:
  assumes "\<not> ap_fails ap CallRollback" and "\<And>c d. ap_other ap c d = d"
  shows "nothing_pending (g_id g) (revertApproval ap g d)"
  using nothing_pending_rollback[OF assms(1)] by (simp add: revertApproval_def Let_def assms(2) nothing_pending_status)

lemma queue_removals_failed:
  assumes "\<not> ap_fails ap CallRollback" and "\<And>c d. ap_other ap c d = d"
    and "queue_removals ap st trigger g existing d = (d', reqs, Inl e)"
  shows "nothing_pending (g_id g) d'"
  using assms(3) nothing_pending_rollback[OF assms(1), of "g_id g"] nothing_pending_revert[OF assms(1,2), of g]
  by (auto simp: queue_removals_def queue_group_def Let_def assms(2) split: sum.splits prod.splits option.splits bool.splits if_splits)

lemma discs_need_a_person: "removed_discs g \<noteq> [] \<Longrightarrow> discRemovalProblem g st False \<noteq> []"
  by (simp add: discRemovalProblem_def Let_def)

lemma read_only_needs_a_person: "readOnlyGroup g \<noteq> None \<Longrightarrow> readOnlyApprovalProblem g ms False \<noteq> []"
  by (auto simp: readOnlyApprovalProblem_def)

section \<open>Properties\<close>

text \<open>
  C8 An approval queues exactly what was reviewed. When it succeeds, whatever other writers did meanwhile, the
  group it read satisfied every rule (approvable status, safe decisions, the disc and read-only rules, the reviewed
  signature), its pending removals are one per version to remove, in order, with the paths of that version, and the
  group stored at the end still has the decisions, protections, flags, files and tracking that were checked.
\<close>

theorem approval_queues_what_was_checked:
  assumes "ApproveReviewed ap i trigger reviewed d = (d', reqs, Inr acts)"
  shows "\<exists>g st cur. ap_settings ap = Some st \<and> Get i (ap_other ap CallGroup d) = Some g \<and>
     checkApprovable g (trigger = TriggerManual) st = None \<and> ValidateDecisions (Some g) = None \<and>
     discRemovalProblem g st (trigger = TriggerManual) = [] \<and>
     (readOnlyGroup g \<noteq> None \<longrightarrow> readOnlyApprovalProblem g (the (ap_mappings ap)) (trigger = TriggerManual) = []) \<and>
     (TrimSpace reviewed = [] \<or> TrimSpace reviewed = g_signature g) \<and>
     approval_targets g \<noteq> [] \<and>
     list_all2 (\<lambda>a f. act_versionKey a = f_key f \<and> act_groupID a = i \<and> act_status a = ActionPending \<and>
       act_dryRun a = s_DryRun st \<and> act_paths a = partPaths (f_version f)) acts (approval_targets g) \<and>
     Get i d' = Some cur \<and> sameApprovalState g cur"
proof -
  obtain g st existing d1 where h: "ap_settings ap = Some st" "Get i (ap_other ap CallGroup d) = Some g"
    "approval_problem ap st trigger reviewed g = None" "queue_removals ap st trigger g existing d1 = (d', reqs, Inr acts)"
    by (rule ApproveReviewed_ok[OF assms])
  have "g_id g = i" using h(2) by (rule Get_id)
  then show ?thesis using h queue_removals_ok[OF h(4)] by (auto simp: approval_problem_None)
qed

text \<open>
  C9 Automatic mode never approves on its own what needs a person: a successful automatic approval is of a pending
  group in automatic mode, with enough stable scans, without a blocking flag, without a disc to remove and
  without a version of a read-only server.
\<close>

theorem automatic_approval_guarded:
  assumes "auto_approve ap i reviewed d = (d', True)"
  shows "\<exists>g st. ap_settings ap = Some st \<and> Get i (ap_other ap CallGroup d) = Some g \<and> s_Mode st = ModeAuto \<and>
     g_status g = GroupPending \<and> max 1 (s_StableScansRequired st) \<le> g_stableCount g \<and>
     \<not> list_ex BlocksAutoApproval (g_flags g) \<and> removed_discs g = [] \<and> readOnlyGroup g = None \<and>
     ValidateDecisions (Some g) = None"
proof -
  obtain reqs r where "ApproveReviewed ap i TriggerScheduled reviewed d = (d', reqs, r)" "\<not> isl r"
    using assms by (auto simp: auto_approve_def split: prod.splits)
  then obtain acts where a: "ApproveReviewed ap i TriggerScheduled reviewed d = (d', reqs, Inr acts)" by (cases r) auto
  obtain g st existing d1 where h: "ap_settings ap = Some st" "Get i (ap_other ap CallGroup d) = Some g"
    "approval_problem ap st TriggerScheduled reviewed g = None" "queue_removals ap st TriggerScheduled g existing d1 = (d', reqs, Inr acts)"
    by (rule ApproveReviewed_ok[OF a])
  have "removed_discs g = []" using h(3) discs_need_a_person[of g st] by (auto simp: approval_problem_None)
  moreover have "readOnlyGroup g = None" using h(3) read_only_needs_a_person[of g "the (ap_mappings ap)"] by (auto simp: approval_problem_None)
  ultimately show ?thesis using h by (auto simp: approval_problem_None checkApprovable_None)
qed

text \<open>
  C10 A failed approval leaves nothing half done: without other writers and with a working rollback, either the
  database is as before or no removal of the group is pending.
\<close>

theorem failed_approval_queues_nothing:
  assumes "ApproveReviewed ap i trigger reviewed d = (d', reqs, Inl e)"
    and "\<not> ap_fails ap CallRollback" and "\<And>c d. ap_other ap c d = d"
  shows "d' = d \<or> (\<forall>a\<in>set (db_actions d'). act_groupID a = i \<longrightarrow> act_status a \<noteq> ActionPending)"
proof -
  have f: "nothing_pending i d'" if "Get i d = Some g" "queue_removals ap st trigger g existing d1 = (d', reqs, Inl e)" for st g existing d1
    using queue_removals_failed[OF assms(2,3) that(2)] Get_id[OF that(1)] by simp
  have "d' = d \<or> nothing_pending i d'"
    using assms(1) by (auto simp: ApproveReviewed_def Let_def assms(3) split: option.splits if_splits dest: f)
  then show ?thesis by (simp add: nothing_pending_def)
qed


text \<open>
  C17 A group a person ignored stays ignored through a whole full scan with its automatic approvals, whatever calls fail and
  whenever the run is cancelled, as long as no other writer changes that.
\<close>

theorem ignored_groups_survive_scans:
  assumes "store_reachable d" and "r \<in> set (db_groups d)" and "r_status r = GroupIgnored"
    and "\<And>c d. ap_other ap c d = d"
  shows "\<exists>r'\<in>set (db_groups (snd (snd (finish_full lib now (auto_approve ap) gs busy (p, d))))).
     g_key (r_group r') = g_key (r_group r) \<and> r_status r' = GroupIgnored"
proof -
  have "store_inv d \<and> ignored_key (g_key (r_group r)) d"
    using st.reachable[OF assms(1)] assms(2,3) by (auto simp: ignored_key_def)
  then have "store_inv (snd (snd (finish_full lib now (auto_approve ap) gs busy (p, d)))) \<and>
      ignored_key (g_key (r_group r)) (snd (snd (finish_full lib now (auto_approve ap) gs busy (p, d))))"
    by (intro ig.finish_full ia.auto_approve) (auto simp: assms(4))
  then show ?thesis by (simp add: ignored_key_def)
qed

section \<open>An example approval\<close>

definition approval7 :: approval where
  "approval7 = \<lparr>ap_now = 5, ap_settings = Some (settings7\<lparr>s_KeepPlayableCopy := False\<rparr>), ap_mappings = Some [],
     ap_fails = (\<lambda>_. False), ap_other = (\<lambda>_ d. d)\<rparr>"

definition store5 :: db where
  "store5 = fst (Upsert 2 ((stored_group [keep_a, remove_b])\<lparr>g_stableCount := 3\<rparr>) empty_db)"

lemma approval7_runs:
  "case ApproveReviewed approval7 1 TriggerManual [] store5 of (d', reqs, r) \<Rightarrow> \<not> isl r \<and> length (projr r) = 1"
  by code_simp

lemma store5_reachable: "store_reachable store5"
  unfolding store5_def by (blast intro: reach_start reach_step store_step.upsert)

lemma approval7_same [simp]: "ap_other approval7 c d = d"
  by (simp add: approval7_def)

theorem approval_queues_what_was_checked_witness:
  "\<exists>d' reqs acts cur. ApproveReviewed approval7 1 TriggerManual [] store5 = (d', reqs, Inr acts) \<and> length acts = 1 \<and>
     Get 1 d' = Some cur"
proof -
  obtain d' reqs r where a: "ApproveReviewed approval7 1 TriggerManual [] store5 = (d', reqs, r)" by (metis prod.exhaust)
  then have r: "\<not> isl r" "length (projr r) = 1" using approval7_runs by simp_all
  then obtain acts where acts: "r = Inr acts" by (cases r) auto
  show ?thesis using approval_queues_what_was_checked[OF a[unfolded acts]] a acts r by auto
qed

lemma approval7_automatic: "snd (auto_approve approval7 1 [] store5)"
  by code_simp

theorem automatic_approval_guarded_witness:
  "\<exists>g. Get 1 store5 = Some g \<and> g_status g = GroupPending \<and> 1 \<le> g_stableCount g"
proof -
  obtain d' where "auto_approve approval7 1 [] store5 = (d', True)" using approval7_automatic by (metis eq_snd_iff)
  from automatic_approval_guarded[OF this] show ?thesis by auto
qed

definition approval8 :: approval where
  "approval8 = approval7\<lparr>ap_fails := (\<lambda>c. c = CallQueue)\<rparr>"

lemma approval8_fails:
  "case ApproveReviewed approval8 1 TriggerManual [] store5 of (d', reqs, r) \<Rightarrow> isl r \<and> length (db_actions store5) = 0 \<and> length (db_actions d') = 1"
  by code_simp

theorem failed_approval_queues_nothing_witness:
  "\<exists>d' reqs e. ApproveReviewed approval8 1 TriggerManual [] store5 = (d', reqs, Inl e) \<and> db_actions d' \<noteq> [] \<and>
     (\<forall>a\<in>set (db_actions d'). act_groupID a = 1 \<longrightarrow> act_status a \<noteq> ActionPending)"
proof -
  obtain d' reqs r where a: "ApproveReviewed approval8 1 TriggerManual [] store5 = (d', reqs, r)" by (metis prod.exhaust)
  then have r: "isl r" "d' \<noteq> store5" "db_actions d' \<noteq> []" using approval8_fails by auto
  then obtain e where e: "r = Inl e" by (cases r) auto
  have "\<not> ap_fails approval8 CallRollback" "\<And>c d. ap_other approval8 c d = d" by (simp_all add: approval8_def approval7_def)
  then show ?thesis using failed_approval_queues_nothing[OF a[unfolded e]] a e r by auto
qed


definition store6 :: db where
  "store6 = fst (Upsert 2 ((stored_group [keep_a, remove_b])\<lparr>g_status := GroupIgnored\<rparr>) empty_db)"

lemma store6_reachable: "store_reachable store6"
  unfolding store6_def by (blast intro: reach_start reach_step store_step.upsert)

lemma store6_rows: "map (\<lambda>r. (g_key (r_group r), r_status r)) (db_groups store6) = [(''k'', GroupIgnored)]"
  by code_simp

theorem ignored_groups_survive_scans_witness:
  "\<exists>r'\<in>set (db_groups (snd (snd (finish_full lib0 6 (auto_approve approval7) [ex0] (\<lambda>_ _. False) (run7 False, store6))))).
     g_key (r_group r') = ''k'' \<and> r_status r' = GroupIgnored"
proof -
  obtain r where "db_groups store6 = [r]" "g_key (r_group r) = ''k''" "r_status r = GroupIgnored"
    using store6_rows by (auto simp: map_eq_Cons_conv)
  then show ?thesis
    using ignored_groups_survive_scans[OF store6_reachable, where r = r and ap = approval7 and lib = lib0 and now = 6] by auto
qed

end
