(* ===== verification/QueueSafety.thy ===== *)
theory QueueSafety
  imports Queue ApprovalSafety
begin

text \<open>
  What a queue run does to the database and to its own counters, as the interface \<open>queue_effects\<close>: the operations of the
  store it calls, the writes of others between them, and the start of a removal that was checked and is within the limits.
  A property of the run and the database that all of these keep is kept by a whole run; the interface is
  interpreted for the steps of the store, for the limits, for dry runs and for the record of what was checked.
\<close>

section \<open>What a run removes\<close>

text \<open>
  The limits and the trace of a run; everything but a removal that is started leaves them alone. \<open>within_limits\<close> is
  what \<open>budgetAllows\<close> requires of a removal of the given size.
\<close>

definition core :: "run \<Rightarrow> Settings \<times> int \<times> int \<times> int \<times> int \<times> (Action \<times> methodChoice) list" where
  "core r = (rn_st r, rn_maxCount r, rn_maxBytes r, rn_attempts r, rn_bytes r, rn_removals r)"

definition within_limits :: "int \<Rightarrow> run \<Rightarrow> bool" where
  "within_limits sz r \<longleftrightarrow> 0 < rn_maxCount r \<and> 0 < rn_maxBytes r \<and> rn_attempts r < rn_maxCount r \<and>
     rn_bytes r < rn_maxBytes r \<and> (0 < rn_bytes r \<longrightarrow> wrap64 (rn_bytes r + sz) \<le> rn_maxBytes r)"

lemma budgetAllows_core: "budgetAllows sz r = (ok, r1) \<Longrightarrow> core r1 = core r \<and> (ok \<longrightarrow> within_limits sz r1)"
  by (auto simp: budgetAllows_def core_def within_limits_def split: if_splits)

lemma within_limits_core: "core r' = core r \<Longrightarrow> within_limits sz r' = within_limits sz r"
  by (simp add: core_def within_limits_def)

lemma ctxErr_core: "ctxErr w r = (x, r1) \<Longrightarrow> core r1 = core r"
  by (auto simp: ctxErr_def core_def)

lemma halted_core: "halted w r = (h, r1) \<Longrightarrow> core r1 = core r"
  by (auto simp: halted_def Let_def split: prod.splits dest: ctxErr_core)

lemma noteFailure_core: "core (noteFailure r) = core r"
  by (simp add: noteFailure_def abort_run_def core_def Let_def)

lemma abort_core: "core (abort_run m r) = core r"
  by (simp add: abort_run_def core_def)

lemma count_result_core: "core (count_result st r) = core r"
  by (simp add: count_result_def core_def Let_def)

text \<open>What was checked before an action was carried out with a method.\<close>

definition checked :: "golib \<Rightarrow> world \<Rightarrow> queueConfig \<Rightarrow> Action \<Rightarrow> GroupFile \<Rightarrow> methodChoice \<Rightarrow> bool" where
  "checked lib w c a f ch \<longleftrightarrow>
     (\<exists>d i g0 g as ts us st st1 vr r r1. Get i d = Some g0 \<and> g = fill_servers g0 \<and> g_status g = GroupQueued \<and>
        a \<in> set as \<and> findTargetFile g a = Some f \<and> ts = map (\<lambda>a. (a, findTargetFile g a)) as \<and>
        notAllowedNow lib c st g ts = [] \<and> crossServerRecordProblem c g = [] \<and> queue_problems c g ts = [] \<and>
        us = map (\<lambda>(a, f). (a, Some f)) (tracked_last (with_file ts)) \<and> server_checks w c g us r = (Proceed, r1) \<and>
        vr = w_verify w g us (fresh_items w g) \<and> selectMethod w c st1 g vr (f_version f) = Inr ch)"

definition started :: "time \<Rightarrow> Action \<Rightarrow> methodChoice \<Rightarrow> Action" where
  "started now a ch =
     a\<lparr>act_status := ActionRunning, act_startedAt := Some now, act_method := ch_method ch, act_permanent := ch_permanent ch\<rparr>"

section \<open>The effects of a run\<close>

text \<open>
  A run changes the database through three operations, between the writes of others, and it starts removals
  that were checked, within the limits. A property of the run and the database that all of these
  keep is kept by a whole run.
\<close>

locale queue_effects =
  fixes lib :: golib and w :: world and c :: queueConfig and A :: "Action \<Rightarrow> bool" and S :: "run \<times> db \<Rightarrow> bool"
  assumes quiet: "S (r, d) \<Longrightarrow> core r' = core r \<Longrightarrow> S (r', d)"
    and meanwhile: "S (r, d) \<Longrightarrow> S (r, w_meanwhile w n d)"
    and update: "S (r, d) \<Longrightarrow> S (r, fst (UpdateAction now a d))"
    and status_if: "S (r, d) \<Longrightarrow> GroupIgnored \<notin> set fr \<Longrightarrow> S (r, fst (UpdateStatusIf now i fr s reason d))"
    and flag: "S (r, d) \<Longrightarrow> S (r, fst (SetFlag now i fl on d))"
    and dry: "S (r, d) \<Longrightarrow> S (r\<lparr>rn_st := (rn_st r)\<lparr>s_DryRun := True\<rparr>\<rparr>, d)"
    and simulate: "S (r, d) \<Longrightarrow> A a \<Longrightarrow> within_limits (act_size a) r \<Longrightarrow>
      S (r\<lparr>rn_attempts := rn_attempts r + 1, rn_bytes := wrap64 (rn_bytes r + act_size a)\<rparr>, d)"
    and carry_out: "S (r, d) \<Longrightarrow> A a \<Longrightarrow> within_limits (act_size a) r \<Longrightarrow> \<not> s_DryRun (rn_st r) \<Longrightarrow> \<not> act_dryRun a \<Longrightarrow>
      checked lib w c a f ch \<Longrightarrow> b = rn_bytes r \<or> b = wrap64 (rn_bytes r + act_size a) \<Longrightarrow>
      S (r\<lparr>rn_attempts := rn_attempts r + 1, rn_removals := rn_removals r @ [(started now a ch, ch)], rn_bytes := b\<rparr>, d)"
begin

lemma call: "dbCall w s = (f, now, r, d) \<Longrightarrow> S s \<Longrightarrow> S (r, d)"
proof -
  assume c: "dbCall w s = (f, now, r, d)" and "S s"
  obtain r0 d0 where s: "s = (r0, d0)" by fastforce
  have "S (r0, d)" using c \<open>S s\<close> s meanwhile by (auto simp: dbCall_def)
  then show "S (r, d)" by (rule quiet) (use c s in \<open>auto simp: dbCall_def core_def\<close>)
qed

lemma poll: "ctxErr w r = (x, r1) \<Longrightarrow> S (r, d) \<Longrightarrow> S (r1, d)"
  using quiet ctxErr_core by blast

lemma fails: "S (r, d) \<Longrightarrow> S (noteFailure r, d)" "S (r, d) \<Longrightarrow> S (abort_run m r, d)" "S (r, d) \<Longrightarrow> S (count_result st r, d)"
  using quiet by (blast intro: noteFailure_core abort_core count_result_core)+

lemma finishAction: "finishAction w a st m s = (a1, r1, d1) \<Longrightarrow> S s \<Longrightarrow> S (r1, d1)"
  by (auto simp: finishAction_def Let_def split: prod.splits if_splits intro!: fails update dest: call)

lemma appendNote: "appendNote w m a s = (a1, s1) \<Longrightarrow> S s \<Longrightarrow> S s1"
  by (auto simp: appendNote_def Let_def split: prod.splits if_splits intro!: update dest: call)

lemma append_notes: "S s \<Longrightarrow> S (append_notes w ns a s)"
  by (induction ns arbitrary: a s) (auto split: prod.splits dest: appendNote)

lemma cancel_actions: "S s \<Longrightarrow> S (cancel_actions w m as s)"
proof (induction "as" arbitrary: s)
  case (Cons a "as")
  obtain f now r d where c: "dbCall w s = (f, now, r, d)" by (metis prod.exhaust)
  have "S (r, d)" using call[OF c Cons.prems] .
  then show ?case using Cons.IH Cons.prems update by (simp add: c Let_def)
qed simp

lemma setRunStatus:
  assumes "S s" and "st \<noteq> GroupIgnored"
  shows "S (snd (setRunStatus w i st reason s))"
proof -
  obtain f now r d where c: "dbCall w s = (f, now, r, d)" by (metis prod.exhaust)
  have S: "S (r, d)" using call[OF c assms(1)] .
  have "GroupIgnored \<notin> set [GroupQueued, st]" using assms(2) by auto
  then have "S (r, fst (UpdateStatusIf now i [GroupQueued, st] st reason d))" using status_if S by blast
  then show ?thesis using S
    by (cases "UpdateStatusIf now i [GroupQueued, st] st reason d") (auto simp: setRunStatus_def c split: sum.splits)
qed

lemma setPlaying: "S s \<Longrightarrow> S (setPlaying w i on s)"
  by (auto simp: setPlaying_def split: prod.splits intro!: flag dest: call)

lemma finished: "S s \<Longrightarrow> S (snd (finishAction w a st m s))"
  by (cases "finishAction w a st m s") (auto dest: finishAction)

lemma skip_actions: "S s \<Longrightarrow> S (skip_actions w reason as s)"
proof (induction "as" arbitrary: s)
  case (Cons a "as")
  show ?case
    using Cons.IH[OF Cons.prems] Cons.IH[OF finished[OF Cons.prems, of a ActionSkipped "''Skipped: '' @ reason"]] by simp
qed simp

lemma skipGroup:
  assumes "S s"
  shows "S (skipGroup w c g as reason rescan extra s)"
proof -
  obtain r d where s: "snd (setRunStatus w (g_id g) GroupReview reason (skip_actions w reason as s)) = (r, d)" by fastforce
  have "S (r, d)" using setRunStatus[of "skip_actions w reason as s" GroupReview "g_id g" reason] skip_actions[OF assms] s by simp
  then show ?thesis by (auto simp: skipGroup_def s Let_def core_def elim!: quiet)
qed

lemma deferGroup:
  assumes "S s"
  shows "S (deferGroup w g reason failure playing s)"
proof -
  obtain r d where s: "s = (r, d)" by fastforce
  let ?m = "''Waiting: '' @ reason @ ''; the removals stay queued for the next run''"
  define s1 where "s1 = (r\<lparr>rn_deferred := rn_deferred r + 1\<rparr>, d)"
  define s2 where "s2 = (if playing then setPlaying w (g_id g) True s1 else s1)"
  have "S s1" unfolding s1_def by (rule quiet[of r]) (use assms s in \<open>auto simp: core_def\<close>)
  then have "S s2" using setPlaying by (simp add: s2_def)
  then have S3: "S (snd (setRunStatus w (g_id g) GroupQueued ?m s2))" by (rule setRunStatus) simp
  obtain r3 d3 where e: "snd (setRunStatus w (g_id g) GroupQueued ?m s2) = (r3, d3)" by fastforce
  have "deferGroup w g reason failure playing s = (if failure then noteFailure r3 else r3, d3)"
    unfolding deferGroup_def Let_def s s1_def[symmetric] prod.case s2_def[symmetric] e by simp
  then show ?thesis using S3 e fails(1) by simp
qed

lemma crossKept: "crossKept w es s = (x, s1) \<Longrightarrow> S s \<Longrightarrow> S s1"
proof (induction es arbitrary: s)
  case (Cons e es)
  obtain v l where e: "e = (v, l)" by fastforce
  obtain f now r d where c: "dbCall w s = (f, now, r, d)" by (metis prod.exhaust)
  have S: "S (r, d)" using call[OF c Cons.prems(2)] .
  show ?case using Cons.prems Cons.IH[of s] Cons.IH[of "(r, d)"] S
    by (auto simp: e c split: option.splits if_splits)
qed simp

lemma kept_on_servers: "kept_on_servers w self removing bs s = (x, s1) \<Longrightarrow> S s \<Longrightarrow> S s1"
proof (induction bs arbitrary: s)
  case (Cons b bs)
  obtain sid rks where b: "b = (sid, rks)" by fastforce
  obtain f now r d where c: "dbCall w s = (f, now, r, d)" by (metis prod.exhaust)
  have S: "S (r, d)" using call[OF c Cons.prems(2)] .
  show ?case using Cons.prems Cons.IH[of "(r, d)"] S
    by (auto simp: b c split: option.splits if_splits)
qed simp

lemma keptElsewhere: "keptElsewhere w g ts s = (x, s1) \<Longrightarrow> S s \<Longrightarrow> S s1"
  unfolding keptElsewhere_def Let_def
  by (auto split: prod.splits conflict.splits option.splits dest: crossKept kept_on_servers)

lemma polling:
  assumes "\<And>r v r1. f r = (v, r1) \<Longrightarrow> core r1 = core r"
  shows "on_run f s = (v, s1) \<Longrightarrow> S s \<Longrightarrow> S s1"
  using assms quiet by (cases s) (auto simp: on_run_def split: prod.splits)

lemma stored_checks:
  assumes "stored_checks lib w c g ts s = (v, s1)" and "S s"
  shows "S s1"
proof -
  obtain x s2 where k: "keptElsewhere w g ts s = (x, s2)" by (metis prod.exhaust)
  have S2: "S s2" using keptElsewhere[OF k assms(2)] .
  have p: "on_run (unreadable w m) s2 = (v, s1) \<Longrightarrow> S s1" for m
    by (rule polling[where f = "unreadable w m"]) (use S2 in \<open>auto simp: unreadable_def split: prod.splits dest: ctxErr_core\<close>)
  show ?thesis using assms S2 p
    by (cases x) (auto simp: stored_checks_def Let_def k split: if_splits)
qed

lemma finalizeGroup:
  assumes "S s"
  shows "S (finalizeGroup w g stamps s)"
proof -
  obtain f now r d where c: "dbCall w s = (f, now, r, d)" by (metis prod.exhaust)
  have S: "S (r, d)" using call[OF c assms] .
  have P: "S (setPlaying w (g_id g) False (r, d))" using setPlaying S .
  have ni: "st \<noteq> GroupIgnored" if "batch_status r' all = Some (st, m)" for r' all st m
    using that by (auto simp: batch_status_def Let_def split: if_splits)
  show ?thesis using S P
    by (auto simp: finalizeGroup_def c Let_def split: option.splits intro!: setRunStatus dest: ni)
qed

lemma refuseGroup:
  assumes "S s"
  shows "S (refuseGroup w g ts bad m s)"
proof -
  obtain a1 r d where f: "finishAction w bad ActionFailed m s = (a1, r, d)" by (metis prod.exhaust)
  have "S (noteFailure r, d)" using finishAction[OF f assms] fails(1) by blast
  then have "S (snd (setRunStatus w (g_id g) GroupFailed m (noteFailure r, d)))" by (rule setRunStatus) simp
  then show ?thesis unfolding refuseGroup_def Let_def f prod.case by (intro finalizeGroup cancel_actions)
qed

lemma apply_verdict: "S s \<Longrightarrow> S (apply_verdict w c g ts v s)"
  by (cases v) (auto simp: apply_verdict_def intro: skipGroup deferGroup refuseGroup)

text \<open>Starting a removal.\<close>

lemma reread:
  assumes "reread_settings w a r = (x, r1)" and "S (r, d)"
  shows "S (r1, d)"
    and "x = Some r2 \<Longrightarrow> r2 = r1 \<and> (core r2 = core r \<or> core r2 = core (r\<lparr>rn_st := (rn_st r)\<lparr>s_DryRun := True\<rparr>\<rparr>))"
proof -
  let ?r = "r\<lparr>rn_calls := Suc (rn_calls r)\<rparr>"
  have S: "S (?r, d)" by (rule quiet[OF assms(2)]) (simp add: core_def)
  have st: "S (r'\<lparr>rn_stopped := m\<rparr>, d)" if "S (r', d)" for r' m by (rule quiet[OF that]) (simp add: core_def)
  show "S (r1, d)" using assms S st dry[OF S]
    by (auto simp: reread_settings_def Let_def split: if_splits option.splits prod.splits dest: poll)
  show "x = Some r2 \<Longrightarrow> r2 = r1 \<and> (core r2 = core r \<or> core r2 = core (r\<lparr>rn_st := (rn_st r)\<lparr>s_DryRun := True\<rparr>\<rparr>))"
    using assms(1) by (auto simp: reread_settings_def Let_def core_def split: if_splits option.splits prod.splits)
qed

lemma perform_removal:
  assumes "S (r0, d)" and "A a" and "within_limits (act_size a) r0" and "checked lib w c a f ch" and "\<not> s_DryRun (rn_st r0)"
    and "\<not> act_dryRun a"
    and r: "core r = core (r0\<lparr>rn_attempts := rn_attempts r0 + 1\<rparr>)"
  shows "S (snd (perform_removal w (started now a ch) ch (r, d)))"
proof -
  let ?a = "started now a ch"
  let ?r = "r\<lparr>rn_removals := rn_removals r @ [(?a, ch)]\<rparr>"
  let ?q = "\<lambda>b. r0\<lparr>rn_attempts := rn_attempts r0 + 1, rn_removals := rn_removals r0 @ [(?a, ch)], rn_bytes := b\<rparr>"
  have q: "S (?q b, d)" if "b = rn_bytes r0 \<or> b = wrap64 (rn_bytes r0 + act_size a)" for b
    by (rule carry_out) (use assms that in auto)
  have S1: "S (?r, d)" by (rule quiet[OF q[of "rn_bytes r0"]]) (use r in \<open>auto simp: core_def\<close>)
  have S2: "S (?r\<lparr>rn_bytes := wrap64 (rn_bytes ?r + act_size ?a), rn_bytesFreed := n, rn_consecutive := 0\<rparr>, d)" for n
    by (rule quiet[OF q[of "wrap64 (rn_bytes r0 + act_size a)"]]) (use r in \<open>auto simp: core_def started_def\<close>)
  show ?thesis
  proof (cases "w_perform w ?a ch")
    case (PerformStale why nr)
    then show ?thesis using finished[OF S1, of ?a ActionSkipped "''Skipped: '' @ why"]
      by (cases "finishAction w ?a ActionSkipped (''Skipped: '' @ why) (?r, d)") (simp add: perform_removal_def Let_def)
  next
    case (PerformFailed err p ab)
    let ?b = "?a\<lparr>act_recyclePath := p\<rparr>"
    obtain a1 r1 d1 where f: "finishAction w ?b ActionFailed err (?r, d) = (a1, r1, d1)" by (metis prod.exhaust)
    then have "S (r1, d1)" using finishAction S1 by blast
    then show ?thesis using fails PerformFailed f by (simp add: perform_removal_def Let_def)
  next
    case (PerformDone m ps)
    let ?b = "?a\<lparr>act_recyclePath := Join ps [CHR 0x0A]\<rparr>"
    let ?r2 = "?r\<lparr>rn_bytes := wrap64 (rn_bytes ?r + act_size ?a), rn_bytesFreed := rn_bytesFreed ?r + freed_bytes ?a ch, rn_consecutive := 0\<rparr>"
    obtain a1 s1 where f: "finishAction w ?b ActionSucceeded m (?r2, d) = (a1, s1)" by (metis prod.exhaust)
    then have "S s1" using finished[OF S2, of ?b ActionSucceeded m "rn_bytesFreed ?r + freed_bytes ?a ch"] by simp
    then show ?thesis using PerformDone f by (simp add: perform_removal_def Let_def)
  qed
qed

lemma execute_removal:
  assumes "execute_removal w a ch (r, d) = (x, a1, s1)" and S: "S (r, d)" and a: "A a" "within_limits (act_size a) r"
    "checked lib w c a f ch"
  shows "S s1"
proof -
  obtain y r1 where re: "reread_settings w a r = (y, r1)" by fastforce
  have S1: "S (r1, d)" using reread(1)[OF re S] .
  show ?thesis
  proof (cases y)
    case None
    then show ?thesis using assms(1) re S1 by (simp add: execute_removal_def)
  next
    case (Some r')
    then have r': "r' = r1" and core1: "core r1 = core r \<or> core r1 = core (r\<lparr>rn_st := (rn_st r)\<lparr>s_DryRun := True\<rparr>\<rparr>)"
      using reread(2)[OF re S] by auto
    obtain fl now r2 d2 where call2: "dbCall w (r1, d) = (fl, now, r2, d2)" by (metis prod.exhaust)
    have S2: "S (r2, d2)" using call[OF call2 S1] .
    have core2: "core r2 = core r1" using call2 by (auto simp: dbCall_def core_def)
    let ?a1 = "a\<lparr>act_status := ActionRunning, act_startedAt := Some now\<rparr>"
    obtain d3 res where u: "UpdateAction now ?a1 d2 = (d3, res)" by fastforce
    have S3: "S (r2, d3)" using update[OF S2, of now ?a1] u by simp
    have w2: "within_limits (act_size a) r2"
      using a(2) core1 core2 unfolding core_def within_limits_def by auto
    let ?a2 = "?a1\<lparr>act_method := ch_method ch, act_permanent := ch_permanent ch\<rparr>"
    have a2: "?a2 = started now a ch" by (simp add: started_def)
    let ?r3 = "r2\<lparr>rn_attempts := rn_attempts r2 + 1\<rparr>"
    show ?thesis
    proof (cases "fl \<or> (\<exists>e. res = Inl e)")
      case True
      then have "s1 = (r2, d2) \<or> s1 = (r2, d3)" using assms(1) re Some r' call2 u
        by (auto simp: execute_removal_def Let_def split: if_splits)
      then show ?thesis using S2 S3 by blast
    next
      case False
      then obtain z where res: "res = Inr z" and fl: "\<not> fl" by (cases res) auto
      show ?thesis
      proof (cases "s_DryRun (rn_st r2) \<or> act_dryRun a")
        case True
        let ?r4 = "?r3\<lparr>rn_bytes := wrap64 (rn_bytes r2 + act_size a), rn_consecutive := 0\<rparr>"
        have "S (?r4, d3)" by (rule quiet[OF simulate[OF S3 a(1) w2]]) (simp add: core_def)
        then have "S (snd (finishAction w ?a2 ActionDryRun (dry_run_message ?a2 ch) (?r4, d3)))" by (rule finished)
        then show ?thesis using assms(1) re Some r' call2 u res fl True
          by (cases "finishAction w ?a2 ActionDryRun (dry_run_message ?a2 ch) (?r4, d3)") (auto simp: execute_removal_def Let_def)
      next
        case False
        have "S (snd (perform_removal w (started now a ch) ch (?r3, d3)))"
          by (rule perform_removal[OF S3 a(1) w2 a(3)]) (use False in \<open>auto simp: core_def\<close>)
        then show ?thesis using assms(1) re Some r' call2 u res fl False
          by (cases "perform_removal w (started now a ch) ch (?r3, d3)") (auto simp: execute_removal_def Let_def a2)
      qed
    qed
  qed
qed

lemma run_removals:
  assumes "run_removals w ps s = (dn, rest, s1)" and "S s" and "\<And>a f ch. (a, f, ch) \<in> set ps \<Longrightarrow> A a \<and> checked lib w c a f ch"
  shows "S s1"
  using assms
proof (induction ps arbitrary: s dn rest s1)
  case (Cons p ps)
  obtain a f ch where p: "p = (a, f, ch)" by (metis prod.exhaust)
  obtain r d where s: "s = (r, d)" by fastforce
  obtain h r1 where h: "halted w r = (h, r1)" by fastforce
  obtain ok r2 where b: "(if h then (False, r1) else budgetAllows (act_size a) r1) = (ok, r2)" by fastforce
  have r2: "core r2 = core r" "ok \<Longrightarrow> within_limits (act_size a) r2"
    using halted_core[OF h] budgetAllows_core[of "act_size a" r1 ok r2] b by (auto split: if_splits)
  have S2: "S (r2, d)" using quiet[OF Cons.prems(2)[unfolded s] r2(1)] .
  show ?case
  proof (cases ok)
    case False
    then show ?thesis using Cons.prems(1) S2 by (simp add: p s h b)
  next
    case True
    obtain x a1 s2 where e: "execute_removal w a ch (r2, d) = (x, a1, s2)" by (metis prod.exhaust)
    have S3: "S s2" by (rule execute_removal[OF e S2]) (use Cons.prems(3)[of a f ch] True r2(2) p in auto)
    obtain dn2 rs s3 where rr: "run_removals w ps s2 = (dn2, rs, s3)" by (metis prod.exhaust)
    have "S s3" by (rule Cons.IH[OF rr S3]) (use Cons.prems(3) in auto)
    then show ?thesis using Cons.prems(1) S3 True rr e by (auto simp: p s h b split: option.splits if_splits)
  qed
qed simp

lemma after_removals:
  assumes "S s"
  shows "S (after_removals w g vr dn s)"
proof -
  have all_notes: "S (fold (\<lambda>a s. append_notes w (w_notes w a) a s) as s)" if "S s" for "as" s
    using that
  proof (induction "as" arbitrary: s)
    case (Cons a "as")
    show ?case using Cons.IH[OF append_notes[OF Cons.prems, of "w_notes w a" a]] by simp
  qed simp
  obtain r d where e: "fold (\<lambda>a s. append_notes w (w_notes w a) a s) (removed_outcomes dn) s = (r, d)" by fastforce
  have "S (r, d)" using all_notes[OF assms, of "removed_outcomes dn"] e by simp
  then show ?thesis using assms by (auto simp: after_removals_def e core_def elim!: quiet)
qed

lemma remove_planned:
  assumes "S s" and "\<And>a f ch. (a, f, ch) \<in> set ps \<Longrightarrow> A a \<and> checked lib w c a f ch"
  shows "S (remove_planned w c g vr ts ps s)"
proof -
  obtain dn rest s1 where rr: "run_removals w ps s = (dn, rest, s1)" by (metis prod.exhaust)
  have S2: "S (after_removals w g vr dn s1)" using after_removals[OF run_removals[OF rr assms]] .
  have S3: "S (snd (setRunStatus w (g_id g) GroupFailed m (after_removals w g vr dn s1)))" for m
    by (rule setRunStatus[OF S2]) simp
  show ?thesis
    by (auto simp: remove_planned_def rr Let_def split: option.splits intro!: skipGroup finalizeGroup cancel_actions S2 S3)
qed

end

section \<open>What the checks of a group mean\<close>

lemma plan_targets_core: "plan_targets w c g vr ts r = (x, r1) \<Longrightarrow> core r1 = core r"
  by (induction ts arbitrary: x r1)
    (auto simp: unreadable_def split: sum.splits prod.splits answer.splits if_splits dest: ctxErr_core)

lemma plan_targets_methods:
  "plan_targets w c g vr ts r = (Inr ps, r1) \<Longrightarrow> (a, f, ch) \<in> set ps \<Longrightarrow>
   (a, f) \<in> set ts \<and> selectMethod w c (rn_st r) g vr (f_version f) = Inr ch"
  by (induction ts arbitrary: ps r1) (auto split: sum.splits prod.splits answer.splits if_splits)

lemma check_all_core:
  assumes "\<And>x r v r1. f x r = (v, r1) \<Longrightarrow> core r1 = core r"
  shows "check_all f xs r = (v, r1) \<Longrightarrow> core r1 = core r"
  by (induction xs arbitrary: r) (auto split: prod.splits verdict.splits dest: assms)

lemma check_all_Proceed: "check_all f xs r = (Proceed, r1) \<Longrightarrow> x \<in> set xs \<Longrightarrow> \<exists>r r1. f x r = (Proceed, r1)"
  by (induction xs arbitrary: r) (auto split: prod.splits verdict.splits)

lemma sequence_core:
  assumes "\<And>f r v r1. f \<in> set fs \<Longrightarrow> f r = (v, r1) \<Longrightarrow> core r1 = core r"
  shows "sequence fs r = (v, r1) \<Longrightarrow> core r1 = core r"
  using assms by (induction fs arbitrary: r) (fastforce split: prod.splits verdict.splits)+

lemma sequence_Proceed: "sequence fs r = (Proceed, r1) \<Longrightarrow> f \<in> set fs \<Longrightarrow> \<exists>r r1. f r = (Proceed, r1)"
  by (induction fs arbitrary: r) (auto split: prod.splits verdict.splits)

lemma checks_core:
  "client_check w c sid r = (v, r1) \<Longrightarrow> core r1 = core r"
  "identity_check w c gid sid r = (v, r1) \<Longrightarrow> core r1 = core r"
  "gate_check w c gid sid r = (v, r1) \<Longrightarrow> core r1 = core r"
  "playing_check w c g sid r = (v, r1) \<Longrightarrow> core r1 = core r"
  "item_check w c g k r = (v, r1) \<Longrightarrow> core r1 = core r"
  "verify_check w g ts r = (v, r1) \<Longrightarrow> core r1 = core r"
  "others_check w c g ts r = (v, r1) \<Longrightarrow> core r1 = core r"
  "keeper_check w g r = (v, r1) \<Longrightarrow> core r1 = core r"
  by (auto simp: client_check_def identity_check_def gate_check_def playing_check_def item_check_def verify_check_def
      others_check_def keeper_check_def unreadable_def Let_def split: answer.splits sum.splits item_answer.splits prod.splits if_splits
      dest: ctxErr_core)

lemma readOnlyRunProblem_core: "readOnlyRunProblem w c g r = (v, r1) \<Longrightarrow> core r1 = core r"
  by (auto simp: readOnlyRunProblem_def Let_def split: if_splits option.splits dest: check_all_core[OF checks_core(3), rotated])

lemma server_checks_core: "server_checks w c g ts r = (v, r1) \<Longrightarrow> core r1 = core r"
  unfolding server_checks_def Let_def
  by (erule sequence_core[rotated])
    (auto dest: checks_core readOnlyRunProblem_core check_all_core[OF checks_core(1), rotated] check_all_core[OF checks_core(2), rotated]
      check_all_core[OF checks_core(4), rotated] check_all_core[OF checks_core(5), rotated])

section \<open>A whole run\<close>

lemma stored_checks_Proceed:
  "stored_checks lib w c g ts s = (Proceed, s1) \<Longrightarrow>
   notAllowedNow lib c (rn_st (fst s)) g ts = [] \<and> crossServerRecordProblem c g = [] \<and> queue_problems c g ts = []"
  by (auto simp: stored_checks_def Let_def split: if_splits)

lemma with_file_of: "(a, f) \<in> set (with_file (map (\<lambda>a. (a, findTargetFile g a)) as)) \<longleftrightarrow> a \<in> set as \<and> findTargetFile g a = Some f"
  unfolding with_file_def
  by (induction "as") (auto simp: map_filter_simps split: option.splits)

lemma set_tracked_last: "set (tracked_last ts) = set ts"
  by (auto simp: tracked_last_def)

context queue_effects begin

lemma remove_targets:
  assumes "S s" and stored: "Get i d = Some g0" "g = fill_servers g0" "g_status g = GroupQueued" and A: "\<forall>a\<in>set as. A a"
  defines "ts \<equiv> map (\<lambda>a. (a, findTargetFile g a)) as"
  shows "S (remove_targets lib w c g ts s)"
proof -
  obtain v s1 where sc: "stored_checks lib w c g ts s = (v, s1)" by (metis prod.exhaust)
  have S1: "S s1" using stored_checks[OF sc assms(1)] .
  show ?thesis
  proof (cases "v = Proceed")
    case False
    then have "remove_targets lib w c g ts s = apply_verdict w c g ts v s1"
      by (cases v) (simp_all add: remove_targets_def sc)
    then show ?thesis using apply_verdict[OF S1] by simp
  next
    case True
    define sorted where "sorted = tracked_last (with_file ts)"
    define us where "us = map (\<lambda>(a, f). (a, Some f)) sorted"
    define vr where "vr = w_verify w g us (fresh_items w g)"
    obtain r1 d1 where s1: "s1 = (r1, d1)" by fastforce
    obtain v2 r2 where sv: "server_checks w c g us r1 = (v2, r2)" by fastforce
    have on: "on_run (server_checks w c g us) s1 = (v2, r2, d1)" by (simp add: on_run_def s1 sv)
    have S2: "S (r2, d1)" using quiet[OF S1[unfolded s1] server_checks_core[OF sv]] .
    have rt: "remove_targets lib w c g ts s =
       (case (v2, r2, d1) of
             (Proceed, r2, d2) \<Rightarrow>
               (case plan_targets w c g vr sorted r2 of
                  (Inl v, r3) \<Rightarrow> apply_verdict w c g us v (r3, d2)
                | (Inr ps, r3) \<Rightarrow>
                    (case keeper_check w g r3 of
                       (Proceed, r4) \<Rightarrow> remove_planned w c g vr us ps (r4, d2)
                     | (v, r4) \<Rightarrow> apply_verdict w c g us v (r4, d2)))
           | (v, s2) \<Rightarrow> apply_verdict w c g us v s2)"
      by (simp only: remove_targets_def sc True prod.case verdict.case Let_def sorted_def[symmetric] us_def[symmetric]
          vr_def[symmetric] on)
    obtain pl r3 where pt: "plan_targets w c g vr sorted r2 = (pl, r3)" by fastforce
    have S3: "S (r3, d1)" using quiet[OF S2 plan_targets_core[OF pt]] .
    obtain v4 r4 where kc: "keeper_check w g r3 = (v4, r4)" by fastforce
    have S4: "S (r4, d1)" using quiet[OF S3 checks_core(8)[OF kc]] .
    have planned: "A a \<and> checked lib w c a f ch" if "v2 = Proceed" "pl = Inr ps" "(a, f, ch) \<in> set ps" for ps a f ch
    proof -
      have af: "(a, f) \<in> set sorted" and m: "selectMethod w c (rn_st r2) g vr (f_version f) = Inr ch"
        using plan_targets_methods[OF pt[unfolded that(2)] that(3)] by auto
      then have "a \<in> set as" "findTargetFile g a = Some f"
        by (auto simp: sorted_def set_tracked_last ts_def with_file_of)
      moreover have "checked lib w c a f ch"
        unfolding checked_def
        using stored stored_checks_Proceed[OF sc[unfolded True]] sv that(1) m calculation
        by (intro exI[of _ d] exI[of _ i] exI[of _ g0] exI[of _ g] exI[of _ "as"] exI[of _ ts] exI[of _ us]
            exI[of _ "rn_st (fst s)"] exI[of _ "rn_st r2"] exI[of _ vr] exI[of _ r1] exI[of _ r2])
          (auto simp: ts_def us_def sorted_def vr_def)
      ultimately show ?thesis using A by blast
    qed
    show ?thesis
    proof (cases "v2 = Proceed")
      case False
      then show ?thesis using apply_verdict[OF S2, of g us v2] by (cases v2) (simp_all add: rt)
    next
      case v2: True
      show ?thesis
      proof (cases pl)
        case (Inl x)
        then show ?thesis using apply_verdict[OF S3, of g us x] by (simp add: rt v2 pt)
      next
        case (Inr ps)
        have rp: "S (remove_planned w c g vr us ps (r4, d1))" using remove_planned[OF S4 planned[OF v2 Inr]] .
        then show ?thesis using apply_verdict[OF S4, of g us v4] by (cases v4) (simp_all add: rt v2 pt Inr kc)
      qed
    qed
  qed
qed

lemma processGroup:
  assumes "S s" and "\<forall>a\<in>set as. A a"
  shows "S (processGroup lib w c i as s)"
proof -
  obtain f now r d where cl: "dbCall w s = (f, now, r, d)" by (metis prod.exhaust)
  have S: "S (r, d)" using call[OF cl assms(1)] .
  obtain x r1 where ce: "ctxErr w r = (x, r1)" by fastforce
  have S1: "S (r1, d)" using poll[OF ce S] .
  have rt: "S (remove_targets lib w c (fill_servers g0) (map (\<lambda>a. (a, findTargetFile (fill_servers g0) a)) as) (r, d))"
    if "Get i d = Some g0" "g_status (fill_servers g0) = GroupQueued" for g0
    by (rule remove_targets[OF S that(1) refl that(2) assms(2)])
  show ?thesis
    by (auto simp: processGroup_def cl ce Let_def S1 S rt fails(1) simp del: append.simps split: option.splits
        intro!: cancel_actions)
qed

lemma process_groups: "S s \<Longrightarrow> (\<And>i as. (i, as) \<in> set bs \<Longrightarrow> \<forall>a\<in>set as. A a) \<Longrightarrow> S (process_groups lib w c bs s)"
proof (induction bs arbitrary: s)
  case (Cons b bs)
  obtain i "as" where b: "b = (i, as)" by fastforce
  obtain r d where s: "s = (r, d)" by fastforce
  obtain h r1 where h: "halted w r = (h, r1)" by fastforce
  obtain ok r2 where bu: "(if h then (False, r1) else budgetAllows 0 r1) = (ok, r2)" by fastforce
  have "core r2 = core r"
    using halted_core[OF h] budgetAllows_core[of 0 r1 ok r2] bu by (auto split: if_splits)
  then have S2: "S (r2, d)" using quiet[OF Cons.prems(1)[unfolded s]] by blast
  have S3: "S (processGroup lib w c i as (r2, d))" by (rule processGroup[OF S2 Cons.prems(2)[of i "as"]]) (simp add: b)
  have "S (process_groups lib w c bs (processGroup lib w c i as (r2, d)))"
    by (rule Cons.IH[OF S3]) (use Cons.prems(2) in auto)
  then show ?case using S2 by (simp add: b s h bu)
qed simp

lemma fail_running: "fail_running w as s = (gs, s1) \<Longrightarrow> S s \<Longrightarrow> S s1"
proof (induction "as" arbitrary: s gs s1)
  case (Cons a "as")
  obtain f now r d where cl: "dbCall w s = (f, now, r, d)" by (metis prod.exhaust)
  have S: "S (r, d)" using call[OF cl Cons.prems(2)] .
  let ?a = "a\<lparr>act_status := ActionFailed, act_finishedAt := Some now, act_message := interruptedMessage\<rparr>"
  obtain d1 x where u: "(if f then (d, Inl ErrNotFound) else UpdateAction now ?a d) = (d1, x)" by fastforce
  have S1: "S (r, d1)" using update[OF S, of now ?a] S u by (auto split: if_splits)
  obtain gs2 s2 where fr: "fail_running w as (r, d1) = (gs2, s2)" by (metis prod.exhaust)
  have "S s2" using Cons.IH[OF fr S1] .
  then show ?case using Cons.prems(1) fr by (cases x) (auto simp: cl u Let_def)
qed simp

lemma fail_group:
  assumes "S s"
  shows "S (fail_group w gid s)"
proof -
  obtain f now r d where cl: "dbCall w s = (f, now, r, d)" by (metis prod.exhaust)
  have S: "S (r, d)" using call[OF cl assms] .
  have ni: "GroupIgnored \<notin> set recoverFrom" by (simp add: recoverFrom_def)
  obtain d1 x where u: "UpdateStatusIf now gid recoverFrom GroupFailed interruptedMessage d = (d1, x)" by fastforce
  have S1: "S (r, d1)" using status_if[OF S ni, of now gid GroupFailed interruptedMessage] u by simp
  obtain f2 now2 r2 d2 where cl2: "dbCall w (r, d1) = (f2, now2, r2, d2)" by (metis prod.exhaust)
  have S2: "S (r2, d2)" using call[OF cl2 S1] .
  show ?thesis
    by (auto simp: fail_group_def cl u cl2 S S1 S2 simp del: append.simps split: sum.splits bool.splits intro!: cancel_actions)
qed

lemma recoverInterrupted:
  assumes "S s"
  shows "S (recoverInterrupted w s)"
proof -
  obtain f now r d where cl: "dbCall w s = (f, now, r, d)" by (metis prod.exhaust)
  have S: "S (r, d)" using call[OF cl assms] .
  obtain gs s1 where fr: "fail_running w (sort_by actionLess (filter (\<lambda>a. act_status a = ActionRunning) (db_actions d))) (r, d) = (gs, s1)"
    by (metis prod.exhaust)
  have S1: "S s1" using fail_running[OF fr S] .
  have "S (fold (fail_group w) is s)" if "S s" for "is" s
    using that
  proof (induction "is" arbitrary: s)
    case (Cons i "is")
    show ?case using Cons.IH[OF fail_group[OF Cons.prems, of i]] by simp
  qed simp
  then show ?thesis using S S1 by (simp add: recoverInterrupted_def cl fr)
qed

lemma ProcessQueue:
  assumes "S (newRun st, d)" and "\<And>s f now r d1. s = recoverInterrupted w (newRun st, d) \<Longrightarrow> dbCall w s = (f, now, r, d1) \<Longrightarrow>
    \<forall>a\<in>set (ListPending 0 d1). A a"
  shows "S (ProcessQueue lib w c st d)"
proof -
  obtain f now r d1 where cl: "dbCall w (recoverInterrupted w (newRun st, d)) = (f, now, r, d1)" by (metis prod.exhaust)
  have S: "S (r, d1)" using call[OF cl recoverInterrupted[OF assms(1)]] .
  obtain r2 d2 where pg: "process_groups lib w c (batchByGroup (ListPending 0 d1)) (r, d1) = (r2, d2)" by fastforce
  have "\<forall>a\<in>set (ListPending 0 d1). A a" using assms(2)[OF refl cl] .
  then have "S (process_groups lib w c (batchByGroup (ListPending 0 d1)) (r, d1))"
    by (intro process_groups[OF S]) (auto simp: batchByGroup_def)
  then have "S (flushRescans r2, d2)" using pg by (auto simp: flushRescans_def core_def elim!: quiet)
  then show ?thesis using S pg by (simp add: ProcessQueue_def cl)
qed

end

section \<open>What every run keeps\<close>

text \<open>Others write through the operations of the store only.\<close>

definition others_step :: "world \<Rightarrow> bool" where
  "others_step w \<longleftrightarrow> (\<forall>n d. store_step\<^sup>*\<^sup>* d (w_meanwhile w n d))"

interpretation qs: queue_effects lib w c "\<lambda>_. True" "\<lambda>(r, d). others_step w \<and> store_step\<^sup>*\<^sup>* d0 d" for lib w c d0
  by unfold_locales
    (auto simp: others_step_def intro: rtranclp_trans rtranclp.rtrancl_into_rtrancl store_step.update_action
      store_step.status_if store_step.flag)

text \<open>A dry run carries nothing out.\<close>

interpretation qd: queue_effects lib w c "\<lambda>_. True" "\<lambda>(r, d). s_DryRun (rn_st r) \<and> rn_removals r = []" for lib w c
  by unfold_locales (auto simp: core_def)

text \<open>Everything carried out was checked before.\<close>

interpretation qc: queue_effects lib w c A
  "\<lambda>(r, d). \<forall>(a', ch)\<in>set (rn_removals r). \<exists>a f now. A a \<and> \<not> act_dryRun a \<and> a' = started now a ch \<and> checked lib w c a f ch"
  for lib w c A
  by unfold_locales (auto simp: core_def)

text \<open>The limits: with sizes that do not overflow 64 bits, the bytes of a run exceed its limit only by those of
  one removal alone.\<close>

definition bounded :: "int \<Rightarrow> int \<Rightarrow> (Action \<Rightarrow> bool) \<Rightarrow> run \<Rightarrow> bool" where
  "bounded m b A r \<longleftrightarrow> rn_maxCount r = m \<and> rn_maxBytes r = b \<and> b \<le> 2 ^ 62 \<and> (\<forall>a. A a \<longrightarrow> 0 \<le> act_size a \<and> act_size a \<le> 2 ^ 62) \<and>
     int (length (rn_removals r)) \<le> rn_attempts r \<and> rn_attempts r \<le> max 0 m \<and> (0 < rn_attempts r \<longrightarrow> 0 < m \<and> 0 < b) \<and>
     0 \<le> rn_bytes r \<and> (rn_bytes r \<le> max 0 b \<or> (\<exists>a. A a \<and> rn_bytes r = act_size a))"

lemma bounded_quiet: "bounded m b A r \<Longrightarrow> core r' = core r \<Longrightarrow> bounded m b A r'"
  by (simp add: core_def bounded_def)

lemma bounded_start:
  assumes r: "bounded m b A r" and a: "A a" and l: "within_limits (act_size a) r"
    and r': "rn_maxCount r' = m" "rn_maxBytes r' = b" "rn_attempts r' = rn_attempts r + 1"
      "length (rn_removals r') \<le> Suc (length (rn_removals r))" "rn_bytes r' = rn_bytes r \<or> rn_bytes r' = wrap64 (rn_bytes r + act_size a)"
  shows "bounded m b A r'"
proof -
  have sz: "0 \<le> act_size a" "act_size a \<le> 2 ^ 62" "b \<le> 2 ^ 62" and m: "rn_maxCount r = m" "rn_maxBytes r = b" and nn: "0 \<le> rn_bytes r"
    using r a by (auto simp: bounded_def)
  have lim: "0 < m" "0 < b" "rn_attempts r < m" "rn_bytes r < b" "0 < rn_bytes r \<longrightarrow> wrap64 (rn_bytes r + act_size a) \<le> b"
    using l m by (auto simp: within_limits_def)
  have "rn_bytes r + act_size a < 2 ^ 63" using lim(4) sz by simp
  then have wr: "wrap64 (rn_bytes r + act_size a) = rn_bytes r + act_size a"
    using nn sz(1) by (simp add: wrap64_def)
  have "0 \<le> rn_bytes r' \<and> (rn_bytes r' \<le> max 0 b \<or> (\<exists>a. A a \<and> rn_bytes r' = act_size a))"
    using r'(5) lim(4,5) sz(1) nn wr a by (cases "rn_bytes r = 0") auto
  moreover have "int (length (rn_removals r)) \<le> rn_attempts r" using r by (simp add: bounded_def)
  ultimately show ?thesis using r r' lim sz unfolding bounded_def by auto
qed

lemma bounded_dry: "bounded m b A (r\<lparr>rn_st := st\<rparr>) = bounded m b A r"
  by (simp add: bounded_def)

interpretation qb: queue_effects lib w c A "\<lambda>(r, d). bounded m b A r" for lib w c A m b
proof (unfold_locales, unfold prod.case)
  fix r :: run and a
  assume r: "bounded m b A r" and a: "A a" "within_limits (act_size a) r"
  show "bounded m b A (r\<lparr>rn_attempts := rn_attempts r + 1, rn_bytes := wrap64 (rn_bytes r + act_size a)\<rparr>)"
    by (rule bounded_start[OF r a]) (use r in \<open>auto simp: bounded_def\<close>)
next
  fix r :: run and a ch f bs now
  assume r: "bounded m b A r" and a: "A a" "within_limits (act_size a) r" and bs: "bs = rn_bytes r \<or> bs = wrap64 (rn_bytes r + act_size a)"
  show "bounded m b A (r\<lparr>rn_attempts := rn_attempts r + 1, rn_removals := rn_removals r @ [(started now a ch, ch)], rn_bytes := bs\<rparr>)"
    by (rule bounded_start[OF r a]) (use r bs in \<open>auto simp: bounded_def\<close>)
qed (assumption | erule bounded_quiet, assumption | simp only: bounded_dry)+

text \<open>The removals a run lists.\<close>

definition listed_actions :: "world \<Rightarrow> Settings \<Rightarrow> db \<Rightarrow> Action list" where
  "listed_actions w st d = (case dbCall w (recoverInterrupted w (newRun st, d)) of (_, _, _, d1) \<Rightarrow> ListPending 0 d1)"

end
