(* ===== verification/QueueProperties.thy ===== *)
theory QueueProperties
  imports QueueSafety
begin

text \<open>
  What a queue run guarantees: what it removes was allowed and checked, the limits hold, a dry run removes nothing, interrupted
  removals are not repeated, a resolved group was removed as a whole, and the stored data stays well formed.
\<close>

section \<open>What the checks establish\<close>












section \<open>Properties\<close>




text \<open>C14 A dry run removes nothing: no removal is carried out, whatever happens during the run.\<close>

theorem dry_run_removes_nothing:
  assumes "s_DryRun st"
  shows "rn_removals (fst (ProcessQueue lib w c st d)) = []"
proof -
  have "(\<lambda>(r, e :: db). s_DryRun (rn_st r) \<and> rn_removals r = []) (ProcessQueue lib w c st d)"
    by (rule qd.ProcessQueue) (use assms in \<open>auto simp: newRun_def\<close>)
  then show ?thesis by (cases "ProcessQueue lib w c st d") simp
qed


lemma count_of_0: "count_of s as = 0 \<longleftrightarrow> (\<forall>a\<in>set as. act_status a \<noteq> s)"
  by (auto simp: count_of_def filter_empty_conv)

lemma batch_status_resolved:
  "batch_status r as = Some (GroupResolved, reason) \<Longrightarrow>
   filter (\<lambda>a. act_status a \<noteq> ActionCancelled) as \<noteq> [] \<and> count_of ActionCancelled as = 0 \<and>
   count_of ActionSucceeded as = int (length (filter (\<lambda>a. act_status a \<noteq> ActionCancelled) as))"
  by (auto simp: batch_status_def Let_def split: if_splits) (auto simp: count_of_def)

text \<open>
  C23 A group is resolved only when its whole batch was removed: the status a batch of removals gives is "resolved"
  exactly when there are removals, all of them succeeded and none was cancelled.
\<close>

theorem resolved_means_all_removed:
  "(\<exists>reason. batch_status r as = Some (GroupResolved, reason)) \<longleftrightarrow> as \<noteq> [] \<and> (\<forall>a\<in>set as. act_status a = ActionSucceeded)"
proof
  assume "\<exists>reason. batch_status r as = Some (GroupResolved, reason)"
  then obtain reason where b: "batch_status r as = Some (GroupResolved, reason)" ..
  then have no: "\<forall>a\<in>set as. act_status a \<noteq> ActionCancelled" using batch_status_resolved count_of_0 by blast
  then have f: "filter (\<lambda>a. act_status a \<noteq> ActionCancelled) as = as" by (simp add: filter_id_conv)
  have "length (filter (\<lambda>a. act_status a = ActionSucceeded) as) = length as" "as \<noteq> []"
    using batch_status_resolved[OF b] unfolding f count_of_def by auto
  then show "as \<noteq> [] \<and> (\<forall>a\<in>set as. act_status a = ActionSucceeded)"
    using length_filter_less[of _ "as" "\<lambda>a. act_status a = ActionSucceeded"] by auto
next
  assume a: "as \<noteq> [] \<and> (\<forall>a\<in>set as. act_status a = ActionSucceeded)"
  then have f: "filter (\<lambda>a. act_status a \<noteq> ActionCancelled) as = as" "filter (\<lambda>a. act_status a = ActionSucceeded) as = as"
    by (auto simp: filter_id_conv)
  have "count_of s as = 0" if "s \<noteq> ActionSucceeded" for s using a that by (auto simp: count_of_0)
  moreover have "count_of ActionSucceeded as = int (length as)" using f(2) by (simp add: count_of_def)
  ultimately show "\<exists>reason. batch_status r as = Some (GroupResolved, reason)"
    using a f(1) by (simp add: batch_status_def Let_def)
qed

section \<open>Recovery\<close>
















text \<open>
  C24 The stored data is well formed in every state the store can reach. Groups have distinct ids and keys and the ids are
  those handed out; the versions of a group have distinct keys; an override is empty, "keep" or "remove" and a version that
  is protected or overridden to keep is decided "keep"; what is retained of a missing version is such a decision;
  actions have distinct ids among those handed out.
\<close>

theorem stored_data_well_formed:
  assumes "store_reachable d"
  shows "distinct (map r_id (db_groups d)) \<and> distinct (map (\<lambda>r. g_key (r_group r)) (db_groups d)) \<and>
    (\<forall>r\<in>set (db_groups d). 0 < r_id r \<and> r_id r \<le> db_groupSeq d \<and> distinct (map f_key (r_files r)) \<and>
       (\<forall>f\<in>set (r_files r). validDecision (f_override f) \<and> (f_override f = DecisionKeep \<or> f_protected f \<longrightarrow> f_decision f = DecisionKeep)) \<and>
       (\<forall>ov\<in>ran (r_retained r). ov \<noteq> [] \<and> validDecision ov)) \<and>
    distinct (map act_id (db_actions d)) \<and> (\<forall>a\<in>set (db_actions d). act_id a \<le> db_actionSeq d)"
  using st.reachable[OF assms] by (simp add: store_inv_def wf_db_def wf_actions_def wf_row_def wf_file_def)

section \<open>An example run\<close>

text \<open>The group of the store examples, approved and then removed through the file system.\<close>

definition server7 :: MediaServer where
  "server7 = \<lparr>ms_id = 1, ms_name = ''Plex'', ms_kind = MediaServerPlex, ms_url = [], ms_token = [],
     ms_machineIdentifier = ''m'', ms_verifyTLS = True, ms_enabled = True, ms_storage = [], ms_createdAt = 0, ms_updatedAt = 0\<rparr>"

definition queue7 :: queueConfig where
  "queue7 = \<lparr>qc_servers = [server7], qc_arrs = [], qc_mappings = [], qc_libraries = [], qc_exclusions = [], qc_profiles = [profile0]\<rparr>"

definition bin7 :: methodChoice where
  "bin7 = \<lparr>ch_method = MethodFilesystem, ch_target = ''recycle bin'', ch_permanent = False, ch_arr = False, ch_disc = None\<rparr>"

definition live7 :: Settings where
  "live7 = settings7\<lparr>s_DryRun := False, s_KeepPlayableCopy := False\<rparr>"

definition world7 :: world where
  "world7 = \<lparr>w_now = (\<lambda>n. 10), w_ctxErr = (\<lambda>_. False), w_fails = (\<lambda>_. False), w_meanwhile = (\<lambda>_ d. d),
     w_settings = (\<lambda>_. Some live7), w_client = (\<lambda>_. True), w_arrClient = (\<lambda>_. True), w_identity = (\<lambda>_ _. Inr ''m''),
     w_gate = (\<lambda>_ _. Fine), w_sessions = (\<lambda>_ _. Inr []), w_item = (\<lambda>_ _ _. ItemGone),
     w_verify = (\<lambda>_ _ _. \<lparr>vr_problem = [], vr_wait = [], vr_keepers = [], vr_remains = (\<lambda>_. True)\<rparr>),
     w_otherServers = (\<lambda>_ _. \<lparr>cc_problem = [], cc_wait = [], cc_playing = False, cc_failure = False, cc_rescan = []\<rparr>),
     w_arrBin = (\<lambda>_. Inr []), w_deleter = (\<lambda>_. False), w_deletionAllowed = (\<lambda>_. Inr False),
     w_fsChoice = (\<lambda>_ _. Inr bin7), w_discChoice = (\<lambda>_ _. Inl []), w_arrFile = (\<lambda>_. Fine), w_keeperArr = (\<lambda>_. Fine),
     w_perform = (\<lambda>_ _. PerformDone ''moved'' [''/bin/b'']), w_notes = (\<lambda>_. [])\<rparr>"

definition store7 :: db where
  "store7 = fst (ApproveReviewed (approval7\<lparr>ap_settings := Some live7\<rparr>) 1 TriggerManual [] store5)"




lemma world7_sel [simp]: "w_meanwhile world7 n d = d" "w_fails world7 n = False"
  by (simp_all add: world7_def)






theorem dry_run_removes_nothing_witness:
  "s_DryRun settings7 \<and> rn_removals (fst (ProcessQueue lib0 world7 queue7 settings7 store7)) = []"
proof -
  have "s_DryRun settings7" by (simp add: settings7_def DefaultSettings_def)
  then show ?thesis using dry_run_removes_nothing by blast
qed



theorem stored_data_well_formed_witness:
  "length (db_actions store2) = 1 \<and> list_all (\<lambda>a. act_id a \<le> db_actionSeq store2) (db_actions store2)"
proof -
  have "length (db_actions store2) = 1" by code_simp
  then show ?thesis using stored_data_well_formed[OF example_reachable(2)] by (simp add: list_all_iff)
qed

theorem resolved_means_all_removed_witness:
  "(\<exists>reason. batch_status (newRun live7) [removal_b 1 ActionSucceeded] = Some (GroupResolved, reason)) \<and>
   \<not> (\<exists>reason. batch_status (newRun live7) [removal_b 1 ActionSucceeded, removal_b 2 ActionCancelled] = Some (GroupResolved, reason))"
  unfolding resolved_means_all_removed by (simp add: removal_b_def)

end
