(* ===== verification/Spec2Isabelle.thy ===== *)
theory Spec2Isabelle
  imports ScanProperties Profiles PathMap QueueProperties
begin

text \<open>
  Verification of the decision core of Dupearr, a manager of duplicate media files (Go, under \<open>src/\<close>).

  \<^bold>\<open>The program.\<close> Dupearr scans the libraries of one or several media servers, groups the versions of the same
  film or episode, decides with a profile which versions to keep, shows the groups to a person, and removes the
  others after an approval. Its parts interact as follows. The scanner (\<open>internal/scanner\<close>) loads its
  configuration, collects listings and details over the network, calls \<open>engine.BuildGroups\<close>, passes every group
  with what the database knows about it to \<open>engine.Evaluate\<close>, stores the result with \<open>GroupRepo.Upsert\<close>
  and resolves the stored groups that disappeared; at the end of a full scan it may approve groups by itself within
  per-run limits. A person overrides decisions, ignores or approves groups (\<open>internal/database\<close>); an approval
  creates removal actions after \<open>engine.ValidateDecisions\<close> accepted the group, and the executor
  (\<open>internal/executor\<close>) checks again with \<open>internal/engine/execguards.go\<close> and the store before each removal.

  \<^bold>\<open>The theories\<close>, each named after what it models; definitions keep the names of the Go functions, a suffix
  marks a clash with HOL. Record fields carry a prefix per struct (\<open>g_\<close> group, \<open>f_\<close> file of a group,
  \<open>v_\<close> version, \<open>act_\<close> action, \<open>p_\<close> scan pipeline, \<open>c_\<close> scan configuration, \<open>s_\<close> settings).
  \<^item> \<open>Prelude\<close> (results, arrays, list lemmas, fact collections), \<open>Transitions\<close> (reachability and the
    interface of an invariant), \<open>GoStrings\<close>, \<open>GoRegexp\<close>, \<open>GoTime\<close>, \<open>Hashes\<close>: what the sources use of
    Go's standard library.
  \<^item> \<open>Models\<close>, \<open>ArrItems\<close>: the data of \<open>internal/models\<close>. \<open>DiscPaths\<close>: \<open>internal/disc/paths.go\<close>.
    \<open>MediaInfo\<close>: \<open>internal/mediainfo\<close>. \<open>PathMap\<close>: \<open>internal/pathmap\<close>.
  \<^item> The engine, \<open>internal/engine\<close>: \<open>UnionFind\<close>, \<open>Helpers\<close>, \<open>Versions\<close>, \<open>Languages\<close>,
    \<open>Editions\<close> (\<open>helpers.go\<close>); \<open>Metrics\<close>, \<open>Criteria\<close> (\<open>criteria.go\<close>); \<open>Watch\<close>
    (\<open>watch.go\<close>); \<open>GroupChecks\<close>, \<open>Grouping\<close> (\<open>group.go\<close>); \<open>Evaluation\<close>, \<open>Ranking\<close>,
    \<open>Decide\<close>, \<open>Explain\<close>, \<open>Evaluate\<close>, \<open>Validate\<close> (\<open>evaluate.go\<close>, \<open>crossserver.go\<close>);
    \<open>ExecGuards\<close> (\<open>execguards.go\<close>); \<open>Profiles\<close> (\<open>schema.go\<close>, \<open>engine.go\<close>).
  \<^item> The store: \<open>GroupStore\<close> (the group, action and exclusion repositories of \<open>repo_groups.go\<close> and
    \<open>repo_activity.go\<close>). A database is the record \<open>db\<close> of its tables; a transaction is a function on it.
  \<^item> The scanner: \<open>ScanConfig\<close> (configuration, libraries, partners, folders of \<open>pipeline.go\<close>,
    \<open>crossserver.go\<close>), \<open>ScanPersist\<close> (look-up, carry-over, inheritance, trust and storing of one group:
    \<open>persist.go\<close>, \<open>readonly.go\<close>, \<open>unavailable.go\<close>), \<open>ScanRun\<close> (the end of a run: storing all
    groups, resolving, automatic approval, re-evaluation of blocked groups).
  \<^item> The executor, \<open>internal/executor\<close>: \<open>Approval\<close> (\<open>executor.go\<close>: the rules of an approval, the queued
    removals, rollback and reversal, cancellation; the disc and read-only rules), \<open>Queue\<close> (\<open>process.go\<close>,
    \<open>methods.go\<close>, \<open>guards.go\<close>, \<open>crossserver.go\<close>, \<open>readonly.go\<close>, \<open>recover.go\<close>: a run over the queued
    removals). The run's own state is the record \<open>run\<close>; what it asks of servers, *arr instances and the
    disk, which calls fail and what others write meanwhile is the record \<open>world\<close>.
  \<^item> Proofs and properties: \<open>Safety\<close>, \<open>Guarantees\<close>, \<open>Invariants\<close> (the evaluation), \<open>ScanGroups\<close>,
    \<open>ScanProperties\<close> (the grouping), \<open>StoreSafety\<close>, \<open>StoreRows\<close>, \<open>StoreProperties\<close> (the store),
    \<open>ScanSafety\<close>, \<open>RunProperties\<close> (scans), \<open>ApprovalSafety\<close> (approvals), \<open>QueueSafety\<close>,
    \<open>QueueProperties\<close> (queue runs), \<open>Examples\<close>, \<open>ExampleRun\<close> (the concrete groups the properties are
    applied to), and this theory. The interfaces \<open>scan_effects\<close>, \<open>approve_effects\<close> and \<open>queue_effects\<close>
    name what a scan, an approval and a queue run do to the database; each is interpreted for the steps of the
    store, so the properties of the reachable states hold through all of them.

  \<^bold>\<open>What is shown.\<close> Evaluation: every group left pending or queued passes the independent check that precedes
  every removal; that check accepts exactly the safe decisions; a removal always leaves an available version, never
  hits a protected version, an entry of a kept file or another server's only copy; overrides, minimum age, report-only
  and intentional groups do what they promise; the ranking refines the elimination by criteria; error results
  are characterised. Approvals: what is queued is what was reviewed and checked, a failed approval leaves nothing
  half done, automatic mode never approves what needs a person. Queue runs: a removal is carried out only after every
  check on the stored data and with the servers passed, within the limits of the run and never in a dry run; recovery
  leaves nothing running; a group is resolved only when its whole batch was removed; scans, approvals and queue runs
  are sequences of steps of the store, whatever fails. Grouping: groups contain exactly files of the scan, keys are unique, variants are never
  mixed, items are merged only inside their scope, and every built group is accepted by \<open>Evaluate\<close>. Store: over any
  sequence of operations a pending removal targets a version that may be removed, a removal starts only while its
  target may be removed, and a user's decision survives scans. Scanner: what a scan stores is safe, automatic
  approval stays within its limits. Helpers: union-find computes the components, keys and path mappings
  round-trip, \<open>stripPhrase\<close> ends, the resolution tiers are monotone.

  \<^bold>\<open>Assumptions of the model.\<close> A Go string is a list of bytes and case folding is ASCII. \<open>int\<close> and
  \<open>int64\<close> are \<open>int\<close>, with \<open>wrap64\<close> written out where the sources can overflow (byte totals, budgets);
  \<open>float64\<close> values are rationals where the sources compare them and the datatype \<open>f64\<close> where NaN and
  infinities matter. Glob matching (doublestar), user-supplied regular expressions and the clock are fields of
  the parameter \<open>golib\<close>; the constant regular expressions of the sources are modelled by the matcher of
  \<open>GoRegexp\<close>. Maps are functions or association lists in the order the sources iterate; maps that are
  iterated in Go's random order are only folded where the order does not matter. JSON columns hold values, row
  identifiers come from AUTOINCREMENT sequences. Failing database calls are the predicates \<open>p_fails\<close>, \<open>ap_fails\<close> and \<open>w_fails\<close> and a
  cancelled context is the list of answers \<open>p_ctxErr\<close> and \<open>w_ctxErr\<close> give to successive polls, so every theorem about a run
  holds for every failure and every point of cancellation. Locks serialise what the model runs in sequence.

  \<^bold>\<open>Loops.\<close> Every definition is total. Loops that are not structural have a measure: \<open>find\<close> of the
  union-find moves to smaller indexes (\<open>uf_loop_test\<close> shows that its test is the source's on every array the
  structure builds), the ranking loops lose versions, the cross-server pass gains kept versions,
  the repeated replacements shorten the text. Two enumerations of regular-expression matches use fuel, the length
  of the text plus one: every match starts beyond the one before.

  \<^bold>\<open>Not modelled.\<close> The collection of a scan (\<open>collect.go\<close>, \<open>enrich.go\<close>, \<open>matcher.go\<close>,
  \<open>discs.go\<close>, \<open>clips.go\<close>, \<open>watch.go\<close> of the scanner) is network and disk input; its results are
  arguments of the model. Of the executor, the verification of files on disk (\<open>verify.go\<close>), the file system and disc
  methods (\<open>fsops.go\<close>, \<open>confined.go\<close>, most of \<open>disc.go\<close>), the questions to the other servers, the work after a
  removal (\<open>post.go\<close>) and restoring are system calls and HTTP requests; their answers are fields of \<open>world\<close>.
  HTTP clients, the HTTP interface, authentication, notifications, logging, the
  configuration file, backups, health checks, system calls and the parsers of disc structures are I/O around the core. Rows of the
  database outside groups, actions and exclusions are configuration values given to the model.
\<close>

section \<open>The main safety results\<close>

lemma result_file:
  assumes "Evaluate lib g p env = Inr g'" and "i < length (g_files g')"
  shows "f_decision (g_files g' ! i) = decision_of (final_keep lib (the g) p env i)"
    and "f_protected (g_files g' ! i) = mk_protected (final_marks lib (prepared lib (the g) p env)) i"
    and "i < length (g_files (the g))"
  using assms by (auto elim!: EvaluateD simp: mark_files_nth)

lemma decision_of_iff [simp]:
  "decision_of b = DecisionKeep \<longleftrightarrow> b" "decision_of b = DecisionRemove \<longleftrightarrow> \<not> b"
  by (simp_all add: decision_of_def)

lemma result_decision:
  assumes "Evaluate lib g p env = Inr g'" and "i < length (g_files g')"
  shows "f_decision (g_files g' ! i) = DecisionKeep \<longleftrightarrow> final_keep lib (the g) p env i"
    and "f_decision (g_files g' ! i) = DecisionRemove \<longleftrightarrow> \<not> final_keep lib (the g) p env i"
  using result_file(1)[OF assms] by (simp_all only: decision_of_iff)

text \<open>
  C1 Every group that \<open>Evaluate\<close> leaves pending or queued, so every group that may be acted on, passes the
  independent check \<open>ValidateDecisions\<close> that runs before an approval and before the executor acts.
\<close>

theorem evaluate_pending_validates:
  assumes "Evaluate lib g p env = Inr g'"
    and "g_status g' = GroupPending \<or> g_status g' = GroupQueued"
  shows "ValidateDecisions (Some g') = None"
proof -
  obtain h where h: "g_files h \<noteq> []" "g' = finish (evaluated lib h p env)" using EvaluateD[OF assms(1)] by metis
  then show ?thesis using actionable_safe[OF h(1) finish_actionable] assms(2) by (simp add: ValidateDecisions_iff)
qed

theorem evaluate_pending_validates_witness:
  "Evaluate lib0 (Some ex0) profile0 env0 = Inr out0 \<and> g_status out0 = GroupPending \<and>
   ValidateDecisions (Some out0) = None"
  using evaluate_pending_validates[OF out0_Evaluate] out0_Evaluate out0_status by simp

text \<open>
  C2 \<open>ValidateDecisions\<close> accepts exactly the safe decisions: every file has a decision, something is kept,
  and every file to remove is unprotected, not shared with other episodes, not an optimized copy, not inside a
  disc, not a disc that must stay, not tracked by an instance of an intentional group, not the same file as a kept
  one, not another server's only copy, while an available and accessible version is kept and neither the
  minimum age nor an active *arr download holds the group back.
\<close>

theorem validate_decisions_exact:
  "ValidateDecisions (Some g) = None \<longleftrightarrow> safe_decisions g"
  by (rule ValidateDecisions_iff)

text \<open>A version that ends up protected is kept, whatever the overrides say.\<close>

theorem evaluate_keeps_protected:
  assumes "Evaluate lib g p env = Inr g'" and "i < length (g_files g')" and "f_protected (g_files g' ! i)"
  shows "f_decision (g_files g' ! i) = DecisionKeep"
  using result_file(2)[OF assms(1,2)] result_decision(1)[OF assms(1,2)] assms(3) removed_not_protected by metis

theorem evaluate_keeps_protected_witness:
  "f_protected (g_files out1 ! 0) \<and> f_decision (g_files out1 ! 0) = DecisionKeep"
  using evaluate_keeps_protected[OF out1_Evaluate, of 0] out1_protected by (simp add: out1_length)

text \<open>
  C3 Whenever a version is to be removed, the group keeps a version that is neither an optimized copy nor
  missing.
\<close>

theorem evaluate_removal_leaves_available:
  assumes "Evaluate lib g p env = Inr g'" and "i < length (g_files g')"
    and "f_decision (g_files g' ! i) = DecisionRemove"
  shows "\<exists>j < length (g_files g'). f_decision (g_files g' ! j) = DecisionKeep \<and>
     \<not> isOptimized (f_version (g_files g' ! j)) \<and> \<not> isUnavailable (f_version (g_files g' ! j))"
proof -
  note r = result_file[OF assms(1)]
  obtain j where j: "j < length (g_files (the g))" "eligible_version (f_version (g_files (the g) ! j))"
      "final_keep lib (the g) p env j"
    using removal_leaves_eligible[of i "the g" lib p env] r(3)[OF assms(2)] result_decision(2)[OF assms(1,2)] assms(3)
    by metis
  obtain h where g': "h = the g" "g' = finish (evaluated lib h p env)" using EvaluateD[OF assms(1)] by metis
  then show ?thesis using j by (auto simp: mark_files_nth eligible_version_def intro!: exI[of _ j])
qed

theorem evaluate_removal_leaves_available_witness:
  "0 < length (g_files out0) \<and> f_decision (g_files out0 ! 0) = DecisionRemove \<and>
   (\<exists>j < length (g_files out0). f_decision (g_files out0 ! j) = DecisionKeep \<and>
     \<not> isOptimized (f_version (g_files out0 ! j)) \<and> \<not> isUnavailable (f_version (g_files out0 ! j)))"
  using evaluate_removal_leaves_available[OF out0_Evaluate, of 0] out0_length out0_decisions by simp

text \<open>Two versions are in one component exactly when a chain of common file keys connects them.\<close>

lemma comp_of_iff:
  assumes "i < length vs" "j < length vs"
  shows "comp_of vs i = comp_of vs j \<longleftrightarrow> (i, j) \<in> (shares (owned (vat sameFileKeys vs) (length vs)))\<^sup>*"
  unfolding comp_of_def same_uf_def using assms by (rule link_find_iff)

text \<open>
  C4 A version to remove and a version to keep never share a file, not even through a chain of other
  versions: no chain of common *arr file ids, paths, inodes or disc roots leads from one to the other.
\<close>

theorem evaluate_never_removes_kept_file:
  assumes "Evaluate lib g p env = Inr g'" and "i < length (g_files g')" and "j < length (g_files g')"
    and "f_decision (g_files g' ! i) = DecisionRemove" and "f_decision (g_files g' ! j) = DecisionKeep"
  shows "(i, j) \<notin> (shares (owned (vat sameFileKeys (map f_version (g_files g'))) (length (g_files g'))))\<^sup>*"
proof -
  obtain h where h: "h = the g" "g' = finish (evaluated lib h p env)" using EvaluateD[OF assms(1)] by metis
  have "safe_removal g' i"
    using final_safe_removal[of i h lib p env] result_file(1,3)[OF assms(1,2)] assms(4) h by simp
  then have "comp_of (map f_version (g_files g')) j \<noteq> comp_of (map f_version (g_files g')) i"
    using assms(3,5) by (simp add: safe_removal_def Let_def)
  then show ?thesis using comp_of_iff[of i "map f_version (g_files g')" j] assms(2,3) by auto
qed

theorem evaluate_never_removes_kept_file_witness:
  "(0, 1) \<notin> (shares (owned (vat sameFileKeys (map f_version (g_files out0))) (length (g_files out0))))\<^sup>*"
  using evaluate_never_removes_kept_file[OF out0_Evaluate, of 0 1] out0_length out0_decisions by simp

text \<open>
  C25 Removing a version never takes another server's only copy: for every listing of the same file on
  another server, that item has another version which is none of the files to remove and is proven to be a
  different file from each of them.
\<close>

theorem evaluate_spares_other_servers:
  assumes "Evaluate lib g p env = Inr g'" and "i < length (g_files g')"
    and "f_decision (g_files g' ! i) = DecisionRemove"
    and "e \<in> set (v_otherServers (f_version (g_files g' ! i)))" and "o_match e = OtherSameFile"
  shows "\<exists>ot\<in>set (o_others e). \<forall>r < length (g_files g'). f_decision (g_files g' ! r) = DecisionRemove \<longrightarrow>
     v_key (f_version (g_files g' ! r)) \<notin> set (om_same ot) \<and> v_key (f_version (g_files g' ! r)) \<in> set (om_distinct ot)"
proof -
  obtain h where h: "h = the g" "g' = finish (evaluated lib h p env)" using EvaluateD[OF assms(1)] by metis
  have "safe_removal g' i"
    using final_safe_removal[of i h lib p env] result_file(3)[OF assms(1,2)] result_decision(2)[OF assms(1,2)] assms(3) h
    by simp
  then have "survivor e (map (\<lambda>i. v_key (f_version (g_files g' ! i))) (removed_files (g_files g')))"
    using assms(4,5) by (simp add: safe_removal_def Let_def)
  then obtain ot where "ot \<in> set (o_others e)"
      "\<forall>r\<in>set (removed_files (g_files g')). v_key (f_version (g_files g' ! r)) \<notin> set (om_same ot) \<and>
         v_key (f_version (g_files g' ! r)) \<in> set (om_distinct ot)"
    by (auto simp: survivor_def)
  then show ?thesis using set_removed_files by blast
qed

theorem evaluate_spares_other_servers_witness:
  "f_decision (g_files out2 ! 0) = DecisionRemove \<and>
   (\<exists>e\<in>set (v_otherServers (f_version (g_files out2 ! 0))). o_match e = OtherSameFile \<and>
     (\<exists>ot\<in>set (o_others e). v_key (f_version (g_files out2 ! 0)) \<in> set (om_distinct ot)))"
proof -
  obtain e where e: "e \<in> set (v_otherServers (f_version (g_files out2 ! 0)))" "o_match e = OtherSameFile"
    by (simp add: out2_files mark_listing_def listing2_def)
  have "0 < length (g_files out2)" by (simp add: out2_files(1))
  then have "\<exists>ot\<in>set (o_others e). v_key (f_version (g_files out2 ! 0)) \<in> set (om_distinct ot)"
    using evaluate_spares_other_servers[OF out2_Evaluate _ out2_files(2) e] out2_files(2) by blast
  then show ?thesis using e out2_files(2) by blast
qed

text \<open>
  C26 What a version to remove is not: optimized, missing, shared with other episodes, the target of a
  shortcut, inside a disc, a disc that must stay, matched by a protection rule of the profile.
\<close>

theorem evaluate_removed_version:
  assumes "Evaluate lib g p env = Inr g'" and "i < length (g_files g')"
    and "f_decision (g_files g' ! i) = DecisionRemove"
  shows "\<not> isOptimized (f_version (g_files g' ! i)) \<and> \<not> isUnavailable (f_version (g_files g' ! i)) \<and>
    \<not> isShared (f_version (g_files g' ! i)) \<and> shortcutReasons (f_version (g_files g' ! i)) = [] \<and>
    discMemberPath (f_version (g_files g' ! i)) = [] \<and>
    disc_removable (g_mediaType (the g)) (f_version (g_files g' ! i)) \<and>
    list_all (\<lambda>pr. matchProtection lib pr (f_version (g_files (the g) ! i)) (env_Libraries env) = None) (pf_protections p)"
proof -
  obtain h where h: "h = the g" "g' = finish (evaluated lib h p env)" using EvaluateD[OF assms(1)] by metis
  have i: "i < length (g_files h)" "\<not> final_keep lib h p env i"
    using result_file(3)[OF assms(1,2)] result_decision(2)[OF assms(1,2)] assms(3) h(1) by simp_all
  have sc: "shortcutReasons (listed os v) = shortcutReasons v" for os v by (simp add: shortcutReasons_def)
  note r = removed_version[OF i]
  show ?thesis using r i h by (simp add: mark_files_nth eligible_version_def list_all_iff sc)
qed

theorem evaluate_removed_version_witness:
  "f_decision (g_files out0 ! 0) = DecisionRemove \<and> \<not> isShared (f_version (g_files out0 ! 0)) \<and>
   discMemberPath (f_version (g_files out0 ! 0)) = []"
  using evaluate_removed_version[OF out0_Evaluate, of 0] out0_length out0_decisions by simp

text \<open>
  With the setting that different *arr instances are intentional, a group whose versions are tracked by
  two or more instances keeps every tracked version.
\<close>

theorem evaluate_intentional_keeps_tracked:
  assumes "Evaluate lib g p env = Inr g'" and "i < length (g_files g')"
    and "env_DifferentArrInstancesIntentional env"
    and "2 \<le> length (arrInstanceIDs (map f_version (g_files (the g))))"
    and "v_arr (f_version (g_files g' ! i)) = Some a" and "a_instanceID a \<noteq> 0"
  shows "f_decision (g_files g' ! i) = DecisionKeep"
proof (rule ccontr)
  assume n: "f_decision (g_files g' ! i) \<noteq> DecisionKeep"
  obtain h where h: "h = the g" "g' = finish (evaluated lib h p env)" using EvaluateD[OF assms(1)] by metis
  have i: "i < length (g_files h)" "\<not> final_keep lib h p env i"
    using result_file(3)[OF assms(1,2)] result_decision(1)[OF assms(1,2)] n h(1) by simp_all
  have "ev_intentional (prepared lib h p env)"
    using assms(3,4) h(1) by (simp add: prepared_def prepare_def Let_def)
  from removed_version(5)[OF i this] show False using assms(5,6) i h by (simp add: mark_files_nth)
qed

theorem evaluate_intentional_keeps_tracked_witness:
  "f_decision (g_files (finish (evaluated lib0 (group0 vs3) profile0 env3)) ! 0) = DecisionKeep"
proof (rule evaluate_intentional_keeps_tracked[OF group0_Evaluate[OF vs3_keys]])
  show "2 \<le> length (arrInstanceIDs (map f_version (g_files (the (Some (group0 vs3))))))"
    using vs3_instances by (simp add: group0_def)
  show "v_arr (f_version (g_files (finish (evaluated lib0 (group0 vs3) profile0 env3)) ! 0)) = Some (arr0 1)"
    by (simp add: mark_files_nth group0_def vs3_def)
qed (simp_all add: env3_def arr0_def group0_def vs3_def)

text \<open>
  A group with a version that can only be reported keeps every file, and its status is "protected"
  unless it was ignored.
\<close>

theorem evaluate_report_only:
  assumes "Evaluate lib g p env = Inr g'" and "reportOnlyReasons (map f_version (g_files (the g))) \<noteq> []"
  shows "list_all (\<lambda>f. f_decision f = DecisionKeep \<and> f_protected f) (g_files g') \<and>
    (g_status g' = GroupProtected \<or> (g_status g' = GroupIgnored \<and> g_status (the g) = GroupIgnored))"
proof
  obtain h where h: "h = the g" "g' = finish (evaluated lib h p env)" using EvaluateD[OF assms(1)] by metis
  have ro: "reportOnlyReasons (map f_version (g_files h)) \<noteq> []" using assms(2) h(1) by simp
  have "f_decision (g_files g' ! i) = DecisionKeep \<and> f_protected (g_files g' ! i)" if i: "i < length (g_files g')" for i
  proof -
    have "i < length (g_files h)" using result_file(3)[OF assms(1) i] h(1) by simp
    then have "mk_protected (initial_marks lib (prepared lib h p env)) i" using ro by (simp add: initial_protected)
    then have "mk_protected (final_marks lib (prepared lib h p env)) i" by (rule final_protected_initial)
    then show ?thesis
      using result_file(2)[OF assms(1) i] result_decision(1)[OF assms(1) i] removed_not_protected h(1) by metis
  qed
  then show "list_all (\<lambda>f. f_decision f = DecisionKeep \<and> f_protected f) (g_files g')" by (simp add: list_all_length)
  let ?ev = "evaluated lib h p env"
  have st: "g_status (updated_group ?ev) = g_status h"
    using annotate_core[of "decided lib h p env"]
    by (simp add: updated_group_def Let_def evaluated_def explain_def decided_def[symmetric] same_core_def)
  have "fst (status ?ev (updated_group ?ev) n) = GroupProtected \<and> \<not> snd (snd (status ?ev (updated_group ?ev) n))" for n
    using ro by (simp add: status_def Let_def evaluated_core)
  then show "g_status g' = GroupProtected \<or> (g_status g' = GroupIgnored \<and> g_status (the g) = GroupIgnored)"
    using h st by (auto simp: finish_def Let_def)
qed

theorem evaluate_report_only_witness:
  "list_all (\<lambda>f. f_decision f = DecisionKeep \<and> f_protected f) (g_files (finish (evaluated lib0 (group0 vs4) profile0 env0)))"
  using evaluate_report_only[OF group0_Evaluate[OF vs4_keys], of lib0 profile0 env0] vs4_report by (simp add: group0_def)

section \<open>Overrides, age, status and errors\<close>

lemma override_effect:
  assumes "i < length (g_files g)"
  shows "\<not> final_keep lib g p env i \<Longrightarrow> mk_keep (engine_marks lib (prepared lib g p env)) i \<Longrightarrow>
      ToLower (TrimSpace (f_override (g_files g ! i))) = DecisionRemove"
    and "final_keep lib g p env i \<Longrightarrow> \<not> mk_keep (engine_marks lib (prepared lib g p env)) i \<Longrightarrow>
      ToLower (TrimSpace (f_override (g_files g ! i))) = DecisionKeep \<or>
      mk_protected (final_marks lib (prepared lib g p env)) i"
proof -
  let ?ev = "prepared lib g p env"
  let ?m = "engine_marks lib ?ev"
  let ?a = "restore_keepers ?ev (apply_overrides ?ev ?m)"
  have ov: "override_of ?ev i = TrimSpace (f_override (g_files g ! i))" by (simp add: override_of_def)
  have pass: "keeper_pass (\<lambda>mk. protect_loop ?ev True (protectSameFile ?ev True (keepPlayable ?ev True mk)))"
    by (intro keeper_pass_comp[of "\<lambda>mk. protectSameFile ?ev True (keepPlayable ?ev True mk)" "protect_loop ?ev True"]
        keeper_pass_comp[of "keepPlayable ?ev True" "protectSameFile ?ev True"]
        keeper_pass_protect_loop keeper_pass_protectSameFile keeper_pass_keepPlayable)
  show "ToLower (TrimSpace (f_override (g_files g ! i))) = DecisionRemove"
    if "\<not> final_keep lib g p env i" "mk_keep ?m i"
  proof -
    have "\<not> mk_keep ?a i" using that(1) final_after_overrides(1) by blast
    then show ?thesis using that(2) ov by (auto simp: restore_keep apply_overrides_keep split: if_splits)
  qed
  show "ToLower (TrimSpace (f_override (g_files g ! i))) = DecisionKeep \<or>
      mk_protected (final_marks lib ?ev) i" if "final_keep lib g p env i" "\<not> mk_keep ?m i"
  proof -
    have "mk_keep ?a i \<or> mk_protected (final_marks lib ?ev) i"
      using keeper_pass.keep_new[OF pass, of ?a i] that(1) by (simp add: final_marks_def)
    then show ?thesis
      using that(2) ov by (auto simp: restore_keep apply_overrides_keep apply_overrides_dropped split: if_splits)
  qed
qed

text \<open>
  C27 The final decision differs from the engine's own only where the user says so or where it is safer: a
  version the engine keeps is removed only by a "remove" override on an unprotected version, and a version
  the engine removes is kept only by a "keep" override or because it became protected.
\<close>

theorem evaluate_override_semantics:
  assumes "Evaluate lib g p env = Inr g'" and "i < length (g_files g')"
    and "f_decision (g_files g' ! i) \<noteq> f_engineDecision (g_files g' ! i)"
  shows "(f_decision (g_files g' ! i) = DecisionRemove \<and> \<not> f_protected (g_files g' ! i) \<and>
      ToLower (TrimSpace (f_override (g_files g' ! i))) = DecisionRemove) \<or>
    (f_decision (g_files g' ! i) = DecisionKeep \<and>
      (ToLower (TrimSpace (f_override (g_files g' ! i))) = DecisionKeep \<or> f_protected (g_files g' ! i)))"
proof -
  obtain h where h: "h = the g" "g' = finish (evaluated lib h p env)" using EvaluateD[OF assms(1)] by metis
  have i: "i < length (g_files h)" using result_file(3)[OF assms(1,2)] h(1) by simp
  have e: "f_override (g_files g' ! i) = f_override (g_files h ! i)"
      "f_engineDecision (g_files g' ! i) = decision_of (mk_keep (engine_marks lib (prepared lib h p env)) i)"
    using i h by (simp_all add: mark_files_nth)
  show ?thesis
    using override_effect[OF i] assms(3) result_file(1,2)[OF assms(1,2)] result_decision[OF assms(1,2)] e h(1)
      removed_not_protected by metis
qed

theorem evaluate_override_semantics_witness:
  "f_decision (g_files (finish (evaluated lib0 ex5 profile0 env0)) ! 0) = DecisionKeep \<and>
   (ToLower (TrimSpace (f_override (g_files (finish (evaluated lib0 ex5 profile0 env0)) ! 0))) = DecisionKeep \<or>
    f_protected (g_files (finish (evaluated lib0 ex5 profile0 env0)) ! 0))"
  using evaluate_override_semantics[OF ex5_Evaluate, of 0] ex5_decisions by simp

text \<open>
  The flag "minimum age" is set exactly when a version to remove is too young: its newest date is unknown,
  in the future or less than the minimum age before now, and a minimum age is configured.
\<close>

theorem evaluate_min_age_flag:
  assumes "Evaluate lib (Some g) p env = Inr g'"
  shows "FlagMinAge \<in> set (g_flags g') \<longleftrightarrow> 0 < env_MinAge env \<and>
     (\<exists>i < length (g_files g'). f_decision (g_files g' ! i) = DecisionRemove \<and>
        (IsZero (newestAdded (f_version (g_files g ! i))) \<or>
         Sub (if IsZero (env_Now env) then time_now lib else env_Now env) (newestAdded (f_version (g_files g ! i)))
           < env_MinAge env))"
proof -
  have g': "g' = finish (evaluated lib g p env)" using assms by (auto elim!: EvaluateD)
  then have n: "length (g_files g') = length (g_files g)" by simp
  have "FlagMinAge \<in> set (g_flags g') \<longleftrightarrow> young (evaluated lib g p env)"
    by (simp add: g' flag_min_age young_def)
  then show ?thesis
    using result_decision(2)[OF assms] n by (auto simp: evaluated_young Let_def)
qed

theorem evaluate_min_age_flag_witness: "FlagMinAge \<notin> set (g_flags out0)"
  using evaluate_min_age_flag[OF out0_Evaluate] by (simp add: env0_def)

text \<open>
  A group that may be acted on removes no version younger than the minimum age and keeps no available
  version that the server cannot read.
\<close>

theorem evaluate_actionable_old_enough:
  assumes "Evaluate lib (Some g) p env = Inr g'" and "g_status g' = GroupPending \<or> g_status g' = GroupQueued"
    and "i < length (g_files g')"
  shows "(f_decision (g_files g' ! i) = DecisionRemove \<and> 0 < env_MinAge env \<longrightarrow>
       \<not> IsZero (newestAdded (f_version (g_files g ! i))) \<and>
       env_MinAge env \<le> Sub (if IsZero (env_Now env) then time_now lib else env_Now env) (newestAdded (f_version (g_files g ! i))))
     \<and> (f_decision (g_files g' ! i) = DecisionKeep \<and> eligible_version (f_version (g_files g ! i)) \<longrightarrow>
       \<not> isInaccessible (f_version (g_files g ! i)))"
proof -
  let ?ev = "evaluated lib g p env"
  have g': "g' = finish ?ev" using assms(1) by (auto elim!: EvaluateD)
  have i: "i < length (g_files g)" using result_file(3)[OF assms(1,3)] by simp
  have act: "actionable ?ev (updated_group ?ev) (removals_of ?ev)" using assms(2) g' finish_actionable by metis
  have "g_flags (updated_group ?ev) = group_flags ?ev" by (simp add: updated_group_def Let_def)
  then have fl: "FlagMinAge \<notin> set (group_flags ?ev)" "FlagMissingKeeperFile \<notin> set (group_flags ?ev)"
    using actionableD(4,6)[OF act] by (simp_all add: HasFlag_def)
  have "\<not> young ?ev" using fl(1) by (simp add: flag_min_age young_def)
  then show ?thesis
    using fl(2) result_decision[OF assms(1,3)] i by (auto simp: evaluated_young Let_def flag_missing_keeper evaluated_core)
qed

theorem evaluate_actionable_old_enough_witness:
  "g_status out0 = GroupPending \<and> f_decision (g_files out0 ! 1) = DecisionKeep \<and> \<not> isInaccessible (vs0 ! 1)"
  using evaluate_actionable_old_enough[OF out0_Evaluate, of 1] out0_status out0_length out0_decisions vs0_version(10)[of 1]
  by simp

text \<open>
  \<open>Evaluate\<close> fails exactly on a missing group, a group without files, a file without a version key and
  two files with the same version key; the error names the group and the first offending file.
\<close>

theorem evaluate_accepts:
  "(\<exists>g'. Evaluate lib g p env = Inr g') \<longleftrightarrow>
    (\<exists>h. g = Some h \<and> g_files h \<noteq> [] \<and> [] \<notin> set (map (\<lambda>f. TrimSpace (v_key (f_version f))) (g_files h)) \<and>
       distinct (map (\<lambda>f. TrimSpace (v_key (f_version f))) (g_files h)))"
proof (cases g)
  case (Some h)
  have "(\<exists>g'. Evaluate lib g p env = Inr g') \<longleftrightarrow> checkEvaluable g = None"
    by (auto simp: Evaluate_def split: option.splits)
  also have "\<dots> \<longleftrightarrow> g_files h \<noteq> [] \<and> check_files (g_key h) 0 [] (g_files h) = None"
    using Some by (simp add: checkEvaluable_def)
  finally show ?thesis using Some by (force simp: check_files_None image_iff)
qed (simp add: Evaluate_def checkEvaluable_def)



section \<open>Playable copies\<close>

lemma part_of:
  assumes "i < length (g_files g)"
  shows "\<exists>ms. (partition_key p g i, ms) \<in> set (ev_partMembers (prepared lib g p env)) \<and>
     set ms = {j. j < length (g_files g) \<and> partition_key p g j = partition_key p g i}"
proof -
  have m: "ev_partMembers (prepared lib g p env) = ev_partMembers (ranked lib g p env)"
    by (simp add: prepared_def prepare_def Let_def)
  show ?thesis unfolding m using ranked_part_keys[OF assms, of p lib env]
    by (intro exI conjI, assumption) (auto simp: ranked_order)
qed

lemma distinct_parts: "distinct (map fst (ev_partMembers (prepared lib g p env)))"
  by (simp add: prepared_def prepare_def Let_def ranked_members distinct_group_by)

text \<open>
  With "always keep a Plex-playable copy", the engine's own decision keeps, in every keep-per partition
  that has an available version Plex can play, an available version Plex can play.
\<close>

theorem evaluate_engine_keeps_playable:
  assumes "Evaluate lib (Some g) p env = Inr g'" and "env_KeepPlayableCopy env" and "j < length (g_files g)"
    and "eligible_version (f_version (g_files g ! j))" and "plexPlayable (f_version (g_files g ! j))"
  shows "\<exists>i < length (g_files g'). f_engineDecision (g_files g' ! i) = DecisionKeep \<and>
     eligible_version (f_version (g_files g ! i)) \<and> plexPlayable (f_version (g_files g ! i)) \<and>
     fst (KeepPartition (pf_keepPer p) (f_version (g_files g ! i))) = fst (KeepPartition (pf_keepPer p) (f_version (g_files g ! j)))"
proof -
  let ?ev = "prepared lib g p env"
  have g': "g' = finish (evaluated lib g p env)" using assms(1) by (auto elim!: EvaluateD)
  obtain ms where ms: "(partition_key p g j, ms) \<in> set (ev_partMembers ?ev)"
      "set ms = {i. i < length (g_files g) \<and> partition_key p g i = partition_key p g j}"
    using part_of[OF assms(3)] by blast
  obtain c where c: "c < length (g_files g)" "eligible_version (f_version (g_files g ! c))"
      "partition_key p g c = partition_key p g j" "ev_rankKeep ?ev c"
    using rank_keeps_eligible[OF assms(3,4)] by blast
  have kc: "kept_eligible ?ev (initial_marks lib ?ev) c"
    using c initial_keep[of ?ev lib c] by (simp add: kept_eligible_def)
  have "\<exists>i\<in>set ms. kept_eligible ?ev (keepPlayable ?ev False (initial_marks lib ?ev)) i \<and> playable_at ?ev i"
    by (rule keepPlayable_result[OF _ ms(1) distinct_parts, of j c])
       (use assms(2-5) c ms(2) kc in \<open>auto simp: playable_at_def\<close>)
  then obtain i where i: "i \<in> set ms" "kept_eligible ?ev (keepPlayable ?ev False (initial_marks lib ?ev)) i" "playable_at ?ev i"
    by blast
  have n: "i < length (g_files g)" "partition_key p g i = partition_key p g j" using i(1) ms(2) by simp_all
  have "mk_keep (engine_marks lib ?ev) i"
    using i(2) unfolding engine_marks_def kept_eligible_def by (intro pl.keep_mono sf.keep_mono) simp
  then show ?thesis
    using i n
    by (intro exI[of _ i]) (auto simp: g' mark_files_nth kept_eligible_def playable_at_def)
qed

text \<open>
  C29 With "always keep a Plex-playable copy" and no keep-per partitions, the final decisions too keep an
  available version Plex can play whenever the group has one, whatever the overrides.
\<close>

theorem evaluate_keeps_playable:
  assumes "Evaluate lib (Some g) p env = Inr g'" and "env_KeepPlayableCopy env" and "j < length (g_files g)"
    and "eligible_version (f_version (g_files g ! j))" and "plexPlayable (f_version (g_files g ! j))"
    and "normKeepPer (pf_keepPer p) = KeepPerNone"
  shows "\<exists>i < length (g_files g'). f_decision (g_files g' ! i) = DecisionKeep \<and>
     eligible_version (f_version (g_files g ! i)) \<and> plexPlayable (f_version (g_files g ! i))"
proof -
  let ?ev = "prepared lib g p env"
  let ?r = "restore_keepers ?ev (apply_overrides ?ev (engine_marks lib ?ev))"
  have g': "g' = finish (evaluated lib g p env)" using assms(1) by (auto elim!: EvaluateD)
  have one: "partition_key p g i = []" for i using assms(6) by (simp add: KeepPartition_def partitionOf_def)
  obtain ms where ms: "(partition_key p g j, ms) \<in> set (ev_partMembers ?ev)" "set ms = {i. i < length (g_files g)}"
    using part_of[OF assms(3), of p lib env] one by auto
  obtain c where c: "c < length (g_files g)" "eligible_version (f_version (g_files g ! c))" "ev_rankKeep ?ev c"
    using rank_keeps_eligible[OF assms(3,4), of p lib env] by blast
  obtain d where d: "d < length (g_files g)" "kept_eligible ?ev ?r d"
    using eligible_kept_restored[of c ?ev lib] c by (auto simp: engine_keeps_rank kept_eligible_def)
  have "\<exists>i\<in>set ms. kept_eligible ?ev (keepPlayable ?ev True ?r) i \<and> playable_at ?ev i"
    by (rule keepPlayable_result[OF _ ms(1) distinct_parts, of j d])
       (use assms(2-5) d ms(2) in \<open>auto simp: playable_at_def\<close>)
  then obtain i where i: "i \<in> set ms" "kept_eligible ?ev (keepPlayable ?ev True ?r) i" "playable_at ?ev i"
    by blast
  have "final_keep lib g p env i"
    using i(2) unfolding final_marks_def kept_eligible_def by (intro pl.keep_mono sf.keep_mono) simp
  then show ?thesis
    using i ms(2) by (intro exI[of _ i]) (auto simp: g' mark_files_nth kept_eligible_def playable_at_def)
qed

lemma vs0_playable: "plexPlayable (vs0 ! 1)"
  using vs0_version[of 1] by (simp add: plexPlayable_def)

theorem evaluate_engine_keeps_playable_witness:
  "\<exists>i < length (g_files out0). f_engineDecision (g_files out0 ! i) = DecisionKeep \<and>
     eligible_version (f_version (g_files ex0 ! i)) \<and> plexPlayable (f_version (g_files ex0 ! i))"
  using evaluate_engine_keeps_playable[OF out0_Evaluate, of 1] vs0_version(10)[of 1] vs0_playable
  by (auto simp: env0_def)

theorem evaluate_keeps_playable_witness:
  "\<exists>i < length (g_files out0). f_decision (g_files out0 ! i) = DecisionKeep \<and>
     eligible_version (f_version (g_files ex0 ! i)) \<and> plexPlayable (f_version (g_files ex0 ! i))"
  using evaluate_keeps_playable[OF out0_Evaluate, of 1] vs0_version(10)[of 1] vs0_playable
  by (auto simp: env0_def normKeepPer_def profile0_def ToLower_def Let_def)

section \<open>The ranking\<close>

text \<open>
  The optimised filter \<open>survivors\<close>, which compares every member only with the best-scoring member of its
  class, keeps exactly the members no member beats, for every metric an evaluation builds: tolerances,
  minimum differences, floors and classes included.
\<close>

theorem survivors_exact:
  assumes "m \<in> set (ev_metrics (newEvaluation lib g p env))"
  shows "fst (survivors m s) = filter (\<lambda>i. list_all (\<lambda>j. \<not> beats m j i) s) s"
  using survivors_unbeaten[OF wf_ev_metrics[OF assms], of s] by (simp add: unbeaten_def list_all_iff)

theorem survivors_exact_witness:
  "fst (survivors (hd (ev_metrics (newEvaluation lib0 ex0 profile0 env0))) [0, 1]) =
   filter (\<lambda>i. list_all (\<lambda>j. \<not> beats (hd (ev_metrics (newEvaluation lib0 ex0 profile0 env0))) j i) [0, 1]) [0, 1]"
  by (rule survivors_exact[where lib = lib0 and g = ex0 and p = profile0 and env = env0]) (simp add: tiebreakMetrics_def)

text \<open>
  "Beats" is a strict comparison on every metric an evaluation builds: irreflexive and asymmetric, and a
  better score of the same class never beats less. It need not be transitive: the tolerance is a band.
\<close>

theorem beats_strict_monotone:
  assumes "m \<in> set (ev_metrics (newEvaluation lib g p env))" and "beats m a b"
  shows "\<not> beats m b a \<and> a \<noteq> b \<and>
    (m_present m c \<and> class_key m c = class_key m a \<and> m_score m a \<le> m_score m c \<longrightarrow> beats m c b)"
  using beats_asym[OF assms(2)] beats_mono[OF wf_ev_metrics[OF assms(1)] assms(2)] assms(2) by auto

lemma vs0_size_beats: "beats (tiebreakMetrics vs0 ! 1) 1 0"
  by code_simp

theorem beats_strict_monotone_witness: "beats (tiebreakMetrics vs0 ! 1) 1 0 \<and> \<not> beats (tiebreakMetrics vs0 ! 1) 0 1"
proof -
  have "tiebreakMetrics vs0 ! 1 \<in> set (ev_metrics (newEvaluation lib0 ex0 profile0 env0))"
    by (simp add: tiebreakMetrics_def)
  from beats_strict_monotone[OF this vs0_size_beats] show ?thesis using vs0_size_beats by blast
qed

text \<open>
  The ranking terminates with a permutation of the versions, and \<open>pos\<close> is its inverse: the ranks of the
  result's files are exactly 1 to n.
\<close>

theorem evaluate_ranks_are_a_permutation:
  assumes "Evaluate lib g p env = Inr g'"
  shows "distinct (map f_rank (g_files g')) \<and> set (map f_rank (g_files g')) = {1..int (length (g_files g'))}"
proof -
  obtain h where h: "h = the g" "g' = finish (evaluated lib h p env)" using EvaluateD[OF assms] by metis
  let ?n = "length (g_files h)" and ?pos = "ev_pos (ranked lib h p env)"
  have l: "length (g_files g') = ?n" using h by simp
  have r: "map f_rank (g_files g') = map (\<lambda>i. int (?pos i) + 1) [0..<?n]"
    by (rule nth_equalityI) (simp_all add: h mark_files_nth)
  have b: "?pos i < ?n \<and> ev_order (ranked lib h p env) ! ?pos i = i" if "i < ?n" for i
    using that rank_nth_pos[of i "map f_version (g_files h)"] by (simp add: ranked_order)
  have inj: "inj_on ?pos {0..<?n}" using b by (intro inj_onI) (metis atLeastLessThan_iff)
  then have d: "distinct (map f_rank (g_files g'))" unfolding r by (auto simp: distinct_map inj_on_def)
  have "?pos ` {0..<?n} = {0..<?n}"
    using inj b by (intro endo_inj_surj) auto
  then have "(\<lambda>i. int (?pos i) + 1) ` {0..<?n} = (\<lambda>q. int q + 1) ` {0..<?n}"
    by (metis (no_types, lifting) image_cong image_image)
  also have "\<dots> = {1..int ?n}"
  proof -
    have "x \<in> (\<lambda>q. int q + 1) ` {0..<?n}" if "1 \<le> x" "x \<le> int ?n" for x
      using that by (intro image_eqI[of _ _ "nat (x - 1)"]) auto
    then show ?thesis by auto
  qed
  finally show ?thesis using d l r by simp
qed

theorem evaluate_ranks_are_a_permutation_witness: "set (map f_rank (g_files out0)) = {1..2}"
  using evaluate_ranks_are_a_permutation[OF out0_Evaluate] out0_length by simp

text \<open>
  C30 Every place in the ranking is decided as documented: among the versions not placed before it, in the
  order of their keys, the version at place \<open>q\<close> is the first one left after filtering metric by metric with
  the brute-force filter.
\<close>

theorem ranking_by_elimination:
  assumes "q < length (g_files g)"
  shows "ev_order (ranked lib g p env) ! q =
    hd (fold (\<lambda>m s. filter (\<lambda>i. list_all (\<lambda>j. \<not> beats m j i) s) s) (ev_metrics (newEvaluation lib g p env))
      (filter (\<lambda>i. i \<in> set (drop q (ev_order (ranked lib g p env)))) (key_order (map f_version (g_files g)))))"
proof -
  let ?ms = "ev_metrics (newEvaluation lib g p env)" and ?R = "key_order (map f_version (g_files g))"
  let ?o = "ev_order (ranked lib g p env)"
  have o: "?o = winners ?ms ?R" by (simp add: ranked_order rank_order_winners)
  let ?rest = "filter (\<lambda>i. i \<in> set (drop q ?o)) ?R"
  have l: "length ?o = length (g_files g)" by (simp add: ranked_order)
  then have w: "?o ! q = fst (rank_round ?ms ?rest)" using winners_drop[of q ?ms ?R] assms by (simp add: o)
  have "?o ! q \<in> set (drop q ?o)" using assms l by (metis Cons_nth_drop_Suc list.set_intros(1))
  moreover have "?o ! q \<in> set ?R" using assms l nth_mem[of q ?o] by (simp add: ranked_order)
  ultimately have "?rest \<noteq> []" by (metis (mono_tags, lifting) filter_empty_conv)
  moreover have "\<forall>m\<in>set ?ms. wf_metric m" using wf_ev_metrics by blast
  ultimately have "?o ! q = hd (narrowed ?ms ?rest)" using w rank_round_winner by metis
  moreover have "unbeaten = (\<lambda>m s. filter (\<lambda>i. list_all (\<lambda>j. \<not> beats m j i) s) s)"
    by (simp add: fun_eq_iff unbeaten_def list_all_iff)
  ultimately show ?thesis by simp
qed

theorem ranking_by_elimination_witness:
  "ev_order (ranked lib0 ex0 profile0 env0) ! 0 =
    hd (fold (\<lambda>m s. filter (\<lambda>i. list_all (\<lambda>j. \<not> beats m j i) s) s) (tiebreakMetrics vs0)
      (filter (\<lambda>i. i \<in> {0, 1}) (key_order vs0)))"
  using ranking_by_elimination[of 0 ex0 lib0 profile0 env0] vs0_order by (simp add: ranked_order insert_commute)

text \<open>
  Without profile criteria the ranking is the documented tiebreak order: *arr-managed first, then larger
  size, older date, lower media id, the smaller version key last; every version is at least as good in that
  lexicographic order as the ones ranked after it.
\<close>

theorem tiebreak_ranking_sorted:
  assumes "pf_criteria p = []"
  shows "sorted_wrt (lex_better (tiebreakMetrics (map f_version (g_files g))) (vat v_key (map f_version (g_files g))))
     (ev_order (ranked lib g p env))"
proof -
  let ?vs = "map f_version (g_files g)"
  have ms: "ev_metrics (newEvaluation lib g p env) = tiebreakMetrics ?vs"
    using assms by (simp add: newEvaluation_def Let_def profile_metrics_def List.map_filter_def)
  have pl: "\<forall>m\<in>set (tiebreakMetrics ?vs). plain_metric m"
    using plain_tiebreakMetrics by (auto simp: plain_metric_def)
  have "sorted_wrt (\<lambda>a b. vat v_key ?vs a \<le> vat v_key ?vs b) (key_order ?vs)"
    using key_order_sorted[of ?vs] by (simp add: vat_def)
  then have "sorted_wrt (lex_better (tiebreakMetrics ?vs) (vat v_key ?vs)) (winners (tiebreakMetrics ?vs) (key_order ?vs))"
    by (rule winners_lex[OF pl])
  then show ?thesis by (simp add: ranked_order rank_order_winners ms)
qed

theorem tiebreak_ranking_sorted_witness: "lex_better (tiebreakMetrics vs0) (vat v_key vs0) 1 0"
proof -
  have "pf_criteria profile0 = []" by (simp add: profile0_def)
  from tiebreak_ranking_sorted[OF this, of ex0 lib0 env0] show ?thesis using vs0_order by (simp add: ranked_order)
qed

text \<open>
  In a group without overrides, shared files, discs or files that other servers need, the decision is the
  documented rule: a version is kept exactly when it is protected or among the best \<open>keepCount\<close> (at least one)
  available versions of its keep-per partition, counted by rank.
\<close>

theorem evaluate_plain_decision:
  assumes "Evaluate lib (Some g) p env = Inr g'" and "plain_group g" and "i < length (g_files g)"
  shows "f_decision (g_files g' ! i) = DecisionKeep \<longleftrightarrow>
    f_protected (g_files g' ! i) \<or>
    (eligible_version (f_version (g_files g ! i)) \<and>
     card {j \<in> {0..<length (g_files g)}. eligible_version (f_version (g_files g ! j)) \<and>
        fst (KeepPartition (pf_keepPer p) (f_version (g_files g ! j))) =
          fst (KeepPartition (pf_keepPer p) (f_version (g_files g ! i))) \<and>
        f_rank (g_files g' ! j) < f_rank (g_files g' ! i)} < nat (max (pf_keepCount p) 1))"
proof -
  have g': "g' = finish (evaluated lib g p env)" using assms(1) by (auto elim!: EvaluateD)
  have rank: "f_rank (g_files g' ! j) < f_rank (g_files g' ! i) \<longleftrightarrow>
      ev_pos (ranked lib g p env) j < ev_pos (ranked lib g p env) i" if "j < length (g_files g)" for j
    using that assms(3) by (auto simp: g' mark_files_nth)
  let ?P = "\<lambda>j. eligible_version (f_version (g_files g ! j)) \<and> partition_key p g j = partition_key p g i"
  have "{j \<in> {0..<length (g_files g)}. ?P j \<and> f_rank (g_files g' ! j) < f_rank (g_files g' ! i)} =
      {j \<in> {0..<length (g_files g)}. ?P j \<and> ev_pos (ranked lib g p env) j < ev_pos (ranked lib g p env) i}"
    using rank by auto
  moreover have "f_protected (g_files g' ! i) \<longleftrightarrow>
      protectionReasons lib (prepared lib g p env) i \<noteq> [] \<or> reportOnlyReasons (map f_version (g_files g)) \<noteq> []"
    using assms(3) by (simp add: g' mark_files_nth final_plain[OF assms(2)] initial_protected)
  ultimately show ?thesis
    using engine_keep_plain[of g i lib p env] assms(2,3) result_decision(1)[OF assms(1), of i]
    by (simp add: g' final_keep_engine[OF assms(2)] plain_group_def conj_assoc) blast
qed

theorem evaluate_plain_decision_witness:
  "f_decision (g_files out0 ! 1) = DecisionKeep \<longleftrightarrow> f_protected (g_files out0 ! 1) \<or>
    card {j \<in> {0..<2}. eligible_version (f_version (g_files ex0 ! j)) \<and>
        fst (KeepPartition (pf_keepPer profile0) (f_version (g_files ex0 ! j))) =
          fst (KeepPartition (pf_keepPer profile0) (f_version (g_files ex0 ! 1))) \<and>
        f_rank (g_files out0 ! j) < f_rank (g_files out0 ! 1)} < 1"
  using evaluate_plain_decision[OF out0_Evaluate ex0_plain, of 1] vs0_version(10)[of 1] by simp

section \<open>Reclaimable bytes and what evaluation leaves alone\<close>



text \<open>The most bytes one removed version can free: the disc's freed bytes, else the sizes of its parts.\<close>

definition freeable :: "MediaVersion \<Rightarrow> int" where
  "freeable v = (case v_disc v of
     Some d \<Rightarrow> if d_totalBytes d > 0 then max (d_freedBytes d) 0 else sum_list (map (\<lambda>p. max (p_size p) 0) (v_parts v))
   | None \<Rightarrow> sum_list (map (\<lambda>p. max (p_size p) 0) (v_parts v)))"

lemma freeable_nonneg: "0 \<le> freeable v"
  by (auto simp: freeable_def intro!: sum_list_nonneg split: option.split)





text \<open>
  Evaluation only writes its results: the identity of the group, its title, server, *arr items and scan
  data, and of every file the ids, the override, the version key, its parts, disc and *arr data stay as they are.
\<close>

theorem evaluate_frame:
  assumes "Evaluate lib (Some g) p env = Inr g'"
  shows "g_id g' = g_id g \<and> g_key g' = g_key g \<and> g_mediaType g' = g_mediaType g \<and> g_serverID g' = g_serverID g \<and>
    g_title g' = g_title g \<and> g_arrItems g' = g_arrItems g \<and> g_crossServer g' = g_crossServer g \<and>
    g_lastScanID g' = g_lastScanID g \<and> g_stableCount g' = g_stableCount g \<and>
    map f_id (g_files g') = map f_id (g_files g) \<and> map f_override (g_files g') = map f_override (g_files g) \<and>
    map (v_key \<circ> f_version) (g_files g') = map (v_key \<circ> f_version) (g_files g) \<and>
    map (v_parts \<circ> f_version) (g_files g') = map (v_parts \<circ> f_version) (g_files g) \<and>
    map (v_disc \<circ> f_version) (g_files g') = map (v_disc \<circ> f_version) (g_files g) \<and>
    map (v_arr \<circ> f_version) (g_files g') = map (v_arr \<circ> f_version) (g_files g)"
proof -
  let ?ev = "evaluated lib g p env"
  have g': "g' = finish ?ev" using assms by (auto elim!: EvaluateD)
  have e: "ev_g ?ev = g \<lparr> g_files := g_files (ev_g ?ev) \<rparr>"
    using annotate_core[of "decided lib g p env"]
    by (simp add: evaluated_def explain_def decided_def[symmetric] same_core_def)
  have fid: "f_id (mark_files ?ev ! i) = f_id (g_files g ! i)" if "i < length (g_files g)" for i
    using that by (simp add: mark_files_def evaluated_files nth_enumerate_eq mark_file_def explain_file_def)
  have fs: "map f_id (g_files g') = map f_id (g_files g)" "map f_override (g_files g') = map f_override (g_files g)"
    "map (v_key \<circ> f_version) (g_files g') = map (v_key \<circ> f_version) (g_files g)"
    "map (v_parts \<circ> f_version) (g_files g') = map (v_parts \<circ> f_version) (g_files g)"
    "map (v_disc \<circ> f_version) (g_files g') = map (v_disc \<circ> f_version) (g_files g)"
    "map (v_arr \<circ> f_version) (g_files g') = map (v_arr \<circ> f_version) (g_files g)"
    by (rule nth_equalityI; simp add: g' mark_files_nth fid)+
  have "g_id g' = g_id (ev_g ?ev) \<and> g_key g' = g_key (ev_g ?ev) \<and> g_mediaType g' = g_mediaType (ev_g ?ev) \<and>
    g_serverID g' = g_serverID (ev_g ?ev) \<and> g_title g' = g_title (ev_g ?ev) \<and> g_arrItems g' = g_arrItems (ev_g ?ev) \<and>
    g_crossServer g' = g_crossServer (ev_g ?ev) \<and> g_lastScanID g' = g_lastScanID (ev_g ?ev) \<and> g_stableCount g' = g_stableCount (ev_g ?ev)"
    by (simp add: g' finish_def Let_def updated_group_def)
  moreover have "g_id (ev_g ?ev) = g_id g" "g_key (ev_g ?ev) = g_key g" "g_mediaType (ev_g ?ev) = g_mediaType g"
    "g_serverID (ev_g ?ev) = g_serverID g" "g_title (ev_g ?ev) = g_title g" "g_arrItems (ev_g ?ev) = g_arrItems g"
    "g_crossServer (ev_g ?ev) = g_crossServer g" "g_lastScanID (ev_g ?ev) = g_lastScanID g" "g_stableCount (ev_g ?ev) = g_stableCount g"
    by (subst e; simp)+
  ultimately show ?thesis using fs by simp
qed

theorem evaluate_frame_witness: "g_key out0 = g_key ex0 \<and> map f_override (g_files out0) = map f_override (g_files ex0)"
  using evaluate_frame[OF out0_Evaluate] by blast

section \<open>Same files, eliminations, signatures, play history\<close>

text \<open>
  C32 \<open>sameFileComponents\<close> computes the connected components of "shares a file key": two versions have the same
  component id exactly when a chain of common keys connects them, and the listed components are exactly those
  with at least two versions, each with all its versions.
\<close>

theorem same_file_components_exact:
  "list_all (\<lambda>i. list_all (\<lambda>j. fst (sameFileComponents vs) i = fst (sameFileComponents vs) j \<longleftrightarrow>
       (i, j) \<in> (shares (owned (vat sameFileKeys vs) (length vs)))\<^sup>*) [0..<length vs]) [0..<length vs] \<and>
   set (snd (sameFileComponents vs)) =
     {(c, ms). ms = filter (\<lambda>i. fst (sameFileComponents vs) i = c) [0..<length vs] \<and> 1 < length ms}"
proof
  show "list_all (\<lambda>i. list_all (\<lambda>j. fst (sameFileComponents vs) i = fst (sameFileComponents vs) j \<longleftrightarrow>
       (i, j) \<in> (shares (owned (vat sameFileKeys vs) (length vs)))\<^sup>*) [0..<length vs]) [0..<length vs]"
    using comp_of_iff by (simp add: sameFileComponents_def list_all_iff)
  let ?g = "group_by (comp_of vs) [0..<length vs]"
  have entry: "ms = filter (\<lambda>i. comp_of vs i = c) [0..<length vs]" if "(c, ms) \<in> set ?g" for c ms
    using that by (rule group_by_entry)
  have "(c, filter (\<lambda>i. comp_of vs i = c) [0..<length vs]) \<in> set ?g"
    if "1 < length (filter (\<lambda>i. comp_of vs i = c) [0..<length vs])" for c
  proof -
    have "filter (\<lambda>i. comp_of vs i = c) [0..<length vs] \<noteq> []" using that by auto
    then obtain i where "i \<in> set (filter (\<lambda>i. comp_of vs i = c) [0..<length vs])" by (meson last_in_set)
    then have "c \<in> fst ` set ?g" by (subst keys_group_by) auto
    then obtain ms where "(c, ms) \<in> set ?g" by force
    then show ?thesis using entry by blast
  qed
  then show "set (snd (sameFileComponents vs)) =
     {(c, ms). ms = filter (\<lambda>i. fst (sameFileComponents vs) i = c) [0..<length vs] \<and> 1 < length ms}"
    using entry by (auto simp: sameFileComponents_def)
qed

text \<open>
  The reasons given for a rank are true: in every round, each remaining version that does not win is
  recorded as eliminated, either by a remaining version that beats it on the named metric, or by the winner
  through the version key when no metric separates them.
\<close>

theorem round_eliminations_true:
  assumes "remaining \<noteq> []" and "distinct remaining" and "i \<in> set remaining" and "i \<noteq> fst (rank_round ms remaining)"
  shows "\<exists>e. snd (rank_round ms remaining) i = Some e \<and> e_by e \<in> set remaining \<and>
    (if e_metric e < length ms then beats (ms ! e_metric e) (e_by e) i
     else e_metric e = length ms \<and> e_by e = fst (rank_round ms remaining))"
proof -
  note r = rank_round_elims[OF assms(1,2), of ms]
  obtain e where e: "snd (rank_round ms remaining) i = Some e" using r(3) assms(3,4) by auto
  have w: "fst (rank_round ms remaining) \<in> set remaining" by (rule rank_round_in[OF assms(1)])
  show ?thesis
  proof (cases "e_metric e < length ms")
    case True
    then show ?thesis using r(1)[OF e True] e by auto
  next
    case False
    then show ?thesis using r(2)[OF e False] e w by auto
  qed
qed

theorem round_eliminations_true_witness:
  "\<exists>e. snd (rank_round (tiebreakMetrics vs0) [0, 1]) 0 = Some e \<and> e_by e \<in> {0, 1}"
proof -
  have "fst (rank_round (tiebreakMetrics vs0) [0, 1]) = 1" by code_simp
  then show ?thesis using round_eliminations_true[of "[0, 1]" 0 "tiebreakMetrics vs0"] by auto
qed

text \<open>
  The signature of a group does not depend on the order of its files, only on the multiset of version keys,
  decisions and disc contents.
\<close>

theorem signature_order_independent:
  assumes "mset (map signature_line fs) = mset (map signature_line gs)"
  shows "signature fs = signature gs"
proof -
  have "sort (map signature_line fs) = sort (map signature_line gs)"
    by (rule properties_for_sort) (use assms in simp_all)
  then show ?thesis by (simp add: signature_def)
qed

theorem signature_order_independent_witness: "signature (map file0 vs0) = signature (rev (map file0 vs0))"
  by (rule signature_order_independent) (simp add: rev_map)

text \<open>
  When the play histories of a group could decide: \<open>watchCanDecide\<close> is false exactly when every version that
  is not a full disc belongs to one known item (or there is no such version).
\<close>

theorem watch_can_decide_exact:
  "watchCanDecide vs \<longleftrightarrow>
     (\<exists>v\<in>set vs. v_disc v = None \<and> TrimSpace (v_ratingKey v) = []) \<or>
     (\<exists>v\<in>set vs. \<exists>w\<in>set vs. v_disc v = None \<and> v_disc w = None \<and> TrimSpace (v_ratingKey v) \<noteq> TrimSpace (v_ratingKey w))"
proof -
  have "\<not> watchCanDecide vs \<longleftrightarrow> [] \<notin> regular_items vs \<and> (\<exists>k. regular_items vs \<subseteq> {k})"
    using watchCanDecide_loop_iff[of "[]" vs] by (simp add: watchCanDecide_def)
  moreover have "(\<exists>k. regular_items vs \<subseteq> {k}) \<longleftrightarrow> (\<forall>a\<in>regular_items vs. \<forall>b\<in>regular_items vs. a = b)" by blast
  moreover have "[] \<in> regular_items vs \<longleftrightarrow> (\<exists>v\<in>set vs. v_disc v = None \<and> TrimSpace (v_ratingKey v) = [])"
    unfolding regular_items_def by (auto simp: image_iff eq_commute)
  moreover have "(\<forall>a\<in>regular_items vs. \<forall>b\<in>regular_items vs. a = b) \<longleftrightarrow>
      \<not> (\<exists>v\<in>set vs. \<exists>w\<in>set vs. v_disc v = None \<and> v_disc w = None \<and> TrimSpace (v_ratingKey v) \<noteq> TrimSpace (v_ratingKey w))"
    unfolding regular_items_def by blast
  ultimately show ?thesis by argo
qed

end
